(* ===== verification/Prelude.thy ===== *)
theory Prelude
  imports
    Main
    "HOL-Library.Word"
    "HOL-Library.AList"
    "HOL-Library.List_Lexorder"
    "HOL-Library.Char_ord"
    "HOL-Library.Multiset"
begin

text \<open>
  Shared vocabulary of the development: machine integers with the checked and saturating
  operations of the Rust standard library, instants and durations of the clock the
  program reads, result values, and the two keyed tables the program keeps its records in
  (a hash table, an association list with distinct keys whose order stands for the unspecified
  iteration order; an ordered tree, the same list kept strictly increasing).  The interface
  \<open>keyed_table\<close> is what the components rely on; both tables interpret it.
\<close>

named_theorems word_facts
  \<open>natural-number readings of the checked and saturating operations\<close>

named_theorems table_facts
  \<open>lookup after an update of a table\<close>

section \<open>Types\<close>

type_synonym u32 = "32 word"
type_synonym u64 = "64 word"
type_synonym i64 = int
type_synonym instant = int
type_synonym 'v table = "(string \<times> 'v) list"

text \<open>
  An instant is a number of nanoseconds since the epoch, as the program's clock has it.
  A result is a value of a sum type whose left side is the error.
\<close>

section \<open>Machine integers\<close>

definition u_max :: "'a::len word" where
  "u_max = - 1"

definition checked_add :: "'a::len word \<Rightarrow> 'a word \<Rightarrow> 'a word option" where
  "checked_add a b = (if unat a + unat b < 2 ^ LENGTH('a) then Some (a + b) else None)"

definition sat_add :: "'a::len word \<Rightarrow> 'a word \<Rightarrow> 'a word" where
  "sat_add a b = (if unat a + unat b < 2 ^ LENGTH('a) then a + b else u_max)"

definition sat_sub :: "'a::len word \<Rightarrow> 'a word \<Rightarrow> 'a word" where
  "sat_sub a b = (if b \<le> a then a - b else 0)"

definition sat_sum :: "'a::len word list \<Rightarrow> 'a word" where
  "sat_sum ws = foldl sat_add 0 ws"

text \<open>Evaluation goes through integers, whose numerals are binary.\<close>

lemma sum_fits_uint:
  "unat a + unat b < 2 ^ LENGTH('a) \<longleftrightarrow> uint a + uint b < 2 ^ LENGTH('a)" for a b :: "'a::len word"
proof -
  have "unat a + unat b < 2 ^ LENGTH('a) \<longleftrightarrow> int (unat a + unat b) < int (2 ^ LENGTH('a))"
    by (rule of_nat_less_iff [symmetric])
  then show ?thesis by simp
qed

lemma checked_add_code [code]:
  "checked_add a b = (if uint a + uint b < 2 ^ LENGTH('a) then Some (a + b) else None)"
  for a b :: "'a::len word"
  by (simp only: checked_add_def sum_fits_uint)

lemma sat_add_code [code]:
  "sat_add a b = (if uint a + uint b < 2 ^ LENGTH('a) then a + b else u_max)" for a b :: "'a::len word"
  by (simp only: sat_add_def sum_fits_uint)

lemma unat_u_max [word_facts]: "unat (u_max :: 'a::len word) = 2 ^ LENGTH('a) - 1"
  by (simp add: u_max_def unsigned_minus_1_eq_mask mask_eq_exp_minus_1)

lemma unat_sat_add [word_facts]:
  "unat (sat_add a b :: 'a::len word) = min (unat a + unat b) (2 ^ LENGTH('a) - 1)"
proof (cases "unat a + unat b < 2 ^ LENGTH('a)")
  case True
  then show ?thesis by (simp add: sat_add_def unat_add_lem [THEN iffD1])
next
  case False
  then show ?thesis by (simp add: sat_add_def unat_u_max)
qed

lemma unat_sat_sub [word_facts]:
  "unat (sat_sub a b :: 'a::len word) = unat a - unat b"
  by (auto simp: sat_sub_def unat_sub word_le_nat_alt)

lemma checked_add_Some [word_facts]:
  "checked_add a b = Some c \<longleftrightarrow> unat a + unat b < 2 ^ LENGTH('a) \<and> c = (a + b :: 'a::len word)"
  by (auto simp: checked_add_def)

lemma checked_add_unat:
  "checked_add a b = Some (c :: 'a::len word) \<Longrightarrow> unat c = unat a + unat b"
  by (simp add: checked_add_Some unat_add_lem [THEN iffD1])

lemma unat_foldl_sat_add:
  "unat (foldl sat_add (a :: 'a::len word) ws)
     = min (unat a + sum_list (map unat ws)) (2 ^ LENGTH('a) - 1)"
proof (induction ws arbitrary: a)
  case Nil
  have "unat a < 2 ^ LENGTH('a)" by (rule unsigned_less)
  then have "unat a \<le> 2 ^ LENGTH('a) - 1" by linarith
  then show ?case by simp
next
  case (Cons w ws)
  have "min (min x M + y) M = min (x + y) M" for x y M :: nat by linarith
  with Cons show ?case by (simp add: unat_sat_add add.assoc)
qed

lemma unat_sat_sum [word_facts]:
  "unat (sat_sum (ws :: 'a::len word list)) = min (sum_list (map unat ws)) (2 ^ LENGTH('a) - 1)"
  by (simp add: sat_sum_def unat_foldl_sat_add)

section \<open>Instants\<close>

definition nanos :: int where
  "nanos = 1000000000"

definition dur :: "int \<Rightarrow> int" where
  "dur n = n * nanos"

text \<open>Whole seconds of a duration, truncated towards zero; of an instant, rounded down.\<close>

definition num_seconds :: "int \<Rightarrow> int" where
  "num_seconds d = (if d < 0 then - ((- d) div nanos) else d div nanos)"

definition timestamp :: "instant \<Rightarrow> int" where
  "timestamp t = t div nanos"

lemma nanos_pos [simp]: "0 < nanos"
  by (simp add: nanos_def)

lemma timestamp_mono: "s \<le> t \<Longrightarrow> timestamp s \<le> timestamp t"
  by (simp add: timestamp_def zdiv_mono1)

lemma timestamp_dur: "timestamp (t + dur n) = timestamp t + n"
  by (simp add: timestamp_def dur_def nanos_def)

section \<open>Keyed tables\<close>

text \<open>
  What a component relies on when it keeps records under a key: a lookup after an insertion,
  after a removal and after a conditional purge, and that each operation keeps the keys
  distinct.
\<close>

locale keyed_table =
  fixes lookup :: "'m \<Rightarrow> 'k \<Rightarrow> 'v option"
    and put :: "'k \<Rightarrow> 'v \<Rightarrow> 'm \<Rightarrow> 'm"
    and drop_key :: "'k \<Rightarrow> 'm \<Rightarrow> 'm"
    and purge :: "('k \<Rightarrow> 'v \<Rightarrow> bool) \<Rightarrow> 'm \<Rightarrow> 'm"
    and ok :: "'m \<Rightarrow> bool"
  assumes lookup_put: "ok m \<Longrightarrow> lookup (put k v m) = (lookup m)(k \<mapsto> v)"
    and lookup_drop: "ok m \<Longrightarrow> lookup (drop_key k m) = (lookup m)(k := None)"
    and lookup_purge: "ok m \<Longrightarrow> lookup (purge keep m) k =
          (case lookup m k of None \<Rightarrow> None | Some v \<Rightarrow> if keep k v then Some v else None)"
    and ok_put: "ok m \<Longrightarrow> ok (put k v m)"
    and ok_drop: "ok m \<Longrightarrow> ok (drop_key k m)"
    and ok_purge: "ok m \<Longrightarrow> ok (purge keep m)"
begin

lemma put_other: "ok m \<Longrightarrow> k \<noteq> k' \<Longrightarrow> lookup (put k v m) k' = lookup m k'"
  by (simp add: lookup_put)

lemma put_same: "ok m \<Longrightarrow> lookup (put k v m) k = Some v"
  by (simp add: lookup_put)

lemma put_put: "ok m \<Longrightarrow> lookup (put k v (put k w m)) = lookup (put k v m)"
  by (simp add: lookup_put ok_put)

lemma drop_put: "ok m \<Longrightarrow> lookup m k = None \<Longrightarrow> lookup (drop_key k (put k v m)) = lookup m"
  by (auto simp: lookup_put lookup_drop ok_put)

lemma restore_put:
  "ok m \<Longrightarrow> lookup m k = Some w \<Longrightarrow> lookup (put k w (put k v m)) = lookup m"
  by (auto simp: lookup_put ok_put)

lemma purge_sub: "ok m \<Longrightarrow> lookup (purge keep m) k = Some v \<Longrightarrow> lookup m k = Some v \<and> keep k v"
  by (auto simp: lookup_purge split: option.splits if_splits)

end

subsection \<open>Hash tables\<close>

definition t_get :: "('k \<times> 'v) list \<Rightarrow> 'k \<Rightarrow> 'v option" where
  "t_get m k = map_of m k"

definition t_put :: "'k \<Rightarrow> 'v \<Rightarrow> ('k \<times> 'v) list \<Rightarrow> ('k \<times> 'v) list" where
  "t_put k v m = AList.update k v m"

definition t_del :: "'k \<Rightarrow> ('k \<times> 'v) list \<Rightarrow> ('k \<times> 'v) list" where
  "t_del k m = AList.delete k m"

definition t_retain :: "('k \<Rightarrow> 'v \<Rightarrow> bool) \<Rightarrow> ('k \<times> 'v) list \<Rightarrow> ('k \<times> 'v) list" where
  "t_retain keep m = filter (\<lambda>(k, v). keep k v) m"

definition t_ok :: "('k \<times> 'v) list \<Rightarrow> bool" where
  "t_ok m = distinct (map fst m)"

lemma t_ok_Nil [simp]: "t_ok []"
  by (simp add: t_ok_def)

lemma t_get_Nil [simp]: "t_get [] k = None"
  by (simp add: t_get_def)

lemma map_of_filter_distinct:
  "distinct (map fst m) \<Longrightarrow> map_of (filter (\<lambda>(k, v). keep k v) m) k =
     (case map_of m k of None \<Rightarrow> None | Some v \<Rightarrow> if keep k v then Some v else None)"
proof (induction m)
  case (Cons p m)
  obtain a b where [simp]: "p = (a, b)" by (cases p)
  have "map_of m a = None" using Cons.prems by (simp add: map_of_eq_None_iff)
  with Cons show ?case by (auto split: option.splits)
qed simp

interpretation tbl: keyed_table t_get t_put t_del t_retain t_ok
proof unfold_locales
  fix m :: "('k \<times> 'v) list" and k v and keep :: "'k \<Rightarrow> 'v \<Rightarrow> bool"
  assume ok: "t_ok m"
  show "t_get (t_put k v m) = (t_get m)(k \<mapsto> v)"
    by (simp add: fun_eq_iff t_get_def t_put_def update_conv')
  show "t_get (t_del k m) = (t_get m)(k := None)"
    by (simp add: fun_eq_iff t_get_def t_del_def delete_conv')
  show "t_get (t_retain keep m) k =
      (case t_get m k of None \<Rightarrow> None | Some v \<Rightarrow> if keep k v then Some v else None)"
    using ok by (simp add: t_get_def t_retain_def t_ok_def map_of_filter_distinct)
  show "t_ok (t_put k v m)" using ok by (simp add: t_ok_def t_put_def distinct_update)
  show "t_ok (t_del k m)" using ok by (simp add: t_ok_def t_del_def distinct_delete)
  show "t_ok (t_retain keep m)"
    using ok unfolding t_ok_def t_retain_def by (rule distinct_map_filter)
qed

lemma t_get_put [simp, table_facts]: "t_get (t_put k v m) k' = (if k' = k then Some v else t_get m k')"
  by (simp add: t_get_def t_put_def update_conv')

lemma t_get_del [simp, table_facts]: "t_get (t_del k m) k' = (if k' = k then None else t_get m k')"
  by (simp add: t_get_def t_del_def delete_conv')

lemmas t_ok_ops [simp, intro] = tbl.ok_put tbl.ok_drop tbl.ok_purge

lemma t_get_in: "t_ok m \<Longrightarrow> t_get m k = Some v \<longleftrightarrow> (k, v) \<in> set m"
  by (simp add: t_get_def t_ok_def)

lemma t_get_mem: "t_get m k = Some v \<Longrightarrow> (k, v) \<in> set m"
  by (simp add: t_get_def map_of_SomeD)

subsection \<open>Ordered tables\<close>

fun bt_put :: "'k::linorder \<Rightarrow> 'v \<Rightarrow> ('k \<times> 'v) list \<Rightarrow> ('k \<times> 'v) list" where
  "bt_put k v [] = [(k, v)]"
| "bt_put k v ((a, b) # m) =
     (if k < a then (k, v) # (a, b) # m
      else if k = a then (k, v) # m
      else (a, b) # bt_put k v m)"

definition bt_ok :: "('k::linorder \<times> 'v) list \<Rightarrow> bool" where
  "bt_ok m = sorted_wrt (<) (map fst m)"

lemma bt_ok_distinct: "bt_ok m \<Longrightarrow> distinct (map fst m)"
  by (simp add: bt_ok_def strict_sorted_iff)

lemma bt_ok_Nil [simp]: "bt_ok []"
  by (simp add: bt_ok_def)

lemma bt_ok_Cons: "bt_ok ((a, b) # m) \<longleftrightarrow> (\<forall>k \<in> fst ` set m. a < k) \<and> bt_ok m"
  by (auto simp: bt_ok_def)

lemma keys_bt_put: "fst ` set (bt_put k v m) = insert k (fst ` set m)"
  by (induction k v m rule: bt_put.induct) auto

lemma bt_ok_put: "bt_ok m \<Longrightarrow> bt_ok (bt_put k v m)"
  by (induction k v m rule: bt_put.induct) (auto simp: bt_ok_Cons keys_bt_put)

lemma map_of_bt_put: "map_of (bt_put k v m) = (map_of m)(k \<mapsto> v)"
  by (induction k v m rule: bt_put.induct) auto

lemma bt_ok_filter: "bt_ok m \<Longrightarrow> bt_ok (filter P m)"
  by (simp add: bt_ok_def sorted_wrt_map sorted_wrt_filter)

lemma t_del_filter: "t_del k m = filter (\<lambda>p. fst p \<noteq> k) m"
  by (induction m) (auto simp: t_del_def)

interpretation bt: keyed_table t_get bt_put t_del t_retain bt_ok
proof unfold_locales
  fix m :: "('k::linorder \<times> 'v) list" and k v and keep :: "'k \<Rightarrow> 'v \<Rightarrow> bool"
  assume ok: "bt_ok m"
  show "t_get (bt_put k v m) = (t_get m)(k \<mapsto> v)"
    by (simp add: fun_eq_iff t_get_def map_of_bt_put)
  show "t_get (t_del k m) = (t_get m)(k := None)"
    by (simp add: fun_eq_iff)
  show "t_get (t_retain keep m) k =
      (case t_get m k of None \<Rightarrow> None | Some v \<Rightarrow> if keep k v then Some v else None)"
    using bt_ok_distinct [OF ok] by (simp add: t_get_def t_retain_def map_of_filter_distinct)
  show "bt_ok (bt_put k v m)" using ok by (rule bt_ok_put)
  show "bt_ok (t_del k m)" using ok by (simp add: t_del_filter bt_ok_filter)
  show "bt_ok (t_retain keep m)" using ok by (simp add: t_retain_def bt_ok_filter)
qed

lemma t_get_bt_put [simp, table_facts]:
  "t_get (bt_put k v m) k' = (if k' = k then Some v else t_get m k')"
  by (simp add: t_get_def map_of_bt_put)

text \<open>Inserting above the largest key appends.\<close>

lemma bt_put_append: "(\<And>a. a \<in> fst ` set m \<Longrightarrow> a < k) \<Longrightarrow> bt_put k v m = m @ [(k, v)]"
  by (induction k v m rule: bt_put.induct) force+

section \<open>State machines\<close>

text \<open>
  A component whose operations are steps over a state: an invariant that every step keeps holds
  in every state a run reaches, and a quantity that no step lowers never falls along a run.
\<close>

locale invariant_machine =
  fixes step :: "'s \<Rightarrow> 'e \<Rightarrow> 's"
    and good :: "'s \<Rightarrow> bool"
  assumes step_good: "good s \<Longrightarrow> good (step s e)"
begin

lemma run_good: "good s \<Longrightarrow> good (foldl step s es)"
  by (induction es arbitrary: s) (auto intro: step_good)

end

locale monotone_machine = invariant_machine step good
  for step :: "'s \<Rightarrow> 'e \<Rightarrow> 's" and good :: "'s \<Rightarrow> bool" +
  fixes level :: "'s \<Rightarrow> 'n::preorder"
  assumes step_level: "good s \<Longrightarrow> level s \<le> level (step s e)"
begin

lemma run_level: "good s \<Longrightarrow> level s \<le> level (foldl step s es)"
proof (induction es arbitrary: s)
  case (Cons e es)
  have "level s \<le> level (step s e)" using Cons.prems by (rule step_level)
  also have "\<dots> \<le> level (foldl step (step s e) es)" using Cons step_good by blast
  finally show ?case by simp
qed simp

end

end
