(* ===== verification/Strings.thy ===== *)
theory Strings
  imports Prelude
begin

text \<open>
  Text and structured values as the program handles them.  A string is its sequence of UTF-8
  bytes, so that lengths, byte offsets and the order of strings are those of the program.  The
  functions are the ones of the Rust standard library that the modelled code calls.  Structured
  request parameters are values of \<open>json\<close>, with the constructors the program matches on.
\<close>

section \<open>Bytes\<close>

definition byte :: "char \<Rightarrow> nat" where
  "byte c = of_char c"

definition is_alnum :: "char \<Rightarrow> bool" where
  "is_alnum c =
     (let n = byte c in (48 \<le> n \<and> n \<le> 57) \<or> (65 \<le> n \<and> n \<le> 90) \<or> (97 \<le> n \<and> n \<le> 122))"

definition lower_char :: "char \<Rightarrow> char" where
  "lower_char c = (let n = byte c in if 65 \<le> n \<and> n \<le> 90 then char_of (n + 32) else c)"

definition upper_char :: "char \<Rightarrow> char" where
  "upper_char c = (if 97 \<le> byte c \<and> byte c \<le> 122 then char_of (byte c - 32) else c)"

definition ascii_upper :: "string \<Rightarrow> string" where
  "ascii_upper s = map upper_char s"

definition ascii_lower :: "string \<Rightarrow> string" where
  "ascii_lower s = map lower_char s"

definition eq_ignore_ascii_case :: "string \<Rightarrow> string \<Rightarrow> bool" where
  "eq_ignore_ascii_case s t \<longleftrightarrow> ascii_lower s = ascii_lower t"

definition is_control :: "char \<Rightarrow> bool" where
  "is_control c = (let n = byte c in n < 32 \<or> n = 127)"

definition digit_char :: "nat \<Rightarrow> char" where
  "digit_char n = char_of (48 + n)"

text \<open>Decimal notation.\<close>

fun show_nat :: "nat \<Rightarrow> string" where
  "show_nat n = (if n < 10 then [digit_char n] else show_nat (n div 10) @ [digit_char (n mod 10)])"

declare show_nat.simps [simp del]

definition show_word :: "'a::len word \<Rightarrow> string" where
  "show_word w = show_nat (unat w)"

text \<open>The value and the notation of a hexadecimal digit.\<close>

definition hex_value :: "char \<Rightarrow> nat option" where
  "hex_value c =
     (let n = byte c in
      if 48 \<le> n \<and> n \<le> 57 then Some (n - 48)
      else if 65 \<le> n \<and> n \<le> 70 then Some (n - 55)
      else if 97 \<le> n \<and> n \<le> 102 then Some (n - 87)
      else None)"

definition hex_upper :: "nat \<Rightarrow> char" where
  "hex_upper n = (if n < 10 then char_of (48 + n) else char_of (55 + n))"

section \<open>White space\<close>

text \<open>
  The number of bytes of the white-space character a string starts with, 0 when it starts with
  another one, and the same for the character a string ends with, read on the reversed string.
\<close>

definition ascii_ws :: "char \<Rightarrow> bool" where
  "ascii_ws c = (let n = byte c in (9 \<le> n \<and> n \<le> 13) \<or> n = 32)"

definition wide_ws :: "nat \<Rightarrow> nat \<Rightarrow> nat \<Rightarrow> bool" where
  "wide_ws a b c \<longleftrightarrow>
     (a = 0xE1 \<and> b = 0x9A \<and> c = 0x80)
     \<or> (a = 0xE2 \<and> b = 0x80 \<and> ((0x80 \<le> c \<and> c \<le> 0x8A) \<or> c = 0xA8 \<or> c = 0xA9 \<or> c = 0xAF))
     \<or> (a = 0xE2 \<and> b = 0x81 \<and> c = 0x9F)
     \<or> (a = 0xE3 \<and> b = 0x80 \<and> c = 0x80)"

fun ws_len :: "string \<Rightarrow> nat" where
  "ws_len [] = 0"
| "ws_len (a # s) =
     (if ascii_ws a then 1
      else case s of
        [] \<Rightarrow> 0
      | b # s' \<Rightarrow>
          if byte a = 0xC2 \<and> (byte b = 0x85 \<or> byte b = 0xA0) then 2
          else case s' of [] \<Rightarrow> 0 | c # _ \<Rightarrow> if wide_ws (byte a) (byte b) (byte c) then 3 else 0)"

fun ws_len_rev :: "string \<Rightarrow> nat" where
  "ws_len_rev [] = 0"
| "ws_len_rev (c # s) =
     (if ascii_ws c then 1
      else case s of
        [] \<Rightarrow> 0
      | b # s' \<Rightarrow>
          if byte b = 0xC2 \<and> (byte c = 0x85 \<or> byte c = 0xA0) then 2
          else case s' of [] \<Rightarrow> 0 | a # _ \<Rightarrow> if wide_ws (byte a) (byte b) (byte c) then 3 else 0)"

fun trim_start :: "string \<Rightarrow> string" where
  "trim_start [] = []"
| "trim_start (c # s) = (case ws_len (c # s) of 0 \<Rightarrow> c # s | Suc n \<Rightarrow> trim_start (drop n s))"

fun trim_start_rev :: "string \<Rightarrow> string" where
  "trim_start_rev [] = []"
| "trim_start_rev (c # s) =
     (case ws_len_rev (c # s) of 0 \<Rightarrow> c # s | Suc n \<Rightarrow> trim_start_rev (drop n s))"

definition trim :: "string \<Rightarrow> string" where
  "trim s = rev (trim_start_rev (rev (trim_start s)))"

definition blank :: "string \<Rightarrow> bool" where
  "blank s \<longleftrightarrow> trim s = []"

section \<open>Searching and splitting\<close>

definition starts_with :: "string \<Rightarrow> string \<Rightarrow> bool" where
  "starts_with s p \<longleftrightarrow> take (length p) s = p"

definition strip_prefix :: "string \<Rightarrow> string \<Rightarrow> string option" where
  "strip_prefix s p = (if starts_with s p then Some (drop (length p) s) else None)"

definition strip_suffix :: "string \<Rightarrow> string \<Rightarrow> string option" where
  "strip_suffix s p =
     (if starts_with (rev s) (rev p) then Some (take (length s - length p) s) else None)"

definition contains_any :: "string \<Rightarrow> string \<Rightarrow> bool" where
  "contains_any cs s \<longleftrightarrow> list_ex (\<lambda>d. List.member cs d) s"

fun find_str :: "string \<Rightarrow> string \<Rightarrow> nat option" where
  "find_str p [] = (if p = [] then Some 0 else None)"
| "find_str p (c # s) = (if starts_with (c # s) p then Some 0 else map_option Suc (find_str p s))"

definition contains_str :: "string \<Rightarrow> string \<Rightarrow> bool" where
  "contains_str p s \<longleftrightarrow> find_str p s \<noteq> None"

text \<open>The length of the part before the first byte that is one of \<open>cs\<close>.\<close>

definition cut_at :: "string \<Rightarrow> string \<Rightarrow> nat" where
  "cut_at cs s = length (takeWhile (\<lambda>d. \<not> List.member cs d) s)"

fun split_once :: "char \<Rightarrow> string \<Rightarrow> (string \<times> string) option" where
  "split_once c [] = None"
| "split_once c (d # s) =
     (if d = c then Some ([], s)
      else (case split_once c s of None \<Rightarrow> None | Some (a, b) \<Rightarrow> Some (d # a, b)))"

definition rsplit_once :: "char \<Rightarrow> string \<Rightarrow> (string \<times> string) option" where
  "rsplit_once c s = map_option (\<lambda>(a, b). (rev b, rev a)) (split_once c (rev s))"

definition split_once_str :: "string \<Rightarrow> string \<Rightarrow> (string \<times> string) option" where
  "split_once_str p s = map_option (\<lambda>i. (take i s, drop (i + length p) s)) (find_str p s)"

fun split_on :: "char \<Rightarrow> string \<Rightarrow> string list" where
  "split_on c [] = [[]]"
| "split_on c (d # s) =
     (if d = c then [] # split_on c s
      else (case split_on c s of [] \<Rightarrow> [[d]] | p # ps \<Rightarrow> (d # p) # ps))"

fun join :: "string \<Rightarrow> string list \<Rightarrow> string" where
  "join sep [] = []"
| "join sep [x] = x"
| "join sep (x # y # ys) = x @ sep @ join sep (y # ys)"

text \<open>Replacement of every occurrence of a non-empty pattern, from left to right.\<close>

fun replace_str :: "string \<Rightarrow> string \<Rightarrow> string \<Rightarrow> string" where
  "replace_str p r [] = []"
| "replace_str p r (c # s) =
     (if p \<noteq> [] \<and> starts_with (c # s) p then r @ replace_str p r (drop (length p - 1) s)
      else c # replace_str p r s)"

definition trim_end_char :: "char \<Rightarrow> string \<Rightarrow> string" where
  "trim_end_char c s = rev (dropWhile (\<lambda>d. d = c) (rev s))"

section \<open>Decoding bytes as text\<close>

text \<open>
  The lossy decoding of a byte string: each maximal ill-formed part becomes the replacement
  character.  \<open>utf8_step\<close> gives the number of bytes of the first character, or the number of bytes
  of the ill-formed part.
\<close>

definition cont_byte :: "nat \<Rightarrow> bool" where
  "cont_byte n \<longleftrightarrow> 0x80 \<le> n \<and> n \<le> 0xBF"

definition second_byte :: "nat \<Rightarrow> nat \<Rightarrow> bool" where
  "second_byte a b \<longleftrightarrow>
     (if a = 0xE0 then 0xA0 \<le> b \<and> b \<le> 0xBF
      else if a = 0xED then 0x80 \<le> b \<and> b \<le> 0x9F
      else if a = 0xF0 then 0x90 \<le> b \<and> b \<le> 0xBF
      else if a = 0xF4 then 0x80 \<le> b \<and> b \<le> 0x8F
      else cont_byte b)"

definition utf8_width :: "nat \<Rightarrow> nat" where
  "utf8_width a =
     (if a < 0x80 then 1 else if 0xC2 \<le> a \<and> a \<le> 0xDF then 2
      else if 0xE0 \<le> a \<and> a \<le> 0xEF then 3 else if 0xF0 \<le> a \<and> a \<le> 0xF4 then 4 else 0)"

definition nth_byte :: "nat \<Rightarrow> string \<Rightarrow> nat" where
  "nth_byte i s = (if i < length s then byte (s ! i) else 0)"

definition utf8_step :: "string \<Rightarrow> bool \<times> nat" where
  "utf8_step s =
     (let a = nth_byte 0 s; w = utf8_width a in
      if w = 1 then (True, 1)
      else if w = 0 then (False, 1)
      else if \<not> second_byte a (nth_byte 1 s) then (False, 1)
      else if w = 2 then (True, 2)
      else if \<not> cont_byte (nth_byte 2 s) then (False, 2)
      else if w = 3 then (True, 3)
      else if \<not> cont_byte (nth_byte 3 s) then (False, 3)
      else (True, 4))"

definition replacement_char :: string where
  "replacement_char = [CHR 0xEF, CHR 0xBF, CHR 0xBD]"

fun utf8_lossy :: "string \<Rightarrow> string" where
  "utf8_lossy [] = []"
| "utf8_lossy (c # s) =
     (case utf8_step (c # s) of (ok, n) \<Rightarrow>
        (if ok then take n (c # s) else replacement_char) @ utf8_lossy (drop (n - 1) s))"

section \<open>Structured values\<close>

datatype json =
    JNull
  | JBool bool
  | JPos u64
  | JNeg i64
  | JFloat string
  | JStr string
  | JArr "json list"
  | JObj "(string \<times> json) list"

fun j_get :: "json \<Rightarrow> string \<Rightarrow> json option" where
  "j_get (JObj kvs) k = map_of kvs k"
| "j_get _ _ = None"

fun j_str :: "json \<Rightarrow> string option" where
  "j_str (JStr s) = Some s"
| "j_str _ = None"

fun j_u64 :: "json \<Rightarrow> u64 option" where
  "j_u64 (JPos n) = Some n"
| "j_u64 _ = None"

fun j_bool :: "json \<Rightarrow> bool option" where
  "j_bool (JBool b) = Some b"
| "j_bool _ = None"

fun j_arr :: "json \<Rightarrow> json list option" where
  "j_arr (JArr xs) = Some xs"
| "j_arr _ = None"

fun j_obj :: "json \<Rightarrow> (string \<times> json) list option" where
  "j_obj (JObj kvs) = Some kvs"
| "j_obj _ = None"

section \<open>Facts\<close>

lemma blank_Nil [simp]: "blank []"
  by (simp add: blank_def trim_def)

lemma split_once_Some:
  "split_once c s = Some (a, b) \<longleftrightarrow> s = a @ c # b \<and> c \<notin> set a"
proof (induction s arbitrary: a)
  case (Cons d s)
  show ?case
  proof (cases a)
    case Nil
    then show ?thesis by (auto split: option.split)
  next
    case (Cons e a')
    then show ?thesis using Cons.IH [of a'] by (auto split: option.split)
  qed
qed simp

lemma split_once_None: "split_once c s = None \<longleftrightarrow> c \<notin> set s"
  by (induction s) (auto split: option.splits)

lemma byte_less: "byte c < 256"
proof -
  have "of_char c mod 256 = (of_char c :: nat)" by simp
  then have "(of_char c :: nat) < 256" by (metis mod_less_divisor zero_less_numeral)
  then show ?thesis by (simp add: byte_def)
qed

lemma byte_char_of [simp]: "n < 256 \<Longrightarrow> byte (char_of n) = n"
  by (simp add: byte_def)

lemma byte_inj: "byte c = byte d \<Longrightarrow> c = d"
  by (simp add: byte_def)

lemma lower_char_idem [simp]: "lower_char (lower_char c) = lower_char c"
  by (auto simp: lower_char_def Let_def)

lemma ascii_lower_idem [simp]: "ascii_lower (ascii_lower s) = ascii_lower s"
  by (simp add: ascii_lower_def)

lemma ascii_lower_append [simp]: "ascii_lower (s @ t) = ascii_lower s @ ascii_lower t"
  by (simp add: ascii_lower_def)

lemma show_nat_digits: "c \<in> set (show_nat n) \<Longrightarrow> 48 \<le> byte c \<and> byte c \<le> 57"
proof (induction n rule: show_nat.induct)
  case (1 n)
  show ?case
  proof (cases "n < 10")
    case True
    with 1 show ?thesis by (subst (asm) show_nat.simps) (auto simp: digit_char_def)
  next
    case False
    with 1 show ?thesis
      by (subst (asm) (2) show_nat.simps) (auto simp: digit_char_def)
  qed
qed

lemma show_nat_not_Nil: "show_nat n \<noteq> []"
  by (subst show_nat.simps) simp

lemma digit_char_inj: "m < 10 \<Longrightarrow> n < 10 \<Longrightarrow> digit_char m = digit_char n \<longleftrightarrow> m = n"
  by (auto simp: digit_char_def dest: arg_cong [where f = byte])

lemma show_nat_inj: "show_nat m = show_nat n \<Longrightarrow> m = n"
proof (induction m arbitrary: n rule: show_nat.induct)
  case (1 m)
  note eq = 1(2) [unfolded show_nat.simps [of m] show_nat.simps [of n]]
  show ?case
  proof (cases "m < 10")
    case True
    with eq show ?thesis
      by (auto simp: digit_char_inj Cons_eq_append_conv show_nat_not_Nil split: if_splits)
  next
    case False
    with eq have "\<not> n < 10"
      by (auto simp: append_eq_Cons_conv show_nat_not_Nil split: if_splits)
    with False eq have "show_nat (m div 10) = show_nat (n div 10)" "m mod 10 = n mod 10"
      by (auto simp: digit_char_inj)
    with 1(1) [OF False] have "m div 10 = n div 10" by blast
    with \<open>m mod 10 = n mod 10\<close> show ?thesis by (metis div_mult_mod_eq)
  qed
qed

lemma show_word_inj: "show_word a = show_word b \<Longrightarrow> a = b"
  unfolding show_word_def by (drule show_nat_inj) (simp add: word_unat_eq_iff)

lemma starts_with_append: "starts_with s p \<longleftrightarrow> (\<exists>t. s = p @ t)"
proof
  assume "starts_with s p"
  then have "take (length p) s = p" by (simp add: starts_with_def)
  then have "s = p @ drop (length p) s" by (metis append_take_drop_id)
  then show "\<exists>t. s = p @ t" ..
qed (auto simp: starts_with_def)

lemma contains_any_iff: "contains_any cs s \<longleftrightarrow> set cs \<inter> set s \<noteq> {}"
  by (auto simp: contains_any_def list_ex_iff List.member_iff)

section \<open>Evaluation\<close>

text \<open>Equations that evaluate on the bits of a byte instead of its unary value.\<close>

lemma byte_low: "\<not> digit7 c \<Longrightarrow> byte c < 128"
  by (cases c) (simp add: byte_def of_char_def horner_sum_simps of_bool_def)

lemma byte_eq_iff: "n < 256 \<Longrightarrow> byte c = n \<longleftrightarrow> c = char_of n"
  using byte_inj byte_char_of by metis

lemma ascii_ws_code [code]:
  "ascii_ws c \<longleftrightarrow> c = CHR 0x20 \<or> c = CHR 0x09 \<or> c = CHR 0x0A \<or> c = CHR 0x0B \<or> c = CHR 0x0C
     \<or> c = CHR 0x0D"
proof -
  have "ascii_ws c \<longleftrightarrow> byte c \<in> {32, 9, 10, 11, 12, 13}" by (auto simp: ascii_ws_def Let_def)
  also have "\<dots> \<longleftrightarrow> c \<in> char_of ` {32 :: nat, 9, 10, 11, 12, 13}" by (auto simp: byte_eq_iff)
  finally show ?thesis by (simp add: char_of_def bit_0)
qed

lemma wide_high: "wide_ws a b c \<Longrightarrow> 128 \<le> a \<and> 128 \<le> c"
  by (auto simp: wide_ws_def)

lemma ws_len_code [code]:
  "ws_len [] = 0"
  "ws_len (a # s) =
     (if ascii_ws a then 1
      else if \<not> digit7 a then 0
      else case s of
        [] \<Rightarrow> 0
      | b # s' \<Rightarrow>
          if byte a = 0xC2 \<and> (byte b = 0x85 \<or> byte b = 0xA0) then 2
          else case s' of [] \<Rightarrow> 0 | c # _ \<Rightarrow> if wide_ws (byte a) (byte b) (byte c) then 3 else 0)"
proof -
  have "\<not> digit7 a \<Longrightarrow> byte a \<noteq> 0xC2 \<and> \<not> wide_ws (byte a) b c" for b c
    using byte_low [of a] wide_high [of "byte a" b c] by linarith
  then show "ws_len (a # s) =
     (if ascii_ws a then 1
      else if \<not> digit7 a then 0
      else case s of
        [] \<Rightarrow> 0
      | b # s' \<Rightarrow>
          if byte a = 0xC2 \<and> (byte b = 0x85 \<or> byte b = 0xA0) then 2
          else case s' of [] \<Rightarrow> 0 | c # _ \<Rightarrow> if wide_ws (byte a) (byte b) (byte c) then 3 else 0)"
    by (simp split: list.split)
qed simp

lemma ws_len_rev_code [code]:
  "ws_len_rev [] = 0"
  "ws_len_rev (c # s) =
     (if ascii_ws c then 1
      else if \<not> digit7 c then 0
      else case s of
        [] \<Rightarrow> 0
      | b # s' \<Rightarrow>
          if byte b = 0xC2 \<and> (byte c = 0x85 \<or> byte c = 0xA0) then 2
          else case s' of [] \<Rightarrow> 0 | a # _ \<Rightarrow> if wide_ws (byte a) (byte b) (byte c) then 3 else 0)"
proof -
  have "\<not> digit7 c \<Longrightarrow> byte c \<noteq> 0x85 \<and> byte c \<noteq> 0xA0 \<and> \<not> wide_ws a b (byte c)" for a b
    using byte_low [of c] wide_high [of a b "byte c"] by linarith
  then show "ws_len_rev (c # s) =
     (if ascii_ws c then 1
      else if \<not> digit7 c then 0
      else case s of
        [] \<Rightarrow> 0
      | b # s' \<Rightarrow>
          if byte b = 0xC2 \<and> (byte c = 0x85 \<or> byte c = 0xA0) then 2
          else case s' of [] \<Rightarrow> 0 | a # _ \<Rightarrow> if wide_ws (byte a) (byte b) (byte c) then 3 else 0)"
    by (simp split: list.split)
qed simp

end
