(* ===== verification/Recipes.thy ===== *)
theory Recipes
  imports Strings
begin

text \<open>
  Approver identities, sign-offs and the evaluator of approval recipes, from
  \<open>src/src/approval/mod.rs\<close>.  A rule lists alternative recipes, a recipe asks for a number of
  sign-offs of each approver class, and the evaluator decides whether the sign-offs on record fill
  every slot of one of them.  The facts at the end say what a satisfied rule means: slots are filled
  by sign-offs of pairwise distinct named people, of the class the slot asks for.
\<close>

section \<open>Data\<close>

datatype approver_class = Senior | Teammate | AgentReviewer | UnknownClass

fun is_human :: "approver_class \<Rightarrow> bool" where
  "is_human Senior = True"
| "is_human Teammate = True"
| "is_human AgentReviewer = False"
| "is_human UnknownClass = False"

definition parse_wire :: "string \<Rightarrow> approver_class option" where
  "parse_wire s =
     (if trim s = ''senior'' then Some Senior
      else if trim s = ''teammate'' then Some Teammate
      else if trim s = ''agent-reviewer'' then Some AgentReviewer
      else None)"

datatype recipe_decision_mode = DenyOnAnyDeny | MajorityWithDissentRecorded

definition decode_decision_mode :: "json \<Rightarrow> recipe_decision_mode" where
  "decode_decision_mode v =
     (if j_str v = Some ''majority-with-dissent-recorded'' then MajorityWithDissentRecorded
      else DenyOnAnyDeny)"

record recipe_term =
  rt_class :: approver_class
  rt_count :: u32

record recipe =
  rc_terms :: "recipe_term list"

record approval_rule =
  ar_recipes :: "recipe list"
  ar_decision_mode :: recipe_decision_mode
  ar_exclude_owner :: bool

record signoff =
  so_approver_identity :: string
  so_channel :: string
  so_decided_at :: instant
  so_note :: "string option"
  so_approver_kind :: string
  so_delegation_grant_ref :: "string option"
  so_resolved_class :: "approver_class option"
  so_controller :: "string option"
  so_approve :: bool

section \<open>Identities\<close>

definition agg_identity_prefix :: string where
  "agg_identity_prefix = ''agg:''"

definition verified_identity_prefix :: string where
  "verified_identity_prefix = ''verified:''"

definition bare_approver_identity :: "string \<Rightarrow> string" where
  "bare_approver_identity identity =
     (case strip_prefix identity verified_identity_prefix of
        Some subject \<Rightarrow> subject
      | None \<Rightarrow>
          (case strip_prefix identity agg_identity_prefix of
             None \<Rightarrow> identity
           | Some rest \<Rightarrow>
               (case split_once CHR '':'' rest of
                  Some (key_id, operator) \<Rightarrow> operator
                | None \<Rightarrow> identity)))"

definition aggregator_key_prefix :: "string \<Rightarrow> string option" where
  "aggregator_key_prefix identity =
     (case strip_prefix identity agg_identity_prefix of
        None \<Rightarrow> None
      | Some rest \<Rightarrow>
          (case find_str '':'' rest of
             None \<Rightarrow> None
           | Some key_id_len \<Rightarrow> Some (take (length agg_identity_prefix + key_id_len + 1) identity)))"

datatype provenance = Verified | Aggregator

definition approver_provenance :: "string \<Rightarrow> provenance option" where
  "approver_provenance identity =
     (if starts_with identity verified_identity_prefix then Some Verified
      else if aggregator_key_prefix identity \<noteq> None then Some Aggregator
      else None)"

section \<open>Distinct principals\<close>

fun first_by :: "('a \<Rightarrow> 'k) \<Rightarrow> 'k list \<Rightarrow> 'a list \<Rightarrow> 'a list" where
  "first_by key seen [] = []"
| "first_by key seen (x # xs) =
     (if List.member seen (key x) then first_by key seen xs
      else x # first_by key (key x # seen) xs)"

definition principal_key :: "signoff \<Rightarrow> string" where
  "principal_key s = ascii_lower (trim (bare_approver_identity (so_approver_identity s)))"

definition dedupe_by_identity :: "signoff list \<Rightarrow> signoff list" where
  "dedupe_by_identity signoffs = first_by principal_key [] signoffs"

definition unknown_controller :: string where
  "unknown_controller = CHR 0x00 # ''unknown-controller''"

definition controller_key :: "signoff \<Rightarrow> string" where
  "controller_key s =
     (case so_controller s of
        None \<Rightarrow> unknown_controller
      | Some c \<Rightarrow> if blank c then unknown_controller else trim c)"

definition collapse_by_controller :: "signoff list \<Rightarrow> signoff list" where
  "collapse_by_controller agent_reviewers = first_by controller_key [] agent_reviewers"

section \<open>Recipes\<close>

definition max_recipe_term_count :: u32 where
  "max_recipe_term_count = 64"

fun terms_well_formed :: "u32 \<Rightarrow> recipe_term list \<Rightarrow> bool" where
  "terms_well_formed tot [] = True"
| "terms_well_formed tot (t # ts) =
     (if rt_count t = 0 \<or> max_recipe_term_count < rt_count t then False
      else if max_recipe_term_count < sat_add tot (rt_count t) then False
      else if rt_class t = UnknownClass then False
      else terms_well_formed (sat_add tot (rt_count t)) ts)"

definition recipe_well_formed :: "recipe \<Rightarrow> bool" where
  "recipe_well_formed r = (if rc_terms r = [] then False else terms_well_formed 0 (rc_terms r))"

fun add_needs :: "u32 \<times> u32 \<times> u32 \<Rightarrow> recipe_term list \<Rightarrow> (u32 \<times> u32 \<times> u32) option" where
  "add_needs needs [] = Some needs"
| "add_needs (s, t, a) (x # xs) =
     (case rt_class x of
        Senior \<Rightarrow> add_needs (sat_add s (rt_count x), t, a) xs
      | Teammate \<Rightarrow> add_needs (s, sat_add t (rt_count x), a) xs
      | AgentReviewer \<Rightarrow> add_needs (s, t, sat_add a (rt_count x)) xs
      | UnknownClass \<Rightarrow> None)"

definition recipe_needs :: "recipe \<Rightarrow> (u32 \<times> u32 \<times> u32) option" where
  "recipe_needs r =
     (if \<not> recipe_well_formed r then None else add_needs (0, 0, 0) (rc_terms r))"

definition recipe_satisfied :: "recipe \<Rightarrow> u32 \<Rightarrow> u32 \<Rightarrow> u32 \<Rightarrow> bool" where
  "recipe_satisfied r avail_senior avail_teammate avail_agent_reviewer =
     (case recipe_needs r of
        None \<Rightarrow> False
      | Some (need_senior, need_teammate, need_agent_reviewer) \<Rightarrow>
          (if 0 < need_agent_reviewer then False
           else if avail_senior < need_senior then False
           else if sat_add (avail_senior - need_senior) avail_teammate < need_teammate then False
           else need_agent_reviewer \<le> avail_agent_reviewer))"

definition class_fills_a_slot :: "recipe \<Rightarrow> approver_class \<Rightarrow> bool" where
  "class_fills_a_slot r cls =
     (case recipe_needs r of
        None \<Rightarrow> False
      | Some (need_senior, need_teammate, need_agent_reviewer) \<Rightarrow>
          (if 0 < need_agent_reviewer then False
           else (case cls of
                   Senior \<Rightarrow> 0 < need_senior \<or> 0 < need_teammate
                 | Teammate \<Rightarrow> 0 < need_teammate
                 | AgentReviewer \<Rightarrow> False
                 | UnknownClass \<Rightarrow> False)))"

section \<open>Rules\<close>

datatype pool = HumanPool | AgentPool

text \<open>Which of the two lists a positive sign-off is put on; a malformed one is dropped.\<close>

definition signoff_pool :: "signoff \<Rightarrow> pool option" where
  "signoff_pool so =
     (if blank (bare_approver_identity (so_approver_identity so)) then None
      else (case so_resolved_class so of
              None \<Rightarrow> None
            | Some cls \<Rightarrow>
                (if trim (so_approver_kind so) = ''human'' \<and> \<not> is_human cls then None
                 else if trim (so_approver_kind so) = ''delegate-agent'' \<and> cls \<noteq> AgentReviewer then None
                 else if trim (so_approver_kind so) \<noteq> ''human''
                   \<and> trim (so_approver_kind so) \<noteq> ''delegate-agent'' then None
                 else (case cls of
                         Senior \<Rightarrow> Some HumanPool
                       | Teammate \<Rightarrow> Some HumanPool
                       | AgentReviewer \<Rightarrow>
                           (case so_delegation_grant_ref so of
                              None \<Rightarrow> None
                            | Some g \<Rightarrow> if blank g then None else Some AgentPool)
                       | UnknownClass \<Rightarrow> None))))"

definition humans_of :: "signoff list \<Rightarrow> signoff list" where
  "humans_of signoffs =
     dedupe_by_identity (filter (\<lambda>s. so_approve s \<and> signoff_pool s = Some HumanPool) signoffs)"

definition agent_reviewers_of :: "signoff list \<Rightarrow> signoff list" where
  "agent_reviewers_of signoffs =
     collapse_by_controller
       (dedupe_by_identity (filter (\<lambda>s. so_approve s \<and> signoff_pool s = Some AgentPool) signoffs))"

definition approval_rule_satisfied :: "approval_rule \<Rightarrow> signoff list \<Rightarrow> bool" where
  "approval_rule_satisfied rule signoffs =
     (let humans = humans_of signoffs;
          avail_senior = of_nat (length (filter (\<lambda>s. so_resolved_class s = Some Senior) humans));
          avail_teammate = of_nat (length (filter (\<lambda>s. so_resolved_class s = Some Teammate) humans));
          avail_agent_reviewer = of_nat (length (agent_reviewers_of signoffs))
      in list_ex (\<lambda>r. recipe_satisfied r avail_senior avail_teammate avail_agent_reviewer)
           (ar_recipes rule))"

definition risk_tier_forces_deny_on_any_deny :: "string \<Rightarrow> bool" where
  "risk_tier_forces_deny_on_any_deny risk_tier \<longleftrightarrow>
     \<not> List.member [''Low'', ''Medium'', ''High''] (trim risk_tier)"

section \<open>Facts about identities\<close>

lemma find_str_char: "find_str [c] s = Some n \<longleftrightarrow> split_once c s = Some (take n s, drop (Suc n) s) \<and> n < length s"
proof (induction s arbitrary: n)
  case (Cons d s)
  show ?case
  proof (cases n)
    case 0
    then show ?thesis by (auto simp: starts_with_def split: option.splits)
  next
    case (Suc k)
    then show ?thesis using Cons [of k] by (auto simp: starts_with_def split: option.splits)
  qed
qed (simp add: starts_with_def)

lemma split_once_append: "c \<notin> set a \<Longrightarrow> split_once c (a @ c # b) = Some (a, b)"
  by (simp add: split_once_Some)

lemma bare_verified: "bare_approver_identity (''verified:'' @ subject) = subject"
  by (simp add: bare_approver_identity_def strip_prefix_def starts_with_def verified_identity_prefix_def)

lemma bare_aggregator:
  assumes "CHR '':'' \<notin> set key_id"
  shows "bare_approver_identity (''agg:'' @ key_id @ '':'' @ operator) = operator"
    and "aggregator_key_prefix (''agg:'' @ key_id @ '':'' @ operator) = Some (''agg:'' @ key_id @ '':'')"
proof -
  have s: "split_once CHR '':'' (key_id @ CHR '':'' # operator) = Some (key_id, operator)"
    using assms by (rule split_once_append)
  then have "find_str '':'' (key_id @ CHR '':'' # operator) = Some (length key_id)"
    by (simp add: find_str_char)
  with s show "bare_approver_identity (''agg:'' @ key_id @ '':'' @ operator) = operator"
    "aggregator_key_prefix (''agg:'' @ key_id @ '':'' @ operator) = Some (''agg:'' @ key_id @ '':'')"
    by (simp_all add: bare_approver_identity_def aggregator_key_prefix_def strip_prefix_def
        starts_with_def verified_identity_prefix_def agg_identity_prefix_def)
qed

lemma first_by_subset: "set (first_by key seen xs) \<subseteq> set xs"
  by (induction xs arbitrary: seen) auto

lemma first_by_distinct:
  "distinct (map key (first_by key seen xs)) \<and> key ` set (first_by key seen xs) \<inter> set seen = {}"
proof (induction xs arbitrary: seen)
  case (Cons x xs)
  from Cons [of seen] Cons [of "key x # seen"] show ?case by (auto simp: List.member_iff)
qed simp

lemma first_by_length: "length (first_by key seen xs) \<le> length xs"
  by (induction xs arbitrary: seen) (auto intro: le_SucI)

lemma first_by_keys: "key ` set (first_by key seen xs) = key ` set xs - set seen"
  by (induction xs arbitrary: seen) (auto simp: List.member_iff)

lemma first_by_append:
  "first_by key seen (xs @ ys) =
     first_by key seen xs @ first_by key (rev (map key (first_by key seen xs)) @ seen) ys"
  by (induction xs arbitrary: seen) auto

section \<open>What a recipe asks for\<close>

definition demand :: "approver_class \<Rightarrow> recipe \<Rightarrow> nat" where
  "demand cls r = (\<Sum>t \<leftarrow> filter (\<lambda>t. rt_class t = cls) (rc_terms r). unat (rt_count t))"

lemma terms_well_formed_iff:
  "terms_well_formed tot ts \<longleftrightarrow>
     (\<forall>t \<in> set ts. 0 < unat (rt_count t) \<and> rt_class t \<noteq> UnknownClass)
     \<and> (ts = [] \<or> unat tot + (\<Sum>t \<leftarrow> ts. unat (rt_count t)) \<le> 64)"
proof (induction ts arbitrary: tot)
  case (Cons t ts)
  have c: "rt_count t = 0 \<longleftrightarrow> unat (rt_count t) = 0" by (simp add: unat_eq_0)
  have m: "unat max_recipe_term_count = 64" by (simp add: max_recipe_term_count_def)
  show ?case
    unfolding terms_well_formed.simps Cons c word_less_nat_alt m unat_sat_add
    by (cases "ts = []") (auto simp: min_def not_less)
qed simp

lemma add_needs_Some:
  assumes "\<forall>t \<in> set ts. rt_class t \<noteq> UnknownClass"
    and "unat s + unat m + unat a + (\<Sum>t \<leftarrow> ts. unat (rt_count t)) \<le> 64"
  shows "\<exists>s' m' a'. add_needs (s, m, a) ts = Some (s', m', a')
    \<and> unat s' = unat s + (\<Sum>t \<leftarrow> filter (\<lambda>t. rt_class t = Senior) ts. unat (rt_count t))
    \<and> unat m' = unat m + (\<Sum>t \<leftarrow> filter (\<lambda>t. rt_class t = Teammate) ts. unat (rt_count t))
    \<and> unat a' = unat a + (\<Sum>t \<leftarrow> filter (\<lambda>t. rt_class t = AgentReviewer) ts. unat (rt_count t))"
  using assms
proof (induction ts arbitrary: s m a)
  case (Cons t ts)
  have add: "unat (sat_add x (rt_count t)) = unat x + unat (rt_count t)"
    if "unat x + unat (rt_count t) \<le> 64" for x
    using that by (simp add: unat_sat_add min_def)
  consider "rt_class t = Senior" | "rt_class t = Teammate" | "rt_class t = AgentReviewer"
    using Cons.prems(1) by (cases "rt_class t") auto
  then show ?case
  proof cases
    case 1
    then show ?thesis using Cons.IH [of "sat_add s (rt_count t)" m a] Cons.prems add [of s] by (simp add: add.assoc)
  next
    case 2
    then show ?thesis using Cons.IH [of s "sat_add m (rt_count t)" a] Cons.prems add [of m] by (simp add: add.assoc)
  next
    case 3
    then show ?thesis using Cons.IH [of s m "sat_add a (rt_count t)"] Cons.prems add [of a] by (simp add: add.assoc)
  qed
qed simp

lemma recipe_needs_cases:
  obtains (malformed) "\<not> recipe_well_formed r" "recipe_needs r = None"
  | (needs) s m a where "recipe_well_formed r" "recipe_needs r = Some (s, m, a)"
      "unat s = demand Senior r" "unat m = demand Teammate r" "unat a = demand AgentReviewer r"
proof (cases "recipe_well_formed r")
  case False
  with malformed show thesis by (simp add: recipe_needs_def)
next
  case True
  then have "\<forall>t \<in> set (rc_terms r). rt_class t \<noteq> UnknownClass"
    "(\<Sum>t \<leftarrow> rc_terms r. unat (rt_count t)) \<le> 64"
    by (auto simp: recipe_well_formed_def terms_well_formed_iff split: if_splits)
  from add_needs_Some [OF this(1), of 0 0 0] this(2) True needs show thesis
    by (auto simp: recipe_needs_def demand_def)
qed

lemma recipe_satisfied_iff:
  "recipe_satisfied r s m a \<longleftrightarrow>
     recipe_well_formed r \<and> demand AgentReviewer r = 0 \<and> demand Senior r \<le> unat s
     \<and> demand Senior r + demand Teammate r \<le> unat s + unat m"
proof (cases rule: recipe_needs_cases [of r])
  case malformed
  then show ?thesis by (simp add: recipe_satisfied_def)
next
  case (needs ns nm na)
  have b: "unat nm < 2 ^ LENGTH(32)" by (rule unsigned_less)
  have z: "0 < na \<longleftrightarrow> unat na \<noteq> 0" by (simp add: word_less_nat_alt)
  show ?thesis
  proof (cases "unat na = 0 \<and> unat ns \<le> unat s")
    case True
    then have na: "na = 0" by (simp add: unat_eq_0)
    have "unat (s - ns) = unat s - unat ns" using True by (simp add: unat_sub word_le_nat_alt)
    then have "sat_add (s - ns) m < nm \<longleftrightarrow> unat s - unat ns + unat m < unat nm"
      using b by (simp add: word_less_nat_alt unat_sat_add min_less_iff_disj)
    then show ?thesis using True needs na
      by (auto simp: recipe_satisfied_def word_less_nat_alt)
  next
    case False
    then show ?thesis using needs z by (auto simp: recipe_satisfied_def word_less_nat_alt)
  qed
qed

lemma class_fills_a_slot_iff:
  "class_fills_a_slot r cls \<longleftrightarrow>
     recipe_well_formed r \<and> demand AgentReviewer r = 0
     \<and> (cls = Senior \<and> 0 < demand Senior r + demand Teammate r
        \<or> cls = Teammate \<and> 0 < demand Teammate r)"
  by (cases rule: recipe_needs_cases [of r]; cases cls)
    (auto simp: class_fills_a_slot_def word_less_nat_alt)

lemma well_formed_demand:
  assumes "recipe_well_formed r"
  shows "0 < demand Senior r + demand Teammate r + demand AgentReviewer r"
proof -
  obtain t ts where t: "rc_terms r = t # ts" "0 < unat (rt_count t)" "rt_class t \<noteq> UnknownClass"
    using assms
    by (cases "rc_terms r") (auto simp: recipe_well_formed_def terms_well_formed_iff split: if_splits)
  then show ?thesis by (cases "rt_class t") (auto simp: demand_def)
qed

section \<open>What a satisfied rule means\<close>

definition counts_as_human :: "signoff \<Rightarrow> bool" where
  "counts_as_human so \<longleftrightarrow>
     so_approve so \<and> \<not> blank (bare_approver_identity (so_approver_identity so))
     \<and> trim (so_approver_kind so) = ''human''
     \<and> (so_resolved_class so = Some Senior \<or> so_resolved_class so = Some Teammate)"

lemma human_pool_iff: "so_approve so \<and> signoff_pool so = Some HumanPool \<longleftrightarrow> counts_as_human so"
  by (auto simp: signoff_pool_def counts_as_human_def
      split: option.splits approver_class.splits if_splits)

lemma humans_of_facts:
  "set (humans_of sos) \<subseteq> {s \<in> set sos. counts_as_human s}" "distinct (map principal_key (humans_of sos))"
  using first_by_subset [of principal_key "[]"]
    first_by_distinct [of principal_key "[]"]
  unfolding humans_of_def dedupe_by_identity_def human_pool_iff by fastforce+

text \<open>
  The sign-offs \<open>ss\<close> and \<open>ts\<close> fill the slots of a recipe: as many as it asks for, of pairwise
  distinct named principals, a senior for every senior slot and a human for every other slot.
\<close>

definition fills_slots :: "signoff list \<Rightarrow> recipe \<Rightarrow> signoff list \<Rightarrow> signoff list \<Rightarrow> bool" where
  "fills_slots sos r ss ts \<longleftrightarrow>
     length ss = demand Senior r \<and> length ts = demand Teammate r
     \<and> set (ss @ ts) \<subseteq> set sos \<and> distinct (map principal_key (ss @ ts))
     \<and> (\<forall>s \<in> set (ss @ ts). counts_as_human s)
     \<and> (\<forall>s \<in> set ss. so_resolved_class s = Some Senior)"

lemma unat_of_nat_le: "unat (of_nat n :: 'a::len word) \<le> n"
  by (simp add: unat_of_nat)

lemma enough_humans_fill:
  assumes "demand Senior r \<le> length (filter (\<lambda>s. so_resolved_class s = Some Senior) (humans_of sos))"
    and "demand Senior r + demand Teammate r \<le>
      length (filter (\<lambda>s. so_resolved_class s = Some Senior) (humans_of sos))
      + length (filter (\<lambda>s. so_resolved_class s = Some Teammate) (humans_of sos))"
  shows "\<exists>ss ts. fills_slots sos r ss ts"
proof -
  define S where "S = filter (\<lambda>s. so_resolved_class s = Some Senior) (humans_of sos)"
  define T where "T = filter (\<lambda>s. so_resolved_class s = Some Teammate) (humans_of sos)"
  define ss where "ss = take (demand Senior r) S"
  define ts where "ts = take (demand Teammate r) (drop (demand Senior r) S @ T)"
  have h: "distinct (humans_of sos)" "inj_on principal_key (set (humans_of sos))"
    using humans_of_facts(2) [of sos] by (simp_all add: distinct_map)
  have st: "distinct (S @ T)" "set (S @ T) \<subseteq> set (humans_of sos)"
    using h(1) by (auto simp: S_def T_def)
  have d: "distinct (map principal_key (S @ T))"
    unfolding distinct_map using st(1) inj_on_subset [OF h(2) st(2)] by blast
  have e: "ss @ ts = take (demand Senior r + demand Teammate r) (S @ T)"
    using assms(1) by (simp add: ss_def ts_def S_def [symmetric] take_add add.commute)
  have sub: "set (ss @ ts) \<subseteq> set (S @ T)" unfolding e by (rule set_take_subset)
  have "distinct (map principal_key (ss @ ts))"
    unfolding e take_map [symmetric] using d by (rule distinct_take)
  moreover have "set (ss @ ts) \<subseteq> {s \<in> set sos. counts_as_human s}"
    using sub humans_of_facts(1) [of sos] by (auto simp: S_def T_def)
  moreover have "set ss \<subseteq> set S" unfolding ss_def by (rule set_take_subset)
  then have "\<forall>s \<in> set ss. so_resolved_class s = Some Senior" by (auto simp: S_def)
  moreover have "length ss = demand Senior r" "length ts = demand Teammate r"
    using assms by (auto simp: ss_def ts_def S_def [symmetric] T_def [symmetric])
  ultimately show ?thesis unfolding fills_slots_def by blast
qed

lemma rule_satisfied_fills:
  assumes "approval_rule_satisfied rule sos"
  obtains r ss ts where "r \<in> set (ar_recipes rule)" "recipe_well_formed r"
    "demand AgentReviewer r = 0" "fills_slots sos r ss ts" "ss @ ts \<noteq> []"
proof -
  let ?S = "length (filter (\<lambda>s. so_resolved_class s = Some Senior) (humans_of sos))"
  let ?T = "length (filter (\<lambda>s. so_resolved_class s = Some Teammate) (humans_of sos))"
  obtain r where r: "r \<in> set (ar_recipes rule)" "recipe_well_formed r" "demand AgentReviewer r = 0"
    "demand Senior r \<le> unat (of_nat ?S :: u32)"
    "demand Senior r + demand Teammate r \<le> unat (of_nat ?S :: u32) + unat (of_nat ?T :: u32)"
    using assms unfolding approval_rule_satisfied_def Let_def list_ex_iff recipe_satisfied_iff by blast
  have "demand Senior r \<le> ?S" "demand Senior r + demand Teammate r \<le> ?S + ?T"
    using r(4,5) unat_of_nat_le [where 'a = 32, of ?S] unat_of_nat_le [where 'a = 32, of ?T]
    by linarith+
  from enough_humans_fill [OF this] obtain ss ts where f: "fills_slots sos r ss ts" by blast
  then have "length (ss @ ts) = demand Senior r + demand Teammate r" by (simp add: fills_slots_def)
  with well_formed_demand [OF r(2)] r(3) have "ss @ ts \<noteq> []" by auto
  with that r f show thesis by blast
qed

lemma humans_of_append:
  "\<exists>zs. humans_of (sos @ [so]) = humans_of sos @ zs \<and> length zs \<le> 1"
  unfolding humans_of_def dedupe_by_identity_def filter_append first_by_append by auto

lemma rule_satisfied_append:
  assumes "approval_rule_satisfied rule sos" "length sos < 2 ^ 32 - 1"
  shows "approval_rule_satisfied rule (sos @ [so])"
proof -
  have len: "length (humans_of xs) \<le> length xs" for xs
    unfolding humans_of_def dedupe_by_identity_def
    using first_by_length [of principal_key "[]"] length_filter_le order_trans by metis
  obtain zs where z: "humans_of (sos @ [so]) = humans_of sos @ zs" "length zs \<le> 1"
    using humans_of_append by blast
  have mono: "unat (of_nat (length (filter P (humans_of sos))) :: u32)
      \<le> unat (of_nat (length (filter P (humans_of (sos @ [so])))) :: u32)" for P
  proof -
    have "length (filter P (humans_of (sos @ [so]))) < 2 ^ LENGTH(32)"
      using length_filter_le [of P "humans_of (sos @ [so])"] len [of "sos @ [so]"] assms(2)
      by (simp del: length_filter_le)
    moreover have "length (filter P (humans_of sos)) \<le> length (filter P (humans_of (sos @ [so])))"
      by (simp add: z)
    ultimately show ?thesis by (simp add: unat_of_nat)
  qed
  show ?thesis
    using assms(1) mono [of "\<lambda>s. so_resolved_class s = Some Senior"]
      mono [of "\<lambda>s. so_resolved_class s = Some Teammate"]
    unfolding approval_rule_satisfied_def Let_def list_ex_iff recipe_satisfied_iff
    by (meson add_mono order_trans)
qed

end
