(* ===== verification/Rate_Limit.thy ===== *)
theory Rate_Limit
  imports Strings
begin

text \<open>
  Fixed-window rate limits of \<open>src/src/policy/mod.rs\<close>: the pure transition of one counter, the
  key a counter is stored under, the check that charges one counter and the check that charges a
  set of them together.  The clock reading is an argument.
\<close>

section \<open>One counter\<close>

record rate_limit_state =
  rl_count :: u32
  rl_window_start :: instant

record fixed_window =
  fw_allowed :: bool
  fw_next_count :: u32
  fw_reset_window :: bool

type_synonym limits = "rate_limit_state table"

definition fixed_window_transition :: "u32 \<Rightarrow> bool \<Rightarrow> u32 \<Rightarrow> fixed_window" where
  "fixed_window_transition cnt elapsed mx =
     (if mx = 0 then
        \<lparr> fw_allowed = False, fw_next_count = cnt, fw_reset_window = False \<rparr>
      else if elapsed then
        \<lparr> fw_allowed = True, fw_next_count = 1, fw_reset_window = True \<rparr>
      else if cnt < mx then
        \<lparr> fw_allowed = True, fw_next_count = cnt + 1, fw_reset_window = False \<rparr>
      else \<lparr> fw_allowed = False, fw_next_count = cnt, fw_reset_window = False \<rparr>)"

section \<open>Keys\<close>

record principal =
  pl_id :: string
  pl_agent_label :: "string option"
  pl_owner :: "string option"
  pl_workload_id :: "string option"

definition rate_limit_principal :: "principal \<Rightarrow> string" where
  "rate_limit_principal p =
     (case pl_agent_label p of
        Some l \<Rightarrow> if blank l then pl_id p else l
      | None \<Rightarrow> pl_id p)"

definition rate_limit_key :: "string \<Rightarrow> string option \<Rightarrow> u32 \<Rightarrow> u64 \<Rightarrow> string" where
  "rate_limit_key alias principal_id mx window_secs =
     alias @ [CHR 0x1F] @ (case principal_id of None \<Rightarrow> [] | Some i \<Rightarrow> i) @ [CHR 0x1F]
       @ show_word mx @ [CHR 0x1F] @ show_word window_secs"

section \<open>Checks\<close>

text \<open>The time since an earlier instant is zero when that instant is later.\<close>

definition window_elapsed :: "instant \<Rightarrow> instant \<Rightarrow> u64 \<Rightarrow> bool" where
  "window_elapsed now start window_secs \<longleftrightarrow> dur (int (unat window_secs)) \<le> max 0 (now - start)"

lemma window_elapsed_code [code]:
  "window_elapsed now start window_secs \<longleftrightarrow> dur (uint window_secs) \<le> max 0 (now - start)"
  by (simp add: window_elapsed_def)

definition charge_counter :: "instant \<Rightarrow> string \<Rightarrow> u32 \<Rightarrow> u64 \<Rightarrow> limits \<Rightarrow> bool \<times> limits" where
  "charge_counter now key mx window_secs limits =
     (let st = (case t_get limits key of
                  Some s \<Rightarrow> s
                | None \<Rightarrow> \<lparr> rl_count = 0, rl_window_start = now \<rparr>);
          tr = fixed_window_transition (rl_count st)
                 (window_elapsed now (rl_window_start st) window_secs) mx
      in (fw_allowed tr,
          t_put key \<lparr> rl_count = fw_next_count tr,
                      rl_window_start = (if fw_reset_window tr then now else rl_window_start st) \<rparr>
            limits))"

definition check_rate_limit ::
  "instant \<Rightarrow> string \<Rightarrow> string option \<Rightarrow> u32 \<Rightarrow> u64 \<Rightarrow> limits \<Rightarrow> bool \<times> limits" where
  "check_rate_limit now alias principal_id mx window_secs limits =
     (if mx = 0 \<or> window_secs = 0 then (False, limits)
      else charge_counter now (rate_limit_key alias principal_id mx window_secs) mx window_secs limits)"

definition has_room :: "instant \<Rightarrow> string \<Rightarrow> u32 \<Rightarrow> u64 \<Rightarrow> limits \<Rightarrow> bool" where
  "has_room now key mx window_secs limits =
     (case t_get limits key of
        Some s \<Rightarrow> fw_allowed (fixed_window_transition (rl_count s)
                    (window_elapsed now (rl_window_start s) window_secs) mx)
      | None \<Rightarrow> fw_allowed (fixed_window_transition 0 False mx))"

fun charge_all ::
  "instant \<Rightarrow> string \<Rightarrow> string option \<Rightarrow> (u32 \<times> u64) list \<Rightarrow> limits \<Rightarrow> limits" where
  "charge_all now alias principal_id [] limits = limits"
| "charge_all now alias principal_id ((mx, w) # guards) limits =
     charge_all now alias principal_id guards
       (snd (charge_counter now (rate_limit_key alias principal_id mx w) mx w limits))"

definition charge_rate_limits ::
  "instant \<Rightarrow> string \<Rightarrow> string option \<Rightarrow> (u32 \<times> u64) list \<Rightarrow> limits \<Rightarrow> bool \<times> limits" where
  "charge_rate_limits now alias principal_id guards limits =
     (if list_ex (\<lambda>(mx, w). mx = 0 \<or> w = 0) guards then (False, limits)
      else if \<not> list_all (\<lambda>(mx, w). has_room now (rate_limit_key alias principal_id mx w) mx w limits)
                 guards
      then (False, limits)
      else (True, charge_all now alias principal_id guards limits))"

section \<open>Facts about one counter\<close>

lemma transition_allowed:
  "fw_allowed (fixed_window_transition c e mx) \<longleftrightarrow> mx \<noteq> 0 \<and> (e \<or> c < mx)"
  by (simp add: fixed_window_transition_def)

lemma transition_bounded:
  "c \<le> mx \<Longrightarrow> fw_next_count (fixed_window_transition c e mx) \<le> mx"
proof -
  assume c: "c \<le> mx"
  have "c < mx \<Longrightarrow> c + 1 \<le> mx" by (simp add: inc_le)
  moreover have "mx \<noteq> 0 \<Longrightarrow> 1 \<le> mx" by (simp add: word_le_nat_alt unat_gt_0 Suc_le_eq)
  ultimately show ?thesis using c by (auto simp: fixed_window_transition_def)
qed

lemma charge_counter_other [simp]:
  "k \<noteq> key \<Longrightarrow> t_get (snd (charge_counter now key mx w l)) k = t_get l k"
  by (simp add: charge_counter_def Let_def)

lemma charge_counter_same:
  "t_get l key = t_get l' key \<Longrightarrow>
     t_get (snd (charge_counter now key mx w l)) key = t_get (snd (charge_counter now key mx w l')) key"
  by (simp add: charge_counter_def Let_def)

lemma charge_counter_allowed:
  "fst (charge_counter now key mx w l) = has_room now key mx w l" if "w \<noteq> 0"
proof -
  have "0 < int (unat w)" using that by (simp add: unat_gt_0 del: of_nat_unat)
  then have "\<not> window_elapsed now now w"
    by (simp add: window_elapsed_def dur_def nanos_def del: of_nat_unat)
  then show ?thesis by (simp add: charge_counter_def has_room_def Let_def split: option.split)
qed

subsection \<open>Keys do not collide\<close>

lemma append_sep_eq:
  "s \<notin> set a \<Longrightarrow> s \<notin> set b \<Longrightarrow> a @ s # x = b @ s # y \<longleftrightarrow> a = b \<and> x = y"
  by (induction a arbitrary: b) (case_tac b; auto)+

lemma sep_not_digit: "CHR 0x1F \<notin> set (show_word w)"
  using show_nat_digits [of "CHR 0x1F" "unat w"] by (auto simp: show_word_def byte_def)

lemma rate_limit_key_inj:
  assumes "CHR 0x1F \<notin> set a" "CHR 0x1F \<notin> set a'"
    and "CHR 0x1F \<notin> set (case p of None \<Rightarrow> [] | Some i \<Rightarrow> i)"
    and "CHR 0x1F \<notin> set (case p' of None \<Rightarrow> [] | Some i \<Rightarrow> i)"
    and "rate_limit_key a p mx w = rate_limit_key a' p' mx' w'"
  shows "a = a' \<and> (case p of None \<Rightarrow> [] | Some i \<Rightarrow> i) = (case p' of None \<Rightarrow> [] | Some i \<Rightarrow> i)
    \<and> mx = mx' \<and> w = w'"
  using assms sep_not_digit [of mx] sep_not_digit [of mx']
  by (auto simp: rate_limit_key_def append_sep_eq dest: show_word_inj)

text \<open>Guards of one request with distinct dimensions are counted apart, whatever the names hold.\<close>

lemma rate_limit_key_dims:
  assumes "rate_limit_key a p mx w = rate_limit_key a p mx' w'"
  shows "mx = mx' \<and> w = w'"
  using assms sep_not_digit [of mx] sep_not_digit [of mx']
  by (auto simp: rate_limit_key_def append_sep_eq dest: show_word_inj)

subsection \<open>Charging several counters\<close>

lemma charge_all_other:
  "k \<notin> (\<lambda>(mx, w). rate_limit_key a p mx w) ` set guards \<Longrightarrow>
     t_get (charge_all now a p guards l) k = t_get l k"
  by (induction guards arbitrary: l) auto

lemma charge_all_key:
  assumes "distinct guards" "(mx, w) \<in> set guards"
  shows "t_get (charge_all now a p guards l) (rate_limit_key a p mx w) =
         t_get (snd (charge_counter now (rate_limit_key a p mx w) mx w l)) (rate_limit_key a p mx w)"
  using assms
proof (induction guards arbitrary: l)
  case (Cons g guards)
  obtain m v where g: "g = (m, v)" by (cases g)
  show ?case
  proof (cases "(m, v) = (mx, w)")
    case True
    then have "rate_limit_key a p mx w \<notin> (\<lambda>(mx, w). rate_limit_key a p mx w) ` set guards"
      using Cons.prems(1) g by (auto dest: rate_limit_key_dims)
    with True g show ?thesis by (simp add: charge_all_other)
  next
    case False
    then have "rate_limit_key a p m v \<noteq> rate_limit_key a p mx w" by (auto dest: rate_limit_key_dims)
    with False Cons g show ?thesis by (auto intro!: charge_counter_same)
  qed
qed simp

lemma charge_rate_limits_False:
  "charge_rate_limits now a p guards l = (False, l') \<Longrightarrow> l' = l"
  by (auto simp: charge_rate_limits_def split: if_splits)

lemma charge_rate_limits_True:
  "charge_rate_limits now a p guards l = (True, l') \<longleftrightarrow>
     (\<forall>(mx, w) \<in> set guards. mx \<noteq> 0 \<and> w \<noteq> 0 \<and> has_room now (rate_limit_key a p mx w) mx w l)
     \<and> l' = charge_all now a p guards l"
  by (auto simp: charge_rate_limits_def list_ex_iff list_all_iff split: if_splits)

section \<open>How much a limit lets through\<close>

text \<open>
  The requests a counter admits, each with the start of the window it was counted in, when one
  principal presents requests at the given instants.
\<close>

fun admitted ::
  "string \<Rightarrow> string option \<Rightarrow> u32 \<Rightarrow> u64 \<Rightarrow> limits \<Rightarrow> instant list \<Rightarrow> instant list" where
  "admitted a p mx w l [] = []"
| "admitted a p mx w l (t # ts) =
     (case check_rate_limit t a p mx w l of
        (ok, l') \<Rightarrow> (if ok then [t] else []) @ admitted a p mx w l' ts)"

fun counted :: "u32 \<Rightarrow> int \<Rightarrow> (u32 \<times> instant) option \<Rightarrow> instant list \<Rightarrow> (instant \<times> instant) list" where
  "counted mx W st [] = []"
| "counted mx W None (t # ts) = (t, t) # counted mx W (Some (1, t)) ts"
| "counted mx W (Some (c, s)) (t # ts) =
     (if W \<le> max 0 (t - s) then (t, t) # counted mx W (Some (1, t)) ts
      else if c < mx then (t, s) # counted mx W (Some (c + 1, s)) ts
      else counted mx W (Some (c, s)) ts)"

definition counter_of :: "limits \<Rightarrow> string \<Rightarrow> (u32 \<times> instant) option" where
  "counter_of l k = map_option (\<lambda>s. (rl_count s, rl_window_start s)) (t_get l k)"

lemma admitted_counted:
  assumes "mx \<noteq> 0" "w \<noteq> 0"
  shows "admitted a p mx w l ts =
    map fst (counted mx (dur (int (unat w))) (counter_of l (rate_limit_key a p mx w)) ts)"
proof (induction ts arbitrary: l)
  case (Cons t ts)
  let ?k = "rate_limit_key a p mx w"
  have w: "0 < dur (int (unat w))"
    using assms(2) by (simp add: dur_def nanos_def unat_gt_0 del: of_nat_unat)
  have m: "0 < mx" using assms(1) by (simp add: word_less_nat_alt unat_gt_0)
  show ?case
  proof (cases "t_get l ?k")
    case None
    then show ?thesis using assms w m
      by (simp add: check_rate_limit_def charge_counter_def Let_def fixed_window_transition_def
          window_elapsed_def counter_of_def Cons.IH)
  next
    case (Some st)
    then show ?thesis using assms w m
      by (simp add: check_rate_limit_def charge_counter_def Let_def fixed_window_transition_def
          window_elapsed_def counter_of_def Cons.IH le_max_iff_disj)
  qed
qed simp

definition in_window :: "instant \<Rightarrow> (instant \<times> instant) list \<Rightarrow> nat" where
  "in_window q A = length (filter (\<lambda>x. snd x = q) A)"

text \<open>What the counted requests of a well-formed counter satisfy.\<close>

definition windows_ok :: "u32 \<Rightarrow> int \<Rightarrow> (instant \<times> instant) list \<Rightarrow> bool" where
  "windows_ok mx W A \<longleftrightarrow>
     (\<forall>x \<in> set A. snd x \<le> fst x \<and> fst x < snd x + W)
     \<and> (\<forall>q. in_window q A \<le> unat mx)
     \<and> (\<forall>x \<in> set A. \<forall>y \<in> set A. snd x < snd y \<longrightarrow> snd x + W \<le> snd y)"

lemma unat_Suc_less: "(c :: u32) < mx \<Longrightarrow> unat (c + 1) = Suc (unat c)"
proof -
  assume "c < mx"
  moreover have "unat mx < 2 ^ LENGTH(32)" by (rule unsigned_less)
  ultimately have "unat c + 1 < 2 ^ LENGTH(32)" by (simp add: word_less_nat_alt)
  then show ?thesis using unat_add_lem [of c 1] by simp
qed

lemma counted_ok:
  assumes "0 < W" "mx \<noteq> 0" "sorted (s # ts)" "c \<le> mx"
  shows "windows_ok mx W (counted mx W (Some (c, s)) ts)
    \<and> in_window s (counted mx W (Some (c, s)) ts) \<le> unat mx - unat c
    \<and> (\<forall>x \<in> set (counted mx W (Some (c, s)) ts). snd x = s \<or> s + W \<le> snd x)"
  using assms
proof (induction ts arbitrary: c s)
  case Nil
  then show ?case by (simp add: windows_ok_def in_window_def)
next
  case (Cons t ts)
  have one: "unat (1 :: u32) = 1" "(1 :: u32) \<le> mx"
    using Cons.prems(2) by (simp_all add: word_le_nat_alt Suc_le_eq unat_gt_0)
  have t: "s \<le> t" "sorted (t # ts)" "sorted (s # ts)" using Cons.prems(3) by auto
  consider "s + W \<le> t" | "t < s + W" "c < mx" | "t < s + W" "\<not> c < mx" by linarith
  then show ?case
  proof cases
    case 1
    let ?A = "counted mx W (Some (1, t)) ts"
    have "windows_ok mx W ?A \<and> in_window t ?A \<le> unat mx - 1
        \<and> (\<forall>x \<in> set ?A. snd x = t \<or> t + W \<le> snd x)"
      using Cons.IH [of t 1] Cons.prems(1,2) t(2) one by simp
    moreover have "counted mx W (Some (c, s)) (t # ts) = (t, t) # ?A"
      using 1 by (simp add: le_max_iff_disj)
    moreover have "in_window s ?A = 0"
      using calculation(1) 1 Cons.prems(1) by (fastforce simp: in_window_def filter_empty_conv)
    moreover have "0 < unat mx" using Cons.prems(2) by (simp add: unat_gt_0)
    ultimately show ?thesis
      using 1 Cons.prems(1) by (fastforce simp: windows_ok_def in_window_def)
  next
    case 2
    let ?A = "counted mx W (Some (c + 1, s)) ts"
    have c: "unat (c + 1) = Suc (unat c)" "c + 1 \<le> mx"
      using 2 unat_Suc_less [of c mx] by (auto simp: word_le_nat_alt word_less_nat_alt)
    have "windows_ok mx W ?A \<and> in_window s ?A \<le> unat mx - Suc (unat c)
        \<and> (\<forall>x \<in> set ?A. snd x = s \<or> s + W \<le> snd x)"
      using Cons.IH [of s "c + 1"] Cons.prems(1,2) t(3) c by simp
    moreover have "counted mx W (Some (c, s)) (t # ts) = (t, s) # ?A"
      using 2 t Cons.prems(1) by simp
    moreover have "unat c < unat mx" using 2 by (simp add: word_less_nat_alt)
    ultimately show ?thesis
      using 2 t Cons.prems(1) by (fastforce simp: windows_ok_def in_window_def)
  next
    case 3
    then have eq: "counted mx W (Some (c, s)) (t # ts) = counted mx W (Some (c, s)) ts"
      using t Cons.prems(1) by simp
    show ?thesis unfolding eq using Cons.IH Cons.prems(1,2,4) t(3) by blast
  qed
qed

lemma length_filter_cover:
  "(\<And>x. x \<in> set A \<Longrightarrow> P x \<Longrightarrow> Q x \<or> R x) \<Longrightarrow>
     length (filter P A) \<le> length (filter Q A) + length (filter R A)"
  by (induction A) fastforce+

lemma windows_ok_bound:
  assumes ok: "windows_ok mx W A" and "0 < W"
  shows "length (filter (\<lambda>x. b \<le> fst x \<and> fst x < b + W) A) \<le> 2 * unat mx"
proof -
  let ?P = "\<lambda>x. b \<le> fst x \<and> fst x < b + W"
  let ?T = "snd ` set (filter ?P A)"
  show ?thesis
  proof (cases "filter ?P A = []")
    case True
    then show ?thesis by simp
  next
    case False
    define q where "q = Min ?T"
    define q' where "q' = (if ?T - {q} = {} then q else Min (?T - {q}))"
    have fin: "finite ?T" "?T \<noteq> {}"
      using False by (simp_all only: finite_imageI finite_set image_is_empty set_empty not_False_eq_True)
    have q: "q \<in> ?T" unfolding q_def using fin by (rule Min_in)
    have q_le: "q \<le> x" if "x \<in> ?T" for x unfolding q_def using fin(1) that by (rule Min_le)
    have q': "?T - {q} \<noteq> {} \<Longrightarrow> q' \<in> ?T - {q}" "\<And>x. x \<in> ?T - {q} \<Longrightarrow> q' \<le> x"
      using fin(1) Min_in [of "?T - {q}"] Min_le [of "?T - {q}"] by (auto simp: q'_def)
    have near: "x \<in> ?T \<Longrightarrow> b - W < x \<and> x < b + W" for x
      using ok by (fastforce simp: windows_ok_def)
    have gap: "x \<in> ?T \<Longrightarrow> y \<in> ?T \<Longrightarrow> x < y \<Longrightarrow> x + W \<le> y" for x y
      using ok by (auto simp: windows_ok_def)
    have two: "x = q \<or> x = q'" if x: "x \<in> ?T" for x
    proof (rule ccontr)
      assume n: "\<not> (x = q \<or> x = q')"
      with x have xq: "x \<in> ?T - {q}" by blast
      then have q'T: "q' \<in> ?T - {q}" using q'(1) by blast
      then have "q' \<in> ?T" "q' \<noteq> q" by blast+
      moreover have "q \<le> q'" using q_le q'T by blast
      moreover have "q' \<le> x" using q'(2) xq .
      ultimately have "q < q'" "q' < x" "q' \<in> ?T" using n by auto
      with gap q x have "q + W \<le> q'" "q' + W \<le> x" by blast+
      moreover have "b - W < q" "x < b + W" using near q x by blast+
      ultimately show False by linarith
    qed
    have "length (filter ?P A) \<le> in_window q A + in_window q' A"
      unfolding in_window_def by (rule length_filter_cover) (use two in force)
    moreover have "in_window q A \<le> unat mx" "in_window q' A \<le> unat mx"
      using ok by (auto simp: windows_ok_def)
    ultimately show ?thesis by linarith
  qed
qed

lemma admitted_bound:
  assumes "mx \<noteq> 0" "w \<noteq> 0" "sorted ts"
  shows "length (filter (\<lambda>t. b \<le> t \<and> t < b + dur (int (unat w))) (admitted a p mx w [] ts))
    \<le> 2 * unat mx"
proof (cases ts)
  case (Cons t ts')
  let ?W = "dur (int (unat w))"
  have W: "0 < ?W" using assms(2) by (simp add: dur_def nanos_def unat_gt_0 del: of_nat_unat)
  have one: "(1 :: u32) \<le> mx" "0 < unat mx"
    using assms(1) by (simp_all add: word_le_nat_alt Suc_le_eq unat_gt_0)
  let ?A = "counted mx ?W (Some (1, t)) ts'"
  have "windows_ok mx ?W ?A \<and> in_window t ?A \<le> unat mx - unat (1 :: u32)
      \<and> (\<forall>x \<in> set ?A. snd x = t \<or> t + ?W \<le> snd x)"
    using counted_ok [OF W assms(1) _ one(1)] assms(3) Cons by blast
  then have "windows_ok mx ?W ((t, t) # ?A)"
    using W one(2) by (fastforce simp: windows_ok_def in_window_def)
  note bound = windows_ok_bound [OF this W, of b]
  have "admitted a p mx w [] ts = map fst ((t, t) # ?A)"
    unfolding admitted_counted [OF assms(1,2)] Cons by (simp add: counter_of_def)
  with bound show ?thesis by (simp only: filter_map o_def length_map)
qed simp

end
