(* ===== verification/Kernel.thy ===== *)
theory Kernel
  imports Prelude
begin

text \<open>
  The decision kernel of \<open>src/src/formal_kernel.rs\<close>: what a permit is bound to, the digests a
  binding carries, and the two pure gates that decide whether a direct admission or an approved
  grant may become a permit.  The permit itself, which consumes a policy evaluation and an
  approval grant, is in the theory \<open>Permit\<close>.

  The hash function and the serialiser of request parameters are code outside the repository and
  are arguments: \<open>sha\<close> gives the hexadecimal digest of a byte string, \<open>to_vec\<close> the bytes of the
  parameters when they can be serialised.
\<close>

section \<open>Bindings\<close>

record execution_binding =
  eb_approval_id :: string
  eb_epoch :: u64
  eb_tenant :: string
  eb_principal :: string
  eb_credential :: string
  eb_action :: string
  eb_params_digest :: string
  eb_rule_digest :: string

record dispatched_binding =
  db_approved :: bool
  db_approval_id :: string
  db_epoch :: u64
  db_tenant :: string
  db_principal :: string
  db_credential :: string
  db_action :: string
  db_params_digest :: string

definition binds :: "execution_binding \<Rightarrow> dispatched_binding \<Rightarrow> bool" where
  "binds b d \<longleftrightarrow>
     eb_approval_id b = db_approval_id d
     \<and> eb_epoch b = db_epoch d
     \<and> eb_tenant b = db_tenant d
     \<and> eb_principal b = db_principal d
     \<and> eb_credential b = db_credential d
     \<and> eb_action b = db_action d
     \<and> eb_params_digest b = db_params_digest d"

definition digest_bytes :: "(string \<Rightarrow> string) \<Rightarrow> string \<Rightarrow> string" where
  "digest_bytes sha bytes = ''sha256:'' @ sha bytes"

definition digest_params ::
  "(string \<Rightarrow> string) \<Rightarrow> ('p \<Rightarrow> string option) \<Rightarrow> 'p \<Rightarrow> string option" where
  "digest_params sha to_vec params = map_option (digest_bytes sha) (to_vec params)"

definition next_epoch :: "u64 \<Rightarrow> u64 option" where
  "next_epoch current = checked_add current 1"

section \<open>Admission\<close>

datatype verdict = VAllow | VDeny | VPrompt

datatype admission_kind = AdmitAllow | AdmitObservedDeny

datatype permit_error =
    PolicyDenied
  | ApprovalRequired
  | BindingMismatch
  | Unbindable
  | GrantNotYetIssued
  | GrantExpired

definition direct_allow_rule_digest :: string where
  "direct_allow_rule_digest =
     ''sha256:d2c08dcdbdeee9ba014f122cbddc6c68c7264db9360594cf1f8b0d64852ec12a''"

definition direct_observed_deny_rule_digest :: string where
  "direct_observed_deny_rule_digest =
     ''sha256:f09492db3e9370dcf6c024c71fd2747afc1b34a9710432f6585ebc68b53fb4ca''"

fun kind_rule_digest :: "admission_kind \<Rightarrow> string" where
  "kind_rule_digest AdmitAllow = direct_allow_rule_digest"
| "kind_rule_digest AdmitObservedDeny = direct_observed_deny_rule_digest"

record judged_subject =
  js_credential :: string
  js_principal :: string
  js_params_digest :: string

definition judged :: "judged_subject \<Rightarrow> execution_binding \<Rightarrow> bool" where
  "judged s b \<longleftrightarrow>
     js_credential s = eb_credential b
     \<and> js_principal s = eb_principal b
     \<and> js_params_digest s = eb_params_digest b"

definition admission_gate :: "verdict \<Rightarrow> bool \<Rightarrow> bool \<Rightarrow> permit_error + admission_kind" where
  "admission_gate v observe_downgrade approval_required =
     (case (case v of
              VAllow \<Rightarrow> Inr AdmitAllow
            | VDeny \<Rightarrow> if observe_downgrade then Inr AdmitObservedDeny else Inl PolicyDenied
            | VPrompt \<Rightarrow> Inl ApprovalRequired) of
        Inl e \<Rightarrow> Inl e
      | Inr kind \<Rightarrow> if approval_required then Inl ApprovalRequired else Inr kind)"

record admission_witness =
  aw_kind :: admission_kind
  aw_subject :: judged_subject

definition witness_from ::
  "verdict \<Rightarrow> bool \<Rightarrow> bool \<Rightarrow> judged_subject option \<Rightarrow> permit_error + admission_witness" where
  "witness_from v observe_downgrade approval_required subject =
     (case admission_gate v observe_downgrade approval_required of
        Inl e \<Rightarrow> Inl e
      | Inr kind \<Rightarrow>
          (case subject of
             None \<Rightarrow> Inl Unbindable
           | Some s \<Rightarrow> Inr \<lparr> aw_kind = kind, aw_subject = s \<rparr>))"

section \<open>The window of an approved grant\<close>

definition approved_gate :: "verdict \<Rightarrow> i64 \<Rightarrow> i64 \<Rightarrow> i64 \<Rightarrow> permit_error + unit" where
  "approved_gate v now issued expires =
     (if v = VDeny then Inl PolicyDenied
      else if now < issued then Inl GrantNotYetIssued
      else if expires \<le> now then Inl GrantExpired
      else Inr ())"

section \<open>Facts about the gates\<close>

lemma admission_gate_Inr:
  "admission_gate v obs req = Inr k \<longleftrightarrow>
     \<not> req \<and> ((v = VAllow \<and> k = AdmitAllow) \<or> (v = VDeny \<and> obs \<and> k = AdmitObservedDeny))"
  by (auto simp: admission_gate_def split: verdict.splits)

lemma witness_from_Inr:
  "witness_from v obs req subject = Inr w \<longleftrightarrow>
     admission_gate v obs req = Inr (aw_kind w) \<and> subject = Some (aw_subject w)"
  by (auto simp: witness_from_def split: sum.splits option.splits)

lemma approved_gate_Inr:
  "approved_gate v now issued expires = Inr () \<longleftrightarrow> v \<noteq> VDeny \<and> issued \<le> now \<and> now < expires"
  by (auto simp: approved_gate_def)

lemma binds_agree:
  "binds b d \<Longrightarrow> binds b' d \<Longrightarrow> b' = b \<lparr> eb_rule_digest := eb_rule_digest b' \<rparr>"
  by (cases b; cases b') (auto simp: binds_def)

lemma next_epoch_greater: "next_epoch e = Some e' \<Longrightarrow> unat e' = Suc (unat e)"
  by (auto simp: next_epoch_def dest: checked_add_unat)

lemma kind_rule_digest_inj: "kind_rule_digest k = kind_rule_digest k' \<Longrightarrow> k = k'"
  by (cases k; cases k')
    (simp_all add: direct_allow_rule_digest_def direct_observed_deny_rule_digest_def)

end
