(* ===== verification/Policy_Types.thy ===== *)
theory Policy_Types
  imports Strings
begin

text \<open>
  The policy language of \<open>src/src/policy/types.rs\<close>: policies, their rules and conditions, the
  constructors the program offers, and the validation that decides which policies may be used.
  Times of day are nanoseconds since midnight.
\<close>

section \<open>Data\<close>

type_synonym naive_time = nat

datatype policy_action = Allow | Deny | Prompt

datatype policy_condition =
    UrlMatch string
  | MethodMatch "string list"
  | ActionMatch string
  | TimeWindow naive_time naive_time
  | RateLimit u32 u64
  | SpendCap string u64
  | And "policy_condition list"
  | Or "policy_condition list"
  | Not policy_condition
  | Always

record policy_rule =
  pr_condition :: policy_condition
  pr_action :: policy_action

record policy =
  p_id :: string
  p_name :: string
  p_credential_pattern :: string
  p_principal_pattern :: "string option"
  p_rules :: "policy_rule list"
  p_default_action :: policy_action
  p_kill :: bool

text \<open>The strictness order of actions: a denial outweighs a prompt, a prompt an allowance.\<close>

fun action_rank :: "policy_action \<Rightarrow> nat" where
  "action_rank Allow = 0"
| "action_rank Prompt = 1"
| "action_rank Deny = 2"

instantiation policy_action :: linorder
begin

definition less_eq_policy_action :: "policy_action \<Rightarrow> policy_action \<Rightarrow> bool" where
  "less_eq_policy_action a b = (action_rank a \<le> action_rank b)"

definition less_policy_action :: "policy_action \<Rightarrow> policy_action \<Rightarrow> bool" where
  "less_policy_action a b = (action_rank a < action_rank b)"

instance
proof
  fix x y z :: policy_action
  show "(x < y) = (x \<le> y \<and> \<not> y \<le> x)"
    by (auto simp: less_policy_action_def less_eq_policy_action_def)
  show "x \<le> x" by (simp add: less_eq_policy_action_def)
  show "x \<le> y \<Longrightarrow> y \<le> z \<Longrightarrow> x \<le> z" by (simp add: less_eq_policy_action_def)
  show "x \<le> y \<Longrightarrow> y \<le> x \<Longrightarrow> x = y"
    by (cases x; cases y) (simp_all add: less_eq_policy_action_def)
  show "x \<le> y \<or> y \<le> x" by (auto simp: less_eq_policy_action_def)
qed

end

section \<open>Constructors\<close>

text \<open>The fresh identifier of a policy made by the program is an argument.\<close>

definition allow_all :: "string \<Rightarrow> string \<Rightarrow> string \<Rightarrow> policy" where
  "allow_all fresh nm pat =
     \<lparr> p_id = fresh, p_name = nm, p_credential_pattern = pat, p_principal_pattern = None,
       p_rules = [], p_default_action = Allow, p_kill = False \<rparr>"

definition deny_all :: "string \<Rightarrow> string \<Rightarrow> string \<Rightarrow> policy" where
  "deny_all fresh nm pat =
     \<lparr> p_id = fresh, p_name = nm, p_credential_pattern = pat, p_principal_pattern = None,
       p_rules = [], p_default_action = Deny, p_kill = False \<rparr>"

definition kill_switch :: "string \<Rightarrow> string \<Rightarrow> policy" where
  "kill_switch i pattern =
     \<lparr> p_id = i, p_name = ''halt '' @ pattern, p_credential_pattern = ''*'',
       p_principal_pattern = Some pattern, p_rules = [], p_default_action = Deny,
       p_kill = True \<rparr>"

definition with_rule :: "policy \<Rightarrow> policy_condition \<Rightarrow> policy_action \<Rightarrow> policy" where
  "with_rule p c a = p \<lparr> p_rules := p_rules p @ [\<lparr> pr_condition = c, pr_action = a \<rparr>] \<rparr>"

definition with_principal :: "policy \<Rightarrow> string \<Rightarrow> policy" where
  "with_principal p pattern = p \<lparr> p_principal_pattern := Some pattern \<rparr>"

section \<open>Searching a condition\<close>

fun condition_contains_rate_limit :: "policy_condition \<Rightarrow> bool" where
  "condition_contains_rate_limit (RateLimit _ _) = True"
| "condition_contains_rate_limit (And cs) = list_ex condition_contains_rate_limit cs"
| "condition_contains_rate_limit (Or cs) = list_ex condition_contains_rate_limit cs"
| "condition_contains_rate_limit (Not c) = condition_contains_rate_limit c"
| "condition_contains_rate_limit _ = False"

text \<open>The first result a partial function gives along a list.\<close>

fun find_map :: "('a \<Rightarrow> 'b option) \<Rightarrow> 'a list \<Rightarrow> 'b option" where
  "find_map f [] = None"
| "find_map f (x # xs) = (case f x of None \<Rightarrow> find_map f xs | Some y \<Rightarrow> Some y)"

lemma find_map_cong [fundef_cong]:
  "xs = ys \<Longrightarrow> (\<And>x. x \<in> set ys \<Longrightarrow> f x = g x) \<Longrightarrow> find_map f xs = find_map g ys"
  by (induction xs arbitrary: ys) (auto split: option.splits)

lemma find_map_None: "find_map f xs = None \<longleftrightarrow> (\<forall>x \<in> set xs. f x = None)"
  by (induction xs) (auto split: option.splits)

fun condition_invalid_rate_limit :: "policy_condition \<Rightarrow> (u32 \<times> u64) option" where
  "condition_invalid_rate_limit (RateLimit mx w) = (if mx = 0 \<or> w = 0 then Some (mx, w) else None)"
| "condition_invalid_rate_limit (And cs) = find_map condition_invalid_rate_limit cs"
| "condition_invalid_rate_limit (Or cs) = find_map condition_invalid_rate_limit cs"
| "condition_invalid_rate_limit (Not c) = condition_invalid_rate_limit c"
| "condition_invalid_rate_limit _ = None"

fun contains_spend_cap :: "policy_condition \<Rightarrow> bool" where
  "contains_spend_cap (SpendCap _ _) = True"
| "contains_spend_cap (And cs) = list_ex contains_spend_cap cs"
| "contains_spend_cap (Or cs) = list_ex contains_spend_cap cs"
| "contains_spend_cap (Not c) = contains_spend_cap c"
| "contains_spend_cap _ = False"

fun condition_nests_spend_cap :: "policy_condition \<Rightarrow> bool" where
  "condition_nests_spend_cap (And cs) = list_ex contains_spend_cap cs"
| "condition_nests_spend_cap (Or cs) = list_ex contains_spend_cap cs"
| "condition_nests_spend_cap (Not c) = contains_spend_cap c"
| "condition_nests_spend_cap _ = False"

fun condition_degenerate_time_window :: "policy_condition \<Rightarrow> (naive_time \<times> naive_time) option" where
  "condition_degenerate_time_window (TimeWindow s e) = (if s = e then Some (s, e) else None)"
| "condition_degenerate_time_window (And cs) = find_map condition_degenerate_time_window cs"
| "condition_degenerate_time_window (Or cs) = find_map condition_degenerate_time_window cs"
| "condition_degenerate_time_window (Not c) = condition_degenerate_time_window c"
| "condition_degenerate_time_window _ = None"

section \<open>Validation\<close>

text \<open>The messages of a refused policy, with the values they print.\<close>

datatype policy_refusal =
    SpendCapAssetEmpty string
  | SpendCapZero string
  | SpendCapNested string
  | TimeWindowDegenerate string naive_time naive_time
  | RateLimitZero string u32 u64
  | SpendCapDefaultNotDeny string
  | RateLimitDefaultNotDeny string

definition rate_limit_default_not_deny :: "policy \<Rightarrow> bool" where
  "rate_limit_default_not_deny p \<longleftrightarrow>
     p_default_action p \<noteq> Deny
     \<and> list_ex (\<lambda>r. condition_contains_rate_limit (pr_condition r)) (p_rules p)"

text \<open>The checks on one rule, in order; \<open>Inr\<close> says whether the rule is a spend cap and whether it
  holds a rate limit.\<close>

definition validate_rule :: "string \<Rightarrow> policy_rule \<Rightarrow> policy_refusal + (bool \<times> bool)" where
  "validate_rule nm r =
     (let c = pr_condition r;
          cap = (case c of
                   SpendCap asset per_action_max \<Rightarrow>
                     (if blank asset then Inl (SpendCapAssetEmpty nm)
                      else if per_action_max = 0 then Inl (SpendCapZero nm)
                      else Inr True)
                 | _ \<Rightarrow>
                     (if condition_nests_spend_cap c then Inl (SpendCapNested nm) else Inr False))
      in case cap of
           Inl e \<Rightarrow> Inl e
         | Inr uses_cap \<Rightarrow>
             (case condition_degenerate_time_window c of
                Some (s, e) \<Rightarrow> Inl (TimeWindowDegenerate nm s e)
              | None \<Rightarrow>
                  (case condition_invalid_rate_limit c of
                     Some (mx, w) \<Rightarrow> Inl (RateLimitZero nm mx w)
                   | None \<Rightarrow> Inr (uses_cap, condition_contains_rate_limit c))))"

fun validate_rules ::
  "string \<Rightarrow> policy_rule list \<Rightarrow> bool \<Rightarrow> bool \<Rightarrow> policy_refusal + (bool \<times> bool)" where
  "validate_rules nm [] uses_spend_cap uses_rate_limit = Inr (uses_spend_cap, uses_rate_limit)"
| "validate_rules nm (r # rs) uses_spend_cap uses_rate_limit =
     (case validate_rule nm r of
        Inl e \<Rightarrow> Inl e
      | Inr (c, l) \<Rightarrow> validate_rules nm rs (uses_spend_cap \<or> c) (uses_rate_limit \<or> l))"

definition validate :: "policy \<Rightarrow> policy_refusal + unit" where
  "validate p =
     (case validate_rules (p_name p) (p_rules p) False False of
        Inl e \<Rightarrow> Inl e
      | Inr (uses_spend_cap, uses_rate_limit) \<Rightarrow>
          if uses_spend_cap \<and> p_default_action p \<noteq> Deny then Inl (SpendCapDefaultNotDeny (p_name p))
          else if uses_rate_limit \<and> p_default_action p \<noteq> Deny
            then Inl (RateLimitDefaultNotDeny (p_name p))
          else Inr ())"

section \<open>What validation accepts\<close>

text \<open>
  The meaning of an accepted policy, stated without the order of the checks: no cap hides inside
  a connective, every cap and every limit is positive, no window is a single instant, and a
  policy that limits or caps denies by default.
\<close>

definition rule_sound :: "policy_rule \<Rightarrow> bool" where
  "rule_sound r \<longleftrightarrow>
     \<not> condition_nests_spend_cap (pr_condition r)
     \<and> (\<forall>a m. pr_condition r = SpendCap a m \<longrightarrow> \<not> blank a \<and> m \<noteq> 0)
     \<and> condition_degenerate_time_window (pr_condition r) = None
     \<and> condition_invalid_rate_limit (pr_condition r) = None"

definition policy_sound :: "policy \<Rightarrow> bool" where
  "policy_sound p \<longleftrightarrow>
     (\<forall>r \<in> set (p_rules p). rule_sound r)
     \<and> ((\<exists>r \<in> set (p_rules p). contains_spend_cap (pr_condition r)
           \<or> condition_contains_rate_limit (pr_condition r)) \<longrightarrow> p_default_action p = Deny)"

lemma nests_or_is_cap:
  "contains_spend_cap c \<Longrightarrow> \<not> condition_nests_spend_cap c \<Longrightarrow> \<exists>a m. c = SpendCap a m"
  by (cases c) auto

lemma validate_rule_Inr:
  "validate_rule nm r = Inr (c, l) \<longleftrightarrow>
     rule_sound r
     \<and> c = contains_spend_cap (pr_condition r)
     \<and> l = condition_contains_rate_limit (pr_condition r)"
  by (cases "pr_condition r")
    (auto simp: validate_rule_def rule_sound_def Let_def split: option.splits if_splits)

lemma validate_rules_Inr:
  "validate_rules nm rs u v = Inr (c, l) \<longleftrightarrow>
     (\<forall>r \<in> set rs. rule_sound r)
     \<and> c = (u \<or> (\<exists>r \<in> set rs. contains_spend_cap (pr_condition r)))
     \<and> l = (v \<or> (\<exists>r \<in> set rs. condition_contains_rate_limit (pr_condition r)))"
proof (induction rs arbitrary: u v)
  case (Cons r rs)
  show ?case
  proof (cases "validate_rule nm r")
    case (Inl e)
    then have "\<not> rule_sound r" using validate_rule_Inr [of nm r] by fastforce
    with Inl show ?thesis by simp
  next
    case (Inr cl)
    then obtain a b where "validate_rule nm r = Inr (a, b)" by (cases cl) auto
    then show ?thesis using validate_rule_Inr [of nm r a b] by (auto simp: Cons.IH)
  qed
qed auto

lemma validate_iff_sound: "validate p = Inr () \<longleftrightarrow> policy_sound p"
proof (cases "validate_rules (p_name p) (p_rules p) False False")
  case (Inl e)
  then have "\<not> (\<forall>r \<in> set (p_rules p). rule_sound r)"
    using validate_rules_Inr [of "p_name p" "p_rules p" False False] by fastforce
  with Inl show ?thesis by (auto simp: validate_def policy_sound_def)
next
  case (Inr cl)
  then obtain c l where *: "validate_rules (p_name p) (p_rules p) False False = Inr (c, l)"
    by (cases cl) auto
  then show ?thesis
    using validate_rules_Inr [of "p_name p" "p_rules p" False False c l]
    by (auto simp: validate_def policy_sound_def)
qed

lemma sound_limits_positive:
  "condition_invalid_rate_limit c = None \<Longrightarrow> c = RateLimit mx w \<Longrightarrow> mx \<noteq> 0 \<and> w \<noteq> 0"
  by (auto split: if_splits)

end
