(* ===== verification/Precedence.thy ===== *)
theory Precedence
  imports Policy_Types
begin

text \<open>
  The precedence decision of \<open>src/src/policy/precedence.rs\<close>.  \<open>resolve_precedence\<close> decides from the
  outcomes of all rules; \<open>resolve_lazily\<close> is the form the engine runs, which asks one tier at a
  time through a callback that may change the engine's state.
\<close>

section \<open>Definitions\<close>

datatype rule_outcome = RKill | RDeny | RPrompt | RAllow | RNoMatch

datatype pverdict =
    PKill
  | PDeny
  | PPrompt
  | PAllow
  | PolicyDefaultDeny
  | PolicyDefaultPrompt
  | PolicyDefaultAllow
  | EngineDefaultDeny
  | EngineDefaultAllow
  | FailClosedTail

datatype policy_decision = DAllow | DDeny string | DPrompt

definition fail_closed_tail :: pverdict where
  "fail_closed_tail = FailClosedTail"

fun decision_for :: "pverdict \<Rightarrow> string \<Rightarrow> string \<Rightarrow> policy_decision" where
  "decision_for PKill _ _ = DDeny ''denied: this principal has been halted''"
| "decision_for PDeny rule_deny_policy _ =
     DDeny (''Denied by policy '' @ [CHR 0x27] @ rule_deny_policy @ [CHR 0x27] @ '': rule matched'')"
| "decision_for PPrompt _ _ = DPrompt"
| "decision_for PolicyDefaultPrompt _ _ = DPrompt"
| "decision_for PAllow _ _ = DAllow"
| "decision_for PolicyDefaultAllow _ _ = DAllow"
| "decision_for EngineDefaultAllow _ _ = DAllow"
| "decision_for PolicyDefaultDeny _ default_deny_policy =
     DDeny (''Denied by policy '' @ [CHR 0x27] @ default_deny_policy @ [CHR 0x27] @ '': default action'')"
| "decision_for EngineDefaultDeny _ _ =
     DDeny ''no_policy: no policy matches this credential (default-deny enforcement)''"
| "decision_for FailClosedTail _ _ =
     DDeny ''denied: policy evaluation reached no decision (fail-closed)''"

definition resolve_precedence ::
  "rule_outcome list \<Rightarrow> policy_action list \<Rightarrow> bool \<Rightarrow> pverdict" where
  "resolve_precedence outcomes policy_defaults engine_default_deny =
     (if List.member outcomes RKill then PKill
      else if List.member outcomes RDeny then PDeny
      else if List.member outcomes RPrompt then PPrompt
      else if List.member outcomes RAllow then PAllow
      else if List.member policy_defaults Deny then PolicyDefaultDeny
      else if List.member policy_defaults Prompt then PolicyDefaultPrompt
      else if List.member policy_defaults Allow then PolicyDefaultAllow
      else if policy_defaults = [] then
        (if engine_default_deny then EngineDefaultDeny else EngineDefaultAllow)
      else fail_closed_tail)"

text \<open>The tiers are asked until one matches; the callback threads a state.\<close>

fun ask_tiers ::
  "(rule_outcome \<Rightarrow> 's \<Rightarrow> bool \<times> 's) \<Rightarrow> rule_outcome list \<Rightarrow> 's \<Rightarrow> rule_outcome option \<times> 's" where
  "ask_tiers matched [] s = (None, s)"
| "ask_tiers matched (t # ts) s =
     (case matched t s of (hit, s') \<Rightarrow> if hit then (Some t, s') else ask_tiers matched ts s')"

definition resolve_lazily ::
  "bool \<Rightarrow> (rule_outcome \<Rightarrow> 's \<Rightarrow> bool \<times> 's) \<Rightarrow> policy_action list \<Rightarrow> bool \<Rightarrow> 's \<Rightarrow> pverdict \<times> 's" where
  "resolve_lazily kill matched policy_defaults engine_default_deny s =
     (if kill then (resolve_precedence [RKill] policy_defaults engine_default_deny, s)
      else case ask_tiers matched [RDeny, RPrompt, RAllow] s of
             (Some t, s') \<Rightarrow> (resolve_precedence [t] policy_defaults engine_default_deny, s')
           | (None, s') \<Rightarrow> (resolve_precedence [] policy_defaults engine_default_deny, s'))"

section \<open>The strength order of outcomes\<close>

fun outcome_rank :: "rule_outcome \<Rightarrow> nat" where
  "outcome_rank RNoMatch = 0"
| "outcome_rank RAllow = 1"
| "outcome_rank RPrompt = 2"
| "outcome_rank RDeny = 3"
| "outcome_rank RKill = 4"

instantiation rule_outcome :: linorder
begin

definition less_eq_rule_outcome :: "rule_outcome \<Rightarrow> rule_outcome \<Rightarrow> bool" where
  "less_eq_rule_outcome a b = (outcome_rank a \<le> outcome_rank b)"

definition less_rule_outcome :: "rule_outcome \<Rightarrow> rule_outcome \<Rightarrow> bool" where
  "less_rule_outcome a b = (outcome_rank a < outcome_rank b)"

instance
proof
  fix x y z :: rule_outcome
  show "(x < y) = (x \<le> y \<and> \<not> y \<le> x)"
    by (auto simp: less_rule_outcome_def less_eq_rule_outcome_def)
  show "x \<le> x" by (simp add: less_eq_rule_outcome_def)
  show "x \<le> y \<Longrightarrow> y \<le> z \<Longrightarrow> x \<le> z" by (simp add: less_eq_rule_outcome_def)
  show "x \<le> y \<Longrightarrow> y \<le> x \<Longrightarrow> x = y"
    by (cases x; cases y) (simp_all add: less_eq_rule_outcome_def)
  show "x \<le> y \<or> y \<le> x" by (auto simp: less_eq_rule_outcome_def)
qed

end

text \<open>
  The specification: the strongest outcome decides; with none, the strictest default of the
  matching policies; with no matching policy, the engine's default.
\<close>

definition strongest :: "rule_outcome list \<Rightarrow> rule_outcome" where
  "strongest os = Max (insert RNoMatch (set os))"

definition precedence_spec :: "rule_outcome \<Rightarrow> policy_action list \<Rightarrow> bool \<Rightarrow> pverdict" where
  "precedence_spec t ds engine_default_deny =
     (case t of
        RKill \<Rightarrow> PKill | RDeny \<Rightarrow> PDeny | RPrompt \<Rightarrow> PPrompt | RAllow \<Rightarrow> PAllow
      | RNoMatch \<Rightarrow>
          (if ds = [] then (if engine_default_deny then EngineDefaultDeny else EngineDefaultAllow)
           else (case Max (set ds) of
                   Deny \<Rightarrow> PolicyDefaultDeny
                 | Prompt \<Rightarrow> PolicyDefaultPrompt
                 | Allow \<Rightarrow> PolicyDefaultAllow)))"

lemma Max_outcome:
  "Max (insert RNoMatch (set os)) =
     (if RKill \<in> set os then RKill else if RDeny \<in> set os then RDeny
      else if RPrompt \<in> set os then RPrompt else if RAllow \<in> set os then RAllow else RNoMatch)"
proof (rule Max_eqI)
  fix y assume "y \<in> insert RNoMatch (set os)"
  then show "y \<le> (if RKill \<in> set os then RKill else if RDeny \<in> set os then RDeny
      else if RPrompt \<in> set os then RPrompt else if RAllow \<in> set os then RAllow else RNoMatch)"
    by (cases y) (auto simp: less_eq_rule_outcome_def)
qed auto

lemma Max_action:
  "ds \<noteq> [] \<Longrightarrow> Max (set ds) =
     (if Deny \<in> set ds then Deny else if Prompt \<in> set ds then Prompt else Allow)"
proof (rule Max_eqI)
  fix y assume "y \<in> set ds"
  then show "y \<le> (if Deny \<in> set ds then Deny else if Prompt \<in> set ds then Prompt else Allow)"
    by - (cases y, auto simp: less_eq_policy_action_def)
next
  assume "ds \<noteq> []"
  then have "hd ds \<in> set ds" by simp
  then show "(if Deny \<in> set ds then Deny else if Prompt \<in> set ds then Prompt else Allow) \<in> set ds"
    by - (cases "hd ds", auto)
qed auto

lemma resolve_precedence_spec:
  "resolve_precedence os ds dd = precedence_spec (strongest os) ds dd"
proof -
  have "Allow \<in> set ds" if "ds \<noteq> []" "Deny \<notin> set ds" "Prompt \<notin> set ds"
    using that by (cases "hd ds"; cases ds) auto
  then show ?thesis
    by (auto simp: resolve_precedence_def precedence_spec_def strongest_def Max_outcome Max_action
        List.member_iff)
qed

lemma resolve_lazily_kill: "resolve_lazily True matched ds dd s = (PKill, s)"
  by (simp add: resolve_lazily_def resolve_precedence_def)

lemma resolve_lazily_sequential:
  assumes "matched RDeny s = (d, s1)" "matched RPrompt s1 = (p, s2)" "matched RAllow s2 = (a, s3)"
  shows "resolve_lazily kill matched ds dd s =
    (resolve_precedence ((if kill then [RKill] else []) @ (if d then [RDeny] else [])
       @ (if p then [RPrompt] else []) @ (if a then [RAllow] else [])) ds dd,
     if kill then s else if d then s1 else if p then s2 else s3)"
  using assms by (simp add: resolve_lazily_def resolve_precedence_def)

lemma decision_allow_iff:
  "decision_for v r d = DAllow \<longleftrightarrow> v \<in> {PAllow, PolicyDefaultAllow, EngineDefaultAllow}"
  by (cases v) auto

lemma decision_deny_iff:
  "(\<exists>m. decision_for v r d = DDeny m) \<longleftrightarrow>
     v \<in> {PKill, PDeny, PolicyDefaultDeny, EngineDefaultDeny, FailClosedTail}"
  by (cases v) auto

end
