(* ===== verification/Addresses.thy ===== *)
theory Addresses
  imports Prelude
begin

text \<open>
  Internet addresses and the classifier of the request guard, \<open>src/src/plugins/http.rs\<close>: the blocked
  ranges, the address of version 4 that an address of version 6 can carry, and the test for link-local
  and metadata addresses.
\<close>

unbundle bit_operations_syntax

section \<open>Addresses\<close>

type_synonym u16 = "16 word"
type_synonym u128 = "128 word"

datatype ip_addr = V4 u32 | V6 u128

definition segment :: "nat \<Rightarrow> u128 \<Rightarrow> u16" where
  "segment i a = ucast (drop_bit (16 * (7 - i)) a)"

definition ipv4_of_bytes :: "8 word \<Rightarrow> 8 word \<Rightarrow> 8 word \<Rightarrow> 8 word \<Rightarrow> u32" where
  "ipv4_of_bytes a b c d =
     push_bit 24 (ucast a) OR push_bit 16 (ucast b) OR push_bit 8 (ucast c) OR ucast d"

definition embedded_v4 :: "u16 \<Rightarrow> u16 \<Rightarrow> u32" where
  "embedded_v4 hi lo =
     ipv4_of_bytes (ucast (drop_bit 8 hi)) (ucast (hi AND 0xff)) (ucast (drop_bit 8 lo)) (ucast (lo AND 0xff))"

text \<open>The conversions of the standard library.\<close>

definition to_ipv4_mapped :: "u128 \<Rightarrow> u32 option" where
  "to_ipv4_mapped a =
     (if list_all (\<lambda>i. segment i a = 0) [0, 1, 2, 3, 4] \<and> segment 5 a = 0xffff
      then Some (embedded_v4 (segment 6 a) (segment 7 a)) else None)"

definition to_ipv4 :: "u128 \<Rightarrow> u32 option" where
  "to_ipv4 a =
     (if list_all (\<lambda>i. segment i a = 0) [0, 1, 2, 3, 4] \<and> (segment 5 a = 0 \<or> segment 5 a = 0xffff)
      then Some (embedded_v4 (segment 6 a) (segment 7 a)) else None)"

section \<open>Blocked ranges\<close>

definition ipv4_blocked :: "(u32 \<times> nat) list" where
  "ipv4_blocked =
     [(0x00000000, 8), (0x0A000000, 8), (0x64400000, 10), (0x7F000000, 8), (0xA9FE0000, 16),
      (0xAC100000, 12), (0xC0000000, 24), (0xC0000200, 24), (0xC0A80000, 16), (0xC6120000, 15),
      (0xC6336400, 24), (0xCB007100, 24), (0xE0000000, 4), (0xF0000000, 4), (0xC0586300, 24)]"

definition ipv6_blocked :: "(u128 \<times> nat) list" where
  "ipv6_blocked =
     [(0x0, 96), (0x0064ff9b000100000000000000000000, 48), (0x01000000000000000000000000000000, 64),
      (0x01000000000000010000000000000000, 64), (0x20010000000000000000000000000000, 23),
      (0x20010db8000000000000000000000000, 32), (0x3fff0000000000000000000000000000, 20),
      (0x5f000000000000000000000000000000, 16), (0xfc000000000000000000000000000000, 7),
      (0xfe800000000000000000000000000000, 10), (0xfec00000000000000000000000000000, 10),
      (0xff000000000000000000000000000000, 8)]"

definition v4_in_prefix :: "u32 \<Rightarrow> u32 \<Rightarrow> nat \<Rightarrow> bool" where
  "v4_in_prefix addr net len =
     (let mask = (if len = 0 then 0 else push_bit (32 - len) (- 1)) in addr AND mask = net AND mask)"

definition v6_in_prefix :: "u128 \<Rightarrow> u128 \<Rightarrow> nat \<Rightarrow> bool" where
  "v6_in_prefix addr net len =
     (let mask = (if len = 0 then 0 else push_bit (128 - len) (- 1)) in addr AND mask = net AND mask)"

definition ipv4_is_special_purpose :: "u32 \<Rightarrow> bool" where
  "ipv4_is_special_purpose addr = list_ex (\<lambda>(net, len). v4_in_prefix addr net len) ipv4_blocked"

definition ipv6_is_special_purpose :: "u128 \<Rightarrow> bool" where
  "ipv6_is_special_purpose addr = list_ex (\<lambda>(net, len). v6_in_prefix addr net len) ipv6_blocked"

section \<open>The classifiers\<close>

fun is_private_ip :: "ip_addr \<Rightarrow> bool" where
  "is_private_ip (V4 a) = ipv4_is_special_purpose a"
| "is_private_ip (V6 a) =
     (ipv6_is_special_purpose a
      \<or> (case to_ipv4_mapped a of Some v4 \<Rightarrow> ipv4_is_special_purpose v4 | None \<Rightarrow> False)
      \<or> segment 0 a = 0x0064 \<and> segment 1 a = 0xff9b
        \<and> ipv4_is_special_purpose (embedded_v4 (segment 6 a) (segment 7 a))
      \<or> segment 0 a = 0x2002 \<and> ipv4_is_special_purpose (embedded_v4 (segment 1 a) (segment 2 a)))"

definition link_local_v4 :: "u32 \<Rightarrow> bool" where
  "link_local_v4 a = v4_in_prefix a 0xa9fe0000 16"

fun is_link_local_or_metadata_ip :: "ip_addr \<Rightarrow> bool" where
  "is_link_local_or_metadata_ip (V4 a) = link_local_v4 a"
| "is_link_local_or_metadata_ip (V6 a) =
     (v6_in_prefix a 0xfe800000000000000000000000000000 10
      \<or> v6_in_prefix a 0xfd000ec2000000000000000000000254 128
      \<or> (case to_ipv4 a of Some v4 \<Rightarrow> link_local_v4 v4 | None \<Rightarrow> False)
      \<or> segment 0 a = 0x0064 \<and> segment 1 a = 0xff9b \<and> list_all (\<lambda>i. segment i a = 0) [2, 3, 4, 5]
        \<and> link_local_v4 (embedded_v4 (segment 6 a) (segment 7 a))
      \<or> segment 0 a = 0x2002 \<and> link_local_v4 (embedded_v4 (segment 1 a) (segment 2 a)))"

definition filter_public_addrs :: "ip_addr list \<Rightarrow> string + ip_addr list" where
  "filter_public_addrs addrs =
     (let public = filter (\<lambda>a. \<not> is_private_ip a) addrs
      in if public = [] then Inl ''SSRF guard: host resolved only to private/internal IP addresses''
         else Inr public)"

section \<open>Prefixes are ranges\<close>

lemma push_drop: "a AND push_bit n (- 1) = push_bit n (drop_bit n (a :: 'a::len word))"
  by (rule bit_eqI) (auto simp: bit_simps)

lemma drop_masked: "drop_bit n (a AND push_bit n (- 1)) = drop_bit n (a :: 'a::len word)"
  by (rule bit_eqI) (auto simp: bit_simps dest: bit_imp_le_length)

lemma mask_prefix:
  "a AND push_bit n (- 1) = net AND push_bit n (- 1) \<longleftrightarrow> drop_bit n a = drop_bit n (net :: 'a::len word)"
  by (metis push_drop drop_masked)

lemma drop_bit_eq_iff: "drop_bit n a = drop_bit n b \<longleftrightarrow> unat a div 2 ^ n = unat (b :: 'a::len word) div 2 ^ n"
  by (simp only: word_unat_eq_iff unat_drop_bit_eq) (simp only: drop_bit_eq_div)

lemma v4_in_prefix_iff:
  assumes "0 < len"
  shows "v4_in_prefix a net len \<longleftrightarrow> unat a div 2 ^ (32 - len) = unat net div 2 ^ (32 - len)"
proof -
  have "(len = 0) = False" using assms by simp
  then show ?thesis unfolding v4_in_prefix_def Let_def by (simp only: if_False mask_prefix drop_bit_eq_iff)
qed

lemma v6_in_prefix_iff:
  assumes "0 < len"
  shows "v6_in_prefix a net len \<longleftrightarrow> unat a div 2 ^ (128 - len) = unat net div 2 ^ (128 - len)"
proof -
  have "(len = 0) = False" using assms by simp
  then show ?thesis unfolding v6_in_prefix_def Let_def by (simp only: if_False mask_prefix drop_bit_eq_iff)
qed

section \<open>Addresses inside addresses\<close>

text \<open>The spellings of an address of version 4 inside one of version 6.\<close>

definition mapped_v6 :: "u32 \<Rightarrow> u128" where
  "mapped_v6 a = push_bit 32 0xffff OR ucast a"

definition nat64_v6 :: "u32 \<Rightarrow> u128" where
  "nat64_v6 a = push_bit 96 0x0064ff9b OR ucast a"

definition sixtofour_v6 :: "u32 \<Rightarrow> 80 word \<Rightarrow> u128" where
  "sixtofour_v6 a rest = push_bit 112 0x2002 OR push_bit 80 (ucast a) OR ucast rest"

lemma low_byte: "(ucast (w AND 0xff) :: 8 word) = ucast (w :: u16)"
proof -
  have "(0xff :: u16) = mask 8" by (simp add: mask_eq_decr_exp)
  then have "w AND 0xff = take_bit 8 w" by (simp add: take_bit_eq_mask)
  then show ?thesis by (intro bit_eqI) (simp add: bit_unsigned_iff bit_take_bit_iff)
qed

lemma embedded_v4_eq: "embedded_v4 hi lo = push_bit 16 (ucast hi) OR ucast lo"
proof (rule bit_eqI)
  fix n assume "possible_bit TYPE(u32) n"
  then have "n < 32" by simp
  then consider "n < 8" | "8 \<le> n" "n < 16" | "16 \<le> n" "n < 24" | "24 \<le> n" "n < 32" by linarith
  moreover have "16 \<le> n \<Longrightarrow> \<not> bit lo n" by (auto dest: bit_imp_le_length)
  ultimately show "bit (embedded_v4 hi lo) n \<longleftrightarrow> bit (push_bit 16 (ucast hi) OR ucast lo :: u32) n"
    unfolding embedded_v4_def ipv4_of_bytes_def low_byte
    by cases (auto simp: bit_or_iff bit_push_bit_iff bit_unsigned_iff bit_drop_bit_eq)
qed

lemma embedded_low: "embedded_v4 (segment 6 x) (segment 7 x) = ucast x"
proof (rule bit_eqI)
  fix n assume "possible_bit TYPE(u32) n"
  then have "n < 32" by simp
  then show "bit (embedded_v4 (segment 6 x) (segment 7 x)) n \<longleftrightarrow> bit (ucast x :: u32) n"
    by (cases "n < 16") (auto simp: embedded_v4_eq segment_def bit_simps dest: bit_imp_le_length)
qed

lemma embedded_6to4: "embedded_v4 (segment 1 x) (segment 2 x) = ucast (drop_bit 80 x)"
proof (rule bit_eqI)
  fix n assume "possible_bit TYPE(u32) n"
  then have "n < 32" by simp
  then show "bit (embedded_v4 (segment 1 x) (segment 2 x)) n \<longleftrightarrow> bit (ucast (drop_bit 80 x) :: u32) n"
    by (cases "n < 16") (auto simp: embedded_v4_eq segment_def bit_simps dest: bit_imp_le_length)
qed

lemma drop_ucast_v4: "32 \<le> n \<Longrightarrow> drop_bit n (ucast (a :: u32) :: u128) = 0"
  by (rule bit_eqI) (auto simp: bit_simps dest: bit_imp_le_length)

lemma segment_high:
  "i < 6 \<Longrightarrow> segment i (c OR ucast (a :: u32)) = segment i c"
  by (simp add: segment_def drop_ucast_v4)

lemma ucast_low: "ucast (push_bit n c OR ucast (a :: u32) :: u128) = a" if "32 \<le> n"
  using that by (intro bit_eqI) (auto simp: bit_simps dest: bit_imp_le_length)

lemma num_112: "16 * (7 :: nat) = 112"
  by simp

lemma six_segment: "drop_bit 112 (push_bit 112 c OR push_bit 80 (ucast (a :: u32)) OR ucast (r :: 80 word) :: u128)
    = drop_bit 112 (push_bit 112 c)"
  by (rule bit_eqI) (auto simp: bit_simps dest: bit_imp_le_length)

lemma six_embedded: "ucast (drop_bit 80 (push_bit 112 c OR push_bit 80 (ucast a) OR ucast (r :: 80 word) :: u128)) = (a :: u32)"
  by (rule bit_eqI) (auto simp: bit_simps dest: bit_imp_le_length)

lemma mapped_private:
  assumes "ipv4_is_special_purpose a"
  shows "is_private_ip (V6 (mapped_v6 a))"
proof -
  have "list_all (\<lambda>i. segment i (push_bit 32 0xffff) = 0) [0, 1, 2, 3, 4] \<and> segment 5 (push_bit 32 0xffff) = 0xffff"
    by code_simp
  moreover have "segment i (mapped_v6 a) = segment i (push_bit 32 0xffff)" if "i < 6" for i
    unfolding mapped_v6_def using that by (rule segment_high)
  moreover have "ucast (mapped_v6 a) = a" unfolding mapped_v6_def by (rule ucast_low) simp
  ultimately have "to_ipv4_mapped (mapped_v6 a) = Some a" by (simp add: to_ipv4_mapped_def embedded_low)
  with assms show ?thesis by simp
qed

lemma nat64_private:
  assumes "ipv4_is_special_purpose a"
  shows "is_private_ip (V6 (nat64_v6 a))"
proof -
  have "segment 0 (push_bit 96 0x0064ff9b) = 0x0064 \<and> segment 1 (push_bit 96 0x0064ff9b) = 0xff9b" by code_simp
  moreover have "segment i (nat64_v6 a) = segment i (push_bit 96 0x0064ff9b)" if "i < 6" for i
    unfolding nat64_v6_def using that by (rule segment_high)
  moreover have "ucast (nat64_v6 a) = a" unfolding nat64_v6_def by (rule ucast_low) simp
  ultimately show ?thesis using assms by (simp add: embedded_low)
qed

lemma sixtofour_private:
  assumes "ipv4_is_special_purpose a"
  shows "is_private_ip (V6 (sixtofour_v6 a rest))"
proof -
  have "(ucast (drop_bit 112 (push_bit 112 0x2002 :: u128)) :: u16) = 0x2002" by code_simp
  then have "segment 0 (sixtofour_v6 a rest) = 0x2002"
    unfolding segment_def sixtofour_v6_def minus_nat.diff_0 num_112 six_segment .
  moreover have "ucast (drop_bit 80 (sixtofour_v6 a rest)) = a" unfolding sixtofour_v6_def by (rule six_embedded)
  ultimately show ?thesis using assms by (simp add: embedded_6to4 [unfolded One_nat_def])
qed

end
