(* ===== verification/Url_Canon.thy ===== *)
theory Url_Canon
  imports Strings Addresses
begin

text \<open>
  Canonical URLs and patterns, \<open>src/src/policy/url_canon.rs\<close>.  The URL parser, the glob matcher
  and the percent coder are packages outside the repository: \<open>url_lib\<close> holds the operations of
  the parser (a parsed URL is its serialisation), the glob constructor and the two coders.
\<close>

section \<open>The packages\<close>

datatype url_host = HostDomain string | HostAddress string

record url_lib =
  ul_parse :: "string \<Rightarrow> string option"
  ul_parse_base :: "string \<Rightarrow> string \<Rightarrow> string option"
  ul_host :: "string \<Rightarrow> url_host option"
  ul_host_str :: "string \<Rightarrow> string option"
  ul_port :: "string \<Rightarrow> nat option"
  ul_scheme :: "string \<Rightarrow> string"
  ul_port_or_default :: "string \<Rightarrow> nat option"
  ul_ip :: "string \<Rightarrow> ip_addr option"
  ul_username :: "string \<Rightarrow> string"
  ul_password :: "string \<Rightarrow> string option"
  ul_path :: "string \<Rightarrow> string"
  ul_query :: "string \<Rightarrow> string option"
  ul_drop_fragment :: "string \<Rightarrow> string"
  ul_set_host :: "string \<Rightarrow> string \<Rightarrow> string option"
  ul_encode :: "string \<Rightarrow> string"
  ul_decode :: "string \<Rightarrow> string"
  ul_glob :: "string \<Rightarrow> (string \<Rightarrow> bool) option"

section \<open>Canonical URLs\<close>

definition dummy_base :: string where
  "dummy_base = ''http://relative.invalid''"

definition star_word :: string where
  "star_word = ''zzstarzz0''"

definition is_relative :: "string \<Rightarrow> bool" where
  "is_relative raw \<longleftrightarrow>
     starts_with raw ''/'' \<and> \<not> starts_with raw ''//'' \<and> \<not> starts_with raw [CHR 0x2F, CHR 0x5C]"

definition is_unreserved :: "nat \<Rightarrow> bool" where
  "is_unreserved b \<longleftrightarrow> is_alnum (char_of b) \<or> b = 45 \<or> b = 46 \<or> b = 95 \<or> b = 126"

definition escape_byte :: "nat \<Rightarrow> string" where
  "escape_byte b = [CHR 0x25, hex_upper (b div 16), hex_upper (b mod 16)]"

text \<open>The value of the two hexadecimal digits that follow a percent sign.\<close>

definition escape_at :: "string \<Rightarrow> nat option" where
  "escape_at s =
     (case s of
        h # l # _ \<Rightarrow>
          (case hex_value h of
             None \<Rightarrow> None
           | Some a \<Rightarrow> (case hex_value l of None \<Rightarrow> None | Some b \<Rightarrow> Some (a * 16 + b)))
      | _ \<Rightarrow> None)"

fun normalize_percent :: "string \<Rightarrow> string" where
  "normalize_percent [] = []"
| "normalize_percent (c # s) =
     (if c = CHR 0x25 then
        (case escape_at s of
           Some b \<Rightarrow>
             (if is_unreserved b then [char_of b] else escape_byte b) @ normalize_percent (drop 2 s)
         | None \<Rightarrow> ''%25'' @ normalize_percent s)
      else c # normalize_percent s)"

definition one_pass :: "url_lib \<Rightarrow> string \<Rightarrow> string option" where
  "one_pass L raw =
     (if is_relative raw then
        (case ul_parse L dummy_base of
           None \<Rightarrow> None
         | Some base \<Rightarrow>
             (case ul_parse_base L base raw of
                None \<Rightarrow> None
              | Some u \<Rightarrow>
                  if ul_host_str L u \<noteq> Some ''relative.invalid'' \<or> ul_port L u \<noteq> None
                     \<or> ul_username L u \<noteq> [] \<or> ul_password L u \<noteq> None
                  then None
                  else Some (normalize_percent
                    (ul_path L u @ (case ul_query L u of None \<Rightarrow> [] | Some q \<Rightarrow> ''?'' @ q)))))
      else
        (case ul_parse L raw of
           None \<Rightarrow> None
         | Some u0 \<Rightarrow>
             if ul_username L u0 \<noteq> [] \<or> ul_password L u0 \<noteq> None then None
             else
               (let u = ul_drop_fragment L u0 in
                case ul_host L u of
                  Some (HostDomain h) \<Rightarrow>
                    (if starts_with (rev h) ''.'' then
                       (let h' = trim_end_char (CHR ''.'') h in
                        if h' = [] then None
                        else (case ul_set_host L u h' of
                                None \<Rightarrow> None
                              | Some u' \<Rightarrow> Some (normalize_percent u')))
                     else Some (normalize_percent u))
                | _ \<Rightarrow> Some (normalize_percent u))))"

definition canonical_url :: "url_lib \<Rightarrow> string \<Rightarrow> string option" where
  "canonical_url L raw =
     (case one_pass L raw of
        None \<Rightarrow> None
      | Some first \<Rightarrow>
          (case one_pass L first of
             None \<Rightarrow> None
           | Some second \<Rightarrow>
               if first = second then Some second
               else (case one_pass L second of
                       None \<Rightarrow> None
                     | Some third \<Rightarrow> if third = second then Some second else None)))"

section \<open>Canonical patterns\<close>

datatype pattern_warning =
    StarAfterHost
  | StarInHost
  | MeaningChanged
  | Unparseable
  | ExactUrlMissesQuery
  | BracesAreLiteral
  | QueryInPattern

record canon_pattern =
  cp_text :: string
  cp_warnings :: "pattern_warning list"

definition host_part :: "string \<Rightarrow> string option" where
  "host_part s =
     (case split_once_str ''://'' s of
        None \<Rightarrow> None
      | Some (_, rest) \<Rightarrow>
          (let auth = take (cut_at ''/?#'' rest) rest in
           Some (case rsplit_once (CHR ''@'') auth of None \<Rightarrow> auth | Some (_, h) \<Rightarrow> h)))"

definition drop_port :: "string \<Rightarrow> string \<Rightarrow> string" where
  "drop_port port t =
     (let t' = replace_str (port @ ''?'') ''?'' (replace_str (port @ ''/'') ''/'' t) in
      case strip_suffix t' port of None \<Rightarrow> t' | Some x \<Rightarrow> x)"

definition loose :: "url_lib \<Rightarrow> string \<Rightarrow> string" where
  "loose L s =
     trim_end_char (CHR ''/'')
       (drop_port '':80'' (drop_port '':443'' (ascii_lower (utf8_lossy (ul_decode L s)))))"

fun star_cuts_an_escape :: "string \<Rightarrow> bool" where
  "star_cuts_an_escape [] = False"
| "star_cuts_an_escape (c # s) =
     ((c = CHR 0x25 \<and> List.member (take 2 s) (CHR ''*'')) \<or> star_cuts_an_escape s)"

definition placeholder :: string where
  "placeholder = ''{credential}''"

definition braces_are_literal :: "string \<Rightarrow> bool" where
  "braces_are_literal pattern \<longleftrightarrow> contains_any ''{}'' (replace_str placeholder [] pattern)"

definition exact_url_misses_query :: "string \<Rightarrow> bool" where
  "exact_url_misses_query pattern =
     (if pattern = [] \<or> contains_any ''*?[]'' pattern then False
      else case split_once_str ''://'' pattern of
             Some (scheme, rest) \<Rightarrow>
               scheme \<noteq> [] \<and> rest \<noteq> [] \<and> \<not> contains_any ''/?#'' (take 1 rest)
           | None \<Rightarrow> is_relative pattern)"

definition scheme_char :: "char \<Rightarrow> bool" where
  "scheme_char c \<longleftrightarrow> is_alnum c \<or> c = CHR ''+'' \<or> c = CHR ''-'' \<or> c = CHR ''.''"

definition canonical_pattern_core :: "url_lib \<Rightarrow> string \<Rightarrow> canon_pattern" where
  "canonical_pattern_core L pattern =
     (if contains_str star_word pattern
      then \<lparr> cp_text = pattern, cp_warnings = [Unparseable] \<rparr>
      else
        let prefix_mode = (strip_suffix pattern ''*'' \<noteq> None);
            body = (case strip_suffix pattern ''*'' of Some b \<Rightarrow> b | None \<Rightarrow> pattern)
        in
        if body = [] then \<lparr> cp_text = pattern, cp_warnings = [] \<rparr>
        else if (case strip_suffix body ''://'' of
                   Some scheme \<Rightarrow> list_all scheme_char scheme | None \<Rightarrow> False)
        then \<lparr> cp_text = ascii_lower pattern, cp_warnings = [] \<rparr>
        else if \<not> (contains_str ''://'' body \<or> is_relative body) then
          (let scheme_prefix = (prefix_mode
                 \<and> list_ex (\<lambda>s. starts_with s body) [''http://'', ''https://''])
           in \<lparr> cp_text = pattern,
                cp_warnings =
                  (if pattern \<noteq> ''*'' \<and> \<not> scheme_prefix
                      \<and> contains_any ''*'' (take (cut_at ''/'' pattern) pattern)
                   then [StarInHost] else []) \<rparr>)
        else
          let rest = map_option snd (split_once_str ''://'' body) in
          if \<not> prefix_mode
             \<and> (case rest of Some r \<Rightarrow> contains_any ''?'' (take (cut_at ''/'' r) r) | None \<Rightarrow> False)
          then \<lparr> cp_text = pattern, cp_warnings = [Unparseable] \<rparr>
          else
            case canonical_url L (if prefix_mode then body else replace_str ''*'' star_word body) of
              None \<Rightarrow> \<lparr> cp_text = pattern, cp_warnings = [Unparseable] \<rparr>
            | Some canon0 \<Rightarrow>
                let canon = (if prefix_mode then canon0 else replace_str star_word ''*'' canon0);
                    host_star = (case host_part body of Some h \<Rightarrow> contains_any ''*'' h | None \<Rightarrow> False);
                    host_only = (prefix_mode
                      \<and> (case rest of Some r \<Rightarrow> \<not> contains_any ''/?#'' r | None \<Rightarrow> False))
                in \<lparr> cp_text =
                       (if host_only then trim_end_char (CHR ''/'') canon @ ''*''
                        else if prefix_mode then canon @ ''*''
                        else canon),
                     cp_warnings =
                       (if host_star then [StarInHost] else [])
                       @ (if host_only then [StarAfterHost] else [])
                       @ (if loose L body \<noteq> loose L canon \<or> star_cuts_an_escape pattern
                          then [MeaningChanged] else []) \<rparr>)"

definition canonical_pattern :: "url_lib \<Rightarrow> string \<Rightarrow> canon_pattern" where
  "canonical_pattern L pattern =
     (let canon = canonical_pattern_core L pattern in
      canon \<lparr> cp_warnings := cp_warnings canon
        @ (if braces_are_literal pattern then [BracesAreLiteral] else [])
        @ (if exact_url_misses_query pattern then [ExactUrlMissesQuery] else [])
        @ (if contains_any ''?'' pattern then [QueryInPattern] else []) \<rparr>)"

text \<open>
  The alternatives of a pattern with braces.  \<open>brace_body\<close> reads up to the closing brace;
  a nested or unclosed brace has no expansion.
\<close>

fun brace_body :: "string \<Rightarrow> (string \<times> string) option" where
  "brace_body [] = None"
| "brace_body (c # s) =
     (if c = CHR ''}'' then Some ([], s)
      else if c = CHR ''{'' then None
      else (case brace_body s of None \<Rightarrow> None | Some (b, r) \<Rightarrow> Some (c # b, r)))"

lemma brace_body_length: "brace_body s = Some (b, r) \<Longrightarrow> length r < length s"
  by (induction s arbitrary: b r) (auto split: if_splits option.splits)

function expand_from :: "string \<Rightarrow> string list \<Rightarrow> string list option" where
  "expand_from [] out = Some out"
| "expand_from (c # s) out =
     (if c = CHR ''{'' then
        (case brace_body s of
           None \<Rightarrow> None
         | Some (body, r) \<Rightarrow>
             if \<not> contains_any '','' body then None
             else
               (let alts = split_on (CHR '','') body in
                if 64 < length out * length alts then None
                else expand_from r (concat (map (\<lambda>p. map (\<lambda>a. p @ a) alts) out))))
      else if c = CHR ''}'' then None
      else expand_from s (map (\<lambda>p. p @ [c]) out))"
  by pat_completeness auto
termination
  by (relation "measure (\<lambda>(s, out). length s)") (auto dest: brace_body_length)

definition expand_brace_alternation :: "string \<Rightarrow> string list option" where
  "expand_brace_alternation pattern =
     map_option (map (\<lambda>p. replace_str [CHR 0x01] placeholder p))
       (expand_from (replace_str placeholder [CHR 0x01] pattern) [[]])"

section \<open>Matching\<close>

definition split_url :: "string \<Rightarrow> (string \<times> string \<times> string) option" where
  "split_url url =
     (case split_once_str ''://'' url of
        None \<Rightarrow> None
      | Some (scheme, after) \<Rightarrow>
          if scheme = [] \<or> \<not> list_all scheme_char scheme then None
          else (let n = cut_at ''/?#'' after in Some (scheme, take n after, drop n after)))"

text \<open>The position of the last colon outside square brackets.\<close>

fun port_at :: "string \<Rightarrow> nat \<Rightarrow> nat \<Rightarrow> nat option \<Rightarrow> nat option" where
  "port_at [] i depth at = at"
| "port_at (c # s) i depth at =
     (if c = CHR ''['' then port_at s (Suc i) (Suc depth) at
      else if c = CHR '']'' then port_at s (Suc i) (depth - 1) at
      else if c = CHR '':'' \<and> depth = 0 then port_at s (Suc i) depth (Some i)
      else port_at s (Suc i) depth at)"

definition split_port :: "string \<Rightarrow> string \<times> string option" where
  "split_port authority =
     (case port_at authority 0 0 None of
        Some i \<Rightarrow> (take i authority, Some (drop (i + 1) authority))
      | None \<Rightarrow> (authority, None))"

definition part_matches :: "url_lib \<Rightarrow> string \<Rightarrow> string \<Rightarrow> bool" where
  "part_matches L pattern txt = (case ul_glob L pattern of Some g \<Rightarrow> g txt | None \<Rightarrow> False)"

definition url_glob_matches :: "url_lib \<Rightarrow> (string \<Rightarrow> bool) \<Rightarrow> string \<Rightarrow> string \<Rightarrow> bool" where
  "url_glob_matches L glob url pattern =
     (case split_url url of
        None \<Rightarrow> glob url
      | Some (scheme, authority, rest) \<Rightarrow>
          (case (case split_once_str ''://'' pattern of
                   Some (s, a) \<Rightarrow>
                     (if \<not> contains_any ''/'' s then Some (Some s, a)
                      else if starts_with pattern ''*'' then Some (None, pattern) else None)
                 | None \<Rightarrow> if starts_with pattern ''*'' then Some (None, pattern) else None) of
             None \<Rightarrow> False
           | Some (p_scheme, p_after) \<Rightarrow>
               (let n = cut_at ''/'' p_after;
                    (p_host, p_port) = split_port (take n p_after);
                    (host, port) = split_port authority
                in (case p_scheme of None \<Rightarrow> True | Some s \<Rightarrow> part_matches L s scheme)
                   \<and> part_matches L p_host host
                   \<and> (case (p_port, port) of
                        (None, None) \<Rightarrow> True
                      | (Some pp, Some p) \<Rightarrow> part_matches L pp p
                      | _ \<Rightarrow> False)
                   \<and> part_matches L (drop n p_after) rest)))"

definition canonical_matches :: "url_lib \<Rightarrow> string \<Rightarrow> string \<Rightarrow> bool" where
  "canonical_matches L url pattern =
     (case strip_suffix pattern ''*'' of
        Some prefix \<Rightarrow>
          (if \<not> starts_with url prefix then False
           else if (case split_once_str ''://'' prefix of
                      Some (_, r) \<Rightarrow> r \<noteq> [] \<and> \<not> contains_any ''/'' r | None \<Rightarrow> False)
           then (let rest = drop (length prefix) url in
                 rest = [] \<or> contains_any ''/:?'' (take 1 rest))
           else True)
      | None \<Rightarrow>
          (case ul_glob L pattern of
             Some glob \<Rightarrow> url_glob_matches L glob url pattern
           | None \<Rightarrow> url = pattern))"

section \<open>The URL policy judges\<close>

definition effective_url :: "url_lib \<Rightarrow> string \<Rightarrow> (string \<times> string) list \<Rightarrow> string option" where
  "effective_url L url query =
     (case canonical_url L url of
        None \<Rightarrow> None
      | Some base \<Rightarrow>
          if query = [] then Some base
          else
            (let qs = join ''&''
                   (map (\<lambda>(k, v). ul_encode L k @ ''='' @ ul_encode L v) (sort_key fst query))
             in canonical_url L (base @ (if contains_any ''?'' base then ''&'' else ''?'') @ qs)))"

text \<open>The printed form of a value that is not a string is the serialiser's.\<close>

definition policy_url :: "url_lib \<Rightarrow> (json \<Rightarrow> string) \<Rightarrow> json \<Rightarrow> string option" where
  "policy_url L show_json params =
     (case Option.bind (j_get params ''url'') j_str of
        None \<Rightarrow> None
      | Some raw \<Rightarrow>
          (let query = (case j_get params ''query'' of
                 Some (JObj m) \<Rightarrow>
                   map (\<lambda>(k, v). (k, case j_str v of Some s \<Rightarrow> s | None \<Rightarrow> show_json v)) m
               | _ \<Rightarrow> [])
           in Some (case effective_url L raw query of Some u \<Rightarrow> u | None \<Rightarrow> [])))"

section \<open>Broadened matching\<close>

definition strip_segments :: "string \<Rightarrow> string" where
  "strip_segments path =
     join ''/'' (map (\<lambda>seg. take (cut_at '';'' seg) seg) (split_on (CHR ''/'') path))"

definition strip_path_params :: "string \<Rightarrow> string" where
  "strip_path_params base =
     (case find_str ''://'' base of
        None \<Rightarrow> strip_segments base
      | Some i \<Rightarrow>
          (let a = i + 3 in
           case find_str ''/'' (drop a base) of
             None \<Rightarrow> base
           | Some j \<Rightarrow> take (a + j) base @ strip_segments (drop (a + j) base)))"

fun squeeze_slashes :: "bool \<Rightarrow> string \<Rightarrow> string" where
  "squeeze_slashes after_slash [] = []"
| "squeeze_slashes after_slash (c # s) =
     (if c = CHR ''/'' \<and> after_slash then squeeze_slashes True s
      else c # squeeze_slashes (c = CHR ''/'') s)"

definition fold_slashes :: "url_lib \<Rightarrow> string \<Rightarrow> string" where
  "fold_slashes L base =
     (let fold = (\<lambda>head path.
            let joined = head @ squeeze_slashes False
                  (replace_str ''%2f'' ''/'' (replace_str ''%2F'' ''/'' path))
            in case canonical_url L joined of Some u \<Rightarrow> u | None \<Rightarrow> joined)
      in case find_str ''://'' base of
           Some i \<Rightarrow>
             (let a = i + 3 in
              case find_str ''/'' (drop a base) of
                Some j \<Rightarrow> fold (take (a + j) base) (drop (a + j) base)
              | None \<Rightarrow> base)
         | None \<Rightarrow> fold [] base)"

text \<open>The offsets of the ampersands, last first.\<close>

definition amp_cuts :: "string \<Rightarrow> nat list" where
  "amp_cuts query = rev (filter (\<lambda>i. query ! i = CHR ''&'') [0..<length query])"

definition query_cuts :: "string \<Rightarrow> nat list" where
  "query_cuts query = length query # amp_cuts query @ (if query = [] then [] else [0])"

definition base_forms :: "string \<Rightarrow> string list" where
  "base_forms b =
     b # (case strip_suffix b ''/'' of Some x \<Rightarrow> [x] | None \<Rightarrow> []) @ [trim_end_char (CHR ''/'') b]"

definition url_matches_for :: "url_lib \<Rightarrow> string \<Rightarrow> string \<Rightarrow> bool \<Rightarrow> bool" where
  "url_matches_for L raw_url raw_pattern broaden =
     (case canonical_url L raw_url of
        None \<Rightarrow> False
      | Some u \<Rightarrow>
          (let p = cp_text (canonical_pattern L raw_pattern) in
           if canonical_matches L u p then True
           else if \<not> broaden then False
           else
             (let n = cut_at ''?'' u;
                  base = take n u;
                  query = drop n u;
                  no_params = strip_path_params base;
                  bases = concat (map base_forms
                    [base, no_params, fold_slashes L base, fold_slashes L no_params])
              in list_ex (\<lambda>b. list_ex (\<lambda>at. canonical_matches L (b @ take at query) p)
                    (query_cuts query)) bases)))"

section \<open>Facts\<close>

lemma canonical_url_fixed: "canonical_url L raw = Some c \<Longrightarrow> one_pass L c = Some c"
  by (auto simp: canonical_url_def split: option.splits if_splits)

lemma canonical_url_idem: "canonical_url L raw = Some c \<Longrightarrow> canonical_url L c = Some c"
  using canonical_url_fixed by (simp add: canonical_url_def)

lemma url_matches_broaden: "url_matches_for L u p False \<Longrightarrow> url_matches_for L u p True"
  by (auto simp: url_matches_for_def Let_def split: option.splits if_splits)

subsection \<open>Percent coding\<close>

lemma hex_value_upper: "n < 16 \<Longrightarrow> hex_value (hex_upper n) = Some n"
  by (auto simp: hex_value_def hex_upper_def Let_def)

lemma hex_value_less: "hex_value c = Some n \<Longrightarrow> n < 16"
  by (auto simp: hex_value_def Let_def split: if_splits)

lemma escape_at_less: "escape_at s = Some b \<Longrightarrow> b < 256"
  by (auto simp: escape_at_def dest!: hex_value_less split: list.splits option.splits)

lemma escape_at_escape: "b < 256 \<Longrightarrow> escape_at (tl (escape_byte b) @ r) = Some b"
  by (simp add: escape_at_def escape_byte_def hex_value_upper)

lemma percent_reserved: "\<not> is_unreserved 37"
  by (simp add: is_unreserved_def is_alnum_def Let_def)

lemma unreserved_not_percent:
  assumes "is_unreserved b" "b < 256"
  shows "char_of b \<noteq> CHR 0x25"
proof
  assume "char_of b = CHR 0x25"
  then have "byte (char_of b) = byte (CHR 0x25)" by simp
  then have "b = 37" using assms(2) by (simp add: byte_def)
  with assms(1) percent_reserved show False by simp
qed

lemma escape_percent: "escape_byte 37 = ''%25''"
  by code_simp

lemma normalize_percent_escape:
  assumes "b < 256" "\<not> is_unreserved b"
  shows "normalize_percent (escape_byte b @ r) = escape_byte b @ normalize_percent r"
proof -
  have "escape_byte b @ r = CHR 0x25 # (tl (escape_byte b) @ r)"
    by (simp add: escape_byte_def)
  then show ?thesis
    using assms escape_at_escape [of b r] by (simp add: escape_byte_def)
qed

lemma normalize_percent_idem: "normalize_percent (normalize_percent s) = normalize_percent s"
proof (induction s rule: normalize_percent.induct)
  case (2 c s)
  show ?case
  proof (cases "c = CHR 0x25")
    case True
    show ?thesis
    proof (cases "escape_at s")
      case None
      with True 2 show ?thesis
        using normalize_percent_escape [of 37] by (simp add: percent_reserved escape_percent)
    next
      case (Some b)
      with True 2 show ?thesis
        using normalize_percent_escape [of b] unreserved_not_percent [of b] escape_at_less [of s b]
        by simp
    qed
  next
    case False
    with 2 show ?thesis by simp
  qed
qed simp

subsection \<open>Matching\<close>

lemma strip_suffix_Some: "strip_suffix s p = Some t \<longleftrightarrow> s = t @ p"
proof
  assume "strip_suffix s p = Some t"
  then show "s = t @ p"
    by (auto simp: strip_suffix_def starts_with_append split: if_splits)
      (metis append_eq_conv_conj diff_diff_cancel length_append length_rev rev_append rev_rev_ident
        diff_add_inverse2)
qed (simp add: strip_suffix_def starts_with_def)

lemma find_str_scheme:
  "CHR '':'' \<notin> set a \<Longrightarrow> find_str ''://'' (a @ ''://'' @ t) = Some (length a)"
  by (induction a) (auto simp: starts_with_def)

lemma split_once_scheme:
  "CHR '':'' \<notin> set a \<Longrightarrow> split_once_str ''://'' (a @ ''://'' @ t) = Some (a, t)"
  using find_str_scheme [of a t] by (simp add: split_once_str_def)

lemma cut_at_append:
  "set cs \<inter> set h = {} \<Longrightarrow> cut_at cs (h @ r) = length h + cut_at cs r"
  by (induction h) (auto simp: cut_at_def List.member_iff)

lemma prefix_host_matches:
  assumes "CHR '':'' \<notin> set scheme" "h \<noteq> []" "CHR ''/'' \<notin> set h"
    and "canonical_matches L url (scheme @ ''://'' @ h @ ''*'')"
  obtains rest where "url = scheme @ ''://'' @ h @ rest"
    and "rest = [] \<or> hd rest \<in> {CHR ''/'', CHR '':'', CHR ''?''}"
proof -
  let ?p = "scheme @ ''://'' @ h"
  have 1: "strip_suffix (scheme @ ''://'' @ h @ ''*'') ''*'' = Some ?p"
    by (simp add: strip_suffix_Some)
  have 2: "split_once_str ''://'' ?p = Some (scheme, h)"
    using assms(1) split_once_scheme by blast
  have 3: "\<not> contains_any ''/'' h" using assms(3) by (simp add: contains_any_iff)
  have m: "starts_with url ?p \<and>
      (drop (length ?p) url = [] \<or> contains_any ''/:?'' (take 1 (drop (length ?p) url)))"
    using assms(2,4) unfolding canonical_matches_def Let_def 1 option.case 2 prod.case
    by (simp add: 3 split: if_splits)
  define rest where "rest = drop (length ?p) url"
  from m have u: "url = ?p @ rest"
    unfolding rest_def starts_with_def by (metis append_take_drop_id)
  from m have "rest = [] \<or> contains_any ''/:?'' (take 1 rest)" by (simp only: rest_def)
  then have "rest = [] \<or> hd rest \<in> {CHR ''/'', CHR '':'', CHR ''?''}"
    by (cases rest) (auto simp: contains_any_iff)
  with u that show thesis by simp
qed

lemma prefix_host_authority:
  assumes scheme: "scheme \<noteq> []" "list_all scheme_char scheme"
    and host: "h \<noteq> []" "set h \<inter> set ''/?#'' = {}"
    and m: "canonical_matches L url (scheme @ ''://'' @ h @ ''*'')"
  shows "\<exists>auth rest. split_url url = Some (scheme, auth, rest)
      \<and> (auth = h \<or> (\<exists>port. auth = h @ '':'' @ port))"
proof -
  have c: "CHR '':'' \<notin> set scheme"
    using scheme(2) by (auto simp: list_all_iff scheme_char_def is_alnum_def byte_def Let_def)
  obtain rest where u: "url = scheme @ ''://'' @ h @ rest"
    and r: "rest = [] \<or> hd rest \<in> {CHR ''/'', CHR '':'', CHR ''?''}"
    using prefix_host_matches [OF c host(1) _ m] host(2) by auto
  have s: "split_url url = Some (scheme, h @ take (cut_at ''/?#'' rest) rest, drop (cut_at ''/?#'' rest) rest)"
    using scheme host(2) split_once_scheme [OF c, of "h @ rest"]
    by (simp add: split_url_def u cut_at_append Let_def)
  have "take (cut_at ''/?#'' rest) rest = [] \<or> (\<exists>port. take (cut_at ''/?#'' rest) rest = '':'' @ port)"
    using r by (cases rest) (auto simp: cut_at_def List.member_iff)
  with s show ?thesis by force
qed

lemma query_cuts_amp: "i < length q \<Longrightarrow> q ! i = CHR ''&'' \<Longrightarrow> i \<in> set (query_cuts q)"
  by (simp add: query_cuts_def amp_cuts_def)

lemma appended_parameters_match:
  assumes m: "canonical_matches L m (cp_text (canonical_pattern L pat))"
    and u: "canonical_url L raw = Some (m @ x)"
    and x: "x = [] \<or> hd x = (if CHR ''?'' \<in> set m then CHR ''&'' else CHR ''?'')"
  shows "url_matches_for L raw pat True"
proof -
  let ?p = "cp_text (canonical_pattern L pat)"
  let ?n = "cut_at ''?'' (m @ x)"
  let ?base = "take ?n (m @ x)" and ?query = "drop ?n (m @ x)"
  have "\<exists>at \<in> set (query_cuts ?query). canonical_matches L (?base @ take at ?query) ?p"
  proof (cases "CHR ''?'' \<in> set m")
    case True
    then obtain b q where mb: "m = b @ CHR ''?'' # q" "CHR ''?'' \<notin> set b"
      by (metis split_list_first)
    then have n: "?n = length b"
      using cut_at_append [of "''?''" b "CHR ''?'' # q @ x"] by (simp add: cut_at_def)
    have "length (CHR ''?'' # q) \<in> set (query_cuts ?query)"
    proof (cases "x = []")
      case True
      with n mb show ?thesis by (simp add: query_cuts_def)
    next
      case False
      with x True obtain x' where "x = CHR ''&'' # x'" by (cases x) auto
      with n mb show ?thesis by (intro query_cuts_amp) (simp_all add: nth_append)
    qed
    moreover have "?base @ take (length (CHR ''?'' # q)) ?query = m" using n mb by simp
    ultimately show ?thesis using m by (metis (no_types))
  next
    case False
    then have n: "?n = length m"
      using x cut_at_append [of "''?''" m x] by (cases x) (auto simp: cut_at_def)
    have "0 \<in> set (query_cuts ?query)" using n by (auto simp: query_cuts_def)
    moreover have "?base @ take 0 ?query = m" using n by simp
    ultimately show ?thesis using m by (metis (no_types))
  qed
  then show ?thesis
    by (auto simp: url_matches_for_def u Let_def base_forms_def list_ex_iff)
qed

end
