(* ===== verification/Refusal_Classes.thy ===== *)
theory Refusal_Classes
  imports Strings
begin

text \<open>
  The vocabulary of refusals, \<open>src/src/refusal.rs\<close>: the closed reason classes, the entry points, the
  filter that every name passes before it is recorded, and the context of a refusal.
\<close>

section \<open>Classes and entry points\<close>

datatype refusal_class =
    RefNotGranted
  | RefPolicyDeny
  | RefKillFence
  | RefRateLimit
  | RefSpendCap
  | RefCrossTenant
  | RefTokenUnusable
  | RefLlmChannelOnly
  | RefModelUnpriced
  | RefModifierUnpriced
  | RefProviderDisabled
  | RefCapabilityUndeclared
  | RefApprovalUnavailable
  | RefDecisionUnavailable

definition all_refusal_classes :: "refusal_class list" where
  "all_refusal_classes =
     [RefNotGranted, RefPolicyDeny, RefKillFence, RefRateLimit, RefSpendCap, RefCrossTenant,
      RefTokenUnusable, RefLlmChannelOnly, RefModelUnpriced, RefModifierUnpriced, RefProviderDisabled,
      RefCapabilityUndeclared, RefApprovalUnavailable, RefDecisionUnavailable]"

fun class_name :: "refusal_class \<Rightarrow> string" where
  "class_name RefNotGranted = ''not_granted''"
| "class_name RefPolicyDeny = ''policy_deny''"
| "class_name RefKillFence = ''kill_fence''"
| "class_name RefRateLimit = ''rate_limit''"
| "class_name RefSpendCap = ''spend_cap''"
| "class_name RefCrossTenant = ''cross_tenant''"
| "class_name RefTokenUnusable = ''token_unusable''"
| "class_name RefLlmChannelOnly = ''llm_channel_only''"
| "class_name RefModelUnpriced = ''model_unpriced''"
| "class_name RefModifierUnpriced = ''modifier_unpriced''"
| "class_name RefProviderDisabled = ''provider_disabled''"
| "class_name RefCapabilityUndeclared = ''capability_undeclared''"
| "class_name RefApprovalUnavailable = ''approval_unavailable''"
| "class_name RefDecisionUnavailable = ''decision_unavailable''"

datatype refusal_entry = EntryMcp | EntryExecute | EntryLlm | EntryApprovalResume

fun entry_name :: "refusal_entry \<Rightarrow> string" where
  "entry_name EntryMcp = ''mcp''"
| "entry_name EntryExecute = ''execute''"
| "entry_name EntryLlm = ''llm''"
| "entry_name EntryApprovalResume = ''approval_resume''"

lemma class_name_inj [simp]: "class_name c = class_name d \<longleftrightarrow> c = d"
  by (cases c; cases d) simp_all

lemma all_refusal_classes_all [simp]: "c \<in> set all_refusal_classes"
  by (cases c) (simp_all add: all_refusal_classes_def)

lemma all_refusal_classes_distinct: "distinct all_refusal_classes"
  by (simp add: all_refusal_classes_def)

section \<open>Names\<close>

definition max_name_len :: nat where
  "max_name_len = 128"

definition invalid_name :: string where
  "invalid_name = ''invalid_name''"

definition plain_name :: "string \<Rightarrow> bool" where
  "plain_name s \<longleftrightarrow>
     s \<noteq> [] \<and> length s \<le> max_name_len
     \<and> list_all (\<lambda>c. is_alnum c \<or> c = CHR ''.'' \<or> c = CHR ''_'' \<or> c = CHR '':'' \<or> c = CHR ''-'') s"

definition sanitize_name :: "string \<Rightarrow> string" where
  "sanitize_name s =
     (if plain_name s \<and> \<not> (contains_str ''vk_'' s \<or> contains_str ''vut_'' s) then s else invalid_name)"

definition agent_name :: "string \<Rightarrow> string option \<Rightarrow> string" where
  "agent_name i label =
     (case map_option trim label of
        Some l \<Rightarrow> if l \<noteq> [] \<and> sanitize_name l \<noteq> invalid_name then l else ''vultrino:'' @ i
      | None \<Rightarrow> ''vultrino:'' @ i)"

section \<open>Contexts\<close>

record refusal_ctx =
  rc_entry :: refusal_entry
  rc_agent :: "string option"
  rc_credential :: "string option"
  rc_action :: string

definition ctx_new :: "refusal_entry \<Rightarrow> (string \<times> string option) option \<Rightarrow> string \<Rightarrow> refusal_ctx" where
  "ctx_new entry who act =
     \<lparr> rc_entry = entry, rc_agent = map_option (\<lambda>(i, label). agent_name i label) who,
       rc_credential = None, rc_action = act \<rparr>"

definition ctx_resolved :: "string \<Rightarrow> string \<Rightarrow> refusal_ctx \<Rightarrow> refusal_ctx" where
  "ctx_resolved cred act x = x \<lparr> rc_credential := Some cred, rc_action := act \<rparr>"

definition ctx_with_entry :: "refusal_entry \<Rightarrow> refusal_ctx \<Rightarrow> refusal_ctx" where
  "ctx_with_entry entry x = x \<lparr> rc_entry := entry \<rparr>"

definition ctx_sanitized :: "refusal_ctx \<Rightarrow> (string \<times> string \<times> string option) option" where
  "ctx_sanitized x =
     map_option (\<lambda>agent. (sanitize_name agent, sanitize_name (rc_action x),
                          map_option sanitize_name (rc_credential x))) (rc_agent x)"

text \<open>What is recorded is a plain name that carries no token, or the literal for an invalid one.\<close>

lemma sanitized_plain: "plain_name (sanitize_name s) \<and> length (sanitize_name s) \<le> 128"
  by (auto simp: sanitize_name_def plain_name_def invalid_name_def max_name_len_def is_alnum_def byte_def)

end
