(* ===== verification/Policy_Engine.thy ===== *)
theory Policy_Engine
  imports Kernel Precedence Url_Canon Rate_Limit Refusal_Classes
begin

text \<open>
  The policy engine of \<open>src/src/policy/mod.rs\<close>: evaluation of conditions, the scan of the tiers,
  the allow tier with its set of rate limits, the decision with its cause, admission for the
  permit kernel, and the replacement of the policy list under load tickets.

  One evaluation reads the clocks once: \<open>pe_now\<close> is the monotonic clock of the rate limits and
  \<open>pe_local\<close> the local time of day.  The glob matcher and the URL parser are in \<open>pe_lib\<close>.
\<close>

section \<open>Inputs\<close>

record spend_attempt =
  sa_asset :: string
  sa_amount :: u64

record eval_input =
  ei_credential_alias :: string
  ei_url :: "string option"
  ei_method :: "string option"
  ei_action :: "string option"
  ei_principal :: "principal option"
  ei_spend :: "spend_attempt option"

record eval_env =
  pe_lib :: url_lib
  pe_now :: instant
  pe_local :: naive_time

datatype deny_cause = CRule | CHalt | CRateLimit | CSpendCap | CUrlUncanonical | CDefault

fun cause_refusal_class :: "deny_cause \<Rightarrow> refusal_class" where
  "cause_refusal_class CHalt = RefKillFence"
| "cause_refusal_class CRateLimit = RefRateLimit"
| "cause_refusal_class CSpendCap = RefSpendCap"
| "cause_refusal_class CRule = RefPolicyDeny"
| "cause_refusal_class CUrlUncanonical = RefPolicyDeny"
| "cause_refusal_class CDefault = RefPolicyDeny"

record want =
  w_narrow :: bool
  w_wide :: bool

abbreviation want_narrow :: want where
  "want_narrow \<equiv> \<lparr> w_narrow = True, w_wide = False \<rparr>"

abbreviation want_wide :: want where
  "want_wide \<equiv> \<lparr> w_narrow = False, w_wide = True \<rparr>"

section \<open>Matching of credentials and principals\<close>

definition glob_matches :: "url_lib \<Rightarrow> string \<Rightarrow> string \<Rightarrow> bool" where
  "glob_matches L pattern v =
     (if pattern = ''*'' then True
      else case ul_glob L pattern of Some g \<Rightarrow> g v | None \<Rightarrow> pattern = v)"

definition credential_matches :: "url_lib \<Rightarrow> string \<Rightarrow> string \<Rightarrow> bool" where
  "credential_matches L pattern alias = glob_matches L pattern alias"

definition opt_test :: "('a \<Rightarrow> bool) \<Rightarrow> 'a option \<Rightarrow> bool" where
  "opt_test f x = (case x of None \<Rightarrow> False | Some y \<Rightarrow> f y)"

definition principal_matches :: "url_lib \<Rightarrow> string option \<Rightarrow> principal option \<Rightarrow> bool" where
  "principal_matches L pattern pr =
     (case pattern of
        None \<Rightarrow> True
      | Some pat \<Rightarrow>
          (case pr of
             None \<Rightarrow> False
           | Some p \<Rightarrow>
               glob_matches L pat (pl_id p)
               \<or> opt_test (glob_matches L pat) (pl_agent_label p)
               \<or> opt_test (glob_matches L pat) (pl_workload_id p)))"

definition policy_matches :: "url_lib \<Rightarrow> eval_input \<Rightarrow> policy \<Rightarrow> bool" where
  "policy_matches L i p \<longleftrightarrow>
     credential_matches L (p_credential_pattern p) (ei_credential_alias i)
     \<and> principal_matches L (p_principal_pattern p) (ei_principal i)"

section \<open>Conditions\<close>

definition spend_within_cap :: "spend_attempt option \<Rightarrow> string \<Rightarrow> u64 \<Rightarrow> bool \<Rightarrow> bool" where
  "spend_within_cap spend asset per_action_max check =
     (if \<not> check then True
      else case spend of
             None \<Rightarrow> False
           | Some s \<Rightarrow> if sa_asset s \<noteq> asset then False else sa_amount s \<le> per_action_max)"

definition in_time_window :: "naive_time \<Rightarrow> naive_time \<Rightarrow> naive_time \<Rightarrow> bool" where
  "in_time_window s e now = (if s \<le> e then s \<le> now \<and> now \<le> e else s \<le> now \<or> now \<le> e)"

definition action_matches :: "url_lib \<Rightarrow> string \<Rightarrow> string \<Rightarrow> bool" where
  "action_matches L pattern a = (case ul_glob L pattern of Some g \<Rightarrow> g a | None \<Rightarrow> pattern = a)"

text \<open>Whether a wanted component of a conjunction can still hold, and whether every wanted component
  of a disjunction already holds.\<close>

definition and_open :: "want \<Rightarrow> bool \<times> bool \<Rightarrow> bool" where
  "and_open wt acc \<longleftrightarrow> (w_narrow wt \<and> fst acc) \<or> (w_wide wt \<and> snd acc)"

definition or_settled :: "want \<Rightarrow> bool \<times> bool \<Rightarrow> bool" where
  "or_settled wt acc \<longleftrightarrow> (\<not> w_narrow wt \<or> fst acc) \<and> (\<not> w_wide wt \<or> snd acc)"

fun eval_pair ::
    "eval_env \<Rightarrow> eval_input \<Rightarrow> bool \<Rightarrow> want \<Rightarrow> policy_condition \<Rightarrow> limits \<Rightarrow> (bool \<times> bool) \<times> limits"
  and eval_and ::
    "eval_env \<Rightarrow> eval_input \<Rightarrow> bool \<Rightarrow> want \<Rightarrow> policy_condition list \<Rightarrow> bool \<times> bool \<Rightarrow> limits
       \<Rightarrow> (bool \<times> bool) \<times> limits"
  and eval_or ::
    "eval_env \<Rightarrow> eval_input \<Rightarrow> bool \<Rightarrow> want \<Rightarrow> policy_condition list \<Rightarrow> bool \<times> bool \<Rightarrow> limits
       \<Rightarrow> (bool \<times> bool) \<times> limits"
where
  "eval_pair E i record wt (UrlMatch pattern) l =
     (case ei_url i of
        Some u \<Rightarrow>
          (let narrow = url_matches_for (pe_lib E) u pattern False in
           ((narrow, narrow \<or> url_matches_for (pe_lib E) u pattern True), l))
      | None \<Rightarrow> ((False, False), l))"
| "eval_pair E i record wt (MethodMatch methods) l =
     (let v = opt_test (\<lambda>m. list_ex (\<lambda>x. eq_ignore_ascii_case x m) methods) (ei_method i)
      in ((v, v), l))"
| "eval_pair E i record wt (ActionMatch pattern) l =
     (let v = opt_test (action_matches (pe_lib E) pattern) (ei_action i) in ((v, v), l))"
| "eval_pair E i record wt (TimeWindow s e) l =
     (let v = in_time_window s e (pe_local E) in ((v, v), l))"
| "eval_pair E i record wt (RateLimit mx window_secs) l =
     (if record then
        (case check_rate_limit (pe_now E) (ei_credential_alias i)
                (map_option rate_limit_principal (ei_principal i)) mx window_secs l of
           (v, l') \<Rightarrow> ((v, v), l'))
      else ((True, True), l))"
| "eval_pair E i record wt (SpendCap asset per_action_max) l =
     (let v = spend_within_cap (ei_spend i) asset per_action_max record in ((v, v), l))"
| "eval_pair E i record wt (And cs) l = eval_and E i record wt cs (True, True) l"
| "eval_pair E i record wt (Or cs) l = eval_or E i record wt cs (False, False) l"
| "eval_pair E i record wt (Not c) l =
     (case eval_pair E i record \<lparr> w_narrow = w_wide wt, w_wide = w_narrow wt \<rparr> c l of
        ((n, w), l') \<Rightarrow> ((\<not> w, \<not> n), l'))"
| "eval_pair E i record wt Always l = ((True, True), l)"
| "eval_and E i record wt [] acc l = (acc, l)"
| "eval_and E i record wt (c # cs) acc l =
     (case eval_pair E i record wt c l of
        (r, l') \<Rightarrow>
          (let acc' = (fst acc \<and> fst r, snd acc \<and> snd r) in
           if \<not> and_open wt acc' then (acc', l')
           else eval_and E i record wt cs acc' l'))"
| "eval_or E i record wt [] acc l = (acc, l)"
| "eval_or E i record wt (c # cs) acc l =
     (case eval_pair E i record wt c l of
        (r, l') \<Rightarrow>
          (let acc' = (fst acc \<or> fst r, snd acc \<or> snd r) in
           if or_settled wt acc' then (acc', l')
           else eval_or E i record wt cs acc' l'))"

section \<open>The allow tier\<close>

text \<open>The rate limits at the top of a condition, under any depth of \<open>And\<close>, and the other parts.\<close>

fun split_rate_limits :: "policy_condition \<Rightarrow> policy_condition list \<times> (u32 \<times> u64) list" where
  "split_rate_limits (RateLimit mx w) = ([], [(mx, w)])"
| "split_rate_limits (And cs) =
     (concat (map (\<lambda>c. fst (split_rate_limits c)) cs), concat (map (\<lambda>c. snd (split_rate_limits c)) cs))"
| "split_rate_limits c = ([c], [])"

fun all_narrow ::
  "eval_env \<Rightarrow> eval_input \<Rightarrow> bool \<Rightarrow> policy_condition list \<Rightarrow> limits \<Rightarrow> bool \<times> limits" where
  "all_narrow E i record [] l = (True, l)"
| "all_narrow E i record (c # cs) l =
     (case eval_pair E i record want_narrow c l of
        ((n, _), l') \<Rightarrow> if n then all_narrow E i record cs l' else (False, l'))"

fun push_new :: "'a list \<Rightarrow> 'a list \<Rightarrow> 'a list" where
  "push_new guards [] = guards"
| "push_new guards (x # xs) = push_new (if List.member guards x then guards else guards @ [x]) xs"

record allow_scan =
  as_matched :: bool
  as_guards :: "(u32 \<times> u64) list"
  as_hint :: "deny_cause option"
  as_limits :: limits

definition allow_rule_step ::
  "eval_env \<Rightarrow> eval_input \<Rightarrow> bool \<Rightarrow> allow_scan \<Rightarrow> policy_rule \<Rightarrow> allow_scan" where
  "allow_rule_step E i record st r =
     (if pr_action r \<noteq> Allow then st
      else case pr_condition r of
        SpendCap asset per_action_max \<Rightarrow>
          (if spend_within_cap (ei_spend i) asset per_action_max record
           then st \<lparr> as_matched := True \<rparr>
           else st \<lparr> as_hint := Some CSpendCap \<rparr>)
      | c \<Rightarrow>
          (case split_rate_limits c of
             (rest, lims) \<Rightarrow>
               (case all_narrow E i record rest (as_limits st) of
                  (True, l') \<Rightarrow> st \<lparr> as_matched := True, as_guards := push_new (as_guards st) lims,
                                   as_limits := l' \<rparr>
                | (False, l') \<Rightarrow> st \<lparr> as_limits := l' \<rparr>)))"

definition allow_tier_matches ::
  "eval_env \<Rightarrow> policy list \<Rightarrow> eval_input \<Rightarrow> bool \<Rightarrow> deny_cause option \<Rightarrow> limits
     \<Rightarrow> bool \<times> deny_cause option \<times> limits" where
  "allow_tier_matches E ps i record hint l =
     (let st = foldl (allow_rule_step E i record)
                 \<lparr> as_matched = False, as_guards = [], as_hint = hint, as_limits = l \<rparr>
                 (concat (map p_rules ps))
      in if \<not> as_matched st then (False, as_hint st, as_limits st)
         else if as_guards st = [] \<or> \<not> record then (True, as_hint st, as_limits st)
         else
           (case charge_rate_limits (pe_now E) (ei_credential_alias i)
                   (map_option rate_limit_principal (ei_principal i)) (as_guards st) (as_limits st) of
              (ok, l') \<Rightarrow>
                (ok, if \<not> ok \<and> as_hint st = None then Some CRateLimit else as_hint st, l')))"

section \<open>The deny and prompt tiers\<close>

record tier_state =
  ts_limits :: limits
  ts_deny_policy :: "string option"
  ts_hint :: "deny_cause option"
  ts_broadened :: bool

definition rule_matches ::
  "eval_env \<Rightarrow> eval_input \<Rightarrow> bool \<Rightarrow> policy_rule \<Rightarrow> tier_state \<Rightarrow> bool \<times> tier_state" where
  "rule_matches E i record r st =
     (case pr_condition r of
        SpendCap asset per_action_max \<Rightarrow>
          (spend_within_cap (ei_spend i) asset per_action_max record, st)
      | c \<Rightarrow>
          (case pr_action r of
             Allow \<Rightarrow>
               (case eval_pair E i record want_narrow c (ts_limits st) of
                  ((n, _), l') \<Rightarrow> (n, st \<lparr> ts_limits := l' \<rparr>))
           | Deny \<Rightarrow>
               (case eval_pair E i record want_wide c (ts_limits st) of
                  ((_, w), l') \<Rightarrow> (w, st \<lparr> ts_limits := l' \<rparr>))
           | Prompt \<Rightarrow>
               (case eval_pair E i record want_narrow c (ts_limits st) of
                  ((n, _), l') \<Rightarrow>
                    (if n then (n, st \<lparr> ts_limits := l' \<rparr>)
                     else
                       (case eval_pair E i False want_wide c l' of
                          ((_, w), l'') \<Rightarrow>
                            (n, st \<lparr> ts_limits := l'',
                                    ts_broadened := ts_broadened st \<or> w \<rparr>))))))"

fun scan_rules ::
  "eval_env \<Rightarrow> eval_input \<Rightarrow> bool \<Rightarrow> policy_action \<Rightarrow> (string \<times> policy_rule) list \<Rightarrow> tier_state
     \<Rightarrow> bool \<times> tier_state" where
  "scan_rules E i record wanted [] st = (False, st)"
| "scan_rules E i record wanted ((nm, r) # rs) st =
     (if pr_action r \<noteq> wanted then scan_rules E i record wanted rs st
      else
        (case rule_matches E i record r st of
           (True, st') \<Rightarrow>
             (True, if wanted = Deny then st' \<lparr> ts_deny_policy := Some nm \<rparr> else st')
         | (False, st') \<Rightarrow> scan_rules E i record wanted rs st'))"

definition named_rules :: "policy list \<Rightarrow> (string \<times> policy_rule) list" where
  "named_rules ps = concat (map (\<lambda>p. map (\<lambda>r. (p_name p, r)) (p_rules p)) ps)"

fun tier_matched ::
  "eval_env \<Rightarrow> policy list \<Rightarrow> eval_input \<Rightarrow> bool \<Rightarrow> rule_outcome \<Rightarrow> tier_state \<Rightarrow> bool \<times> tier_state" where
  "tier_matched E ps i record RDeny st = scan_rules E i record Deny (named_rules ps) st"
| "tier_matched E ps i record RPrompt st = scan_rules E i record Prompt (named_rules ps) st"
| "tier_matched E ps i record RAllow st =
     (case allow_tier_matches E ps i record (ts_hint st) (ts_limits st) of
        (m, h, l) \<Rightarrow> (m, st \<lparr> ts_hint := h, ts_limits := l \<rparr>))"
| "tier_matched E ps i record _ st = (False, st)"

section \<open>URL rules\<close>

fun contains_url_match :: "policy_condition \<Rightarrow> bool" where
  "contains_url_match (UrlMatch _) = True"
| "contains_url_match (And cs) = list_ex contains_url_match cs"
| "contains_url_match (Or cs) = list_ex contains_url_match cs"
| "contains_url_match (Not c) = contains_url_match c"
| "contains_url_match _ = False"

fun contains_negated_url_match :: "policy_condition \<Rightarrow> bool \<Rightarrow> bool" where
  "contains_negated_url_match (UrlMatch _) negated = negated"
| "contains_negated_url_match (And cs) negated = list_ex (\<lambda>c. contains_negated_url_match c negated) cs"
| "contains_negated_url_match (Or cs) negated = list_ex (\<lambda>c. contains_negated_url_match c negated) cs"
| "contains_negated_url_match (Not c) negated = contains_negated_url_match c (\<not> negated)"
| "contains_negated_url_match _ negated = False"

definition url_guarded :: "policy \<Rightarrow> bool" where
  "url_guarded p =
     list_ex (\<lambda>r. ((pr_action r = Deny \<or> pr_action r = Prompt) \<and> contains_url_match (pr_condition r))
        \<or> contains_negated_url_match (pr_condition r) False) (p_rules p)"

section \<open>The engine\<close>

record engine =
  en_policies :: "policy list"
  en_rate_limits :: limits
  en_default_deny :: bool
  en_next_load_ticket :: u64
  en_applied_load_ticket :: u64

definition engine_new :: engine where
  "engine_new =
     \<lparr> en_policies = [], en_rate_limits = [], en_default_deny = True,
       en_next_load_ticket = 0, en_applied_load_ticket = 0 \<rparr>"

definition set_default_deny :: "bool \<Rightarrow> engine \<Rightarrow> engine" where
  "set_default_deny deny en = en \<lparr> en_default_deny := deny \<rparr>"

definition add_policy :: "policy \<Rightarrow> engine \<Rightarrow> engine" where
  "add_policy p en = en \<lparr> en_policies := en_policies en @ [p] \<rparr>"

definition remove_policy :: "string \<Rightarrow> engine \<Rightarrow> bool \<times> engine" where
  "remove_policy i en =
     (let ps = filter (\<lambda>p. p_id p \<noteq> i) (en_policies en)
      in (length ps < length (en_policies en), en \<lparr> en_policies := ps \<rparr>))"

definition begin_load :: "engine \<Rightarrow> u64 \<times> engine" where
  "begin_load en =
     (en_next_load_ticket en + 1, en \<lparr> en_next_load_ticket := en_next_load_ticket en + 1 \<rparr>)"

definition load_policies_if_newer :: "u64 \<Rightarrow> policy list \<Rightarrow> engine \<Rightarrow> bool \<times> engine" where
  "load_policies_if_newer ticket ps en =
     (if ticket \<le> en_applied_load_ticket en then (False, en)
      else (True, en \<lparr> en_applied_load_ticket := ticket, en_policies := ps \<rparr>))"

definition load_policies :: "policy list \<Rightarrow> engine \<Rightarrow> engine" where
  "load_policies ps en = en \<lparr> en_policies := ps \<rparr>"

definition is_halted :: "url_lib \<Rightarrow> eval_input \<Rightarrow> engine \<Rightarrow> bool" where
  "is_halted L i en = list_ex (\<lambda>p. p_kill p \<and> policy_matches L i p) (en_policies en)"

definition is_principal_halted :: "url_lib \<Rightarrow> principal \<Rightarrow> engine \<Rightarrow> bool" where
  "is_principal_halted L pr en =
     list_ex (\<lambda>p. p_kill p \<and> principal_matches L (p_principal_pattern p) (Some pr)) (en_policies en)"

fun rule_guards :: "policy_condition \<Rightarrow> bool" where
  "rule_guards (SpendCap _ _) = True"
| "rule_guards (RateLimit _ _) = True"
| "rule_guards (And cs) = list_ex rule_guards cs"
| "rule_guards (Or cs) = list_ex rule_guards cs"
| "rule_guards (Not c) = rule_guards c"
| "rule_guards (UrlMatch _) = False"
| "rule_guards (MethodMatch _) = False"
| "rule_guards (ActionMatch _) = False"
| "rule_guards (TimeWindow _ _) = False"
| "rule_guards Always = False"

definition has_resource_guard :: "url_lib \<Rightarrow> eval_input \<Rightarrow> engine \<Rightarrow> bool" where
  "has_resource_guard L i en =
     list_ex (\<lambda>p. list_ex (\<lambda>r. rule_guards (pr_condition r)) (p_rules p))
       (filter (policy_matches L i) (en_policies en))"

definition uncanonical_message :: "string \<Rightarrow> string" where
  "uncanonical_message nm =
     ''policy '' @ [CHR 0x27] @ nm @ [CHR 0x27]
       @ '': request URL cannot be canonicalised and the policy has a URL deny or prompt rule''"

definition upgrade_broadened :: "bool \<Rightarrow> pverdict \<Rightarrow> pverdict" where
  "upgrade_broadened broadened v =
     (if broadened \<and> (v = PAllow \<or> v = PolicyDefaultAllow \<or> v = EngineDefaultAllow)
      then PPrompt else v)"

definition verdict_cause :: "deny_cause option \<Rightarrow> pverdict \<Rightarrow> deny_cause option" where
  "verdict_cause hint v =
     (case v of
        PKill \<Rightarrow> Some CHalt
      | PDeny \<Rightarrow> Some CRule
      | PolicyDefaultDeny \<Rightarrow> Some (case hint of Some c \<Rightarrow> c | None \<Rightarrow> CDefault)
      | EngineDefaultDeny \<Rightarrow> Some (case hint of Some c \<Rightarrow> c | None \<Rightarrow> CDefault)
      | FailClosedTail \<Rightarrow> Some (case hint of Some c \<Rightarrow> c | None \<Rightarrow> CDefault)
      | _ \<Rightarrow> None)"

definition evaluate_inner ::
  "eval_env \<Rightarrow> eval_input \<Rightarrow> bool \<Rightarrow> engine
     \<Rightarrow> (policy_decision \<times> deny_cause option) \<times> engine" where
  "evaluate_inner E i record en =
     (let ps = filter (policy_matches (pe_lib E) i) (en_policies en);
          uncanonical = (case ei_url i of
              Some raw \<Rightarrow>
                (if canonical_url (pe_lib E) raw = None then find url_guarded ps else None)
            | None \<Rightarrow> None)
      in case uncanonical of
           Some p \<Rightarrow> ((DDeny (uncanonical_message (p_name p)), Some CUrlUncanonical), en)
         | None \<Rightarrow>
             (case resolve_lazily (list_ex p_kill ps) (tier_matched E ps i record)
                     (map p_default_action ps) (en_default_deny en)
                     \<lparr> ts_limits = en_rate_limits en, ts_deny_policy = None, ts_hint = None,
                       ts_broadened = False \<rparr> of
                (v0, st) \<Rightarrow>
                  (let v = upgrade_broadened (ts_broadened st) v0;
                       default_deny_policy = (case find (\<lambda>p. p_default_action p = Deny) ps of
                           Some p \<Rightarrow> p_name p | None \<Rightarrow> [])
                   in ((decision_for v (case ts_deny_policy st of Some nm \<Rightarrow> nm | None \<Rightarrow> [])
                          default_deny_policy,
                        verdict_cause (ts_hint st) v),
                       en \<lparr> en_rate_limits := ts_limits st \<rparr>))))"

definition evaluate_full ::
  "eval_env \<Rightarrow> eval_input \<Rightarrow> engine \<Rightarrow> policy_decision \<times> engine" where
  "evaluate_full E i en = (case evaluate_inner E i True en of ((d, _), en') \<Rightarrow> (d, en'))"

definition evaluate_readonly_full :: "eval_env \<Rightarrow> eval_input \<Rightarrow> engine \<Rightarrow> policy_decision" where
  "evaluate_readonly_full E i en = fst (fst (evaluate_inner E i False en))"

text \<open>The entry points with four arguments; the principal comes from the request context.\<close>

definition evaluate ::
  "eval_env \<Rightarrow> string \<Rightarrow> string option \<Rightarrow> string option \<Rightarrow> string option \<Rightarrow> string option \<Rightarrow> engine
     \<Rightarrow> policy_decision \<times> engine" where
  "evaluate E alias url method api_key_id agent_label en =
     evaluate_full E
       \<lparr> ei_credential_alias = alias, ei_url = url, ei_method = method, ei_action = None,
         ei_principal = map_option (\<lambda>k. \<lparr> pl_id = k, pl_agent_label = agent_label, pl_owner = None,
                                          pl_workload_id = None \<rparr>) api_key_id,
         ei_spend = None \<rparr> en"

definition evaluate_readonly ::
  "eval_env \<Rightarrow> string \<Rightarrow> string option \<Rightarrow> string option \<Rightarrow> engine \<Rightarrow> policy_decision" where
  "evaluate_readonly E alias url method en =
     evaluate_readonly_full E
       \<lparr> ei_credential_alias = alias, ei_url = url, ei_method = method, ei_action = None,
         ei_principal = None, ei_spend = None \<rparr> en"

definition record_request :: "url_lib \<Rightarrow> instant \<Rightarrow> string \<Rightarrow> engine \<Rightarrow> engine" where
  "record_request L now alias en =
     en \<lparr> en_rate_limits :=
       foldl (\<lambda>l r. case pr_condition r of
                RateLimit mx w \<Rightarrow> snd (check_rate_limit now alias None mx w l)
              | _ \<Rightarrow> l)
         (en_rate_limits en)
         (concat (map p_rules
           (filter (\<lambda>p. credential_matches L (p_credential_pattern p) alias) (en_policies en)))) \<rparr>"

section \<open>Admission\<close>

record admission_query =
  aq_credential_alias :: string
  aq_action :: string
  aq_params :: json
  aq_principal :: "principal option"
  aq_spend :: "spend_attempt option"

record evaluation =
  ev_decision :: policy_decision
  ev_observe_downgrade :: bool
  ev_subject :: "judged_subject option"
  ev_deny_cause :: "deny_cause option"

text \<open>The hash and the serialisers of parameters are arguments.\<close>

record codec =
  co_sha :: "string \<Rightarrow> string"
  co_to_vec :: "json \<Rightarrow> string option"
  co_show :: "json \<Rightarrow> string"

definition query_input :: "admission_query \<Rightarrow> string option \<Rightarrow> eval_input" where
  "query_input q url =
     \<lparr> ei_credential_alias = aq_credential_alias q, ei_url = url,
       ei_method = Option.bind (j_get (aq_params q) ''method'') j_str,
       ei_action = Some (aq_action q), ei_principal = aq_principal q, ei_spend = aq_spend q \<rparr>"

definition query_subject :: "codec \<Rightarrow> admission_query \<Rightarrow> judged_subject option" where
  "query_subject C q =
     map_option (\<lambda>d. \<lparr> js_credential = aq_credential_alias q,
                      js_principal = (case aq_principal q of Some p \<Rightarrow> pl_id p | None \<Rightarrow> []),
                      js_params_digest = d \<rparr>)
       (digest_params (co_sha C) (co_to_vec C) (aq_params q))"

definition ev_verdict :: "evaluation \<Rightarrow> verdict" where
  "ev_verdict e = (case ev_decision e of DAllow \<Rightarrow> VAllow | DDeny _ \<Rightarrow> VDeny | DPrompt \<Rightarrow> VPrompt)"

definition is_deny :: "policy_decision \<Rightarrow> bool" where
  "is_deny d = (case d of DDeny _ \<Rightarrow> True | _ \<Rightarrow> False)"

definition evaluate_for_admission ::
  "codec \<Rightarrow> eval_env \<Rightarrow> admission_query \<Rightarrow> bool \<Rightarrow> engine \<Rightarrow> evaluation \<times> engine" where
  "evaluate_for_admission C E q observe_tenant en =
     (let i = query_input q (policy_url (pe_lib E) (co_show C) (aq_params q)) in
      case evaluate_inner E i True en of
        ((d, cause), en') \<Rightarrow>
          (\<lparr> ev_decision = d,
             ev_observe_downgrade = (is_deny d \<and> observe_tenant \<and> \<not> is_halted (pe_lib E) i en'
               \<and> \<not> has_resource_guard (pe_lib E) i en'),
             ev_subject = query_subject C q,
             ev_deny_cause = cause \<rparr>, en'))"

definition evaluate_readonly_for_admission ::
  "codec \<Rightarrow> eval_env \<Rightarrow> admission_query \<Rightarrow> engine \<Rightarrow> evaluation" where
  "evaluate_readonly_for_admission C E q en =
     (let i = query_input q (policy_url (pe_lib E) (co_show C) (aq_params q)) in
      case evaluate_inner E i False en of
        ((d, cause), _) \<Rightarrow>
          \<lparr> ev_decision = d, ev_observe_downgrade = False, ev_subject = query_subject C q,
            ev_deny_cause = cause \<rparr>)"

text \<open>A kernel admission from an evaluation, \<open>formal_kernel::admit\<close>.\<close>

definition admit :: "evaluation \<Rightarrow> bool \<Rightarrow> permit_error + admission_witness" where
  "admit e approval_required =
     witness_from (ev_verdict e) (ev_observe_downgrade e) approval_required (ev_subject e)"

section \<open>Spend extraction\<close>

record spend_extractor =
  se_action_pattern :: string
  se_credential_pattern :: string
  se_amount_pointer :: string
  se_asset :: "string option"
  se_asset_pointer :: "string option"

definition extractor_matches :: "url_lib \<Rightarrow> spend_extractor \<Rightarrow> string \<Rightarrow> string \<Rightarrow> bool" where
  "extractor_matches L e act alias \<longleftrightarrow>
     glob_matches L (se_action_pattern e) act \<and> glob_matches L (se_credential_pattern e) alias"

text \<open>\<open>ptr\<close> resolves a JSON pointer.\<close>

definition extract_attempt ::
  "(json \<Rightarrow> string \<Rightarrow> json option) \<Rightarrow> spend_extractor \<Rightarrow> json \<Rightarrow> spend_attempt option" where
  "extract_attempt ptr e params =
     (case Option.bind (ptr params (se_amount_pointer e)) j_u64 of
        None \<Rightarrow> None
      | Some amount \<Rightarrow>
          map_option (\<lambda>a. \<lparr> sa_asset = a, sa_amount = amount \<rparr>)
            (case se_asset_pointer e of
               Some p \<Rightarrow> Option.bind (ptr params p) j_str
             | None \<Rightarrow> se_asset e))"

definition extract_spend ::
  "url_lib \<Rightarrow> (json \<Rightarrow> string \<Rightarrow> json option) \<Rightarrow> spend_extractor list \<Rightarrow> string \<Rightarrow> string \<Rightarrow> json
     \<Rightarrow> spend_attempt option" where
  "extract_spend L ptr extractors act alias params =
     (case find (\<lambda>e. extractor_matches L e act alias) extractors of
        None \<Rightarrow> None
      | Some e \<Rightarrow> extract_attempt ptr e params)"

end
