(* ===== verification/Approval.thy ===== *)
theory Approval
  imports Recipes Rate_Limit Kernel Policy_Engine
begin

text \<open>
  Approval requests, from \<open>src/src/approval/mod.rs\<close>: the record a gated action waits on, its
  lifecycle (pending, escalated, decided, expired), the decision of an approver with the guards that
  keep approvers apart, and the re-derivation of a grant from the evidence that was stored.

  Every operation that reads the clock takes the instant as its argument; the code reads the clock
  several times in one call and the model reads it once.  Instants are unbounded.  An operation that
  changes the request returns it beside its result.  The identifier, the decision token and the
  summary line of a new request are arguments of \<open>open_request\<close>, because random bytes and display
  text are not modelled.
\<close>

section \<open>Data\<close>

datatype approval_status = SPending | SEscalated | SApproved | SDenied | SExpired

fun is_open :: "approval_status \<Rightarrow> bool" where
  "is_open SPending = True"
| "is_open SEscalated = True"
| "is_open SApproved = False"
| "is_open SDenied = False"
| "is_open SExpired = False"

datatype criticality_class = CLow | CMedium | CHigh | CCritical

datatype credential_check = CheckNotApplicable | Usable | Unusable string | CheckUnknown

datatype execution_state = NotApplicable | Executed | Failed | AwaitingExecution | Blocked

datatype capability_authority_class =
    CapReversible
  | CapHumanFloor
  | CapPartiallyReversible
  | CapUndeclared
  | CapAmbiguousCanonical

datatype gate_rule_authority_class = GateRule | GateNoRule | GateInconclusive

datatype credential_type =
    ApiKey
  | OAuth2
  | GoogleServiceAccount
  | BasicAuth
  | PrivateKey
  | Certificate
  | HmacApiKey
  | AwsSigV4
  | EcdsaKey
  | SshPassword
  | Postgres
  | UrlToken
  | CustomType string

record credential_authority =
  ca_id :: string
  ca_credential_type :: credential_type
  ca_created_at :: instant
  ca_updated_at :: instant
  ca_tenant :: "string option"

datatype lifecycle_change = NoChange | BecameEscalated | BecameExpired

record requester_info =
  ri_principal_kind :: string
  ri_principal_id :: "string option"
  ri_principal_name :: "string option"
  ri_role :: "string option"
  ri_owner :: "string option"

record preview_field =
  pf_label :: string
  pf_value :: string
  pf_format :: string

record approval_preview =
  ap_title :: "string option"
  ap_fields :: "preview_field list"

record new_approval =
  na_credential :: string
  na_action :: string
  na_params :: json
  na_requester :: requester_info
  na_use_token_id :: "string option"
  na_principal_id :: "string option"
  na_agent_label :: "string option"
  na_action_label :: "string option"
  na_dual_control :: bool
  na_criticality :: criticality_class
  na_trusted_irreversible :: "bool option"
  na_escalate_after :: int
  na_escalate_window :: int
  na_oob_identity :: "string option"
  na_reauth_interval_secs :: "u64 option"
  na_required_approvals :: u32
  na_tenant :: "string option"
  na_workload_id :: "string option"
  na_preview :: "approval_preview option"
  na_approval_rule :: "approval_rule option"

record decision =
  dc_channel :: string
  dc_approver_identity :: string
  dc_note :: "string option"
  dc_enforce_sod :: bool
  dc_approver_kind :: string
  dc_delegation_grant_ref :: "string option"
  dc_resolved_class :: "approver_class option"
  dc_controller :: "string option"

record approval_request =
  a_id :: string
  a_status :: approval_status
  a_credential :: string
  a_action :: string
  a_params :: json
  a_summary :: string
  a_requester :: requester_info
  a_use_token_id :: "string option"
  a_principal_id :: "string option"
  a_agent_label :: "string option"
  a_tenant :: "string option"
  a_workload_id :: "string option"
  a_preview :: "approval_preview option"
  a_action_label :: "string option"
  a_dual_control :: bool
  a_required_approvals :: u32
  a_signoffs :: "signoff list"
  a_approval_rule :: "approval_rule option"
  a_authoritative_risk_tier :: string
  a_authoritative_irreversible :: bool
  a_criticality :: criticality_class
  a_trusted_irreversible :: bool
  a_capability_authority :: "capability_authority_class option"
  a_gate_rule_authority :: "gate_rule_authority_class option"
  a_credential_authority :: "credential_authority option"
  a_trusted_spend_amount_minor :: "i64 option"
  a_trusted_spend_asset :: "string option"
  a_delegate_veto_until :: "instant option"
  a_created_at :: instant
  a_escalate_at :: instant
  a_escalated_at :: "instant option"
  a_expires_at :: instant
  a_oob_identity :: "string option"
  a_reauth_interval_secs :: "u64 option"
  a_decided_at :: "instant option"
  a_decided_by :: "string option"
  a_approver_identity :: "string option"
  a_sod_violation :: "bool option"
  a_decision_note :: "string option"
  a_decision_token_hash :: string
  a_executing :: bool
  a_executing_since :: "instant option"
  a_executed :: bool
  a_result_status :: "16 word option"
  a_result_body :: "string option"
  a_result_error :: "string option"
  a_execution_epoch :: u64
  a_kill_epoch_at_open :: "u64 option"

datatype approval_error =
    AlreadyDecided approval_status
  | ApprovalExpired
  | ApprovalNotFound
  | InvalidToken
  | MissingApproverIdentity
  | SeparationOfDuty
  | DuplicateApprover
  | SameAggregatorKey
  | MixedProvenance

datatype grant_basis =
    NumericThreshold u32 u32
  | RecipeBasis nat nat

record granted =
  gr_basis :: grant_basis
  gr_binding :: execution_binding
  gr_issued_at_unix_seconds :: i64
  gr_expires_at_unix_seconds :: i64

definition default_unrun_grant_window_secs :: u64 where
  "default_unrun_grant_window_secs = 24 * 60 * 60"

section \<open>Building a decision\<close>

definition new_decision :: "string \<Rightarrow> string \<Rightarrow> decision" where
  "new_decision channel approver_identity =
     \<lparr> dc_channel = channel, dc_approver_identity = approver_identity, dc_note = None,
       dc_enforce_sod = False, dc_approver_kind = ''human'', dc_delegation_grant_ref = None,
       dc_resolved_class = None, dc_controller = None \<rparr>"

definition as_delegate :: "string \<Rightarrow> decision \<Rightarrow> decision" where
  "as_delegate grant_ref d =
     d \<lparr> dc_approver_kind := ''delegate-agent'', dc_delegation_grant_ref := Some grant_ref \<rparr>"

section \<open>Opening a request\<close>

definition tenant_may_act :: "string option \<Rightarrow> string option \<Rightarrow> bool" where
  "tenant_may_act acting resource_tenant =
     (case acting of
        None \<Rightarrow> True
      | Some a \<Rightarrow> (case resource_tenant of None \<Rightarrow> True | Some t \<Rightarrow> t = a))"

definition visible_to_tenant :: "string option \<Rightarrow> approval_request \<Rightarrow> bool" where
  "visible_to_tenant acting a = tenant_may_act acting (a_tenant a)"

definition policy_principal :: "approval_request \<Rightarrow> principal option" where
  "policy_principal a =
     map_option
       (\<lambda>i. \<lparr> pl_id = i, pl_agent_label = a_agent_label a, pl_owner = None,
               pl_workload_id = a_workload_id a \<rparr>)
       (case a_principal_id a of Some i \<Rightarrow> Some i | None \<Rightarrow> ri_principal_id (a_requester a))"

record fresh_request =
  fr_id :: string
  fr_decision_token_hash :: string
  fr_summary :: string

definition open_request :: "fresh_request \<Rightarrow> instant \<Rightarrow> new_approval \<Rightarrow> approval_request" where
  "open_request f now n =
     \<lparr> a_id = fr_id f, a_status = SPending, a_credential = na_credential n, a_action = na_action n,
       a_params = na_params n, a_summary = fr_summary f, a_requester = na_requester n,
       a_use_token_id = na_use_token_id n, a_principal_id = na_principal_id n,
       a_agent_label = na_agent_label n, a_tenant = na_tenant n, a_workload_id = na_workload_id n,
       a_preview = na_preview n, a_action_label = na_action_label n,
       a_dual_control = na_dual_control n,
       a_required_approvals = max (na_required_approvals n) 1, a_signoffs = [],
       a_approval_rule = na_approval_rule n, a_authoritative_risk_tier = [],
       a_authoritative_irreversible = False, a_criticality = na_criticality n,
       a_trusted_irreversible = (case na_trusted_irreversible n of Some b \<Rightarrow> b | None \<Rightarrow> False),
       a_capability_authority = None, a_gate_rule_authority = None, a_credential_authority = None,
       a_trusted_spend_amount_minor = None, a_trusted_spend_asset = None,
       a_delegate_veto_until = None, a_created_at = now, a_escalate_at = now + na_escalate_after n,
       a_escalated_at = None, a_expires_at = now + na_escalate_after n + na_escalate_window n,
       a_oob_identity = na_oob_identity n, a_reauth_interval_secs = na_reauth_interval_secs n,
       a_decided_at = None, a_decided_by = None, a_approver_identity = None,
       a_sod_violation = None, a_decision_note = None,
       a_decision_token_hash = fr_decision_token_hash f, a_executing = False,
       a_executing_since = None, a_executed = False, a_result_status = None,
       a_result_body = None, a_result_error = None, a_execution_epoch = 0,
       a_kill_epoch_at_open = None \<rparr>"

section \<open>Who counts\<close>

definition effective_required_approvals :: "approval_request \<Rightarrow> u32" where
  "effective_required_approvals a =
     (if a_dual_control a then max (a_required_approvals a) 2 else max (a_required_approvals a) 1)"

definition same_aggregator_key_guard_active :: "approval_request \<Rightarrow> bool" where
  "same_aggregator_key_guard_active a \<longleftrightarrow>
     a_approval_rule a \<noteq> None \<or> 1 < effective_required_approvals a"

definition contributes_positive_slot ::
  "approval_request \<Rightarrow> bool \<Rightarrow> approver_class option \<Rightarrow> bool" where
  "contributes_positive_slot a approve cls =
     (if \<not> approve then False
      else (case a_approval_rule a of
              None \<Rightarrow> True
            | Some rule \<Rightarrow>
                (case cls of
                   Some c \<Rightarrow> list_ex (\<lambda>r. class_fills_a_slot r c) (ar_recipes rule)
                 | None \<Rightarrow> False)))"

definition approvals_remaining :: "approval_request \<Rightarrow> u32" where
  "approvals_remaining a =
     sat_sub (effective_required_approvals a) (of_nat (length (a_signoffs a)))"

definition sod_for :: "approval_request \<Rightarrow> string \<Rightarrow> bool option" where
  "sod_for a candidate =
     (let approver = trim (bare_approver_identity candidate);
          identities = [ri_principal_name (a_requester a), a_agent_label a, a_principal_id a,
                        ri_principal_id (a_requester a)];
          known = filter (\<lambda>s. s \<noteq> []) (map trim (map the (filter (\<lambda>x. x \<noteq> None) identities)))
      in if approver = [] then None
         else if known = [] then None
         else Some (list_ex (\<lambda>id. eq_ignore_ascii_case id approver) known))"

definition violates_sod :: "approval_request \<Rightarrow> bool option" where
  "violates_sod a = Option.bind (a_approver_identity a) (sod_for a)"

definition owner_excluded :: "approval_request \<Rightarrow> string \<Rightarrow> bool" where
  "owner_excluded a candidate =
     (if \<not> (case a_approval_rule a of None \<Rightarrow> False | Some r \<Rightarrow> ar_exclude_owner r) then False
      else (let approver = trim (bare_approver_identity candidate)
            in case map_option trim (ri_owner (a_requester a)) of
                 Some o' \<Rightarrow> if o' \<noteq> [] \<and> approver \<noteq> [] then eq_ignore_ascii_case o' approver else False
               | None \<Rightarrow> False))"

definition recipe_forces_deny_on_any_deny :: "approval_request \<Rightarrow> bool" where
  "recipe_forces_deny_on_any_deny a \<longleftrightarrow>
     a_authoritative_irreversible a \<or> risk_tier_forces_deny_on_any_deny (a_authoritative_risk_tier a)"

section \<open>Time\<close>

definition is_past_ttl :: "instant \<Rightarrow> approval_request \<Rightarrow> bool" where
  "is_past_ttl now a \<longleftrightarrow> a_expires_at a \<le> now"

definition system_expired :: string where
  "system_expired = ''system (expired)''"

definition advance_lifecycle ::
  "instant \<Rightarrow> approval_request \<Rightarrow> lifecycle_change \<times> approval_request" where
  "advance_lifecycle now a =
     (if \<not> is_open (a_status a) then (NoChange, a)
      else if a_expires_at a \<le> now then
        (BecameExpired, a \<lparr> a_status := SExpired, a_decided_at := Some now,
                            a_decided_by := Some system_expired \<rparr>)
      else if a_status a = SPending \<and> a_escalate_at a \<le> now then
        (BecameEscalated, a \<lparr> a_status := SEscalated, a_escalated_at := Some now \<rparr>)
      else (NoChange, a))"

definition expire_if_due :: "instant \<Rightarrow> approval_request \<Rightarrow> bool \<times> approval_request" where
  "expire_if_due now a =
     (if is_open (a_status a) \<and> is_past_ttl now a then
        (True, a \<lparr> a_status := SExpired, a_decided_at := Some now,
                   a_decided_by := Some system_expired \<rparr>)
      else (False, a))"

definition unrun_window :: "approval_request \<Rightarrow> u64" where
  "unrun_window a =
     (case a_reauth_interval_secs a of
        Some s \<Rightarrow> if 0 < s then s else default_unrun_grant_window_secs
      | None \<Rightarrow> default_unrun_grant_window_secs)"

definition needs_reauth :: "instant \<Rightarrow> approval_request \<Rightarrow> bool" where
  "needs_reauth now a =
     (if a_status a \<noteq> SApproved \<or> a_executed a then False
      else (case a_decided_at a of
              None \<Rightarrow> False
            | Some decided_at \<Rightarrow> sint (unrun_window a) < num_seconds (now - decided_at)))"

definition reauth_lapse :: string where
  "reauth_lapse = ''re-authorization window lapsed before execution''"

definition expire_reauth_lapsed :: "approval_request \<Rightarrow> approval_request" where
  "expire_reauth_lapsed a =
     a \<lparr> a_status := SExpired,
         a_decision_note := Some (case a_decision_note a of
             Some note \<Rightarrow> if note \<noteq> [] then note @ '' | '' @ reauth_lapse else reauth_lapse
           | None \<Rightarrow> reauth_lapse) \<rparr>"

definition veto_pending :: "instant \<Rightarrow> approval_request \<Rightarrow> bool" where
  "veto_pending now a \<longleftrightarrow>
     a_status a = SApproved \<and> \<not> a_executed a
     \<and> (case a_delegate_veto_until a of Some t \<Rightarrow> now < t | None \<Rightarrow> False)"

section \<open>Deciding\<close>

fun sticky_sod :: "bool option \<Rightarrow> bool option \<Rightarrow> bool option" where
  "sticky_sod recorded sod =
     (if recorded = Some True \<or> sod = Some True then Some True
      else case recorded of Some b \<Rightarrow> Some b | None \<Rightarrow> sod)"

definition signoff_of :: "instant \<Rightarrow> string \<Rightarrow> decision \<Rightarrow> bool \<Rightarrow> signoff" where
  "signoff_of now identity d approve =
     \<lparr> so_approver_identity = identity, so_channel = dc_channel d, so_decided_at = now,
       so_note = dc_note d, so_approver_kind = dc_approver_kind d,
       so_delegation_grant_ref = dc_delegation_grant_ref d,
       so_resolved_class = dc_resolved_class d, so_controller = dc_controller d,
       so_approve = approve \<rparr>"

definition is_delegate_veto :: "instant \<Rightarrow> approval_status \<Rightarrow> decision \<Rightarrow> approval_request \<Rightarrow> bool" where
  "is_delegate_veto now to d a \<longleftrightarrow>
     to = SDenied \<and> a_status a = SApproved \<and> \<not> a_executed a
     \<and> (case a_delegate_veto_until a of Some t \<Rightarrow> now < t | None \<Rightarrow> False)
     \<and> dc_approver_kind d \<noteq> ''delegate-agent''"

definition record_denial ::
  "instant \<Rightarrow> string \<Rightarrow> bool \<Rightarrow> decision \<Rightarrow> approval_request \<Rightarrow> approval_request" where
  "record_denial now identity veto d a =
     (let terminal_deny = veto \<or> (case a_approval_rule a of
                                    None \<Rightarrow> True
                                  | Some rule \<Rightarrow> recipe_forces_deny_on_any_deny a
                                      \<or> ar_decision_mode rule = DenyOnAnyDeny);
          a' = a \<lparr> a_signoffs := a_signoffs a @ [signoff_of now identity d False],
                   a_sod_violation := sticky_sod (a_sod_violation a) (sod_for a identity) \<rparr>
      in if \<not> terminal_deny then a'
         else a' \<lparr> a_status := SDenied, a_decided_at := Some now,
                   a_decided_by := Some (dc_channel d), a_approver_identity := Some identity,
                   a_decision_note := dc_note d \<rparr>)"

definition same_key_signed :: "string \<Rightarrow> approval_request \<Rightarrow> bool" where
  "same_key_signed identity a =
     (case aggregator_key_prefix identity of
        None \<Rightarrow> False
      | Some key \<Rightarrow>
          list_ex (\<lambda>s. starts_with (so_approver_identity s) key
                     \<and> contributes_positive_slot a (so_approve s) (so_resolved_class s))
            (a_signoffs a))"

definition other_provenance_signed :: "string \<Rightarrow> approval_request \<Rightarrow> bool" where
  "other_provenance_signed identity a =
     (case approver_provenance identity of
        None \<Rightarrow> False
      | Some incoming \<Rightarrow>
          list_ex (\<lambda>s. contributes_positive_slot a (so_approve s) (so_resolved_class s)
                     \<and> (case approver_provenance (so_approver_identity s) of
                          None \<Rightarrow> False
                        | Some existing \<Rightarrow> existing \<noteq> incoming))
            (a_signoffs a))"

definition already_signed :: "string \<Rightarrow> approval_request \<Rightarrow> bool" where
  "already_signed identity a =
     (let bare_identity = trim (bare_approver_identity identity)
      in list_ex (\<lambda>s. eq_ignore_ascii_case
                        (trim (bare_approver_identity (so_approver_identity s))) bare_identity)
           (a_signoffs a))"

definition approval_guard :: "string \<Rightarrow> decision \<Rightarrow> approval_request \<Rightarrow> approval_error option" where
  "approval_guard identity d a =
     (let separated = same_aggregator_key_guard_active a
                      \<and> contributes_positive_slot a True (dc_resolved_class d)
      in if dc_enforce_sod d \<and> sod_for a identity = Some True then Some SeparationOfDuty
         else if owner_excluded a identity then Some SeparationOfDuty
         else if separated \<and> same_key_signed identity a then Some SameAggregatorKey
         else if separated \<and> other_provenance_signed identity a then Some MixedProvenance
         else if already_signed identity a then Some DuplicateApprover
         else None)"

definition record_approval ::
  "instant \<Rightarrow> string \<Rightarrow> decision \<Rightarrow> approval_request \<Rightarrow> approval_request" where
  "record_approval now identity d a =
     (let signoffs = a_signoffs a @ [signoff_of now identity d True];
          a' = a \<lparr> a_signoffs := signoffs, a_approver_identity := Some identity,
                   a_sod_violation := sticky_sod (a_sod_violation a) (sod_for a identity) \<rparr>;
          grants = (case a_approval_rule a of
                      None \<Rightarrow> effective_required_approvals a \<le> of_nat (length signoffs)
                    | Some rule \<Rightarrow> approval_rule_satisfied rule signoffs)
      in if grants then a' \<lparr> a_status := SApproved, a_decided_at := Some now,
                             a_decided_by := Some (dc_channel d), a_decision_note := dc_note d \<rparr>
         else a')"

definition transition ::
  "instant \<Rightarrow> approval_status \<Rightarrow> decision \<Rightarrow> approval_request \<Rightarrow>
     (approval_error + unit) \<times> approval_request" where
  "transition now to d a =
     (let identity = trim (dc_approver_identity d);
          veto = is_delegate_veto now to d a
      in if blank (bare_approver_identity identity) then (Inl MissingApproverIdentity, a)
         else if is_past_ttl now a then (Inl ApprovalExpired, snd (expire_if_due now a))
         else if \<not> is_open (a_status a) \<and> \<not> veto then (Inl (AlreadyDecided (a_status a)), a)
         else if to = SDenied then (Inr (), record_denial now identity veto d a)
         else (case approval_guard identity d a of
                 Some e \<Rightarrow> (Inl e, a)
               | None \<Rightarrow> (Inr (), record_approval now identity d a)))"

definition approve_request ::
  "instant \<Rightarrow> decision \<Rightarrow> approval_request \<Rightarrow> (approval_error + unit) \<times> approval_request" where
  "approve_request now d a = transition now SApproved d a"

definition deny_request ::
  "instant \<Rightarrow> decision \<Rightarrow> approval_request \<Rightarrow> (approval_error + unit) \<times> approval_request" where
  "deny_request now d a = transition now SDenied d a"

section \<open>Deriving the grant again\<close>

fun class_wire :: "approver_class \<Rightarrow> string" where
  "class_wire Senior = ''senior''"
| "class_wire Teammate = ''teammate''"
| "class_wire AgentReviewer = ''agent-reviewer''"
| "class_wire UnknownClass = ''unknown''"

fun mode_wire :: "recipe_decision_mode \<Rightarrow> string" where
  "mode_wire DenyOnAnyDeny = ''deny-on-any-deny''"
| "mode_wire MajorityWithDissentRecorded = ''majority-with-dissent-recorded''"

definition term_json :: "recipe_term \<Rightarrow> json" where
  "term_json t = JObj [(''class'', JStr (class_wire (rt_class t))), (''count'', JPos (ucast (rt_count t)))]"

definition rule_json :: "approval_rule \<Rightarrow> json" where
  "rule_json r =
     JObj [(''decision_mode'', JStr (mode_wire (ar_decision_mode r))),
           (''exclude_owner'', JBool (ar_exclude_owner r)),
           (''recipes'', JArr (map (\<lambda>c. JObj [(''terms'', JArr (map term_json (rc_terms c)))])
                                (ar_recipes r)))]"

definition rule_evidence :: "approval_request \<Rightarrow> json" where
  "rule_evidence a =
     (case a_approval_rule a of
        Some rule \<Rightarrow>
          JObj [(''approval_rule'', rule_json rule),
                (''authoritative_irreversible'', JBool (a_authoritative_irreversible a)),
                (''authoritative_risk_tier'', JStr (a_authoritative_risk_tier a)),
                (''mode'', JStr ''recipe'')]
      | None \<Rightarrow>
          JObj [(''mode'', JStr ''numeric''),
                (''required_approvals'', JPos (ucast (effective_required_approvals a)))])"

definition or_empty :: "string option \<Rightarrow> string" where
  "or_empty s = (case s of Some x \<Rightarrow> x | None \<Rightarrow> [])"

definition approval_binding :: "codec \<Rightarrow> u64 \<Rightarrow> approval_request \<Rightarrow> execution_binding option" where
  "approval_binding K epoch a =
     (case co_to_vec K (a_params a) of
        None \<Rightarrow> None
      | Some params \<Rightarrow>
          (case co_to_vec K (rule_evidence a) of
             None \<Rightarrow> None
           | Some rule \<Rightarrow> Some
               \<lparr> eb_approval_id = a_id a, eb_epoch = epoch, eb_tenant = or_empty (a_tenant a),
                 eb_principal = or_empty (case a_principal_id a of
                     Some p \<Rightarrow> Some p | None \<Rightarrow> ri_principal_id (a_requester a)),
                 eb_credential = a_credential a, eb_action = a_action a,
                 eb_params_digest = digest_bytes (co_sha K) params,
                 eb_rule_digest = digest_bytes (co_sha K) rule \<rparr>))"

fun numeric_evidence :: "u32 \<Rightarrow> string list \<Rightarrow> string list \<Rightarrow> signoff list \<Rightarrow> bool" where
  "numeric_evidence need identities aggregator_keys [] = True"
| "numeric_evidence need identities aggregator_keys (s # ss) =
     (if principal_key s = [] \<or> List.member identities (principal_key s) then False
      else (case (if 1 < need then aggregator_key_prefix (so_approver_identity s) else None) of
              None \<Rightarrow> numeric_evidence need (principal_key s # identities) aggregator_keys ss
            | Some key \<Rightarrow>
                (if List.member aggregator_keys (ascii_lower key) then False
                 else numeric_evidence need (principal_key s # identities)
                        (ascii_lower key # aggregator_keys) ss)))"

fun recipe_evidence :: "approval_request \<Rightarrow> string list \<Rightarrow> signoff list \<Rightarrow> bool" where
  "recipe_evidence a aggregator_keys [] = True"
| "recipe_evidence a aggregator_keys (s # ss) =
     (case (if contributes_positive_slot a (so_approve s) (so_resolved_class s)
            then aggregator_key_prefix (so_approver_identity s) else None) of
        None \<Rightarrow> recipe_evidence a aggregator_keys ss
      | Some key \<Rightarrow>
          (if List.member aggregator_keys (ascii_lower key) then False
           else recipe_evidence a (ascii_lower key # aggregator_keys) ss))"

definition grant_basis_of :: "approval_request \<Rightarrow> grant_basis option" where
  "grant_basis_of a =
     (case a_approval_rule a of
        None \<Rightarrow>
          (let need = effective_required_approvals a;
               positives = filter so_approve (a_signoffs a);
               have_n = of_nat (length positives)
           in if have_n < need then None
              else if \<not> numeric_evidence need [] [] positives then None
              else Some (NumericThreshold need have_n))
      | Some rule \<Rightarrow>
          (if \<not> approval_rule_satisfied rule (a_signoffs a) then None
           else if \<not> recipe_evidence a [] (a_signoffs a) then None
           else Some (RecipeBasis (length (ar_recipes rule))
                        (length (filter so_approve (a_signoffs a))))))"

definition grant_witness_inner ::
  "codec \<Rightarrow> instant \<Rightarrow> u64 \<Rightarrow> bool \<Rightarrow> approval_request \<Rightarrow> granted option" where
  "grant_witness_inner K now epoch require_live_decision a =
     (if a_status a \<noteq> SApproved then None
      else (case grant_basis_of a of
              None \<Rightarrow> None
            | Some basis \<Rightarrow>
                (case (case a_decided_at a of
                         Some value \<Rightarrow> Some value
                       | None \<Rightarrow> if require_live_decision then None else Some (a_created_at a)) of
                   None \<Rightarrow> None
                 | Some issued_at \<Rightarrow>
                     (if 2 ^ 63 \<le> uint (unrun_window a) then None
                      else (let expires_at = issued_at + dur (uint (unrun_window a))
                            in if require_live_decision \<and> expires_at \<le> now then None
                               else (case approval_binding K epoch a of
                                       None \<Rightarrow> None
                                     | Some b \<Rightarrow> Some
                                         \<lparr> gr_basis = basis, gr_binding = b,
                                           gr_issued_at_unix_seconds = timestamp issued_at,
                                           gr_expires_at_unix_seconds = timestamp expires_at \<rparr>))))))"

definition grant_witness :: "codec \<Rightarrow> instant \<Rightarrow> approval_request \<Rightarrow> granted option" where
  "grant_witness K now a = grant_witness_inner K now (a_execution_epoch a) False a"

definition grant_witness_for_epoch ::
  "codec \<Rightarrow> instant \<Rightarrow> u64 \<Rightarrow> approval_request \<Rightarrow> granted option" where
  "grant_witness_for_epoch K now epoch a = grant_witness_inner K now epoch True a"

section \<open>The shape a stored request must have\<close>

definition blank_opt :: "string option \<Rightarrow> bool" where
  "blank_opt s \<longleftrightarrow> blank (or_empty s)"

definition signoff_shape :: "signoff \<Rightarrow> string option" where
  "signoff_shape s =
     (if blank (bare_approver_identity (so_approver_identity s)) then
        Some ''approval contains an unnamed sign-off principal''
      else if blank (so_channel s) then Some ''approval contains a blank sign-off channel''
      else if trim (so_approver_kind s) = ''human'' then
        (if so_resolved_class s = Some AgentReviewer \<or> so_resolved_class s = Some UnknownClass
         then Some ''human sign-off has an incompatible resolved class'' else None)
      else if trim (so_approver_kind s) = ''delegate-agent'' then
        (if so_resolved_class s \<noteq> Some AgentReviewer \<or> blank_opt (so_delegation_grant_ref s)
         then Some ''delegate sign-off lacks its class or delegation grant'' else None)
      else Some ''approval contains an unknown approver kind'')"

fun first_bad_signoff :: "signoff list \<Rightarrow> string option" where
  "first_bad_signoff [] = None"
| "first_bad_signoff (s # ss) =
     (case signoff_shape s of Some e \<Rightarrow> Some e | None \<Rightarrow> first_bad_signoff ss)"

definition status_shape :: "codec \<Rightarrow> instant \<Rightarrow> approval_request \<Rightarrow> string option" where
  "status_shape K now a =
     (case a_status a of
        SPending \<Rightarrow>
          (if a_escalated_at a \<noteq> None \<or> a_decided_at a \<noteq> None
           then Some ''pending approval carries a later lifecycle timestamp'' else None)
      | SEscalated \<Rightarrow>
          (if a_escalated_at a = None \<or> a_decided_at a \<noteq> None
           then Some ''escalated approval timestamps are inconsistent'' else None)
      | SApproved \<Rightarrow>
          (if a_decided_at a = None \<or> blank_opt (a_decided_by a)
             \<or> blank_opt (map_option bare_approver_identity (a_approver_identity a))
             \<or> grant_witness K now a = None
           then Some ''approved status is not backed by executable grant evidence'' else None)
      | SDenied \<Rightarrow>
          (if a_decided_at a = None \<or> blank_opt (a_decided_by a)
           then Some ''terminal approval lacks decision attribution'' else None)
      | SExpired \<Rightarrow>
          (if a_decided_at a = None \<or> blank_opt (a_decided_by a)
           then Some ''terminal approval lacks decision attribution'' else None))"

definition execution_shape :: "approval_request \<Rightarrow> string option" where
  "execution_shape a =
     (if a_executing a \<and> a_executed a then
        Some ''approval cannot be executing and executed simultaneously''
      else if a_executing a \<noteq> (a_executing_since a \<noteq> None) then
        Some ''approval execution claim timestamp is inconsistent''
      else if (a_executing a \<or> a_executed a) \<and> a_status a \<noteq> SApproved then
        Some ''only an approved request may execute''
      else if a_executed a \<and> a_result_status a = None \<and> a_result_error a = None then
        Some ''executed approval has no recorded outcome''
      else None)"

definition validate_vault_shape ::
  "codec \<Rightarrow> instant \<Rightarrow> approval_request \<Rightarrow> string + unit" where
  "validate_vault_shape K now a =
     (if blank (a_id a) \<or> blank (a_credential a) \<or> blank (a_action a)
         \<or> blank (a_decision_token_hash a)
      then Inl ''approval identity/action fields must be non-blank''
      else if a_escalate_at a < a_created_at a \<or> a_expires_at a < a_escalate_at a
      then Inl ''approval lifecycle timestamps are out of order''
      else (case first_bad_signoff (a_signoffs a) of
              Some e \<Rightarrow> Inl e
            | None \<Rightarrow>
                (case execution_shape a of
                   Some e \<Rightarrow> Inl e
                 | None \<Rightarrow> (case status_shape K now a of Some e \<Rightarrow> Inl e | None \<Rightarrow> Inr ()))))"

section \<open>What an approved request reports\<close>

definition execution_state_at_decision ::
  "approval_request \<Rightarrow> credential_check \<Rightarrow> execution_state \<times> string option" where
  "execution_state_at_decision a credential =
     (if a_status a \<noteq> SApproved then (NotApplicable, None)
      else if a_executed a then
        (case a_result_error a of Some err \<Rightarrow> (Failed, Some err) | None \<Rightarrow> (Executed, None))
      else (case credential of
              Unusable reason \<Rightarrow> (Blocked, Some reason)
            | _ \<Rightarrow> (AwaitingExecution, a_result_error a)))"

definition reversibility_requires_human_floor :: "string \<Rightarrow> bool" where
  "reversibility_requires_human_floor reversibility \<longleftrightarrow> trim reversibility \<noteq> ''reversible''"

section \<open>Deadlines by criticality\<close>

record criticality_sla =
  sla_escalate_after_secs :: u64
  sla_escalate_window_secs :: u64

definition sla_escalate_after :: "criticality_sla \<Rightarrow> int" where
  "sla_escalate_after s = dur (sint (max (sla_escalate_after_secs s) 1))"

definition sla_escalate_window :: "criticality_sla \<Rightarrow> int" where
  "sla_escalate_window s = dur (sint (max (sla_escalate_window_secs s) 1))"

record criticality_rule =
  cr_credential_pattern :: "string \<Rightarrow> bool"
  cr_action_pattern :: "string \<Rightarrow> bool"
  cr_class :: criticality_class

record approval_config =
  ac_enabled :: bool
  ac_ttl_secs :: u64
  ac_sla_overrides :: "(criticality_class \<times> criticality_sla) list"
  ac_criticality_rules :: "criticality_rule list"
  ac_oob_approver_identity :: "string option"
  ac_reauth_interval_secs :: "u64 option"
  ac_enforce_separation_of_duty :: bool
  ac_sod_explicit :: bool
  ac_dual_control_approvers :: u32

definition apply_sod_default :: "bool \<Rightarrow> approval_config \<Rightarrow> approval_config" where
  "apply_sod_default approver_identities_verified c =
     (if \<not> ac_sod_explicit c \<and> approver_identities_verified
      then c \<lparr> ac_enforce_separation_of_duty := True \<rparr> else c)"

definition config_ttl :: "approval_config \<Rightarrow> int" where
  "config_ttl c = dur (sint (if ac_ttl_secs c = 0 then 3600 else ac_ttl_secs c))"

fun default_sla :: "approval_config \<Rightarrow> criticality_class \<Rightarrow> criticality_sla" where
  "default_sla c CLow =
     \<lparr> sla_escalate_after_secs = 4 * 3600, sla_escalate_window_secs = 4 * 3600 \<rparr>"
| "default_sla c CMedium =
     (let tot = (if ac_ttl_secs c = 0 then 3600 else max (ac_ttl_secs c) 2);
          half = max (tot div 2) 1
      in \<lparr> sla_escalate_after_secs = half, sla_escalate_window_secs = sat_sub tot half \<rparr>)"
| "default_sla c CHigh =
     \<lparr> sla_escalate_after_secs = 15 * 60, sla_escalate_window_secs = 15 * 60 \<rparr>"
| "default_sla c CCritical =
     \<lparr> sla_escalate_after_secs = 5 * 60, sla_escalate_window_secs = 5 * 60 \<rparr>"

definition sla_for :: "approval_config \<Rightarrow> criticality_class \<Rightarrow> criticality_sla" where
  "sla_for c cls =
     (case map_of (ac_sla_overrides c) cls of Some s \<Rightarrow> s | None \<Rightarrow> default_sla c cls)"

definition criticality_for :: "approval_config \<Rightarrow> string \<Rightarrow> string \<Rightarrow> criticality_class" where
  "criticality_for c credential action =
     (case find (\<lambda>r. cr_credential_pattern r credential \<and> cr_action_pattern r action)
            (ac_criticality_rules c) of
        Some r \<Rightarrow> cr_class r
      | None \<Rightarrow> CMedium)"

definition verify_decision_token :: "(string \<Rightarrow> string) \<Rightarrow> string \<Rightarrow> approval_request \<Rightarrow> bool" where
  "verify_decision_token hash_token token a \<longleftrightarrow> hash_token token = a_decision_token_hash a"

end
