(* ===== verification/Approval_Evidence.thy ===== *)
theory Approval_Evidence
  imports Approval
begin

text \<open>
  What the decisions on an approval request guarantee.  The evidence of a grant is characterised on
  the stored sign-offs alone, so that it holds of every record whatever wrote it; the requests that
  the operations can produce satisfy an invariant, from which a request that was granted is granted
  again when its evidence is read back, and keeps the shape the vault demands.
\<close>

section \<open>The keys behind the sign-offs\<close>

definition slot_key :: "approval_request \<Rightarrow> signoff \<Rightarrow> string option" where
  "slot_key a s =
     (if contributes_positive_slot a (so_approve s) (so_resolved_class s)
      then aggregator_key_prefix (so_approver_identity s) else None)"

definition slot_keys :: "approval_request \<Rightarrow> signoff list \<Rightarrow> string list" where
  "slot_keys a sos = List.map_filter (slot_key a) sos"

definition positives :: "approval_request \<Rightarrow> signoff list" where
  "positives a = filter so_approve (a_signoffs a)"

lemma slot_keys_Cons [simp]:
  "slot_keys a [] = []"
  "slot_keys a (s # ss) = (case slot_key a s of None \<Rightarrow> slot_keys a ss | Some k \<Rightarrow> k # slot_keys a ss)"
  by (auto simp: slot_keys_def List.map_filter_simps split: option.split)

lemma slot_keys_append: "slot_keys a (xs @ ys) = slot_keys a xs @ slot_keys a ys"
  by (induction xs) (auto split: option.split)

lemma slot_keys_set: "k \<in> set (slot_keys a sos) \<longleftrightarrow> (\<exists>s \<in> set sos. slot_key a s = Some k)"
  by (induction sos) (auto split: option.splits)

lemma recipe_evidence_iff:
  "recipe_evidence a ks sos \<longleftrightarrow>
     distinct (map ascii_lower (slot_keys a sos)) \<and> ascii_lower ` set (slot_keys a sos) \<inter> set ks = {}"
  by (induction sos arbitrary: ks)
    (auto simp: slot_key_def List.member_iff split: option.splits)

lemma numeric_evidence_iff:
  assumes "a_approval_rule a = None" "\<forall>s \<in> set sos. so_approve s"
  shows "numeric_evidence need ids ks sos \<longleftrightarrow>
     (\<forall>s \<in> set sos. principal_key s \<noteq> []) \<and> distinct (map principal_key sos)
     \<and> principal_key ` set sos \<inter> set ids = {}
     \<and> (1 < need \<longrightarrow> distinct (map ascii_lower (slot_keys a sos))
          \<and> ascii_lower ` set (slot_keys a sos) \<inter> set ks = {})"
  using assms
  by (induction sos arbitrary: ids ks)
    (auto simp: slot_key_def contributes_positive_slot_def List.member_iff split: option.splits)

lemma slot_keys_positives: "slot_keys a (filter so_approve sos) = slot_keys a sos"
  by (induction sos) (auto simp: slot_key_def contributes_positive_slot_def split: option.split)

lemma principal_key_Nil [simp]:
  "principal_key s = [] \<longleftrightarrow> blank (bare_approver_identity (so_approver_identity s))"
  by (simp add: principal_key_def blank_def ascii_lower_def)

section \<open>What a grant rests on\<close>

lemma grant_basis_numeric:
  assumes "a_approval_rule a = None"
  shows "grant_basis_of a \<noteq> None \<longleftrightarrow>
     effective_required_approvals a \<le> of_nat (length (positives a))
     \<and> (\<forall>s \<in> set (positives a). \<not> blank (bare_approver_identity (so_approver_identity s)))
     \<and> distinct (map principal_key (positives a))
     \<and> (1 < effective_required_approvals a \<longrightarrow> distinct (map ascii_lower (slot_keys a (a_signoffs a))))"
proof -
  let ?n = "effective_required_approvals a"
  have k: "slot_keys a (positives a) = slot_keys a (a_signoffs a)"
    by (simp add: positives_def slot_keys_positives)
  have "\<forall>s \<in> set (positives a). so_approve s" by (simp add: positives_def)
  note e = numeric_evidence_iff [OF assms this, of ?n "[]" "[]", unfolded k principal_key_Nil]
  have "grant_basis_of a \<noteq> None \<longleftrightarrow>
      ?n \<le> of_nat (length (positives a)) \<and> numeric_evidence ?n [] [] (positives a)"
    using assms by (auto simp: grant_basis_of_def Let_def positives_def not_less)
  with e show ?thesis by simp
qed

lemma grant_basis_recipe:
  assumes "a_approval_rule a = Some rule"
  shows "grant_basis_of a \<noteq> None \<longleftrightarrow>
     approval_rule_satisfied rule (a_signoffs a)
     \<and> distinct (map ascii_lower (slot_keys a (a_signoffs a)))"
  using assms by (auto simp: grant_basis_of_def recipe_evidence_iff)

lemma grant_witness_inner_Some:
  "grant_witness_inner K now epoch live a = Some g \<longleftrightarrow>
     a_status a = SApproved \<and> grant_basis_of a = Some (gr_basis g)
     \<and> (\<exists>issued. (a_decided_at a = Some issued \<or> a_decided_at a = None \<and> \<not> live \<and> issued = a_created_at a)
          \<and> uint (unrun_window a) < 2 ^ 63
          \<and> (live \<longrightarrow> now < issued + dur (uint (unrun_window a)))
          \<and> approval_binding K epoch a = Some (gr_binding g)
          \<and> gr_issued_at_unix_seconds g = timestamp issued
          \<and> gr_expires_at_unix_seconds g = timestamp (issued + dur (uint (unrun_window a))))"
  by (cases g)
    (auto simp: grant_witness_inner_def Let_def linorder_not_less linorder_not_le
      split: option.splits if_splits)

section \<open>The invariant of a request\<close>

definition contributes :: "approval_request \<Rightarrow> signoff \<Rightarrow> bool" where
  "contributes a s = contributes_positive_slot a (so_approve s) (so_resolved_class s)"

definition one_provenance :: "approval_request \<Rightarrow> bool" where
  "one_provenance a \<longleftrightarrow>
     (\<forall>s \<in> set (a_signoffs a). \<forall>t \<in> set (a_signoffs a). contributes a s \<longrightarrow> contributes a t \<longrightarrow>
        approver_provenance (so_approver_identity s) \<noteq> None \<longrightarrow>
        approver_provenance (so_approver_identity t) \<noteq> None \<longrightarrow>
        approver_provenance (so_approver_identity s) = approver_provenance (so_approver_identity t))"

definition threshold_inv :: "approval_request \<Rightarrow> bool" where
  "threshold_inv a =
     (case a_approval_rule a of
        None \<Rightarrow>
          (is_open (a_status a) \<or> a_status a = SApproved \<longrightarrow> (\<forall>s \<in> set (a_signoffs a). so_approve s))
          \<and> (is_open (a_status a) \<longrightarrow> length (a_signoffs a) < unat (effective_required_approvals a))
          \<and> (a_status a = SApproved \<longrightarrow> length (a_signoffs a) = unat (effective_required_approvals a))
      | Some rule \<Rightarrow> a_status a = SApproved \<longrightarrow> approval_rule_satisfied rule (a_signoffs a))"

definition evidence_inv :: "approval_request \<Rightarrow> bool" where
  "evidence_inv a \<longleftrightarrow>
     (\<forall>s \<in> set (a_signoffs a). \<not> blank (bare_approver_identity (so_approver_identity s)))
     \<and> distinct (map principal_key (positives a))
     \<and> (same_aggregator_key_guard_active a \<longrightarrow>
          distinct (slot_keys a (a_signoffs a)) \<and> one_provenance a)
     \<and> threshold_inv a"

text \<open>What the request was opened with and no later operation changes.\<close>

definition same_terms :: "approval_request \<Rightarrow> approval_request \<Rightarrow> bool" where
  "same_terms a a' \<longleftrightarrow>
     a_approval_rule a' = a_approval_rule a \<and> a_dual_control a' = a_dual_control a
     \<and> a_required_approvals a' = a_required_approvals a"

lemma same_terms_facts:
  assumes "same_terms a a'"
  shows "effective_required_approvals a' = effective_required_approvals a"
    "same_aggregator_key_guard_active a' = same_aggregator_key_guard_active a"
    "contributes_positive_slot a' = contributes_positive_slot a"
    "slot_keys a' = slot_keys a" "contributes a' = contributes a"
proof -
  show "contributes_positive_slot a' = contributes_positive_slot a"
    using assms by (intro ext) (simp add: contributes_positive_slot_def same_terms_def)
  then have k: "slot_key a' = slot_key a" and c: "contributes a' = contributes a"
    by (simp_all add: slot_key_def contributes_def fun_eq_iff)
  show "slot_keys a' = slot_keys a" by (rule ext) (simp add: slot_keys_def k)
  show "contributes a' = contributes a" by (fact c)
qed (use assms in \<open>simp_all add: effective_required_approvals_def same_terms_def
        same_aggregator_key_guard_active_def\<close>)

lemma inv_same_signoffs:
  assumes "evidence_inv a" "same_terms a a'" "a_signoffs a' = a_signoffs a"
    and "a_status a' = a_status a \<or> is_open (a_status a) \<and> is_open (a_status a')
      \<or> a_status a' = SExpired \<or> a_status a' = SDenied"
  shows "evidence_inv a'"
proof -
  note t = same_terms_facts [OF assms(2)]
  have r: "a_approval_rule a' = a_approval_rule a" using assms(2) by (simp add: same_terms_def)
  have "threshold_inv a'"
    using assms(1,4) unfolding evidence_inv_def threshold_inv_def r t assms(3)
    by (cases "a_status a"; cases "a_status a'") (auto split: option.splits)
  with assms(1) show ?thesis
    unfolding evidence_inv_def positives_def one_provenance_def t assms(3) by blast
qed

lemma fresh_inv:
  assumes "a_status a = SPending" "a_signoffs a = []"
  shows "evidence_inv a"
proof -
  have "0 < effective_required_approvals a"
    by (auto simp: effective_required_approvals_def word_less_nat_alt max_def word_le_nat_alt)
  then have "0 < unat (effective_required_approvals a)" by (simp add: word_less_nat_alt)
  with assms show ?thesis
    by (simp add: evidence_inv_def positives_def one_provenance_def threshold_inv_def
        split: option.split)
qed

lemma prefix_starts: "aggregator_key_prefix i = Some k \<Longrightarrow> starts_with i k"
  unfolding starts_with_append
  by (auto simp: aggregator_key_prefix_def split: option.splits)
    (metis append_take_drop_id)+

lemma denial_terms: "same_terms a (record_denial now i v d a)"
  by (simp add: same_terms_def record_denial_def Let_def)

lemma approval_terms: "same_terms a (record_approval now i d a)"
  by (simp add: same_terms_def record_approval_def Let_def)

lemma denial_signoffs:
  "a_signoffs (record_denial now i v d a) = a_signoffs a @ [signoff_of now i d False]"
  by (simp add: record_denial_def Let_def)

lemma approval_signoffs:
  "a_signoffs (record_approval now i d a) = a_signoffs a @ [signoff_of now i d True]"
  by (simp add: record_approval_def Let_def)

lemma signoff_of_sel [simp]:
  "so_approver_identity (signoff_of now i d b) = i" "so_approve (signoff_of now i d b) = b"
  "so_resolved_class (signoff_of now i d b) = dc_resolved_class d"
  "so_channel (signoff_of now i d b) = dc_channel d"
  "so_approver_kind (signoff_of now i d b) = dc_approver_kind d"
  "so_delegation_grant_ref (signoff_of now i d b) = dc_delegation_grant_ref d"
  by (simp_all add: signoff_of_def)

lemma inv_denial:
  assumes inv: "evidence_inv a" and i: "\<not> blank (bare_approver_identity i)"
    and v: "v \<or> is_open (a_status a)"
  shows "evidence_inv (record_denial now i v d a)"
proof -
  let ?a = "record_denial now i v d a" and ?s = "signoff_of now i d False"
  note t = same_terms_facts [OF denial_terms]
  have n: "\<not> contributes a ?s" "slot_key a ?s = None"
    by (simp_all add: contributes_def contributes_positive_slot_def slot_key_def)
  have "threshold_inv ?a"
  proof (cases "a_approval_rule a")
    case None
    then show ?thesis by (simp add: threshold_inv_def record_denial_def Let_def)
  next
    case (Some rule)
    with v show ?thesis
      by (auto simp: threshold_inv_def record_denial_def Let_def)
  qed
  moreover have "one_provenance a \<Longrightarrow> one_provenance ?a"
    using n(1) unfolding one_provenance_def t denial_signoffs by auto
  ultimately show ?thesis
    using inv i n(2)
    by (auto simp: evidence_inv_def t denial_signoffs positives_def slot_keys_append)
qed

lemma guard_None:
  assumes "approval_guard i d a = None"
  shows "\<not> owner_excluded a i" "\<not> (dc_enforce_sod d \<and> sod_for a i = Some True)" "\<not> already_signed i a"
    and "same_aggregator_key_guard_active a \<Longrightarrow> contributes_positive_slot a True (dc_resolved_class d)
      \<Longrightarrow> \<not> same_key_signed i a \<and> \<not> other_provenance_signed i a"
  using assms by (auto simp: approval_guard_def Let_def split: if_splits)

lemma new_principal:
  assumes "\<not> already_signed i a"
  shows "principal_key (signoff_of now i d b) \<notin> principal_key ` set (a_signoffs a)"
  using assms by (auto simp: already_signed_def Let_def list_ex_iff principal_key_def
      eq_ignore_ascii_case_def)

lemma new_slot_key:
  assumes "same_aggregator_key_guard_active a" "approval_guard i d a = None"
  shows "slot_key a (signoff_of now i d True) = Some k \<Longrightarrow> k \<notin> set (slot_keys a (a_signoffs a))"
proof -
  assume k: "slot_key a (signoff_of now i d True) = Some k"
  then have c: "contributes_positive_slot a True (dc_resolved_class d)" "aggregator_key_prefix i = Some k"
    by (auto simp: slot_key_def split: if_splits)
  have "\<not> same_key_signed i a" using guard_None(4) [OF assms(2,1) c(1)] by blast
  with c(2) show ?thesis
    by (auto simp: same_key_signed_def list_ex_iff slot_keys_set slot_key_def dest: prefix_starts
        split: if_splits)
qed

lemma new_provenance:
  assumes "same_aggregator_key_guard_active a" "approval_guard i d a = None" "one_provenance a"
  shows "one_provenance (record_approval now i d a)"
proof -
  let ?n = "signoff_of now i d True"
  note t = same_terms_facts [OF approval_terms]
  have "approver_provenance i = approver_provenance (so_approver_identity s)"
    if "contributes a ?n" "s \<in> set (a_signoffs a)" "contributes a s"
      "approver_provenance i \<noteq> None" "approver_provenance (so_approver_identity s) \<noteq> None" for s
  proof -
    have "\<not> other_provenance_signed i a"
      using guard_None(4) [OF assms(2,1)] that(1) by (simp add: contributes_def)
    with that(2-) show ?thesis
      by (auto simp: other_provenance_signed_def list_ex_iff contributes_def split: option.splits)
  qed
  note new = this
  show ?thesis
    unfolding one_provenance_def t approval_signoffs
  proof (intro ballI impI)
    fix s u
    assume *: "s \<in> set (a_signoffs a @ [?n])" "u \<in> set (a_signoffs a @ [?n])" "contributes a s"
      "contributes a u" "approver_provenance (so_approver_identity s) \<noteq> None"
      "approver_provenance (so_approver_identity u) \<noteq> None"
    show "approver_provenance (so_approver_identity s) = approver_provenance (so_approver_identity u)"
    proof (cases "s = ?n"; cases "u = ?n")
      assume "s \<noteq> ?n" "u \<noteq> ?n"
      with * assms(3) show ?thesis by (auto simp: one_provenance_def)
    next
      assume "s = ?n" "u \<noteq> ?n"
      with * new [of u] show ?thesis by auto
    next
      assume "s \<noteq> ?n" "u = ?n"
      with * new [of s] show ?thesis by auto
    qed auto
  qed
qed

lemma threshold_approval:
  assumes "threshold_inv a" "is_open (a_status a)"
  shows "threshold_inv (record_approval now i d a)"
proof (cases "a_approval_rule a")
  case (Some rule)
  have "a_status a \<noteq> SApproved" using assms(2) by auto
  with Some show ?thesis by (simp add: threshold_inv_def record_approval_def Let_def)
next
  case None
  let ?a = "record_approval now i d a" and ?n = "effective_required_approvals a"
  have all: "\<forall>s \<in> set (a_signoffs ?a). so_approve s" and l: "length (a_signoffs a) < unat ?n"
    using assms None by (auto simp: threshold_inv_def approval_signoffs)
  have b: "unat ?n < 2 ^ LENGTH(32)" by (rule unsigned_less)
  have u: "unat (of_nat (Suc (length (a_signoffs a))) :: u32) = Suc (length (a_signoffs a))"
    using l b by (simp only: unat_of_nat) simp
  have "?n \<le> of_nat (Suc (length (a_signoffs a))) \<longleftrightarrow> unat ?n \<le> Suc (length (a_signoffs a))"
    by (simp only: word_le_nat_alt u)
  then show ?thesis
    using all l None assms(2) same_terms_facts(1) [OF approval_terms, of now i d a]
    by (auto simp: threshold_inv_def record_approval_def Let_def)
qed

lemma inv_approval:
  assumes inv: "evidence_inv a" and i: "\<not> blank (bare_approver_identity i)"
    and o': "is_open (a_status a)" and g: "approval_guard i d a = None"
  shows "evidence_inv (record_approval now i d a)"
proof -
  let ?a = "record_approval now i d a" and ?n = "signoff_of now i d True"
  note t = same_terms_facts [OF approval_terms]
  have "distinct (map principal_key (positives ?a))"
    using inv new_principal [OF guard_None(3) [OF g], of now d True]
    by (auto simp: evidence_inv_def positives_def approval_signoffs)
  moreover have "distinct (slot_keys a (a_signoffs ?a))" if "same_aggregator_key_guard_active a"
    using inv that new_slot_key [OF that g, of now]
    by (auto simp: evidence_inv_def approval_signoffs slot_keys_append split: option.split)
  moreover have "one_provenance ?a" if "same_aggregator_key_guard_active a"
    using new_provenance [OF that g] inv that by (simp add: evidence_inv_def)
  moreover have "threshold_inv ?a" using threshold_approval inv o' by (simp add: evidence_inv_def)
  ultimately show ?thesis
    using inv i by (auto simp: evidence_inv_def t approval_signoffs)
qed

lemma inv_advance: "evidence_inv a \<Longrightarrow> evidence_inv (snd (advance_lifecycle now a))"
  by (rule inv_same_signoffs [of a]) (auto simp: advance_lifecycle_def same_terms_def)

lemma inv_expire: "evidence_inv a \<Longrightarrow> evidence_inv (snd (expire_if_due now a))"
  by (rule inv_same_signoffs [of a]) (auto simp: expire_if_due_def same_terms_def)

lemma inv_lapsed: "evidence_inv a \<Longrightarrow> evidence_inv (expire_reauth_lapsed a)"
  by (rule inv_same_signoffs [of a]) (auto simp: expire_reauth_lapsed_def same_terms_def)

text \<open>The outcomes of a decision.\<close>

lemma transition_cases:
  assumes "transition now to d a = (r, a')"
  obtains (refused) e where "r = Inl e" "a' = a"
  | (expired) "r = Inl ApprovalExpired" "is_past_ttl now a" "a' = snd (expire_if_due now a)"
  | (denied) "r = Inr ()" "to = SDenied" "\<not> is_past_ttl now a"
      "is_open (a_status a) \<or> is_delegate_veto now to d a"
      "\<not> blank (bare_approver_identity (trim (dc_approver_identity d)))"
      "a' = record_denial now (trim (dc_approver_identity d)) (is_delegate_veto now to d a) d a"
  | (approved) "r = Inr ()" "to \<noteq> SDenied" "\<not> is_past_ttl now a" "is_open (a_status a)"
      "\<not> blank (bare_approver_identity (trim (dc_approver_identity d)))"
      "approval_guard (trim (dc_approver_identity d)) d a = None"
      "a' = record_approval now (trim (dc_approver_identity d)) d a"
proof -
  have v: "to \<noteq> SDenied \<Longrightarrow> \<not> is_delegate_veto now to d a" by (simp add: is_delegate_veto_def)
  show thesis
    using assms unfolding transition_def Let_def
    by (auto split: if_splits option.splits intro: that dest: v)
qed

lemma inv_transition:
  assumes "evidence_inv a" "transition now to d a = (r, a')"
  shows "evidence_inv a'"
  using assms(2)
proof (cases rule: transition_cases)
  case denied
  then show ?thesis using inv_denial [OF assms(1)] by blast
next
  case approved
  then show ?thesis using inv_approval [OF assms(1)] by blast
qed (use assms(1) inv_expire in auto)

section \<open>The requests the operations produce\<close>

text \<open>
  A request starts pending and unsigned.  It then sees the clock, decisions, the lapse of a grant
  that was not run, and the bookkeeping of its execution, which touches no evidence.
\<close>

inductive request_step :: "approval_request \<Rightarrow> approval_request \<Rightarrow> bool" where
  tick: "request_step a (snd (advance_lifecycle now a))"
| decide: "transition now to d a = (r, a') \<Longrightarrow> request_step a a'"
| lapse: "needs_reauth now a \<Longrightarrow> request_step a (expire_reauth_lapsed a)"
| bookkeep: "request_step a (a \<lparr> a_delegate_veto_until := v, a_executing := x, a_executing_since := t,
     a_executed := y, a_result_status := rs, a_result_body := rb, a_result_error := re,
     a_execution_epoch := e \<rparr>)"

inductive request_reachable :: "approval_request \<Rightarrow> bool" where
  fresh: "a_status a = SPending \<Longrightarrow> a_signoffs a = [] \<Longrightarrow> request_reachable a"
| step: "request_reachable a \<Longrightarrow> request_step a a' \<Longrightarrow> request_reachable a'"

lemma inv_step:
  assumes "request_step a a'" "evidence_inv a"
  shows "evidence_inv a'"
  using assms(1)
proof cases
  case (decide now to d r)
  then show ?thesis using inv_transition assms(2) by blast
next
  case bookkeep
  then show ?thesis
    using inv_same_signoffs [OF assms(2)] by (simp add: same_terms_def)
qed (use assms(2) inv_advance inv_lapsed in auto)

lemma reachable_inv: "request_reachable a \<Longrightarrow> evidence_inv a"
  by (induction rule: request_reachable.induct) (blast intro: fresh_inv inv_step)+

lemma open_reachable: "request_reachable (open_request f now n)"
  by (rule fresh) (simp_all add: open_request_def)

text \<open>Aggregator keys are identifiers in lower case.\<close>

definition lower_keys :: "approval_request \<Rightarrow> bool" where
  "lower_keys a \<longleftrightarrow>
     (\<forall>s \<in> set (a_signoffs a). \<forall>k. aggregator_key_prefix (so_approver_identity s) = Some k \<longrightarrow>
        ascii_lower k = k)"

lemma lower_slot_keys:
  assumes "lower_keys a"
  shows "map ascii_lower (slot_keys a (a_signoffs a)) = slot_keys a (a_signoffs a)"
  by (rule map_idI) (use assms in \<open>auto simp: lower_keys_def slot_keys_set slot_key_def split: if_splits\<close>)

lemma inv_grants:
  assumes inv: "evidence_inv a" and st: "a_status a = SApproved" and lk: "lower_keys a"
  shows "grant_basis_of a \<noteq> None"
proof (cases "a_approval_rule a")
  case None
  let ?n = "effective_required_approvals a"
  have all: "\<forall>s \<in> set (a_signoffs a). so_approve s" "length (a_signoffs a) = unat ?n"
    using inv st None by (auto simp: evidence_inv_def threshold_inv_def)
  then have p: "positives a = a_signoffs a" by (simp add: positives_def)
  have "of_nat (length (positives a)) = ?n" using all(2) p by simp
  moreover have "1 < ?n \<Longrightarrow> distinct (slot_keys a (a_signoffs a))"
    using inv by (auto simp: evidence_inv_def same_aggregator_key_guard_active_def)
  ultimately show ?thesis
    using inv p lower_slot_keys [OF lk] unfolding grant_basis_numeric [OF None] evidence_inv_def
    by simp
next
  case (Some rule)
  then have "same_aggregator_key_guard_active a" by (simp add: same_aggregator_key_guard_active_def)
  with inv st Some lower_slot_keys [OF lk] show ?thesis
    unfolding grant_basis_recipe [OF Some] evidence_inv_def threshold_inv_def by simp
qed

section \<open>A decision keeps the stored shape\<close>

definition decision_shape :: "decision \<Rightarrow> bool" where
  "decision_shape d \<longleftrightarrow>
     \<not> blank (dc_channel d)
     \<and> (trim (dc_approver_kind d) = ''human''
          \<and> dc_resolved_class d \<notin> {Some AgentReviewer, Some UnknownClass}
        \<or> trim (dc_approver_kind d) = ''delegate-agent''
          \<and> dc_resolved_class d = Some AgentReviewer \<and> \<not> blank_opt (dc_delegation_grant_ref d))"

lemma signoff_of_shape:
  "decision_shape d \<Longrightarrow> \<not> blank (bare_approver_identity i) \<Longrightarrow> signoff_shape (signoff_of now i d b) = None"
  by (auto simp: decision_shape_def signoff_shape_def)

lemma first_bad_append: "first_bad_signoff (xs @ ys) =
    (case first_bad_signoff xs of Some e \<Rightarrow> Some e | None \<Rightarrow> first_bad_signoff ys)"
  by (induction xs) (auto split: option.split)

lemma shape_iff:
  "validate_vault_shape K now a = Inr () \<longleftrightarrow>
     \<not> (blank (a_id a) \<or> blank (a_credential a) \<or> blank (a_action a) \<or> blank (a_decision_token_hash a))
     \<and> a_created_at a \<le> a_escalate_at a \<and> a_escalate_at a \<le> a_expires_at a
     \<and> first_bad_signoff (a_signoffs a) = None \<and> execution_shape a = None \<and> status_shape K now a = None"
  by (auto simp: validate_vault_shape_def not_less split: option.splits if_splits)

lemma inv_witness:
  assumes "evidence_inv a" "a_status a = SApproved" "lower_keys a"
    and "uint (unrun_window a) < 2 ^ 63" "\<forall>j. co_to_vec K j \<noteq> None"
  shows "grant_witness K now a \<noteq> None"
proof -
  obtain basis where b: "grant_basis_of a = Some basis" using inv_grants [OF assms(1-3)] by blast
  obtain x y where "co_to_vec K (a_params a) = Some x" "co_to_vec K (rule_evidence a) = Some y"
    using assms(5) by blast
  then have "approval_binding K (a_execution_epoch a) a \<noteq> None" by (simp add: approval_binding_def)
  then show ?thesis
    using assms(2,4) b unfolding grant_witness_def grant_witness_inner_def Let_def
    by (auto split: option.splits)
qed

lemma denial_shape:
  assumes sh: "validate_vault_shape K now' a = Inr ()" and ds: "decision_shape d"
    and i: "\<not> blank (bare_approver_identity i)"
    and o': "is_open (a_status a) \<or> v \<and> \<not> a_executing a \<and> \<not> a_executed a"
  shows "validate_vault_shape K now'' (record_denial now i v d a) = Inr ()"
proof -
  let ?a = "record_denial now i v d a"
  have ex: "\<not> a_executing a" "\<not> a_executed a" "a_executing_since a = None"
    using sh o' by (auto simp: shape_iff execution_shape_def split: if_splits)
  have ch: "\<not> blank (dc_channel d)" using ds by (simp add: decision_shape_def)
  have "status_shape K now'' ?a = None"
  proof (cases "a_status ?a = SDenied")
    case True
    then have "a_decided_at ?a = Some now \<and> a_decided_by ?a = Some (dc_channel d)
        \<or> a_status a = SDenied \<and> a_decided_at ?a = a_decided_at a \<and> a_decided_by ?a = a_decided_by a"
      by (auto simp: record_denial_def Let_def split: if_splits)
    with True ch sh show ?thesis
      by (auto simp: status_shape_def blank_opt_def or_empty_def shape_iff split: if_splits)
  next
    case False
    then have e: "a_status ?a = a_status a" "a_escalated_at ?a = a_escalated_at a"
      "a_decided_at ?a = a_decided_at a" "\<not> v"
      by (auto simp: record_denial_def Let_def split: if_splits)
    with o' sh show ?thesis by (cases "a_status a") (auto simp: status_shape_def shape_iff)
  qed
  moreover have "execution_shape ?a = None"
    using ex by (simp add: execution_shape_def record_denial_def Let_def)
  ultimately show ?thesis
    using sh signoff_of_shape [OF ds i]
    by (simp add: shape_iff denial_signoffs first_bad_append) (simp add: record_denial_def Let_def)
qed

lemma approval_shape:
  assumes sh: "validate_vault_shape K now' a = Inr ()" and ds: "decision_shape d"
    and i: "\<not> blank (bare_approver_identity i)" and o': "is_open (a_status a)"
    and inv: "evidence_inv (record_approval now i d a)" and lk: "lower_keys (record_approval now i d a)"
    and w: "uint (unrun_window a) < 2 ^ 63" and K: "\<forall>j. co_to_vec K j \<noteq> None"
  shows "validate_vault_shape K now'' (record_approval now i d a) = Inr ()"
proof -
  let ?a = "record_approval now i d a"
  have ex: "\<not> a_executing a" "\<not> a_executed a" "a_executing_since a = None"
    using sh o' by (auto simp: shape_iff execution_shape_def split: if_splits)
  have ch: "\<not> blank (dc_channel d)" using ds by (simp add: decision_shape_def)
  have "status_shape K now'' ?a = None"
  proof (cases "a_status ?a = SApproved")
    case True
    have "unrun_window ?a = unrun_window a" by (simp add: unrun_window_def record_approval_def Let_def)
    then have g: "grant_witness K now'' ?a \<noteq> None" using inv_witness [OF inv True lk _ K] w by simp
    have "a_status a \<noteq> SApproved" using o' by auto
    with True have "a_decided_at ?a = Some now" "a_decided_by ?a = Some (dc_channel d)"
      "a_approver_identity ?a = Some i"
      by (auto simp: record_approval_def Let_def split: if_splits)
    with True g ch i show ?thesis by (auto simp: status_shape_def blank_opt_def or_empty_def)
  next
    case False
    then have e: "a_status ?a = a_status a" "a_escalated_at ?a = a_escalated_at a"
      "a_decided_at ?a = a_decided_at a"
      by (auto simp: record_approval_def Let_def split: if_splits)
    with o' sh show ?thesis by (cases "a_status a") (auto simp: status_shape_def shape_iff)
  qed
  moreover have "execution_shape ?a = None"
    using ex by (simp add: execution_shape_def record_approval_def Let_def)
  ultimately show ?thesis
    using sh signoff_of_shape [OF ds i]
    by (simp add: shape_iff approval_signoffs first_bad_append) (simp add: record_approval_def Let_def)
qed

end
