(* ===== verification/Policy_Semantics.thy ===== *)
theory Policy_Semantics
  imports Policy_Engine
begin

text \<open>
  What the policy engine decides.  \<open>cond_sem\<close> is a reference semantics of conditions without early
  exit and without state; the lemmas show that the engine's evaluator computes it, and derive from
  it when a request is denied, prompted or allowed, and what an allowed request has charged.
\<close>

section \<open>Reference semantics of conditions\<close>

fun cond_sem :: "eval_env \<Rightarrow> eval_input \<Rightarrow> bool \<Rightarrow> bool \<Rightarrow> policy_condition \<Rightarrow> bool" where
  "cond_sem E i rec broad (UrlMatch p) = opt_test (\<lambda>u. url_matches_for (pe_lib E) u p broad) (ei_url i)"
| "cond_sem E i rec broad (MethodMatch ms) =
     opt_test (\<lambda>m. list_ex (\<lambda>x. eq_ignore_ascii_case x m) ms) (ei_method i)"
| "cond_sem E i rec broad (ActionMatch p) = opt_test (action_matches (pe_lib E) p) (ei_action i)"
| "cond_sem E i rec broad (TimeWindow s e) = in_time_window s e (pe_local E)"
| "cond_sem E i rec broad (RateLimit mx w) = True"
| "cond_sem E i rec broad (SpendCap a m) = spend_within_cap (ei_spend i) a m rec"
| "cond_sem E i rec broad (And cs) = list_all (cond_sem E i rec broad) cs"
| "cond_sem E i rec broad (Or cs) = list_ex (cond_sem E i rec broad) cs"
| "cond_sem E i rec broad (Not c) = (\<not> cond_sem E i rec (\<not> broad) c)"
| "cond_sem E i rec broad Always = True"

text \<open>A condition whose evaluation reads no counter.\<close>

definition plain :: "bool \<Rightarrow> policy_condition \<Rightarrow> bool" where
  "plain rec c \<longleftrightarrow> \<not> rec \<or> \<not> condition_contains_rate_limit c"

text \<open>The evaluator agrees with the reference on what the caller asked for and charges nothing.\<close>

definition agrees :: "eval_env \<Rightarrow> eval_input \<Rightarrow> bool \<Rightarrow> want \<Rightarrow> bool \<Rightarrow> bool
    \<Rightarrow> limits \<Rightarrow> (bool \<times> bool) \<times> limits \<Rightarrow> bool" where
  "agrees E i rec wt n w l res \<longleftrightarrow>
     snd res = l \<and> (w_narrow wt \<longrightarrow> fst (fst res) = n) \<and> (w_wide wt \<longrightarrow> snd (fst res) = w)"

definition exact :: "eval_env \<Rightarrow> eval_input \<Rightarrow> bool \<Rightarrow> policy_condition \<Rightarrow> bool" where
  "exact E i rec c \<longleftrightarrow> (\<forall>wt l. agrees E i rec wt (cond_sem E i rec False c) (cond_sem E i rec True c) l
     (eval_pair E i rec wt c l))"

lemma plain_simps [simp]:
  "plain rec (And cs) \<longleftrightarrow> (\<forall>c \<in> set cs. plain rec c)"
  "plain rec (Or cs) \<longleftrightarrow> (\<forall>c \<in> set cs. plain rec c)"
  "plain rec (Not c) \<longleftrightarrow> plain rec c"
  "plain rec (RateLimit mx w) \<longleftrightarrow> \<not> rec"
  "plain False c"
  by (auto simp: plain_def list_ex_iff)

lemma eval_and_agrees:
  "\<forall>c \<in> set cs. exact E i rec c \<Longrightarrow>
     agrees E i rec wt (fst acc \<and> list_all (cond_sem E i rec False) cs)
       (snd acc \<and> list_all (cond_sem E i rec True) cs) l (eval_and E i rec wt cs acc l)"
proof (induction cs arbitrary: acc)
  case (Cons c cs)
  obtain n w l' where c: "eval_pair E i rec wt c l = ((n, w), l')" by (metis prod.exhaust)
  have "exact E i rec c" using Cons.prems by simp
  then have nw: "l' = l" "w_narrow wt \<longrightarrow> n = cond_sem E i rec False c"
      "w_wide wt \<longrightarrow> w = cond_sem E i rec True c"
    using c unfolding exact_def agrees_def by (metis fst_conv snd_conv)+
  have IH: "agrees E i rec wt ((fst acc \<and> n) \<and> list_all (cond_sem E i rec False) cs)
       ((snd acc \<and> w) \<and> list_all (cond_sem E i rec True) cs) l
       (eval_and E i rec wt cs (fst acc \<and> n, snd acc \<and> w) l)"
    using Cons.IH [of "(fst acc \<and> n, snd acc \<and> w)"] Cons.prems by simp
  show ?case
  proof (cases "and_open wt (fst acc \<and> n, snd acc \<and> w)")
    case True
    then have "eval_and E i rec wt (c # cs) acc l = eval_and E i rec wt cs (fst acc \<and> n, snd acc \<and> w) l"
      using c nw(1) by (simp add: Let_def)
    with IH nw show ?thesis by (simp add: agrees_def)
  next
    case False
    then have "eval_and E i rec wt (c # cs) acc l = ((fst acc \<and> n, snd acc \<and> w), l)"
      using c nw(1) by (simp add: Let_def)
    with False nw show ?thesis by (auto simp: agrees_def and_open_def)
  qed
qed (simp add: agrees_def)

lemma eval_or_agrees:
  "\<forall>c \<in> set cs. exact E i rec c \<Longrightarrow>
     agrees E i rec wt (fst acc \<or> list_ex (cond_sem E i rec False) cs)
       (snd acc \<or> list_ex (cond_sem E i rec True) cs) l (eval_or E i rec wt cs acc l)"
proof (induction cs arbitrary: acc)
  case (Cons c cs)
  obtain n w l' where c: "eval_pair E i rec wt c l = ((n, w), l')" by (metis prod.exhaust)
  have "exact E i rec c" using Cons.prems by simp
  then have nw: "l' = l" "w_narrow wt \<longrightarrow> n = cond_sem E i rec False c"
      "w_wide wt \<longrightarrow> w = cond_sem E i rec True c"
    using c unfolding exact_def agrees_def by (metis fst_conv snd_conv)+
  have IH: "agrees E i rec wt ((fst acc \<or> n) \<or> list_ex (cond_sem E i rec False) cs)
       ((snd acc \<or> w) \<or> list_ex (cond_sem E i rec True) cs) l
       (eval_or E i rec wt cs (fst acc \<or> n, snd acc \<or> w) l)"
    using Cons.IH [of "(fst acc \<or> n, snd acc \<or> w)"] Cons.prems by simp
  show ?case
  proof (cases "or_settled wt (fst acc \<or> n, snd acc \<or> w)")
    case True
    then have "eval_or E i rec wt (c # cs) acc l = ((fst acc \<or> n, snd acc \<or> w), l)"
      using c nw(1) by (simp add: Let_def)
    with True nw show ?thesis by (auto simp: agrees_def or_settled_def)
  next
    case False
    then have "eval_or E i rec wt (c # cs) acc l = eval_or E i rec wt cs (fst acc \<or> n, snd acc \<or> w) l"
      using c nw(1) by (simp add: Let_def)
    with IH nw show ?thesis by (simp add: agrees_def)
  qed
qed (simp add: agrees_def)

lemma plain_exact: "plain rec c \<Longrightarrow> exact E i rec c"
proof (induction c)
  case (UrlMatch p)
  have "url_matches_for (pe_lib E) u p False \<or> url_matches_for (pe_lib E) u p True
      \<longleftrightarrow> url_matches_for (pe_lib E) u p True" for u
    using url_matches_broaden by blast
  then show ?case by (simp add: exact_def agrees_def opt_test_def Let_def split: option.split)
next
  case (And cs)
  then have "\<forall>c \<in> set cs. exact E i rec c" by simp
  from eval_and_agrees [OF this, of _ "(True, True)"] show ?case by (simp add: exact_def)
next
  case (Or cs)
  then have "\<forall>c \<in> set cs. exact E i rec c" by simp
  from eval_or_agrees [OF this, of _ "(False, False)"] show ?case by (simp add: exact_def)
next
  case (Not c)
  then have "exact E i rec c" by simp
  then show ?case unfolding exact_def agrees_def by (simp add: case_prod_unfold)
qed (simp_all add: exact_def agrees_def Let_def)

lemma eval_narrow:
  assumes "plain rec c"
  shows "\<exists>w. eval_pair E i rec want_narrow c l = ((cond_sem E i rec False c, w), l)"
proof -
  have "agrees E i rec want_narrow (cond_sem E i rec False c) (cond_sem E i rec True c) l
      (eval_pair E i rec want_narrow c l)"
    using plain_exact [OF assms] by (simp add: exact_def)
  then have "eval_pair E i rec want_narrow c l
      = ((cond_sem E i rec False c, snd (fst (eval_pair E i rec want_narrow c l))), l)"
    by (simp add: agrees_def prod_eq_iff)
  then show ?thesis ..
qed

lemma eval_wide:
  assumes "plain rec c"
  shows "\<exists>n. eval_pair E i rec want_wide c l = ((n, cond_sem E i rec True c), l)"
proof -
  have "agrees E i rec want_wide (cond_sem E i rec False c) (cond_sem E i rec True c) l
      (eval_pair E i rec want_wide c l)"
    using plain_exact [OF assms] by (simp add: exact_def)
  then have "eval_pair E i rec want_wide c l
      = ((fst (fst (eval_pair E i rec want_wide c l)), cond_sem E i rec True c), l)"
    by (simp add: agrees_def prod_eq_iff)
  then show ?thesis ..
qed

text \<open>The narrow reading implies the wide one, whatever the counters answer.\<close>

definition ordered :: "(bool \<times> bool) \<times> limits \<Rightarrow> bool" where
  "ordered res \<longleftrightarrow> (fst (fst res) \<longrightarrow> snd (fst res))"

lemma eval_and_ordered:
  "\<forall>c \<in> set cs. \<forall>l. ordered (eval_pair E i rec wt c l) \<Longrightarrow> fst acc \<longrightarrow> snd acc \<Longrightarrow>
     ordered (eval_and E i rec wt cs acc l)"
proof (induction cs arbitrary: acc l)
  case (Cons c cs)
  obtain n w l' where c: "eval_pair E i rec wt c l = ((n, w), l')" by (metis prod.exhaust)
  have "ordered (eval_pair E i rec wt c l)" using Cons.prems(1) by simp
  then have nw: "n \<longrightarrow> w" using c by (simp add: ordered_def)
  have "ordered (eval_and E i rec wt cs (fst acc \<and> n, snd acc \<and> w) l')"
    using Cons.IH [of "(fst acc \<and> n, snd acc \<and> w)" l'] Cons.prems nw by auto
  moreover have "ordered ((fst acc \<and> n, snd acc \<and> w), l')"
    using Cons.prems(2) nw by (auto simp: ordered_def)
  ultimately show ?case using c by (simp add: Let_def)
qed (simp add: ordered_def)

lemma eval_or_ordered:
  "\<forall>c \<in> set cs. \<forall>l. ordered (eval_pair E i rec wt c l) \<Longrightarrow> fst acc \<longrightarrow> snd acc \<Longrightarrow>
     ordered (eval_or E i rec wt cs acc l)"
proof (induction cs arbitrary: acc l)
  case (Cons c cs)
  obtain n w l' where c: "eval_pair E i rec wt c l = ((n, w), l')" by (metis prod.exhaust)
  have "ordered (eval_pair E i rec wt c l)" using Cons.prems(1) by simp
  then have nw: "n \<longrightarrow> w" using c by (simp add: ordered_def)
  have "ordered (eval_or E i rec wt cs (fst acc \<or> n, snd acc \<or> w) l')"
    using Cons.IH [of "(fst acc \<or> n, snd acc \<or> w)" l'] Cons.prems nw by auto
  moreover have "ordered ((fst acc \<or> n, snd acc \<or> w), l')"
    using Cons.prems(2) nw by (auto simp: ordered_def)
  ultimately show ?case using c by (simp add: Let_def)
qed (simp add: ordered_def)

lemma eval_pair_ordered: "ordered (eval_pair E i rec wt c l)"
proof (induction c arbitrary: wt l)
  case (And cs)
  then show ?case using eval_and_ordered [of cs E i rec wt "(True, True)"] by simp
next
  case (Or cs)
  then show ?case using eval_or_ordered [of cs E i rec wt "(False, False)"] by simp
next
  case (Not c)
  let ?wt = "\<lparr>w_narrow = w_wide wt, w_wide = w_narrow wt\<rparr>"
  have "ordered (eval_pair E i rec ?wt c l)" by (rule Not)
  then show ?case by (auto simp: ordered_def split: prod.split)
qed (auto simp: ordered_def Let_def split: option.split prod.split)

lemma cond_sem_mono: "cond_sem E i rec False c \<Longrightarrow> cond_sem E i rec True c"
proof -
  have "cond_sem E i rec b c \<longrightarrow> cond_sem E i rec True c" for b
  proof -
    have "(cond_sem E i rec False c \<longrightarrow> cond_sem E i rec True c)"
      by (induction c) (auto simp: opt_test_def list_all_iff list_ex_iff url_matches_broaden split: option.splits)
    then show ?thesis by (cases b) auto
  qed
  then show "cond_sem E i rec False c \<Longrightarrow> cond_sem E i rec True c" by blast
qed
section \<open>The deny and prompt tiers\<close>

definition rule_hit :: "eval_env \<Rightarrow> eval_input \<Rightarrow> bool \<Rightarrow> policy_rule \<Rightarrow> bool" where
  "rule_hit E i rec r = cond_sem E i rec (pr_action r = Deny) (pr_condition r)"

text \<open>A prompt rule that holds only under the broadened reading of URLs.\<close>

definition rule_near :: "eval_env \<Rightarrow> eval_input \<Rightarrow> policy_rule \<Rightarrow> bool" where
  "rule_near E i r \<longleftrightarrow>
     pr_action r = Prompt \<and> (\<forall>a m. pr_condition r \<noteq> SpendCap a m)
     \<and> cond_sem E i False True (pr_condition r)"

lemma rule_matches_SpendCap:
  "pr_condition r = SpendCap a m \<Longrightarrow> rule_matches E i rec r st = (spend_within_cap (ei_spend i) a m rec, st)"
  by (simp add: rule_matches_def)

lemma rule_matches_other:
  assumes "\<forall>a m. pr_condition r \<noteq> SpendCap a m"
  shows "rule_matches E i rec r st =
     (let c = pr_condition r in
      case pr_action r of
        Allow \<Rightarrow>
          (case eval_pair E i rec want_narrow c (ts_limits st) of
             ((n, _), l') \<Rightarrow> (n, st \<lparr> ts_limits := l' \<rparr>))
      | Deny \<Rightarrow>
          (case eval_pair E i rec want_wide c (ts_limits st) of
             ((_, w), l') \<Rightarrow> (w, st \<lparr> ts_limits := l' \<rparr>))
      | Prompt \<Rightarrow>
          (case eval_pair E i rec want_narrow c (ts_limits st) of
             ((n, _), l') \<Rightarrow>
               (if n then (n, st \<lparr> ts_limits := l' \<rparr>)
                else
                  (case eval_pair E i False want_wide c l' of
                     ((_, w), l'') \<Rightarrow>
                       (n, st \<lparr> ts_limits := l'', ts_broadened := ts_broadened st \<or> w \<rparr>)))))"
  using assms by (cases "pr_condition r") (simp_all add: rule_matches_def Let_def)

lemma rule_matches_plain:
  assumes "plain rec (pr_condition r)"
  shows "rule_matches E i rec r st =
    (rule_hit E i rec r,
     st \<lparr> ts_broadened := ts_broadened st \<or> (\<not> rule_hit E i rec r \<and> rule_near E i r) \<rparr>)"
proof (cases "\<exists>a m. pr_condition r = SpendCap a m")
  case True
  then show ?thesis by (auto simp: rule_matches_SpendCap rule_hit_def rule_near_def)
next
  case False
  obtain w where n: "eval_pair E i rec want_narrow (pr_condition r) (ts_limits st)
      = ((cond_sem E i rec False (pr_condition r), w), ts_limits st)"
    using eval_narrow [OF assms] by blast
  obtain n' where w: "eval_pair E i rec want_wide (pr_condition r) (ts_limits st)
      = ((n', cond_sem E i rec True (pr_condition r)), ts_limits st)"
    using eval_wide [OF assms] by blast
  obtain n'' where f: "eval_pair E i False want_wide (pr_condition r) (ts_limits st)
      = ((n'', cond_sem E i False True (pr_condition r)), ts_limits st)"
    using eval_wide [of False] by fastforce
  show ?thesis
    using False by (cases "pr_action r")
      (simp_all add: rule_matches_other n w f Let_def rule_hit_def rule_near_def)
qed

lemma rule_matches_keeps:
  "rule_matches E i rec r st = (b, st') \<Longrightarrow>
     ts_hint st' = ts_hint st \<and> (ts_broadened st \<longrightarrow> ts_broadened st')"
proof (cases "\<exists>a m. pr_condition r = SpendCap a m")
  case True
  assume "rule_matches E i rec r st = (b, st')"
  with True show ?thesis by (auto simp: rule_matches_SpendCap)
next
  case False
  assume "rule_matches E i rec r st = (b, st')"
  with False show ?thesis
    by (cases "pr_action r") (auto simp: rule_matches_other Let_def split: prod.splits if_splits)
qed

lemma scan_hits:
  "(nm, r) \<in> set rs \<Longrightarrow> pr_action r = wanted \<Longrightarrow> plain rec (pr_condition r) \<Longrightarrow> rule_hit E i rec r \<Longrightarrow>
     fst (scan_rules E i rec wanted rs st)"
proof (induction rs arbitrary: st)
  case (Cons x rs)
  obtain nm' r' where x: "x = (nm', r')" by (cases x)
  show ?case
  proof (cases "(nm, r) = x")
    case True
    with Cons.prems x show ?thesis by (simp add: rule_matches_plain)
  next
    case False
    with Cons x show ?thesis by (auto split: prod.split bool.split)
  qed
qed simp

lemma scan_hit_sound:
  "scan_rules E i rec wanted rs st = (True, st') \<Longrightarrow>
     \<exists>(nm, r) \<in> set rs. pr_action r = wanted \<and> (plain rec (pr_condition r) \<longrightarrow> rule_hit E i rec r)"
proof (induction rs arbitrary: st)
  case (Cons x rs)
  obtain nm r where x: "x = (nm, r)" by (cases x)
  obtain b s1 where m: "rule_matches E i rec r st = (b, s1)" by (metis prod.exhaust)
  show ?case
  proof (cases "pr_action r = wanted \<and> b")
    case True
    then have "plain rec (pr_condition r) \<longrightarrow> rule_hit E i rec r"
      using m by (auto simp: rule_matches_plain)
    with True x show ?thesis by auto
  next
    case False
    then have "\<exists>s. scan_rules E i rec wanted rs s = (True, st')"
      using Cons.prems x m by (auto split: if_splits)
    with Cons.IH x show ?thesis by auto
  qed
qed simp

lemma scan_keeps:
  "scan_rules E i rec wanted rs st = (b, st') \<Longrightarrow>
     ts_hint st' = ts_hint st \<and> (ts_broadened st \<longrightarrow> ts_broadened st')"
proof (induction rs arbitrary: st)
  case (Cons x rs)
  obtain nm r where x: "x = (nm, r)" by (cases x)
  obtain h s1 where m: "rule_matches E i rec r st = (h, s1)" by (metis prod.exhaust)
  note k = rule_matches_keeps [OF m]
  show ?case
  proof (cases "pr_action r = wanted")
    case False
    then show ?thesis using Cons x by simp
  next
    case True
    then show ?thesis using Cons.prems Cons.IH [of s1] x m k by (cases h) (auto split: if_splits)
  qed
qed simp

lemma scan_limits:
  "\<forall>(nm, r) \<in> set rs. pr_action r = wanted \<longrightarrow> plain rec (pr_condition r) \<Longrightarrow>
     scan_rules E i rec wanted rs st = (b, st') \<Longrightarrow> ts_limits st' = ts_limits st"
proof (induction rs arbitrary: st)
  case (Cons x rs)
  obtain nm r where x: "x = (nm, r)" by (cases x)
  show ?case
  proof (cases "pr_action r = wanted")
    case False
    then show ?thesis using Cons x by simp
  next
    case True
    then have "plain rec (pr_condition r)" using Cons.prems(1) x by auto
    then show ?thesis using Cons x True
      by (cases "rule_hit E i rec r") (auto simp: rule_matches_plain split: if_splits)
  qed
qed simp

lemma scan_near:
  "(nm, r) \<in> set rs \<Longrightarrow> rule_near E i r \<Longrightarrow> plain rec (pr_condition r) \<Longrightarrow>
     scan_rules E i rec Prompt rs st = (False, st') \<Longrightarrow> ts_broadened st'"
proof (induction rs arbitrary: st)
  case (Cons x rs)
  obtain nm' r' where x: "x = (nm', r')" by (cases x)
  show ?case
  proof (cases "(nm, r) = x")
    case True
    have a: "pr_action r = Prompt" using Cons.prems(2) by (simp add: rule_near_def)
    have h: "\<not> rule_hit E i rec r"
      using Cons.prems(3,4) a True x by (auto simp: rule_matches_plain)
    then have "scan_rules E i rec Prompt rs (st \<lparr> ts_broadened := True \<rparr>) = (False, st')"
      using Cons.prems True x a by (simp add: rule_matches_plain)
    from scan_keeps [OF this] show ?thesis by simp
  next
    case False
    obtain h s1 where m: "rule_matches E i rec r' st = (h, s1)" by (metis prod.exhaust)
    show ?thesis
      using False Cons x m by (cases "pr_action r' = Prompt"; cases h) auto
  qed
qed simp

section \<open>The allow tier\<close>

text \<open>The parts of an allow rule beside its rate limits hold.\<close>

definition rest_of :: "policy_rule \<Rightarrow> policy_condition list" where
  "rest_of r = fst (split_rate_limits (pr_condition r))"

definition limits_of :: "policy_rule \<Rightarrow> (u32 \<times> u64) list" where
  "limits_of r = snd (split_rate_limits (pr_condition r))"

definition allow_holds :: "eval_env \<Rightarrow> eval_input \<Rightarrow> bool \<Rightarrow> policy_rule \<Rightarrow> bool" where
  "allow_holds E i rec r \<longleftrightarrow>
     pr_action r = Allow \<and> (\<forall>c \<in> set (rest_of r). plain rec c \<longrightarrow> cond_sem E i rec False c)"

definition rest_plain :: "bool \<Rightarrow> policy_rule \<Rightarrow> bool" where
  "rest_plain rec r \<longleftrightarrow> (\<forall>c \<in> set (rest_of r). plain rec c)"

lemma push_new_set: "set (push_new gs xs) = set gs \<union> set xs"
  by (induction gs xs rule: push_new.induct) (auto simp: List.member_iff)

lemma push_new_distinct: "distinct gs \<Longrightarrow> distinct (push_new gs xs)"
  by (induction gs xs rule: push_new.induct) (auto simp: List.member_iff)

lemma all_narrow_sound:
  "all_narrow E i rec cs l = (True, l') \<Longrightarrow> \<forall>c \<in> set cs. plain rec c \<longrightarrow> cond_sem E i rec False c"
proof (induction cs arbitrary: l)
  case (Cons c cs)
  obtain n w l1 where c: "eval_pair E i rec want_narrow c l = ((n, w), l1)" by (metis prod.exhaust)
  then have n: "n" "all_narrow E i rec cs l1 = (True, l')" using Cons.prems by (auto split: if_splits)
  moreover have "plain rec c \<longrightarrow> cond_sem E i rec False c"
    using c n(1) eval_narrow [of rec c E i l] by auto
  ultimately show ?case using Cons.IH by auto
qed simp

lemma all_narrow_plain:
  "\<forall>c \<in> set cs. plain rec c \<Longrightarrow> all_narrow E i rec cs l = (list_all (cond_sem E i rec False) cs, l)"
proof (induction cs)
  case (Cons c cs)
  obtain w where "eval_pair E i rec want_narrow c l = ((cond_sem E i rec False c, w), l)"
    using eval_narrow [of rec c E i l] Cons.prems by auto
  with Cons show ?case by simp
qed simp

lemma allow_step_other: "pr_action r \<noteq> Allow \<Longrightarrow> allow_rule_step E i rec st r = st"
  by (simp add: allow_rule_step_def)

lemma allow_step_cap:
  "pr_action r = Allow \<Longrightarrow> pr_condition r = SpendCap a m \<Longrightarrow>
     allow_rule_step E i rec st r =
       (if spend_within_cap (ei_spend i) a m rec then st \<lparr> as_matched := True \<rparr>
        else st \<lparr> as_hint := Some CSpendCap \<rparr>)"
  by (simp add: allow_rule_step_def)

lemma allow_step_rule:
  "pr_action r = Allow \<Longrightarrow> \<forall>a m. pr_condition r \<noteq> SpendCap a m \<Longrightarrow>
     allow_rule_step E i rec st r =
       (case all_narrow E i rec (rest_of r) (as_limits st) of
          (True, l') \<Rightarrow> st \<lparr> as_matched := True, as_guards := push_new (as_guards st) (limits_of r),
                           as_limits := l' \<rparr>
        | (False, l') \<Rightarrow> st \<lparr> as_limits := l' \<rparr>)"
  by (cases "pr_condition r")
    (simp_all add: allow_rule_step_def rest_of_def limits_of_def split: prod.split bool.split)

lemma allow_step_cases:
  obtains "pr_action r \<noteq> Allow"
  | a m where "pr_action r = Allow" "pr_condition r = SpendCap a m"
  | "pr_action r = Allow" "\<forall>a m. pr_condition r \<noteq> SpendCap a m"
  by blast

lemma allow_step_matched:
  "as_matched (allow_rule_step E i rec st r) \<Longrightarrow> as_matched st \<or> allow_holds E i rec r"
proof (cases r rule: allow_step_cases)
  case 1
  then show "as_matched (allow_rule_step E i rec st r) \<Longrightarrow> ?thesis" by (simp add: allow_step_other)
next
  case (2 a m)
  then show "as_matched (allow_rule_step E i rec st r) \<Longrightarrow> ?thesis"
    by (auto simp: allow_step_cap allow_holds_def rest_of_def split: if_splits)
next
  case 3
  assume "as_matched (allow_rule_step E i rec st r)"
  with 3 show ?thesis
    by (auto simp: allow_step_rule allow_holds_def split: prod.splits bool.splits
        dest: all_narrow_sound)
qed

lemma allow_step_keeps:
  "(as_matched st \<longrightarrow> as_matched (allow_rule_step E i rec st r))
   \<and> set (as_guards st) \<subseteq> set (as_guards (allow_rule_step E i rec st r))
   \<and> (distinct (as_guards st) \<longrightarrow> distinct (as_guards (allow_rule_step E i rec st r)))"
proof (cases r rule: allow_step_cases)
  case 1
  then show ?thesis by (simp add: allow_step_other)
next
  case (2 a m)
  then show ?thesis by (simp add: allow_step_cap)
next
  case 3
  then show ?thesis
    by (auto simp: allow_step_rule push_new_set push_new_distinct split: prod.splits bool.splits)
qed

lemma allow_step_holds:
  assumes "allow_holds E i rec r" "rest_plain rec r"
  shows "as_matched (allow_rule_step E i rec st r)
    \<and> set (limits_of r) \<subseteq> set (as_guards (allow_rule_step E i rec st r))"
proof (cases r rule: allow_step_cases)
  case 1
  then show ?thesis using assms by (simp add: allow_holds_def)
next
  case (2 a m)
  then show ?thesis using assms
    by (simp add: allow_step_cap allow_holds_def rest_of_def limits_of_def rest_plain_def plain_def)
next
  case 3
  then have "all_narrow E i rec (rest_of r) (as_limits st) = (True, as_limits st)"
    using assms all_narrow_plain [of "rest_of r" rec E i "as_limits st"]
    by (auto simp: rest_plain_def allow_holds_def list_all_iff)
  with 3 show ?thesis by (auto simp: allow_step_rule push_new_set)
qed

lemma allow_step_limits:
  assumes "pr_action r = Allow \<longrightarrow> rest_plain rec r"
  shows "as_limits (allow_rule_step E i rec st r) = as_limits st"
proof (cases r rule: allow_step_cases)
  case 1
  then show ?thesis by (simp add: allow_step_other)
next
  case (2 a m)
  then show ?thesis by (simp add: allow_step_cap)
next
  case 3
  then have "all_narrow E i rec (rest_of r) (as_limits st)
      = (list_all (cond_sem E i rec False) (rest_of r), as_limits st)"
    using assms by (simp add: rest_plain_def all_narrow_plain)
  with 3 show ?thesis by (simp add: allow_step_rule split: bool.split)
qed

lemma allow_fold_matched:
  "as_matched (foldl (allow_rule_step E i rec) st rs) \<Longrightarrow>
     as_matched st \<or> (\<exists>r \<in> set rs. allow_holds E i rec r)"
  by (induction rs arbitrary: st) (auto dest!: allow_step_matched)

lemma allow_fold_keeps:
  "(as_matched st \<longrightarrow> as_matched (foldl (allow_rule_step E i rec) st rs))
   \<and> set (as_guards st) \<subseteq> set (as_guards (foldl (allow_rule_step E i rec) st rs))
   \<and> (distinct (as_guards st) \<longrightarrow> distinct (as_guards (foldl (allow_rule_step E i rec) st rs)))"
proof (induction rs arbitrary: st)
  case (Cons r rs)
  show ?case
    using Cons.IH [of "allow_rule_step E i rec st r"] allow_step_keeps [of st E i rec r] by auto
qed simp

lemma allow_fold_holds:
  assumes "r \<in> set rs" "allow_holds E i rec r" "rest_plain rec r"
  shows "as_matched (foldl (allow_rule_step E i rec) st rs)
    \<and> set (limits_of r) \<subseteq> set (as_guards (foldl (allow_rule_step E i rec) st rs))"
proof -
  obtain xs ys where rs: "rs = xs @ r # ys" using assms(1) by (metis split_list)
  let ?s = "allow_rule_step E i rec (foldl (allow_rule_step E i rec) st xs) r"
  show ?thesis
    using allow_step_holds [OF assms(2,3)] allow_fold_keeps [of ?s E i rec ys] rs by fastforce
qed

lemma allow_fold_limits:
  "\<forall>r \<in> set rs. pr_action r = Allow \<longrightarrow> rest_plain rec r \<Longrightarrow>
     as_limits (foldl (allow_rule_step E i rec) st rs) = as_limits st"
  by (induction rs arbitrary: st) (auto simp: allow_step_limits)

text \<open>The identity a request is counted under.\<close>

abbreviation rate_identity :: "eval_input \<Rightarrow> string option" where
  "rate_identity i \<equiv> map_option rate_limit_principal (ei_principal i)"

lemma allow_tier_reason:
  "allow_tier_matches E ps i rec h l = (True, h', l') \<Longrightarrow>
     \<exists>p \<in> set ps. \<exists>r \<in> set (p_rules p). allow_holds E i rec r"
  using allow_fold_matched [of E i rec "\<lparr>as_matched = False, as_guards = [], as_hint = h, as_limits = l\<rparr>"
      "concat (map p_rules ps)"]
  by (auto simp: allow_tier_matches_def Let_def split: if_splits prod.splits)

lemma allow_tier_charges:
  assumes m: "allow_tier_matches E ps i True h l = (True, h', l')"
    and r: "p \<in> set ps" "r \<in> set (p_rules p)" "allow_holds E i True r" "rest_plain True r"
    and g: "(mx, w) \<in> set (limits_of r)"
    and plain: "\<forall>p \<in> set ps. \<forall>r \<in> set (p_rules p). pr_action r = Allow \<longrightarrow> rest_plain True r"
  shows "\<exists>guards. distinct guards \<and> (mx, w) \<in> set guards
    \<and> charge_rate_limits (pe_now E) (ei_credential_alias i) (rate_identity i) guards l = (True, l')"
proof -
  let ?init = "\<lparr>as_matched = False, as_guards = [], as_hint = h, as_limits = l\<rparr>"
  let ?st = "foldl (allow_rule_step E i True) ?init (concat (map p_rules ps))"
  have 1: "as_matched ?st \<and> set (limits_of r) \<subseteq> set (as_guards ?st)"
    using r by (intro allow_fold_holds) auto
  have 2: "distinct (as_guards ?st)"
    using allow_fold_keeps [of ?init E i True "concat (map p_rules ps)"] by simp
  have 3: "as_limits ?st = l" using plain by (subst allow_fold_limits) auto
  have "as_guards ?st \<noteq> []" using 1 g by auto
  with m 1 3 have "charge_rate_limits (pe_now E) (ei_credential_alias i) (rate_identity i)
      (as_guards ?st) l = (True, l')"
    by (auto simp: allow_tier_matches_def Let_def split: prod.splits)
  with 1 2 g show ?thesis by blast
qed

end
