(* ===== verification/Policy_Decisions.thy ===== *)
theory Policy_Decisions
  imports Policy_Semantics "HOL-Library.Sublist"
begin

text \<open>
  The decisions of the policy engine: what an allowed request satisfies, an order-free
  specification of the read-only decision, and the bound that rate limits put on a sequence of
  allowed requests.
\<close>

section \<open>The decision\<close>

definition matching :: "url_lib \<Rightarrow> eval_input \<Rightarrow> engine \<Rightarrow> policy list" where
  "matching L i en = filter (policy_matches L i) (en_policies en)"

definition url_refused :: "url_lib \<Rightarrow> eval_input \<Rightarrow> policy list \<Rightarrow> bool" where
  "url_refused L i ps \<longleftrightarrow> opt_test (\<lambda>u. canonical_url L u = None) (ei_url i) \<and> list_ex url_guarded ps"

definition start_state :: "engine \<Rightarrow> tier_state" where
  "start_state en = \<lparr> ts_limits = en_rate_limits en, ts_deny_policy = None, ts_hint = None,
                      ts_broadened = False \<rparr>"

lemma named_rules_set:
  "(nm, r) \<in> set (named_rules ps) \<longleftrightarrow> (\<exists>p \<in> set ps. nm = p_name p \<and> r \<in> set (p_rules p))"
  by (auto simp: named_rules_def)

lemma evaluate_refused:
  assumes "url_refused (pe_lib E) i (matching (pe_lib E) i en)"
  shows "\<exists>m. evaluate_inner E i rec en = ((DDeny m, Some CUrlUncanonical), en)"
proof -
  obtain u where u: "ei_url i = Some u" "canonical_url (pe_lib E) u = None"
    using assms by (auto simp: url_refused_def opt_test_def split: option.splits)
  have "find url_guarded (matching (pe_lib E) i en) \<noteq> None"
    using assms by (auto simp: url_refused_def find_None_iff list_ex_iff)
  then obtain p where "find url_guarded (matching (pe_lib E) i en) = Some p" by auto
  with u show ?thesis by (simp add: evaluate_inner_def matching_def)
qed

text \<open>The decision of an evaluation that is not refused for its URL, in terms of the three tiers.\<close>

lemma evaluate_tiers:
  assumes nr: "\<not> url_refused (pe_lib E) i (matching (pe_lib E) i en)"
    and d: "scan_rules E i rec Deny (named_rules (matching (pe_lib E) i en)) (start_state en) = (d, s1)"
    and p: "scan_rules E i rec Prompt (named_rules (matching (pe_lib E) i en)) s1 = (p, s2)"
    and a: "allow_tier_matches E (matching (pe_lib E) i en) i rec (ts_hint s2) (ts_limits s2) = (a, h, l)"
  defines "ps \<equiv> matching (pe_lib E) i en"
  defines "kill \<equiv> list_ex p_kill (matching (pe_lib E) i en)"
  defines "s3 \<equiv> (if kill then start_state en else if d then s1 else if p then s2
                 else s2 \<lparr> ts_hint := h, ts_limits := l \<rparr>)"
  defines "v \<equiv> resolve_precedence ((if kill then [RKill] else []) @ (if d then [RDeny] else [])
             @ (if p then [RPrompt] else []) @ (if a then [RAllow] else []))
             (map p_default_action ps) (en_default_deny en)"
  shows "\<exists>r dn. evaluate_inner E i rec en =
    ((decision_for (upgrade_broadened (ts_broadened s3) v) r dn,
      verdict_cause (ts_hint s3) (upgrade_broadened (ts_broadened s3) v)),
     en \<lparr> en_rate_limits := ts_limits s3 \<rparr>)"
proof -
  have u: "(case ei_url i of
      Some raw \<Rightarrow> if canonical_url (pe_lib E) raw = None then find url_guarded ps else None
    | None \<Rightarrow> None) = None"
    using nr by (auto simp: url_refused_def opt_test_def ps_def find_None_iff list_ex_iff
        split: option.splits)
  have t: "tier_matched E ps i rec RDeny (start_state en) = (d, s1)"
    "tier_matched E ps i rec RPrompt s1 = (p, s2)"
    "tier_matched E ps i rec RAllow s2 = (a, s2 \<lparr> ts_hint := h, ts_limits := l \<rparr>)"
    using d p a by (simp_all add: ps_def)
  have "resolve_lazily kill (tier_matched E ps i rec) (map p_default_action ps) (en_default_deny en)
      (start_state en) = (v, s3)"
    unfolding v_def s3_def by (rule resolve_lazily_sequential [OF t])
  then show ?thesis
    using u by (auto simp: evaluate_inner_def matching_def [symmetric] ps_def [symmetric] kill_def
        start_state_def Let_def)
qed

lemma ex_tiers:
  obtains d s1 p s2 a h l where
    "scan_rules E i rec Deny (named_rules ps) st = (d, s1)"
    "scan_rules E i rec Prompt (named_rules ps) s1 = (p, s2)"
    "allow_tier_matches E ps i rec (ts_hint s2) (ts_limits s2) = (a, h, l)"
  by (metis prod.exhaust)

lemma evaluate_kill:
  assumes "list_ex p_kill (matching (pe_lib E) i en)"
  shows "\<exists>m c. evaluate_inner E i rec en = ((DDeny m, Some c), en)"
proof (cases "url_refused (pe_lib E) i (matching (pe_lib E) i en)")
  case True
  then show ?thesis using evaluate_refused by blast
next
  case False
  obtain d s1 p s2 a h l where t:
    "scan_rules E i rec Deny (named_rules (matching (pe_lib E) i en)) (start_state en) = (d, s1)"
    "scan_rules E i rec Prompt (named_rules (matching (pe_lib E) i en)) s1 = (p, s2)"
    "allow_tier_matches E (matching (pe_lib E) i en) i rec (ts_hint s2) (ts_limits s2) = (a, h, l)"
    using ex_tiers by blast
  from evaluate_tiers [OF False t] assms show ?thesis
    by (auto simp: resolve_precedence_def upgrade_broadened_def verdict_cause_def start_state_def
        List.member_iff)
qed

lemma default_allow:
  assumes "resolve_precedence [] ds dd \<in> {PAllow, PolicyDefaultAllow, EngineDefaultAllow}"
  shows "(\<forall>x \<in> set ds. x = Allow) \<and> (ds = [] \<longrightarrow> \<not> dd)"
proof -
  have n: "Deny \<notin> set ds" "Prompt \<notin> set ds" "ds = [] \<longrightarrow> \<not> dd"
    using assms by (auto simp: resolve_precedence_def split: if_splits)
  have "x = Allow" if "x \<in> set ds" for x using that n by - (cases x, auto)
  with n show ?thesis by blast
qed

lemma evaluate_allowed:
  assumes "evaluate_inner E i rec en = ((DAllow, c), en')"
  defines "ps \<equiv> matching (pe_lib E) i en"
  obtains s1 s2 a h l where
    "\<not> url_refused (pe_lib E) i ps" "\<not> list_ex p_kill ps"
    "scan_rules E i rec Deny (named_rules ps) (start_state en) = (False, s1)"
    "scan_rules E i rec Prompt (named_rules ps) s1 = (False, s2)" "\<not> ts_broadened s2"
    "allow_tier_matches E ps i rec (ts_hint s2) (ts_limits s2) = (a, h, l)"
    "en' = en \<lparr> en_rate_limits := l \<rparr>"
    "a \<or> ((\<forall>p \<in> set ps. p_default_action p = Allow) \<and> (ps = [] \<longrightarrow> \<not> en_default_deny en))"
proof -
  have nr: "\<not> url_refused (pe_lib E) i ps"
    using assms(1) evaluate_refused [of E i en rec] by (auto simp: ps_def)
  have nk: "\<not> list_ex p_kill ps"
    using assms(1) evaluate_kill [of E i en rec] by (auto simp: ps_def)
  obtain d s1 p s2 a h l where t:
    "scan_rules E i rec Deny (named_rules ps) (start_state en) = (d, s1)"
    "scan_rules E i rec Prompt (named_rules ps) s1 = (p, s2)"
    "allow_tier_matches E ps i rec (ts_hint s2) (ts_limits s2) = (a, h, l)"
    using ex_tiers by blast
  define v where "v = resolve_precedence ((if d then [RDeny] else [])
             @ (if p then [RPrompt] else []) @ (if a then [RAllow] else []))
             (map p_default_action ps) (en_default_deny en)"
  define s3 where "s3 = (if d then s1 else if p then s2 else s2 \<lparr> ts_hint := h, ts_limits := l \<rparr>)"
  obtain r dn where e: "evaluate_inner E i rec en =
    ((decision_for (upgrade_broadened (ts_broadened s3) v) r dn,
      verdict_cause (ts_hint s3) (upgrade_broadened (ts_broadened s3) v)),
     en \<lparr> en_rate_limits := ts_limits s3 \<rparr>)"
    using evaluate_tiers [OF nr [unfolded ps_def] t [unfolded ps_def]] nk
    by (auto simp: ps_def v_def s3_def)
  have "upgrade_broadened (ts_broadened s3) v \<in> {PAllow, PolicyDefaultAllow, EngineDefaultAllow}"
    using e assms(1) decision_allow_iff [of "upgrade_broadened (ts_broadened s3) v" r dn] by auto
  then have b: "\<not> ts_broadened s3" and v: "v \<in> {PAllow, PolicyDefaultAllow, EngineDefaultAllow}"
    by (auto simp: upgrade_broadened_def split: if_splits)
  from v have dp: "\<not> d" "\<not> p"
    by (auto simp: v_def resolve_precedence_def List.member_iff split: if_splits)
  with v have "a \<or> ((\<forall>p \<in> set ps. p_default_action p = Allow) \<and> (ps = [] \<longrightarrow> \<not> en_default_deny en))"
    using default_allow [of "map p_default_action ps" "en_default_deny en"]
    by (cases a) (simp_all add: v_def)
  with nr nk t b dp e assms(1) show thesis
    by (intro that [of s1 s2 a h l]) (simp_all add: s3_def)
qed

text \<open>An allowed request: nothing kills, denies or asks, and something allows.\<close>

lemma allowed_sound:
  assumes "evaluate_inner E i rec en = ((DAllow, c), en')"
    and p: "p \<in> set (en_policies en)" "policy_matches (pe_lib E) i p"
  shows "\<not> p_kill p"
    and "r \<in> set (p_rules p) \<Longrightarrow> plain rec (pr_condition r) \<Longrightarrow> pr_action r \<in> {Deny, Prompt} \<Longrightarrow>
           \<not> rule_hit E i rec r \<and> \<not> rule_near E i r"
proof -
  let ?ps = "matching (pe_lib E) i en"
  have m: "p \<in> set ?ps" using p by (simp add: matching_def)
  obtain s1 s2 a h l where t: "\<not> list_ex p_kill ?ps"
    "scan_rules E i rec Deny (named_rules ?ps) (start_state en) = (False, s1)"
    "scan_rules E i rec Prompt (named_rules ?ps) s1 = (False, s2)" "\<not> ts_broadened s2"
    using evaluate_allowed [OF assms(1)] by metis
  show "\<not> p_kill p" using t(1) m by (auto simp: list_ex_iff)
  assume r: "r \<in> set (p_rules p)" "plain rec (pr_condition r)" "pr_action r \<in> {Deny, Prompt}"
  have nr: "(p_name p, r) \<in> set (named_rules ?ps)" using m r(1) by (auto simp: named_rules_set)
  show "\<not> rule_hit E i rec r \<and> \<not> rule_near E i r"
  proof
    show "\<not> rule_hit E i rec r"
      using scan_hits [OF nr _ r(2), of Deny E i "start_state en"]
        scan_hits [OF nr _ r(2), of Prompt E i s1] t(2,3) r(3) by auto
    show "\<not> rule_near E i r" using scan_near [OF nr _ r(2) t(3)] t(4) by blast
  qed
qed

lemma allowed_reason:
  assumes "evaluate_inner E i rec en = ((DAllow, c), en')"
  shows "(\<exists>p \<in> set (en_policies en). policy_matches (pe_lib E) i p
            \<and> (\<exists>r \<in> set (p_rules p). allow_holds E i rec r))
    \<or> ((\<forall>p \<in> set (en_policies en). policy_matches (pe_lib E) i p \<longrightarrow> p_default_action p = Allow)
        \<and> ((\<forall>p \<in> set (en_policies en). \<not> policy_matches (pe_lib E) i p) \<longrightarrow> \<not> en_default_deny en))"
proof (rule evaluate_allowed [OF assms], goal_cases)
  case (1 s1 s2 a h l)
  let ?ps = "matching (pe_lib E) i en"
  have s: "set ?ps = {p \<in> set (en_policies en). policy_matches (pe_lib E) i p}"
    by (auto simp: matching_def)
  show ?case
  proof (cases a)
    case True
    then have "\<exists>p \<in> set ?ps. \<exists>r \<in> set (p_rules p). allow_holds E i rec r"
      using allow_tier_reason [of E ?ps i rec "ts_hint s2" "ts_limits s2" h l] 1(6) by simp
    then show ?thesis unfolding s by blast
  next
    case False
    with 1(8) have "\<forall>p \<in> set ?ps. p_default_action p = Allow" "?ps = [] \<longrightarrow> \<not> en_default_deny en" by auto
    then show ?thesis by (auto simp: s filter_empty_conv matching_def)
  qed
qed

section \<open>The decision without charging\<close>

fun class_of :: "policy_decision \<Rightarrow> verdict" where
  "class_of DAllow = VAllow"
| "class_of (DDeny _) = VDeny"
| "class_of DPrompt = VPrompt"

text \<open>
  The specification of a read-only decision, over the set of the matching policies: no order of
  policies or of rules appears in it.
\<close>

definition some_rule :: "policy set \<Rightarrow> (policy_rule \<Rightarrow> bool) \<Rightarrow> bool" where
  "some_rule P f \<longleftrightarrow> (\<exists>p \<in> P. \<exists>r \<in> set (p_rules p). f r)"

definition default_class :: "policy set \<Rightarrow> bool \<Rightarrow> verdict" where
  "default_class P dd =
     (if P = {} then (if dd then VDeny else VAllow)
      else if \<exists>p \<in> P. p_default_action p = Deny then VDeny
      else if \<exists>p \<in> P. p_default_action p = Prompt then VPrompt
      else VAllow)"

definition decide_spec :: "eval_env \<Rightarrow> eval_input \<Rightarrow> policy set \<Rightarrow> bool \<Rightarrow> verdict" where
  "decide_spec E i P dd =
     (if opt_test (\<lambda>u. canonical_url (pe_lib E) u = None) (ei_url i) \<and> (\<exists>p \<in> P. url_guarded p) then VDeny
      else if \<exists>p \<in> P. p_kill p then VDeny
      else if some_rule P (\<lambda>r. pr_action r = Deny \<and> rule_hit E i False r) then VDeny
      else if some_rule P (\<lambda>r. pr_action r = Prompt \<and> rule_hit E i False r) then VPrompt
      else
        (let base = (if some_rule P (allow_holds E i False) then VAllow else default_class P dd) in
         if base = VAllow \<and> some_rule P (rule_near E i) then VPrompt else base))"

lemma scan_exact:
  assumes "\<forall>(nm, r) \<in> set rs. pr_action r = wanted \<longrightarrow> plain rec (pr_condition r)"
  shows "fst (scan_rules E i rec wanted rs st) \<longleftrightarrow>
           (\<exists>(nm, r) \<in> set rs. pr_action r = wanted \<and> rule_hit E i rec r)"
    and "\<not> fst (scan_rules E i rec wanted rs st) \<Longrightarrow>
           ts_broadened (snd (scan_rules E i rec wanted rs st)) \<longleftrightarrow>
             ts_broadened st \<or> (\<exists>(nm, r) \<in> set rs. pr_action r = wanted \<and> rule_near E i r)"
  using assms
proof (induction rs arbitrary: st)
  case (Cons x rs)
  obtain nm r where x: "x = (nm, r)" by (cases x)
  { case 1
    show ?case
    proof (cases "pr_action r = wanted")
      case True
      with 1 x have "plain rec (pr_condition r)" by auto
      with Cons.IH(1) 1 x True show ?thesis
        by (cases "rule_hit E i rec r") (auto simp: rule_matches_plain)
    next
      case False
      with Cons.IH(1) 1 x show ?thesis by auto
    qed
  next
    case 2
    show ?case
    proof (cases "pr_action r = wanted")
      case True
      with 2 x have "plain rec (pr_condition r)" by auto
      with Cons.IH(2) 2 x True show ?thesis
        by (cases "rule_hit E i rec r") (auto simp: rule_matches_plain)
    next
      case False
      with Cons.IH(2) 2 x show ?thesis by auto
    qed
  }
qed auto

lemma named_rules_some:
  "(\<exists>(nm, r) \<in> set (named_rules ps). f r) \<longleftrightarrow> some_rule (set ps) f"
  by (auto simp: some_rule_def named_rules_def)

lemma allow_tier_readonly:
  "fst (allow_tier_matches E ps i False h l) \<longleftrightarrow> some_rule (set ps) (allow_holds E i False)"
proof -
  let ?init = "\<lparr>as_matched = False, as_guards = [], as_hint = h, as_limits = l\<rparr>"
  let ?fin = "foldl (allow_rule_step E i False) ?init (concat (map p_rules ps))"
  have "fst (allow_tier_matches E ps i False h l) \<longleftrightarrow> as_matched ?fin"
    by (simp add: allow_tier_matches_def Let_def)
  also have "\<dots> \<longleftrightarrow> (\<exists>r \<in> set (concat (map p_rules ps)). allow_holds E i False r)"
    using allow_fold_matched [of E i False ?init "concat (map p_rules ps)"]
      allow_fold_holds [of _ "concat (map p_rules ps)" E i False ?init]
    by (auto simp: rest_plain_def)
  finally show ?thesis by (simp add: some_rule_def)
qed

lemma class_verdict:
  "class_of (decision_for v r d) =
     (if v \<in> {PAllow, PolicyDefaultAllow, EngineDefaultAllow} then VAllow
      else if v \<in> {PPrompt, PolicyDefaultPrompt} then VPrompt else VDeny)"
  by (cases v) auto

lemma default_class_resolve:
  "class_of (decision_for (resolve_precedence [] (map p_default_action ps) dd) r d)
     = default_class (set ps) dd"
proof -
  let ?D = "p_default_action ` set ps"
  have e: "(\<exists>p \<in> set ps. p_default_action p = x) \<longleftrightarrow> x \<in> ?D" for x by auto
  have "Allow \<in> ?D" if "ps \<noteq> []" "Deny \<notin> ?D" "Prompt \<notin> ?D"
  proof -
    have "p_default_action (hd ps) \<in> ?D" using that(1) by simp
    then show ?thesis using that by (metis policy_action.exhaust)
  qed
  then show ?thesis
    unfolding default_class_def e by (simp add: class_verdict resolve_precedence_def)
qed

lemma evaluate_readonly_spec:
  "class_of (evaluate_readonly_full E i en) =
     decide_spec E i {p \<in> set (en_policies en). policy_matches (pe_lib E) i p} (en_default_deny en)"
proof -
  define ps where "ps = matching (pe_lib E) i en"
  have P: "set ps = {p \<in> set (en_policies en). policy_matches (pe_lib E) i p}"
    by (auto simp: ps_def matching_def)
  show ?thesis
  proof (cases "url_refused (pe_lib E) i ps")
    case True
    then obtain m where "evaluate_inner E i False en = ((DDeny m, Some CUrlUncanonical), en)"
      using evaluate_refused [of E i en False] by (auto simp: ps_def)
    with True show ?thesis
      unfolding P [symmetric]
      by (simp add: evaluate_readonly_full_def decide_spec_def url_refused_def list_ex_iff)
  next
    case nr: False
    obtain d s1 p s2 a h l where t:
      "scan_rules E i False Deny (named_rules ps) (start_state en) = (d, s1)"
      "scan_rules E i False Prompt (named_rules ps) s1 = (p, s2)"
      "allow_tier_matches E ps i False (ts_hint s2) (ts_limits s2) = (a, h, l)"
      using ex_tiers by blast
    have D: "d \<longleftrightarrow> some_rule (set ps) (\<lambda>r. pr_action r = Deny \<and> rule_hit E i False r)"
      using scan_exact(1) [of "named_rules ps" Deny False E i "start_state en"] t(1)
      by (simp add: named_rules_some)
    have D2: "\<not> d \<Longrightarrow> \<not> ts_broadened s1"
      using scan_exact(2) [of "named_rules ps" Deny False E i "start_state en"] t(1)
      by (auto simp: start_state_def rule_near_def)
    have Q: "p \<longleftrightarrow> some_rule (set ps) (\<lambda>r. pr_action r = Prompt \<and> rule_hit E i False r)"
      using scan_exact(1) [of "named_rules ps" Prompt False E i s1] t(2)
      by (simp add: named_rules_some)
    have near: "(\<lambda>r. pr_action r = Prompt \<and> rule_near E i r) = rule_near E i"
      by (auto simp: rule_near_def fun_eq_iff)
    have Q2: "\<not> d \<Longrightarrow> \<not> p \<Longrightarrow> ts_broadened s2 \<longleftrightarrow> some_rule (set ps) (rule_near E i)"
      using scan_exact(2) [of "named_rules ps" Prompt False E i s1] t(2) D2
      by (simp add: named_rules_some near)
    have A: "a \<longleftrightarrow> some_rule (set ps) (allow_holds E i False)"
      using allow_tier_readonly [of E ps i "ts_hint s2" "ts_limits s2"] t(3) by simp
    define kill where "kill = list_ex p_kill ps"
    define v where "v = resolve_precedence ((if kill then [RKill] else []) @ (if d then [RDeny] else [])
             @ (if p then [RPrompt] else []) @ (if a then [RAllow] else []))
             (map p_default_action ps) (en_default_deny en)"
    define b where "b = ts_broadened (if kill then start_state en else if d then s1 else if p then s2
                 else s2 \<lparr> ts_hint := h, ts_limits := l \<rparr>)"
    obtain r dn where e: "evaluate_readonly_full E i en = decision_for (upgrade_broadened b v) r dn"
      using evaluate_tiers [OF nr [unfolded ps_def] t [unfolded ps_def]]
      by (auto simp: evaluate_readonly_full_def ps_def kill_def v_def b_def)
    have K: "kill \<longleftrightarrow> (\<exists>p \<in> set ps. p_kill p)" by (simp add: kill_def list_ex_iff)
    have U: "\<not> (opt_test (\<lambda>u. canonical_url (pe_lib E) u = None) (ei_url i) \<and> (\<exists>p \<in> set ps. url_guarded p))"
      using nr by (auto simp: url_refused_def list_ex_iff)
    have spec: "decide_spec E i (set ps) (en_default_deny en) =
      (if kill \<or> d then VDeny else if p then VPrompt
       else (let base = (if a then VAllow else default_class (set ps) (en_default_deny en)) in
             if base = VAllow \<and> some_rule (set ps) (rule_near E i) then VPrompt else base))"
      unfolding decide_spec_def if_not_P [OF U] K [symmetric] D [symmetric] Q [symmetric] A [symmetric]
      by simp
    have base: "class_of (decision_for (upgrade_broadened b v) r dn) =
        (if b \<and> class_of (decision_for v r dn) = VAllow then VPrompt else class_of (decision_for v r dn))"
      by (cases v) (auto simp: upgrade_broadened_def)
    show ?thesis
      unfolding P [symmetric] spec e base
      using default_class_resolve [of ps "en_default_deny en" r dn] Q2
      by (cases kill; cases d; cases p; cases a)
        (auto simp: v_def b_def start_state_def resolve_precedence_def Let_def)
  qed
qed

section \<open>Subsequences\<close>

lemma subseq_set: "subseq xs ys \<Longrightarrow> set xs \<subseteq> set ys"
  by (induction rule: list_emb.induct) auto

lemma subseq_sorted_list: "subseq xs ys \<Longrightarrow> sorted ys \<Longrightarrow> sorted xs"
  by (induction rule: list_emb.induct) (auto dest: subseq_set)

section \<open>Rate limits bound what is allowed\<close>

text \<open>Rate limits stand only at the top of allow rules, where they join the set of guards.\<close>

definition limits_at_top :: "policy \<Rightarrow> bool" where
  "limits_at_top p \<longleftrightarrow>
     (\<forall>r \<in> set (p_rules p).
        if pr_action r = Allow then rest_plain True r
        else \<not> condition_contains_rate_limit (pr_condition r))"

lemma split_limits_contains:
  "snd (split_rate_limits c) \<noteq> [] \<Longrightarrow> condition_contains_rate_limit c"
  by (induction c rule: split_rate_limits.induct) (auto simp: list_ex_iff)

lemma sound_split_positive:
  "condition_invalid_rate_limit c = None \<Longrightarrow> (mx, w) \<in> set (snd (split_rate_limits c)) \<Longrightarrow>
     mx \<noteq> 0 \<and> w \<noteq> 0"
  by (induction c rule: split_rate_limits.induct) (auto simp: find_map_None split: if_splits)

lemma allow_tier_limits:
  assumes m: "allow_tier_matches E ps i True h l = (a, h', l')"
    and plain: "\<forall>p \<in> set ps. limits_at_top p"
  shows "\<not> a \<Longrightarrow> l' = l"
    and "a \<Longrightarrow> p \<in> set ps \<Longrightarrow> r \<in> set (p_rules p) \<Longrightarrow> allow_holds E i True r \<Longrightarrow> (mx, w) \<in> set (limits_of r)
      \<Longrightarrow> \<exists>guards. distinct guards \<and> (mx, w) \<in> set guards
        \<and> charge_rate_limits (pe_now E) (ei_credential_alias i) (rate_identity i) guards l = (True, l')"
proof -
  have top: "\<forall>p \<in> set ps. \<forall>r \<in> set (p_rules p). pr_action r = Allow \<longrightarrow> rest_plain True r"
    using plain by (auto simp: limits_at_top_def)
  let ?init = "\<lparr>as_matched = False, as_guards = [], as_hint = h, as_limits = l\<rparr>"
  have "as_limits (foldl (allow_rule_step E i True) ?init (concat (map p_rules ps))) = l"
    using top by (subst allow_fold_limits) auto
  then show "\<not> a \<Longrightarrow> l' = l"
    using m by (auto simp: allow_tier_matches_def Let_def dest: charge_rate_limits_False
        split: if_splits prod.splits)
  show "a \<Longrightarrow> p \<in> set ps \<Longrightarrow> r \<in> set (p_rules p) \<Longrightarrow> allow_holds E i True r \<Longrightarrow> (mx, w) \<in> set (limits_of r)
      \<Longrightarrow> \<exists>guards. distinct guards \<and> (mx, w) \<in> set guards
        \<and> charge_rate_limits (pe_now E) (ei_credential_alias i) (rate_identity i) guards l = (True, l')"
    using allow_tier_charges [of E ps i h l h' l' p r mx w] m top by (auto simp: allow_holds_def)
qed

lemma scans_keep_limits:
  assumes "\<forall>p \<in> set ps. limits_at_top p" "wanted \<noteq> Allow"
    and "scan_rules E i True wanted (named_rules ps) st = (b, st')"
  shows "ts_limits st' = ts_limits st"
proof (rule scan_limits [OF _ assms(3)])
  show "\<forall>(nm, r) \<in> set (named_rules ps). pr_action r = wanted \<longrightarrow> plain True (pr_condition r)"
    using assms(1,2) by (force simp: named_rules_set limits_at_top_def plain_def)
qed

text \<open>One evaluation either leaves a guard's counter alone or finds room in it and charges it; an
  allowed request has charged it.\<close>

definition charged :: "instant \<Rightarrow> string \<Rightarrow> u32 \<Rightarrow> u64 \<Rightarrow> limits \<Rightarrow> limits \<Rightarrow> bool" where
  "charged now k mx w l l' \<longleftrightarrow>
     mx \<noteq> 0 \<and> w \<noteq> 0 \<and> has_room now k mx w l
     \<and> t_get l' k = t_get (snd (charge_counter now k mx w l)) k"

lemma charge_rate_limits_charged:
  assumes "charge_rate_limits now a p guards l = (True, l')" "distinct guards" "(mx, w) \<in> set guards"
  shows "charged now (rate_limit_key a p mx w) mx w l l'"
  using assms charge_all_key [OF assms(2,3), of now a p l]
  by (auto simp: charge_rate_limits_True charged_def)

lemma evaluate_guard:
  assumes top: "\<forall>p \<in> set (en_policies en). limits_at_top p"
    and p: "p \<in> set (en_policies en)" "policy_matches (pe_lib E) i p" "validate p = Inr ()"
    and r: "r \<in> set (p_rules p)" "allow_holds E i True r" "(mx, w) \<in> set (limits_of r)"
    and ev: "evaluate_inner E i True en = ((d, c), en')"
  defines "k \<equiv> rate_limit_key (ei_credential_alias i) (rate_identity i) mx w"
  shows "charged (pe_now E) k mx w (en_rate_limits en) (en_rate_limits en')
    \<or> (d \<noteq> DAllow \<and> t_get (en_rate_limits en') k = t_get (en_rate_limits en) k)"
proof -
  define ps where "ps = matching (pe_lib E) i en"
  have ps: "\<forall>p \<in> set ps. limits_at_top p" "p \<in> set ps"
    using top p by (auto simp: ps_def matching_def)
  obtain dn s1 pr s2 a h l where t:
    "scan_rules E i True Deny (named_rules ps) (start_state en) = (dn, s1)"
    "scan_rules E i True Prompt (named_rules ps) s1 = (pr, s2)"
    "allow_tier_matches E ps i True (ts_hint s2) (ts_limits s2) = (a, h, l)"
    using ex_tiers by blast
  have lim: "ts_limits s1 = en_rate_limits en" "ts_limits s2 = en_rate_limits en"
    using scans_keep_limits [OF ps(1) _ t(1)] scans_keep_limits [OF ps(1) _ t(2)]
    by (simp_all add: start_state_def)
  have deny: "p_default_action p = Deny"
  proof -
    have "snd (split_rate_limits (pr_condition r)) \<noteq> []" using r(3) by (auto simp: limits_of_def)
    then have "condition_contains_rate_limit (pr_condition r)" by (rule split_limits_contains)
    with p(3) r(1) show ?thesis by (auto simp: validate_iff_sound policy_sound_def)
  qed
  have ch: "a \<Longrightarrow> charged (pe_now E) k mx w (en_rate_limits en) l"
    using allow_tier_limits(2) [OF t(3) ps(1) _ ps(2) r] lim
    by (auto simp: k_def intro: charge_rate_limits_charged)
  have un: "\<not> a \<Longrightarrow> l = en_rate_limits en"
    using allow_tier_limits(1) [OF t(3) ps(1)] lim by simp
  show ?thesis
  proof (cases "d = DAllow")
    case True
    obtain a' h' l' where u: "allow_tier_matches E ps i True (ts_hint s2) (ts_limits s2) = (a', h', l')"
      "en' = en \<lparr> en_rate_limits := l' \<rparr>"
      "a' \<or> ((\<forall>p \<in> set ps. p_default_action p = Allow) \<and> (ps = [] \<longrightarrow> \<not> en_default_deny en))"
    proof (rule evaluate_allowed [OF ev [unfolded True]], goal_cases)
      case (1 s1' s2' a' h' l')
      have "s1' = s1" "s2' = s2" using 1(4,5) t by (auto simp: ps_def)
      with 1 show ?case by (auto simp: ps_def intro: that)
    qed
    then have "a" "l' = l" using t(3) deny ps(2) by auto
    with ch u(2) show ?thesis by simp
  next
    case False
    show ?thesis
    proof (cases "url_refused (pe_lib E) i ps")
      case True
      then show ?thesis using evaluate_refused [of E i en True] ev False by (auto simp: ps_def)
    next
      case nr: False
      have "en' = en \<lparr> en_rate_limits := (if list_ex p_kill ps \<or> dn \<or> pr then en_rate_limits en else l) \<rparr>"
        using evaluate_tiers [OF nr [unfolded ps_def] t [unfolded ps_def]] ev lim
        by (auto simp: ps_def start_state_def)
      with ch un False show ?thesis by (cases a) auto
    qed
  qed
qed

lemma evaluate_keeps_policies:
  "evaluate_inner E i rec en = (x, en') \<Longrightarrow> en_policies en' = en_policies en"
  by (auto simp: evaluate_inner_def Let_def split: option.splits prod.splits)

text \<open>The instants of the requests that are allowed in a sequence of evaluations.\<close>

fun allowed_times :: "(eval_env \<times> eval_input) list \<Rightarrow> engine \<Rightarrow> instant list" where
  "allowed_times [] en = []"
| "allowed_times ((E, i) # reqs) en =
     (case evaluate_full E i en of
        (d, en') \<Rightarrow> (if d = DAllow then [pe_now E] else []) @ allowed_times reqs en')"

lemma allowed_times_admitted:
  assumes "\<forall>p \<in> set (en_policies en). limits_at_top p"
    and "p \<in> set (en_policies en)" "validate p = Inr ()"
    and "r \<in> set (p_rules p)" "pr_action r = Allow" "rest_of r = []" "(mx, w) \<in> set (limits_of r)"
    and "\<forall>(E, i) \<in> set reqs. policy_matches (pe_lib E) i p
           \<and> ei_credential_alias i = alias \<and> rate_identity i = pid"
    and "t_get l (rate_limit_key alias pid mx w) = t_get (en_rate_limits en) (rate_limit_key alias pid mx w)"
  shows "\<exists>T. subseq (allowed_times reqs en) T \<and> subseq T (map (\<lambda>(E, i). pe_now E) reqs)
    \<and> admitted alias pid mx w l T = T"
  using assms
proof (induction reqs arbitrary: en l)
  case Nil
  then show ?case by (intro exI [of _ "[]"]) simp
next
  case (Cons q reqs)
  obtain E i where q: "q = (E, i)" by (cases q)
  let ?k = "rate_limit_key alias pid mx w"
  obtain d c en' where ev: "evaluate_inner E i True en = ((d, c), en')" by (metis prod.exhaust)
  have pol: "en_policies en' = en_policies en" using evaluate_keeps_policies [OF ev] .
  have i: "policy_matches (pe_lib E) i p" "ei_credential_alias i = alias" "rate_identity i = pid"
    using Cons.prems(8) q by auto
  have holds: "allow_holds E i True r" using Cons.prems(5,6) by (simp add: allow_holds_def)
  have g: "charged (pe_now E) ?k mx w (en_rate_limits en) (en_rate_limits en')
    \<or> (d \<noteq> DAllow \<and> t_get (en_rate_limits en') ?k = t_get (en_rate_limits en) ?k)"
    using evaluate_guard [OF Cons.prems(1,2) i(1) Cons.prems(3,4) holds Cons.prems(7) ev] i(2,3) by simp
  have IH: "t_get l' ?k = t_get (en_rate_limits en') ?k \<Longrightarrow>
      \<exists>T. subseq (allowed_times reqs en') T \<and> subseq T (map (\<lambda>(E, i). pe_now E) reqs)
        \<and> admitted alias pid mx w l' T = T" for l'
    using Cons.IH [of en' l'] Cons.prems pol by auto
  have al: "allowed_times (q # reqs) en = (if d = DAllow then [pe_now E] else []) @ allowed_times reqs en'"
    using ev q by (simp add: evaluate_full_def)
  show ?case
  proof (cases "charged (pe_now E) ?k mx w (en_rate_limits en) (en_rate_limits en')")
    case True
    let ?l = "snd (charge_counter (pe_now E) ?k mx w l)"
    have "t_get ?l ?k = t_get (en_rate_limits en') ?k"
      using True charge_counter_same [OF Cons.prems(9), of "pe_now E" mx w] by (simp add: charged_def)
    from IH [OF this] obtain T where T: "subseq (allowed_times reqs en') T"
      "subseq T (map (\<lambda>(E, i). pe_now E) reqs)" "admitted alias pid mx w ?l T = T" by blast
    have "has_room (pe_now E) ?k mx w l"
      using True Cons.prems(9) by (simp add: charged_def has_room_def)
    then have "check_rate_limit (pe_now E) alias pid mx w l = (True, ?l)"
      using True charge_counter_allowed [of w "pe_now E" ?k mx l]
      by (simp add: charged_def check_rate_limit_def prod_eq_iff)
    with T(3) have "admitted alias pid mx w l (pe_now E # T) = pe_now E # T" by simp
    moreover have "subseq (allowed_times (q # reqs) en) (pe_now E # T)" using al T(1) by auto
    moreover have "subseq (pe_now E # T) (map (\<lambda>(E, i). pe_now E) (q # reqs))" using T(2) q by simp
    ultimately show ?thesis by blast
  next
    case False
    with g have n: "d \<noteq> DAllow" "t_get (en_rate_limits en') ?k = t_get (en_rate_limits en) ?k" by auto
    with Cons.prems(9) IH [of l] obtain T where T: "subseq (allowed_times reqs en') T"
      "subseq T (map (\<lambda>(E, i). pe_now E) reqs)" "admitted alias pid mx w l T = T" by auto
    with n al q show ?thesis by (intro exI [of _ T]) auto
  qed
qed

lemma allowed_rate_bound:
  assumes "\<forall>p \<in> set (en_policies en). limits_at_top p" "en_rate_limits en = []"
    and "p \<in> set (en_policies en)" "validate p = Inr ()"
    and "r \<in> set (p_rules p)" "pr_action r = Allow" "rest_of r = []" "(mx, w) \<in> set (limits_of r)"
    and "\<forall>(E, i) \<in> set reqs. policy_matches (pe_lib E) i p
           \<and> ei_credential_alias i = alias \<and> rate_identity i = pid"
    and "sorted (map (\<lambda>(E, i). pe_now E) reqs)"
  shows "length (filter (\<lambda>t. b \<le> t \<and> t < b + dur (int (unat w))) (allowed_times reqs en)) \<le> 2 * unat mx"
proof -
  let ?P = "\<lambda>t. b \<le> t \<and> t < b + dur (int (unat w))"
  obtain T where T: "subseq (allowed_times reqs en) T" "subseq T (map (\<lambda>(E, i). pe_now E) reqs)"
    "admitted alias pid mx w [] T = T"
    using allowed_times_admitted [OF assms(1,3,4,5,6,7,8,9), of "[]"] assms(2) by auto
  have v: "mx \<noteq> 0" "w \<noteq> 0"
  proof -
    have "rule_sound r" using assms(4,5) by (auto simp: validate_iff_sound policy_sound_def)
    then show "mx \<noteq> 0" "w \<noteq> 0"
      using assms(8) sound_split_positive [of "pr_condition r" mx w]
      by (auto simp: rule_sound_def limits_of_def)
  qed
  have "sorted T" using T(2) assms(10) by (metis subseq_sorted_list)
  then have "length (filter ?P (admitted alias pid mx w [] T)) \<le> 2 * unat mx"
    using v by (intro admitted_bound)
  moreover have "length (filter ?P (allowed_times reqs en)) \<le> length (filter ?P T)"
    by (rule list_emb_length [OF subseq_filter [OF T(1)]])
  ultimately show ?thesis using T(3) by simp
qed

end
