(* ===== verification/Credentials.thy ===== *)
theory Credentials
  imports Approval
begin

text \<open>
  Stored credentials of \<open>src/src/lib.rs\<close>: their data, the shape the vault demands of them, the secret
  strings they hold, and the checks on metadata.  Base64 is a parameter.
\<close>

section \<open>Characters\<close>

text \<open>Strings are well-formed UTF-8.  A character begins at each byte that does not continue one; the
  control characters above the first 128 are written with a leading byte \<open>C2\<close>.\<close>

definition char_count :: "string \<Rightarrow> nat" where
  "char_count s = length (filter (\<lambda>c. \<not> cont_byte (byte c)) s)"

fun has_control_char :: "string \<Rightarrow> bool" where
  "has_control_char [] = False"
| "has_control_char (c # s) \<longleftrightarrow>
     is_control c \<or> byte c = 0xC2 \<and> s \<noteq> [] \<and> 0x80 \<le> byte (hd s) \<and> byte (hd s) \<le> 0x9F
     \<or> has_control_char s"

text \<open>The lines of a text, without their ends.\<close>

definition text_lines :: "string \<Rightarrow> string list" where
  "text_lines s =
     (let parts = split_on (CHR 0x0A) s;
          parts = (if parts \<noteq> [] \<and> last parts = [] then butlast parts else parts)
      in map (\<lambda>l. if l \<noteq> [] \<and> last l = CHR 0x0D then butlast l else l) parts)"

section \<open>Credential data\<close>

datatype credential_data =
    ApiKeyData string string string
  | OAuth2Data string string "string option" "string option" "instant option" string "string list"
  | GoogleServiceAccountData string string string string "string list" "string option" "instant option"
  | BasicAuthData string string
  | PrivateKeyData string "string option"
  | CertificateData string string
  | HmacApiKeyData string string string u64
  | AwsSigV4Data string string "string option" string string
  | EcdsaKeyData string "string option" bool
  | SshPasswordData string "16 word" string string
  | PostgresData string "16 word" string string string string
  | UrlTokenData string
  | CustomData "string table"

definition has_text :: "string \<Rightarrow> bool" where
  "has_text s \<longleftrightarrow> \<not> blank s"

definition has_secret :: "string \<Rightarrow> bool" where
  "has_secret s \<longleftrightarrow> s \<noteq> []"

definition optional_secret :: "string option \<Rightarrow> bool" where
  "optional_secret v = (case v of None \<Rightarrow> True | Some s \<Rightarrow> has_secret s)"

fun data_shape :: "credential_data \<Rightarrow> bool" where
  "data_shape (ApiKeyData key header_name header_prefix) \<longleftrightarrow> has_secret key \<and> has_text header_name"
| "data_shape (OAuth2Data client_id client_secret refresh_token access_token expires_at token_url scopes)
     \<longleftrightarrow> has_text client_id \<and> has_secret client_secret \<and> optional_secret refresh_token
       \<and> optional_secret access_token \<and> has_text token_url"
| "data_shape (GoogleServiceAccountData client_email private_key private_key_id token_uri scopes
       access_token expires_at)
     \<longleftrightarrow> has_text client_email \<and> has_secret private_key \<and> has_text private_key_id \<and> has_text token_uri
       \<and> scopes \<noteq> [] \<and> list_all has_text scopes \<and> optional_secret access_token"
| "data_shape (BasicAuthData username password) \<longleftrightarrow> has_text username \<and> has_secret password"
| "data_shape (PrivateKeyData key_pem passphrase) \<longleftrightarrow> has_secret key_pem \<and> optional_secret passphrase"
| "data_shape (CertificateData cert_pem key_pem) \<longleftrightarrow> has_text cert_pem \<and> has_secret key_pem"
| "data_shape (HmacApiKeyData api_key api_secret header_name recv_window)
     \<longleftrightarrow> has_secret api_key \<and> has_secret api_secret \<and> has_text header_name"
| "data_shape (AwsSigV4Data access_key_id secret_access_key session_token region service)
     \<longleftrightarrow> has_text access_key_id \<and> has_secret secret_access_key \<and> optional_secret session_token
       \<and> has_text region \<and> has_text service"
| "data_shape (EcdsaKeyData private_key api_address testnet) \<longleftrightarrow> has_secret private_key"
| "data_shape (SshPasswordData host port user password)
     \<longleftrightarrow> has_text host \<and> has_text user \<and> has_secret password"
| "data_shape (PostgresData host port database user password sslmode)
     \<longleftrightarrow> has_text host \<and> has_text database \<and> has_text user \<and> has_secret password \<and> has_text sslmode"
| "data_shape (UrlTokenData token) \<longleftrightarrow> has_secret token"
| "data_shape (CustomData values)
     \<longleftrightarrow> values \<noteq> [] \<and> list_all (\<lambda>(name, v). has_text name \<and> has_secret v) values"

text \<open>The strings the server removes from what it hands to an agent.\<close>

fun secret_material :: "(string \<Rightarrow> string) \<Rightarrow> credential_data \<Rightarrow> string list" where
  "secret_material b64 (ApiKeyData key header_name header_prefix) = [key]"
| "secret_material b64 (BasicAuthData username password) =
     (let raw = username @ '':'' @ password in [password, b64 raw, raw])"
| "secret_material b64
     (OAuth2Data client_id client_secret refresh_token access_token expires_at token_url scopes) =
     (let basic = client_id @ '':'' @ client_secret
      in [client_secret, b64 basic, basic] @ (case access_token of Some t \<Rightarrow> [t] | None \<Rightarrow> [])
           @ (case refresh_token of Some r \<Rightarrow> [r] | None \<Rightarrow> []))"
| "secret_material b64 (GoogleServiceAccountData client_email private_key private_key_id token_uri scopes
       access_token expires_at) =
     (let body = concat (filter (\<lambda>l. \<not> starts_with l ''-----'') (text_lines private_key))
      in [private_key] @ (if body \<noteq> [] then [body] else [])
           @ (case access_token of Some t \<Rightarrow> [t] | None \<Rightarrow> []))"
| "secret_material b64 (HmacApiKeyData api_key api_secret header_name recv_window) = [api_key, api_secret]"
| "secret_material b64 (AwsSigV4Data access_key_id secret_access_key session_token region service) =
     [secret_access_key] @ (case session_token of Some t \<Rightarrow> [t] | None \<Rightarrow> [])"
| "secret_material b64 (EcdsaKeyData private_key api_address testnet) = [private_key]"
| "secret_material b64 (SshPasswordData host port user password) = [password]"
| "secret_material b64 (PostgresData host port database user password sslmode) = [password]"
| "secret_material b64 (UrlTokenData token) = [token]"
| "secret_material b64 (PrivateKeyData key_pem passphrase) =
     [key_pem] @ (case passphrase of Some p \<Rightarrow> [p] | None \<Rightarrow> [])"
| "secret_material b64 (CertificateData cert_pem key_pem) = [key_pem]"
| "secret_material b64 (CustomData values) = map snd values"

fun data_type :: "credential_data \<Rightarrow> credential_type" where
  "data_type (ApiKeyData _ _ _) = ApiKey"
| "data_type (OAuth2Data _ _ _ _ _ _ _) = OAuth2"
| "data_type (GoogleServiceAccountData _ _ _ _ _ _ _) = GoogleServiceAccount"
| "data_type (BasicAuthData _ _) = BasicAuth"
| "data_type (PrivateKeyData _ _) = PrivateKey"
| "data_type (CertificateData _ _) = Certificate"
| "data_type (HmacApiKeyData _ _ _ _) = HmacApiKey"
| "data_type (AwsSigV4Data _ _ _ _ _) = AwsSigV4"
| "data_type (EcdsaKeyData _ _ _) = EcdsaKey"
| "data_type (SshPasswordData _ _ _ _) = SshPassword"
| "data_type (PostgresData _ _ _ _ _ _) = Postgres"
| "data_type (UrlTokenData _) = UrlToken"
| "data_type (CustomData _) = CustomType ''custom''"

section \<open>Credentials\<close>

record credential =
  cr_id :: string
  cr_alias :: string
  cr_credential_type :: credential_type
  cr_data :: credential_data
  cr_metadata :: "string table"
  cr_created_at :: instant
  cr_updated_at :: instant

definition new_credential :: "string \<Rightarrow> instant \<Rightarrow> string \<Rightarrow> credential_data \<Rightarrow> credential" where
  "new_credential uuid now alias' dat =
     \<lparr> cr_id = uuid, cr_alias = alias', cr_credential_type = data_type dat, cr_data = dat,
       cr_metadata = [], cr_created_at = now, cr_updated_at = now \<rparr>"

definition with_metadata :: "string \<Rightarrow> string \<Rightarrow> credential \<Rightarrow> credential" where
  "with_metadata k v c = c \<lparr> cr_metadata := t_put k v (cr_metadata c) \<rparr>"

fun is_custom :: "credential_type \<Rightarrow> bool" where
  "is_custom (CustomType _) = True"
| "is_custom _ = False"

definition same_type :: "credential_type \<Rightarrow> credential_type \<Rightarrow> bool" where
  "same_type declared actual \<longleftrightarrow> is_custom declared \<and> is_custom actual \<or> declared = actual"

definition credential_shape :: "credential \<Rightarrow> string + unit" where
  "credential_shape c =
     (if blank (cr_id c) \<or> blank (cr_alias c) then Inl ''credential id and alias must be non-empty''
      else if \<not> same_type (cr_credential_type c) (data_type (cr_data c)) then
        Inl ''credential type does not match credential data''
      else if cr_updated_at c < cr_created_at c then
        Inl ''credential updated_at predates created_at''
      else if data_shape (cr_data c) then Inr ()
      else Inl ''credential contains a blank required field or empty secret'')"

text \<open>The tenant a credential is tagged with.\<close>

definition credential_tenant :: "credential \<Rightarrow> string option" where
  "credential_tenant c =
     (case t_get (cr_metadata c) ''tenant'' of
        Some t \<Rightarrow> if trim t = [] then None else Some (trim t)
      | None \<Rightarrow> None)"

section \<open>Metadata with a format\<close>

definition is_prefixed_alnum_id :: "string \<Rightarrow> string \<Rightarrow> bool" where
  "is_prefixed_alnum_id s prefix' =
     (case strip_prefix s prefix' of
        Some rest \<Rightarrow> 8 \<le> length rest \<and> length rest \<le> 64 \<and> list_all is_alnum rest
      | None \<Rightarrow> False)"

definition is_valid_anthropic_workspace_id :: "string \<Rightarrow> bool" where
  "is_valid_anthropic_workspace_id s =
     (case strip_prefix s ''wrkspc_'' of
        Some rest \<Rightarrow> 8 \<le> length rest \<and> length rest \<le> 64 \<and> list_all is_alnum rest
      | None \<Rightarrow> False)"

definition is_valid_openai_organization_id :: "string \<Rightarrow> bool" where
  "is_valid_openai_organization_id s = is_prefixed_alnum_id s ''org-''"

definition is_valid_openai_project_id :: "string \<Rightarrow> bool" where
  "is_valid_openai_project_id s = is_prefixed_alnum_id s ''proj_''"

definition metadata_format_error :: "string \<Rightarrow> string \<Rightarrow> string option" where
  "metadata_format_error key v =
     (let message = (\<lambda>shape. Some (''metadata '' @ key @ '' must be '' @ shape))
      in if key = ''anthropic_workspace_id'' then
           (if is_valid_anthropic_workspace_id v then None
            else message (CHR 0x27 # ''wrkspc_'' @ CHR 0x27 # '' followed by 8 to 64 ASCII letters or digits''))
         else if key = ''openai_organization_id'' then
           (if is_valid_openai_organization_id v then None
            else message (CHR 0x27 # ''org-'' @ CHR 0x27 # '' followed by 8 to 64 ASCII letters or digits''))
         else if key = ''openai_project_id'' then
           (if is_valid_openai_project_id v then None
            else message (CHR 0x27 # ''proj_'' @ CHR 0x27 # '' followed by 8 to 64 ASCII letters or digits''))
         else None)"

definition validate_credential_metadata_entry :: "string \<Rightarrow> string \<Rightarrow> string + unit" where
  "validate_credential_metadata_entry key v =
     (case metadata_format_error key v of Some e \<Rightarrow> Inl e | None \<Rightarrow> Inr ())"

definition url_token_secret_is_path_safe :: "string \<Rightarrow> bool" where
  "url_token_secret_is_path_safe s \<longleftrightarrow>
     s \<noteq> [] \<and> s \<noteq> ''.'' \<and> s \<noteq> ''..''
     \<and> \<not> (contains_any [CHR ''/'', CHR ''?'', CHR ''#'', CHR 0x5C, CHR ''%'', CHR '' ''] s \<or> has_control_char s)"

section \<open>What the vault holds is secret\<close>

lemma secret_material_nonempty:
  assumes "data_shape d" and b64: "\<And>s. s \<noteq> [] \<Longrightarrow> b64 s \<noteq> []"
  shows "[] \<notin> set (secret_material b64 d)"
proof -
  have h: "b64 (u @ CHR '':'' # p) \<noteq> []" "[] \<noteq> b64 (u @ CHR '':'' # p)" for u p
    using b64 [of "u @ CHR '':'' # p"] by auto
  show ?thesis using assms(1)
    by (cases d)
      (auto simp: h has_secret_def optional_secret_def Let_def list_all_iff split: option.splits)
qed

end
