(* ===== verification/Permit.thy ===== *)
theory Permit
  imports Approval_Evidence Policy_Decisions Credentials
begin

text \<open>
  The permit of \<open>src/src/formal_kernel.rs\<close>, the only authority a plugin dispatch accepts, and the
  binding an \<open>ActionPayload\<close> of \<open>src/src/server/mod.rs\<close> recomputes from what it is about to send.
  A permit is minted from an admission of the policy engine or from the grant of an approval, and it
  is consumed by authorising one payload.
\<close>

section \<open>Permits\<close>

datatype permit_basis = DirectBasis admission_kind | ApprovedBasis granted

fun is_approved :: "permit_basis \<Rightarrow> bool" where
  "is_approved (DirectBasis _) = False"
| "is_approved (ApprovedBasis _) = True"

record execution_permit =
  ep_binding :: execution_binding
  ep_basis :: permit_basis

definition direct :: "admission_witness \<Rightarrow> string \<Rightarrow> string \<Rightarrow> string \<Rightarrow> execution_permit" where
  "direct witness request_id tenant act =
     (let kind = aw_kind witness; subject = aw_subject witness
      in \<lparr> ep_binding =
             \<lparr> eb_approval_id = ''direct:'' @ request_id, eb_epoch = 0, eb_tenant = tenant,
               eb_principal = js_principal subject, eb_credential = js_credential subject,
               eb_action = act, eb_params_digest = js_params_digest subject,
               eb_rule_digest = kind_rule_digest kind \<rparr>,
           ep_basis = DirectBasis kind \<rparr>)"

definition approved :: "granted \<Rightarrow> evaluation \<Rightarrow> i64 \<Rightarrow> permit_error + execution_permit" where
  "approved grant resume now =
     (case approved_gate (ev_verdict resume) now (gr_issued_at_unix_seconds grant)
             (gr_expires_at_unix_seconds grant) of
        Inl e \<Rightarrow> Inl e
      | Inr _ \<Rightarrow>
          (case ev_subject resume of
             None \<Rightarrow> Inl Unbindable
           | Some subject \<Rightarrow>
               (if judged subject (gr_binding grant)
                then Inr \<lparr> ep_binding = gr_binding grant, ep_basis = ApprovedBasis grant \<rparr>
                else Inl BindingMismatch)))"

definition permit_admission_kind :: "execution_permit \<Rightarrow> admission_kind option" where
  "permit_admission_kind p =
     (case ep_basis p of DirectBasis kind \<Rightarrow> Some kind | ApprovedBasis _ \<Rightarrow> None)"

record 'p authorized =
  au_payload :: 'p
  au_permit :: execution_permit

definition authorize ::
  "('p \<Rightarrow> dispatched_binding option) \<Rightarrow> execution_permit \<Rightarrow> 'p \<Rightarrow> permit_error + 'p authorized" where
  "authorize dispatched_binding permit payload =
     (case dispatched_binding payload of
        None \<Rightarrow> Inl Unbindable
      | Some dispatched \<Rightarrow>
          (if db_approved dispatched \<noteq> is_approved (ep_basis permit)
              \<or> \<not> binds (ep_binding permit) dispatched
           then Inl BindingMismatch
           else Inr \<lparr> au_payload = payload, au_permit = permit \<rparr>))"

section \<open>The payload\<close>

record request_context =
  rx_request_id :: string
  rx_timestamp :: instant
  rx_source_ip :: "ip_addr option"
  rx_user_agent :: "string option"
  rx_api_key_id :: "string option"
  rx_api_key_name :: "string option"
  rx_role_name :: "string option"
  rx_agent_label :: "string option"
  rx_tenant :: "string option"
  rx_approval_id :: "string option"
  rx_approval_execution_epoch :: "u64 option"

definition context_new :: "string \<Rightarrow> instant \<Rightarrow> request_context" where
  "context_new uuid now =
     \<lparr> rx_request_id = uuid, rx_timestamp = now, rx_source_ip = None, rx_user_agent = None,
       rx_api_key_id = None, rx_api_key_name = None, rx_role_name = None, rx_agent_label = None,
       rx_tenant = None, rx_approval_id = None, rx_approval_execution_epoch = None \<rparr>"

definition bind_approved_execution ::
  "string \<Rightarrow> u64 \<Rightarrow> string option \<Rightarrow> request_context \<Rightarrow> request_context" where
  "bind_approved_execution i epoch tenant x =
     x \<lparr> rx_approval_id := Some i, rx_approval_execution_epoch := Some epoch, rx_tenant := tenant \<rparr>"

record kill_fence_subject =
  ks_principal :: "principal option"
  ks_admitted_epoch :: u64
  ks_tenant :: "string option"

record action_payload =
  py_credential :: credential
  py_plugin_name :: string
  py_action_name :: string
  py_params :: json
  py_context :: request_context
  py_use_token_id :: "string option"
  py_evidence_subject_id :: "string option"
  py_approved_execution :: bool
  py_evidence_action :: string
  py_evidence_required :: bool
  py_d8_fallback_ok :: bool
  py_kill_fence :: kill_fence_subject
  py_refusal :: refusal_ctx

definition payload_identity :: "action_payload \<Rightarrow> (string \<times> u64) option" where
  "payload_identity p =
     (let c = py_context p
      in if py_approved_execution p then
           (case (rx_approval_id c, rx_approval_execution_epoch c) of
              (Some i, Some e) \<Rightarrow> Some (i, e)
            | _ \<Rightarrow> None)
         else if rx_approval_id c \<noteq> None \<or> rx_approval_execution_epoch c \<noteq> None then None
         else Some (''direct:'' @ rx_request_id c, 0))"

definition payload_binding :: "codec \<Rightarrow> action_payload \<Rightarrow> dispatched_binding option" where
  "payload_binding K p =
     (case payload_identity p of
        None \<Rightarrow> None
      | Some (approval_id, epoch) \<Rightarrow>
          (case digest_params (co_sha K) (co_to_vec K) (py_params p) of
             None \<Rightarrow> None
           | Some dig \<Rightarrow> Some
               \<lparr> db_approved = py_approved_execution p, db_approval_id = approval_id,
                 db_epoch = epoch, db_tenant = or_empty (rx_tenant (py_context p)),
                 db_principal = or_empty (rx_api_key_id (py_context p)),
                 db_credential = cr_alias (py_credential p),
                 db_action = py_plugin_name p @ ''.'' @ py_action_name p,
                 db_params_digest = dig \<rparr>))"

section \<open>What a permit lets through\<close>

lemma authorize_Inr:
  "authorize bind_of permit payload = Inr x \<longleftrightarrow>
     x = \<lparr> au_payload = payload, au_permit = permit \<rparr>
     \<and> (\<exists>d. bind_of payload = Some d \<and> db_approved d = is_approved (ep_basis permit)
          \<and> binds (ep_binding permit) d)"
  by (auto simp: authorize_def split: option.splits if_splits)

lemma approved_Inr:
  "approved g ev now = Inr p \<longleftrightarrow>
     ev_verdict ev \<noteq> VDeny \<and> gr_issued_at_unix_seconds g \<le> now \<and> now < gr_expires_at_unix_seconds g
     \<and> (\<exists>s. ev_subject ev = Some s \<and> judged s (gr_binding g))
     \<and> p = \<lparr> ep_binding = gr_binding g, ep_basis = ApprovedBasis g \<rparr>"
  by (auto simp: approved_def approved_gate_def split: option.splits if_splits sum.splits)

lemma payload_identity_Some:
  "payload_identity p = Some (i, e) \<longleftrightarrow>
     (if py_approved_execution p
      then rx_approval_id (py_context p) = Some i \<and> rx_approval_execution_epoch (py_context p) = Some e
      else rx_approval_id (py_context p) = None \<and> rx_approval_execution_epoch (py_context p) = None
        \<and> i = ''direct:'' @ rx_request_id (py_context p) \<and> e = 0)"
  by (auto simp: payload_identity_def Let_def split: option.splits)

lemma payload_binding_Some:
  "payload_binding K p = Some d \<longleftrightarrow>
     (\<exists>i e dig. payload_identity p = Some (i, e)
        \<and> digest_params (co_sha K) (co_to_vec K) (py_params p) = Some dig
        \<and> d = \<lparr> db_approved = py_approved_execution p, db_approval_id = i, db_epoch = e,
                db_tenant = or_empty (rx_tenant (py_context p)),
                db_principal = or_empty (rx_api_key_id (py_context p)),
                db_credential = cr_alias (py_credential p),
                db_action = py_plugin_name p @ ''.'' @ py_action_name p, db_params_digest = dig \<rparr>)"
  by (auto simp: payload_binding_def split: option.splits)

lemma approval_binding_Some:
  "approval_binding K epoch a = Some b \<longleftrightarrow>
     (\<exists>x y. co_to_vec K (a_params a) = Some x \<and> co_to_vec K (rule_evidence a) = Some y
        \<and> b = \<lparr> eb_approval_id = a_id a, eb_epoch = epoch, eb_tenant = or_empty (a_tenant a),
                eb_principal = or_empty (case a_principal_id a of
                    Some p \<Rightarrow> Some p | None \<Rightarrow> ri_principal_id (a_requester a)),
                eb_credential = a_credential a, eb_action = a_action a,
                eb_params_digest = digest_bytes (co_sha K) x,
                eb_rule_digest = digest_bytes (co_sha K) y \<rparr>)"
  by (auto simp: approval_binding_def split: option.splits)

text \<open>
  A payload that a direct permit authorises dispatches exactly what the policy engine judged, and
  the engine allowed it or, for a tenant that only observes, denied it without a kill switch and
  without a spend or rate guard in the way.
\<close>

lemma direct_authorized:
  assumes ev: "evaluate_for_admission K E q observe en = (ev, en')"
    and w: "admit ev req = Inr w"
    and au: "authorize (payload_binding K) (direct w rid tenant act) p = Inr x"
  shows "\<not> req \<and> cr_alias (py_credential p) = aq_credential_alias q
    \<and> digest_params (co_sha K) (co_to_vec K) (py_params p)
        = digest_params (co_sha K) (co_to_vec K) (aq_params q)
    \<and> or_empty (rx_api_key_id (py_context p)) = (case aq_principal q of Some pr \<Rightarrow> pl_id pr | None \<Rightarrow> [])
    \<and> \<not> py_approved_execution p
    \<and> (ev_decision ev = DAllow
       \<or> is_deny (ev_decision ev) \<and> observe
         \<and> \<not> is_halted (pe_lib E) (query_input q (policy_url (pe_lib E) (co_show K) (aq_params q))) en'
         \<and> \<not> has_resource_guard (pe_lib E) (query_input q (policy_url (pe_lib E) (co_show K) (aq_params q))) en')"
proof -
  let ?i = "query_input q (policy_url (pe_lib E) (co_show K) (aq_params q))"
  have gate: "admission_gate (ev_verdict ev) (ev_observe_downgrade ev) req = Inr (aw_kind w)"
    and s: "ev_subject ev = Some (aw_subject w)"
    using w by (auto simp: admit_def witness_from_Inr)
  obtain d c where inner: "evaluate_inner E ?i True en = ((d, c), en')"
    and e: "ev_decision ev = d" "ev_subject ev = query_subject K q"
      "ev_observe_downgrade ev \<longleftrightarrow> is_deny d \<and> observe \<and> \<not> is_halted (pe_lib E) ?i en'
        \<and> \<not> has_resource_guard (pe_lib E) ?i en'"
    using ev by (auto simp: evaluate_for_admission_def Let_def split: prod.splits)
  have sub: "js_credential (aw_subject w) = aq_credential_alias q"
    "js_principal (aw_subject w) = (case aq_principal q of Some pr \<Rightarrow> pl_id pr | None \<Rightarrow> [])"
    "digest_params (co_sha K) (co_to_vec K) (aq_params q) = Some (js_params_digest (aw_subject w))"
    using s e(2) by (auto simp: query_subject_def dest!: sym [of _ "aw_subject w"])
  obtain b where b: "payload_binding K p = Some b" "\<not> db_approved b"
    "binds (ep_binding (direct w rid tenant act)) b"
    using au by (auto simp: authorize_Inr direct_def Let_def)
  from b(1) obtain i ep dig where
    "digest_params (co_sha K) (co_to_vec K) (py_params p) = Some dig" "db_params_digest b = dig"
    "db_credential b = cr_alias (py_credential p)" "db_principal b = or_empty (rx_api_key_id (py_context p))"
    "db_approved b = py_approved_execution p"
    by (auto simp: payload_binding_Some)
  moreover have "ev_decision ev = DAllow \<or> is_deny (ev_decision ev) \<and> ev_observe_downgrade ev" "\<not> req"
    using gate by (auto simp: admission_gate_Inr ev_verdict_def is_deny_def split: policy_decision.splits)
  ultimately show ?thesis
    using b(2,3) sub e by (auto simp: binds_def direct_def Let_def)
qed

lemma grant_witness_binding:
  assumes "grant_witness_for_epoch K now epoch a = Some g"
  shows "approval_binding K epoch a = Some (gr_binding g)"
  using assms by (auto simp: grant_witness_for_epoch_def grant_witness_inner_Some)

text \<open>
  A payload that an approved permit authorises dispatches the request that was approved, under the
  claim the grant was derived for, and a policy evaluation at that time did not deny it.
\<close>

lemma approved_authorized:
  assumes g: "grant_witness_for_epoch K now epoch a = Some g"
    and p: "approved g ev now_secs = Inr permit"
    and au: "authorize (payload_binding K) permit payload = Inr x"
  shows "py_approved_execution payload
    \<and> rx_approval_id (py_context payload) = Some (a_id a)
    \<and> rx_approval_execution_epoch (py_context payload) = Some epoch
    \<and> or_empty (rx_tenant (py_context payload)) = or_empty (a_tenant a)
    \<and> cr_alias (py_credential payload) = a_credential a
    \<and> py_plugin_name payload @ ''.'' @ py_action_name payload = a_action a
    \<and> digest_params (co_sha K) (co_to_vec K) (py_params payload)
        = digest_params (co_sha K) (co_to_vec K) (a_params a)
    \<and> ev_verdict ev \<noteq> VDeny"
proof -
  obtain x where b: "co_to_vec K (a_params a) = Some x" "eb_approval_id (gr_binding g) = a_id a"
    "eb_epoch (gr_binding g) = epoch" "eb_tenant (gr_binding g) = or_empty (a_tenant a)"
    "eb_credential (gr_binding g) = a_credential a" "eb_action (gr_binding g) = a_action a"
    "eb_params_digest (gr_binding g) = digest_bytes (co_sha K) x"
    using grant_witness_binding [OF g] by (auto simp: approval_binding_Some)
  have pm: "ev_verdict ev \<noteq> VDeny" "permit = \<lparr> ep_binding = gr_binding g, ep_basis = ApprovedBasis g \<rparr>"
    using p by (auto simp: approved_Inr)
  then obtain d where d: "payload_binding K payload = Some d" "db_approved d" "binds (gr_binding g) d"
    using au by (auto simp: authorize_Inr)
  from d(1) obtain i e dig where f: "payload_identity payload = Some (i, e)"
    "digest_params (co_sha K) (co_to_vec K) (py_params payload) = Some dig"
    "db_params_digest d = dig" "db_approval_id d = i" "db_epoch d = e"
    "db_credential d = cr_alias (py_credential payload)" "db_approved d = py_approved_execution payload"
    "db_tenant d = or_empty (rx_tenant (py_context payload))"
    "db_action d = py_plugin_name payload @ ''.'' @ py_action_name payload"
    by (auto simp: payload_binding_Some)
  have "digest_params (co_sha K) (co_to_vec K) (a_params a) = Some (digest_bytes (co_sha K) x)"
    using b(1) by (simp add: digest_params_def)
  with b f d pm(1) show ?thesis by (auto simp: binds_def payload_identity_Some)
qed

section \<open>A kill switch leaves no permit\<close>

lemma halted_matching:
  "is_halted L i en \<longleftrightarrow> list_ex p_kill (matching L i en)"
  by (auto simp: is_halted_def matching_def list_ex_iff)

lemma halted_no_direct:
  assumes "is_halted (pe_lib E) (query_input q (policy_url (pe_lib E) (co_show K) (aq_params q))) en"
  shows "admit (fst (evaluate_for_admission K E q observe en)) req = Inl PolicyDenied"
proof -
  obtain m c where
    "evaluate_inner E (query_input q (policy_url (pe_lib E) (co_show K) (aq_params q))) True en
       = ((DDeny m, Some c), en)"
    using evaluate_kill [OF assms [unfolded halted_matching], of True] by blast
  then show ?thesis
    using assms
    by (simp add: evaluate_for_admission_def Let_def admit_def witness_from_def admission_gate_def
        ev_verdict_def is_deny_def)
qed

lemma halted_no_approved:
  assumes "is_halted (pe_lib E) (query_input q (policy_url (pe_lib E) (co_show K) (aq_params q))) en"
  shows "approved g (evaluate_readonly_for_admission K E q en) now = Inl PolicyDenied"
proof -
  obtain m c where
    "evaluate_inner E (query_input q (policy_url (pe_lib E) (co_show K) (aq_params q))) False en
       = ((DDeny m, Some c), en)"
    using evaluate_kill [OF assms [unfolded halted_matching], of False] by blast
  then show ?thesis
    by (simp add: evaluate_readonly_for_admission_def Let_def approved_def approved_gate_def
        ev_verdict_def)
qed

end
