(* ===== verification/Policy_Store.thy ===== *)
theory Policy_Store
  imports Policy_Engine
begin

text \<open>
  Which stored policies the program loads, and the two repairs it offers, from
  \<open>src/src/policy/mod.rs\<close> and \<open>src/src/policy/types.rs\<close>: URL patterns that read as more than they
  match are refused, a rate limit under a default that does not deny is refused, and
  \<open>fix_condition\<close> rewrites refused patterns.  The loading of the engine's list under tickets is at
  the end.  The store of policies is a table by identifier; its persistence is in the vault.
\<close>

section \<open>Refused URL patterns\<close>

fun first_warned_url_pattern ::
  "url_lib \<Rightarrow> bool \<Rightarrow> policy_condition \<Rightarrow> (string \<times> canon_pattern) option" where
  "first_warned_url_pattern L exact_ok (UrlMatch p) =
     (let canon0 = canonical_pattern L p;
          canon = (if exact_ok
                   then canon0 \<lparr> cp_warnings := filter
                          (\<lambda>w. w \<noteq> ExactUrlMissesQuery \<and> w \<noteq> QueryInPattern) (cp_warnings canon0) \<rparr>
                   else canon0)
      in if cp_warnings canon = [] then None else Some (p, canon))"
| "first_warned_url_pattern L exact_ok (And cs) = find_map (first_warned_url_pattern L exact_ok) cs"
| "first_warned_url_pattern L exact_ok (Or cs) = find_map (first_warned_url_pattern L exact_ok) cs"
| "first_warned_url_pattern L exact_ok (Not c) = first_warned_url_pattern L exact_ok c"
| "first_warned_url_pattern L exact_ok _ = None"

fun first_negated_warned_url_pattern ::
  "url_lib \<Rightarrow> bool \<Rightarrow> policy_condition \<Rightarrow> (string \<times> canon_pattern) option" where
  "first_negated_warned_url_pattern L negated (UrlMatch p) =
     (if negated then
        (let canon = canonical_pattern L p
         in if cp_warnings canon = [] then None else Some (p, canon))
      else None)"
| "first_negated_warned_url_pattern L negated (And cs) =
     find_map (first_negated_warned_url_pattern L negated) cs"
| "first_negated_warned_url_pattern L negated (Or cs) =
     find_map (first_negated_warned_url_pattern L negated) cs"
| "first_negated_warned_url_pattern L negated (Not c) =
     first_negated_warned_url_pattern L (\<not> negated) c"
| "first_negated_warned_url_pattern L negated _ = None"

text \<open>A refusal names the policy, the index and action of the rule, and the pattern.\<close>

record url_refusal =
  ur_policy :: string
  ur_rule :: nat
  ur_action :: policy_action
  ur_pattern :: string
  ur_canon :: canon_pattern

definition warned_rule :: "url_lib \<Rightarrow> policy_action \<Rightarrow> policy_rule \<Rightarrow> (string \<times> canon_pattern) option" where
  "warned_rule L default_action r =
     (case pr_action r of
        Deny \<Rightarrow> first_warned_url_pattern L False (pr_condition r)
      | Prompt \<Rightarrow> first_warned_url_pattern L (default_action = Deny) (pr_condition r)
      | Allow \<Rightarrow> first_negated_warned_url_pattern L False (pr_condition r))"

fun refuse_rules :: "url_lib \<Rightarrow> policy \<Rightarrow> nat \<Rightarrow> policy_rule list \<Rightarrow> url_refusal + unit" where
  "refuse_rules L p n [] = Inr ()"
| "refuse_rules L p n (r # rs) =
     (case warned_rule L (p_default_action p) r of
        Some (pat, canon) \<Rightarrow>
          Inl \<lparr> ur_policy = p_name p, ur_rule = n, ur_action = pr_action r, ur_pattern = pat,
                ur_canon = canon \<rparr>
      | None \<Rightarrow> refuse_rules L p (Suc n) rs)"

definition refuse_warned_url_patterns :: "url_lib \<Rightarrow> policy \<Rightarrow> url_refusal + unit" where
  "refuse_warned_url_patterns L p = refuse_rules L p 0 (p_rules p)"

section \<open>Loading stored policies\<close>

datatype load_refusal =
    UrlPatternRefused string string url_refusal
  | RateLimitDefault string string policy_action

definition stored_load_refusal :: "url_lib \<Rightarrow> policy \<Rightarrow> load_refusal option" where
  "stored_load_refusal L p =
     (case refuse_warned_url_patterns L p of
        Inl e \<Rightarrow> Some (UrlPatternRefused (p_name p) (p_id p) e)
      | Inr _ \<Rightarrow>
          if p_default_action p = Deny
             \<or> \<not> list_ex (\<lambda>r. condition_contains_rate_limit (pr_condition r)) (p_rules p)
          then None
          else Some (RateLimitDefault (p_name p) (p_id p) (p_default_action p)))"

definition stored_policy_refusals :: "url_lib \<Rightarrow> policy list \<Rightarrow> load_refusal list" where
  "stored_policy_refusals L stored = List.map_filter (stored_load_refusal L) stored"

definition refuse_unloadable_stored_policies ::
  "url_lib \<Rightarrow> policy list \<Rightarrow> load_refusal list + unit" where
  "refuse_unloadable_stored_policies L stored =
     (let refusals = List.map_filter (stored_load_refusal L) stored
      in if refusals = [] then Inr () else Inl refusals)"

section \<open>Repairs\<close>

datatype repair_error = NoStoredPolicy string | StillRefused url_refusal

definition set_stored_policy_default_deny ::
  "string \<Rightarrow> policy table \<Rightarrow> repair_error + (bool \<times> policy table)" where
  "set_stored_policy_default_deny i stored =
     (case t_get stored i of
        None \<Rightarrow> Inl (NoStoredPolicy i)
      | Some p \<Rightarrow>
          if p_default_action p = Deny then Inr (False, stored)
          else
            (let p' = p \<lparr> p_default_action := Deny \<rparr> in Inr (True, t_put (p_id p') p' stored)))"

text \<open>The rewriting of one pattern without braces.\<close>

definition fix_plain_url :: "bool \<Rightarrow> string \<Rightarrow> policy_condition \<times> nat" where
  "fix_plain_url exact_ok p =
     (case (if exact_ok then None else split_once (CHR ''?'') p) of
        Some (head, _) \<Rightarrow> (UrlMatch (head @ ''*''), 1)
      | None \<Rightarrow>
          if \<not> exact_ok \<and> exact_url_misses_query p then (UrlMatch (p @ ''*''), 1)
          else (UrlMatch p, 0))"

subsection \<open>Alternatives of an expanded pattern have no braces\<close>

definition no_brace :: "string \<Rightarrow> bool" where
  "no_brace s \<longleftrightarrow> CHR ''{'' \<notin> set s \<and> CHR ''}'' \<notin> set s"

lemma brace_body_no_brace: "brace_body s = Some (b, r) \<Longrightarrow> no_brace b"
  by (induction s arbitrary: b r) (auto simp: no_brace_def split: if_splits option.splits)

lemma split_on_subset: "x \<in> set (split_on c s) \<Longrightarrow> set x \<subseteq> set s"
proof (induction s arbitrary: x)
  case (Cons d s)
  show ?case
  proof (cases "split_on c s")
    case Nil
    with Cons show ?thesis by (auto split: if_splits)
  next
    case (Cons p ps)
    with Cons.prems Cons.IH show ?thesis by (auto split: if_splits) blast+
  qed
qed simp

lemma expand_from_no_brace:
  "expand_from s out = Some res \<Longrightarrow> \<forall>x \<in> set out. no_brace x \<Longrightarrow> \<forall>x \<in> set res. no_brace x"
proof (induction s out arbitrary: res rule: expand_from.induct)
  case (2 c s out)
  show ?case
  proof (cases "c = CHR ''{''")
    case True
    with 2(3) obtain b r where b: "brace_body s = Some (b, r)" "contains_any '','' b"
      "\<not> 64 < length out * length (split_on (CHR '','') b)"
      "expand_from r (concat (map (\<lambda>p. map (\<lambda>a. p @ a) (split_on (CHR '','') b)) out)) = Some res"
      by (auto simp: Let_def split: option.splits if_splits)
    have "\<forall>a \<in> set (split_on (CHR '','') b). no_brace a"
      using brace_body_no_brace [OF b(1)] split_on_subset [of _ "CHR '',''" b]
      by (auto simp: no_brace_def)
    then have "\<forall>x \<in> set (concat (map (\<lambda>p. map (\<lambda>a. p @ a) (split_on (CHR '','') b)) out)). no_brace x"
      using 2(4) by (auto simp: no_brace_def)
    with 2(1) True b show ?thesis by blast
  next
    case False
    with 2(3) have c: "c \<noteq> CHR ''}''" "expand_from s (map (\<lambda>p. p @ [c]) out) = Some res"
      by (auto split: if_splits)
    then show ?thesis using 2(2) [OF False c(1) c(2)] False 2(4) by (auto simp: no_brace_def)
  qed
qed simp

lemma placeholder_back:
  "no_brace s \<Longrightarrow> no_brace (replace_str placeholder [] (replace_str [CHR 0x01] placeholder s))"
proof (induction s)
  case (Cons c s)
  then have s: "no_brace s" "c \<noteq> CHR ''{''" "c \<noteq> CHR ''}''" by (auto simp: no_brace_def)
  show ?case
  proof (cases "c = CHR 0x01")
    case True
    have "replace_str placeholder [] (placeholder @ t) = replace_str placeholder [] t" for t
      by (simp add: placeholder_def starts_with_def)
    with True Cons.IH [OF s(1)] show ?thesis by (simp add: starts_with_def)
  next
    case False
    with s Cons.IH show ?thesis by (auto simp: starts_with_def placeholder_def no_brace_def)
  qed
qed simp

lemma expanded_no_braces:
  assumes "expand_brace_alternation p = Some alts" "a \<in> set alts"
  shows "\<not> braces_are_literal a"
proof -
  obtain res where r: "expand_from (replace_str placeholder [CHR 0x01] p) [[]] = Some res"
    "alts = map (\<lambda>p. replace_str [CHR 0x01] placeholder p) res"
    using assms(1) by (auto simp: expand_brace_alternation_def)
  have "\<forall>x \<in> set res. no_brace x" using expand_from_no_brace [OF r(1)] by (simp add: no_brace_def)
  then have "no_brace (replace_str placeholder [] a)"
    using assms(2) r(2) placeholder_back by auto
  then show ?thesis by (simp add: braces_are_literal_def contains_any_iff no_brace_def)
qed

subsection \<open>The rewriting of a condition\<close>

text \<open>The alternatives of a pattern with braces are rewritten again; they have none themselves.\<close>

function fix_condition :: "bool \<Rightarrow> policy_condition \<Rightarrow> policy_condition \<times> nat" where
  "fix_condition exact_ok (UrlMatch p) =
     (if braces_are_literal p then
        (case expand_brace_alternation p of
           Some alts \<Rightarrow>
             (let each = map (\<lambda>a. fix_condition exact_ok (UrlMatch a)) alts
              in (Or (map fst each), Suc (sum_list (map snd each))))
         | None \<Rightarrow> (UrlMatch p, 0))
      else fix_plain_url exact_ok p)"
| "fix_condition exact_ok (And cs) =
     (let each = map (fix_condition exact_ok) cs in (And (map fst each), sum_list (map snd each)))"
| "fix_condition exact_ok (Or cs) =
     (let each = map (fix_condition exact_ok) cs in (Or (map fst each), sum_list (map snd each)))"
| "fix_condition exact_ok (MethodMatch ms) = (MethodMatch ms, 0)"
| "fix_condition exact_ok (ActionMatch a) = (ActionMatch a, 0)"
| "fix_condition exact_ok (TimeWindow s e) = (TimeWindow s e, 0)"
| "fix_condition exact_ok (RateLimit mx w) = (RateLimit mx w, 0)"
| "fix_condition exact_ok (SpendCap a m) = (SpendCap a m, 0)"
| "fix_condition exact_ok (Not c) = (Not c, 0)"
| "fix_condition exact_ok Always = (Always, 0)"
  by pat_completeness auto
termination
proof (relation "measure (\<lambda>(e, c). 2 * size c
    + (case c of UrlMatch p \<Rightarrow> if braces_are_literal p then 1 else 0 | _ \<Rightarrow> 0))", goal_cases)
  case (2 exact_ok p alts a)
  then show ?case using expanded_no_braces by auto
next
  case (3 exact_ok cs c)
  then have "size c < size (And cs)" by (induction cs) auto
  then show ?case by (auto split: policy_condition.splits)
next
  case (4 exact_ok cs c)
  then have "size c < size (Or cs)" by (induction cs) auto
  then show ?case by (auto split: policy_condition.splits)
qed simp

definition fix_rule :: "policy_action \<Rightarrow> policy_rule \<Rightarrow> policy_rule \<times> nat" where
  "fix_rule default_action r =
     (if pr_action r = Deny \<or> pr_action r = Prompt then
        (case fix_condition (pr_action r = Prompt \<and> default_action = Deny) (pr_condition r) of
           (c, n) \<Rightarrow> (r \<lparr> pr_condition := c \<rparr>, n))
      else (r, 0))"

definition fix_stored_policy_url_patterns ::
  "url_lib \<Rightarrow> string \<Rightarrow> policy table \<Rightarrow> repair_error + (nat \<times> policy table)" where
  "fix_stored_policy_url_patterns L i stored =
     (case t_get stored i of
        None \<Rightarrow> Inl (NoStoredPolicy i)
      | Some p \<Rightarrow>
          (let fixed = map (fix_rule (p_default_action p)) (p_rules p);
               p' = p \<lparr> p_rules := map fst fixed \<rparr>;
               changed = sum_list (map snd fixed)
           in case refuse_warned_url_patterns L p' of
                Inl e \<Rightarrow> Inl (StillRefused e)
              | Inr _ \<Rightarrow> Inr (changed, if 0 < changed then t_put (p_id p') p' stored else stored)))"

section \<open>Ticketed loads\<close>

text \<open>Loads finish in any order; each carries the ticket drawn when it began.\<close>

definition apply_load :: "engine \<Rightarrow> u64 \<times> policy list \<Rightarrow> engine" where
  "apply_load en tp = snd (load_policies_if_newer (fst tp) (snd tp) en)"

lemma apply_load_ticket:
  "en_applied_load_ticket (apply_load en (t, ps)) = max (en_applied_load_ticket en) t"
  by (auto simp: apply_load_def load_policies_if_newer_def max_def)

interpretation loads: monotone_machine apply_load "\<lambda>_. True" en_applied_load_ticket
  by unfold_locales (auto simp: apply_load_ticket split: prod.splits)

lemma loads_below:
  "\<forall>(t', ps') \<in> set xs. t' < t \<Longrightarrow> en_applied_load_ticket en < t \<Longrightarrow>
     en_applied_load_ticket (foldl apply_load en xs) < t"
  by (induction xs arbitrary: en) (auto simp: apply_load_ticket)

lemma loads_stale:
  "\<forall>(t', ps') \<in> set xs. t' \<le> en_applied_load_ticket en \<Longrightarrow> foldl apply_load en xs = en"
  by (induction xs arbitrary: en) (auto simp: apply_load_def load_policies_if_newer_def)

lemma loads_newest_wins:
  assumes "distinct (map fst xs)" "(t, ps) \<in> set xs" "\<forall>(t', ps') \<in> set xs. t' \<le> t"
    and "en_applied_load_ticket en < t"
  shows "en_policies (foldl apply_load en xs) = ps"
proof -
  obtain ys zs where xs: "xs = ys @ (t, ps) # zs" using assms(2) by (metis split_list)
  have "\<forall>(t', ps') \<in> set ys. t' < t"
    using assms(1,3) xs by (force simp: order.order_iff_strict)
  then have lt: "en_applied_load_ticket (foldl apply_load en ys) < t" by (rule loads_below) (rule assms(4))
  let ?en = "apply_load (foldl apply_load en ys) (t, ps)"
  have en: "en_applied_load_ticket ?en = t" "en_policies ?en = ps"
    using lt by (auto simp: apply_load_def load_policies_if_newer_def)
  have "foldl apply_load ?en zs = ?en"
    by (rule loads_stale) (use assms(3) xs en(1) in auto)
  with en(2) xs show ?thesis by simp
qed

section \<open>What is loaded\<close>

lemma refuse_rules_Inr:
  "refuse_rules L p n rs = Inr () \<longleftrightarrow> (\<forall>r \<in> set rs. warned_rule L (p_default_action p) r = None)"
  by (induction rs arbitrary: n) (auto split: option.splits)

lemma loadable_iff:
  "stored_load_refusal L p = None \<longleftrightarrow>
     (\<forall>r \<in> set (p_rules p). warned_rule L (p_default_action p) r = None)
     \<and> \<not> rate_limit_default_not_deny p"
proof -
  have "stored_load_refusal L p = None \<longleftrightarrow>
      refuse_rules L p 0 (p_rules p) = Inr () \<and> \<not> rate_limit_default_not_deny p"
    by (cases "refuse_rules L p 0 (p_rules p)")
      (auto simp: stored_load_refusal_def refuse_warned_url_patterns_def
        rate_limit_default_not_deny_def)
  then show ?thesis by (simp add: refuse_rules_Inr)
qed

end
