(* ===== verification/Kill_Fence.thy ===== *)
theory Kill_Fence
  imports Policy_Engine
begin

text \<open>
  The kill fence of \<open>src/src/policy/kill_fence.rs\<close>: every stored kill policy advances an epoch and
  leaves a mark that outlives the policy, so that work admitted before the kill stays refused after
  the policy is lifted.  Marks are an ordered table by policy identifier.
\<close>

section \<open>Definitions\<close>

record kill_mark =
  km_credential_pattern :: string
  km_principal_pattern :: "string option"
  km_epoch :: u64
  km_stored_at :: "instant option"

record kill_fence_state =
  kf_epoch :: u64
  kf_marks :: "kill_mark table"

definition record_store :: "instant \<Rightarrow> policy \<Rightarrow> kill_fence_state \<Rightarrow> u64 option \<times> kill_fence_state" where
  "record_store now p st =
     (if \<not> p_kill p then (None, st)
      else
        (let e = sat_add (kf_epoch st) 1 in
         (Some e,
          \<lparr> kf_epoch = e,
            kf_marks = bt_put (p_id p)
              \<lparr> km_credential_pattern = p_credential_pattern p,
                km_principal_pattern = p_principal_pattern p,
                km_epoch = e, km_stored_at = Some now \<rparr> (kf_marks st) \<rparr>)))"

definition stamp_mark :: "instant \<Rightarrow> kill_mark \<Rightarrow> kill_mark" where
  "stamp_mark now m = (if km_stored_at m = None then m \<lparr> km_stored_at := Some now \<rparr> else m)"

definition stamp_unstamped :: "instant \<Rightarrow> kill_fence_state \<Rightarrow> nat \<times> kill_fence_state" where
  "stamp_unstamped now st =
     (length (filter (\<lambda>(i, m). km_stored_at m = None) (kf_marks st)),
      st \<lparr> kf_marks := map (\<lambda>(i, m). (i, stamp_mark now m)) (kf_marks st) \<rparr>)"

definition kill_mark_gc_grace_secs :: i64 where
  "kill_mark_gc_grace_secs = 24 * 60 * 60"

fun least_word :: "u64 list \<Rightarrow> u64 option" where
  "least_word [] = None"
| "least_word (x # xs) = (case least_word xs of None \<Rightarrow> Some x | Some y \<Rightarrow> Some (min x y))"

definition mark_dead :: "(string \<Rightarrow> bool) \<Rightarrow> u64 option \<Rightarrow> instant \<Rightarrow> string \<Rightarrow> kill_mark \<Rightarrow> bool" where
  "mark_dead is_stored_kill oldest_live now i m \<longleftrightarrow>
     \<not> is_stored_kill i
     \<and> opt_test (\<lambda>t. kill_mark_gc_grace_secs \<le> num_seconds (now - t)) (km_stored_at m)
     \<and> (case oldest_live of None \<Rightarrow> True | Some e \<Rightarrow> km_epoch m \<le> e)"

definition dead_kill_marks ::
  "kill_fence_state \<Rightarrow> (string \<Rightarrow> bool) \<Rightarrow> u64 list \<Rightarrow> instant \<Rightarrow> string list" where
  "dead_kill_marks st is_stored_kill live_admitted now =
     map fst (filter (\<lambda>(i, m). mark_dead is_stored_kill (least_word live_admitted) now i m) (kf_marks st))"

text \<open>The removal of the dead marks in a vault collection, \<open>gc_vault_at\<close>.\<close>

definition gc_marks ::
  "(string \<Rightarrow> bool) \<Rightarrow> u64 list \<Rightarrow> instant \<Rightarrow> kill_fence_state \<Rightarrow> kill_fence_state" where
  "gc_marks is_stored_kill live_admitted now st =
     st \<lparr> kf_marks := foldl (\<lambda>m i. t_del i m) (kf_marks st)
            (dead_kill_marks st is_stored_kill live_admitted now) \<rparr>"

record kill_fence_query =
  kq_credential_alias :: string
  kq_principal :: "principal option"
  kq_admitted_epoch :: u64

datatype fence_verdict =
    Clear
  | Halted string
  | KilledSinceAdmission string u64

definition verdict_is_clear :: "fence_verdict \<Rightarrow> bool" where
  "verdict_is_clear v = (case v of Clear \<Rightarrow> True | _ \<Rightarrow> False)"

fun refusal_reason :: "fence_verdict \<Rightarrow> string option" where
  "refusal_reason Clear = None"
| "refusal_reason (Halted i) =
     Some (''the agent is halted (kill policy '' @ [CHR 0x27] @ i @ [CHR 0x27] @ ''); nothing ran'')"
| "refusal_reason (KilledSinceAdmission i e) =
     Some (''the agent was killed (kill policy '' @ [CHR 0x27] @ i @ [CHR 0x27] @ '', kill epoch ''
           @ show_word e @ '') after this work was admitted; nothing ran, submit it again'')"

definition patterns_match ::
  "url_lib \<Rightarrow> kill_fence_query \<Rightarrow> string \<Rightarrow> string option \<Rightarrow> bool" where
  "patterns_match L q cp pp \<longleftrightarrow>
     credential_matches L cp (kq_credential_alias q) \<and> principal_matches L pp (kq_principal q)"

definition kill_fence_verdict ::
  "url_lib \<Rightarrow> policy list \<Rightarrow> kill_fence_state \<Rightarrow> kill_fence_query \<Rightarrow> fence_verdict" where
  "kill_fence_verdict L stored st q =
     (case sort (map p_id (filter (\<lambda>p. p_kill p
              \<and> patterns_match L q (p_credential_pattern p) (p_principal_pattern p)) stored)) of
        i # _ \<Rightarrow> Halted i
      | [] \<Rightarrow>
          (case find (\<lambda>(i, m). kq_admitted_epoch q < km_epoch m
                    \<and> patterns_match L q (km_credential_pattern m) (km_principal_pattern m))
                  (kf_marks st) of
             Some (i, m) \<Rightarrow> KilledSinceAdmission i (km_epoch m)
           | None \<Rightarrow> Clear))"

section \<open>Facts\<close>

definition refuses :: "url_lib \<Rightarrow> kill_fence_query \<Rightarrow> kill_mark \<Rightarrow> bool" where
  "refuses L q m \<longleftrightarrow> kq_admitted_epoch q < km_epoch m
     \<and> patterns_match L q (km_credential_pattern m) (km_principal_pattern m)"

lemma verdict_unfold:
  "kill_fence_verdict L stored st q =
     (case sort (map p_id (filter (\<lambda>p. p_kill p
              \<and> patterns_match L q (p_credential_pattern p) (p_principal_pattern p)) stored)) of
        i # _ \<Rightarrow> Halted i
      | [] \<Rightarrow> (case find (\<lambda>x. refuses L q (snd x)) (kf_marks st) of
                Some (i, m) \<Rightarrow> KilledSinceAdmission i (km_epoch m) | None \<Rightarrow> Clear))"
  unfolding kill_fence_verdict_def refuses_def case_prod_unfold by (rule refl)

lemma verdict_clear_iff:
  "kill_fence_verdict L stored st q = Clear \<longleftrightarrow>
     (\<forall>p \<in> set stored. p_kill p \<longrightarrow> \<not> patterns_match L q (p_credential_pattern p) (p_principal_pattern p))
     \<and> (\<forall>(i, m) \<in> set (kf_marks st). \<not> refuses L q m)"
proof -
  let ?h = "filter (\<lambda>p. p_kill p \<and> patterns_match L q (p_credential_pattern p) (p_principal_pattern p)) stored"
  have len: "length (sort (map p_id ?h)) = length ?h" by (simp only: length_sort length_map)
  have "kill_fence_verdict L stored st q = Clear \<longleftrightarrow>
      ?h = [] \<and> find (\<lambda>x. refuses L q (snd x)) (kf_marks st) = None"
  proof (cases "sort (map p_id ?h)")
    case Nil
    with len have "length ?h = 0" by (metis list.size(3))
    then have h: "?h = []" by (simp only: length_0_conv)
    show ?thesis unfolding verdict_unfold Nil h by (auto split: option.splits)
  next
    case (Cons i rest)
    with len have "?h \<noteq> []" by (metis list.distinct(1) list.size(3) length_0_conv)
    then show ?thesis unfolding verdict_unfold Cons by simp
  qed
  then show ?thesis by (auto simp: find_None_iff filter_empty_conv)
qed

text \<open>The epoch never falls, and grows with every kill until it saturates.\<close>

definition fence_step :: "kill_fence_state \<Rightarrow> instant \<times> policy \<Rightarrow> kill_fence_state" where
  "fence_step st x = snd (record_store (fst x) (snd x) st)"

lemma sat_add_ge: "(a :: 'a::len word) \<le> sat_add a b"
proof -
  have "unat a < 2 ^ LENGTH('a)" by (rule unsigned_less)
  then have "unat a \<le> 2 ^ LENGTH('a) - 1" by linarith
  then show ?thesis by (simp add: word_le_nat_alt unat_sat_add)
qed

lemma fence_step_epoch: "kf_epoch st \<le> kf_epoch (fence_step st x)"
  by (simp add: fence_step_def record_store_def Let_def sat_add_ge)

definition fence_ok :: "kill_fence_state \<Rightarrow> bool" where
  "fence_ok st \<longleftrightarrow> bt_ok (kf_marks st) \<and> (\<forall>(i, m) \<in> set (kf_marks st). km_epoch m \<le> kf_epoch st)"

lemma set_bt_put: "set (bt_put k v m) \<subseteq> insert (k, v) (set m)"
  by (induction k v m rule: bt_put.induct) auto

lemma fence_step_ok: "fence_ok st \<Longrightarrow> fence_ok (fence_step st x)"
proof -
  assume ok: "fence_ok st"
  obtain now p where x: "x = (now, p)" by (cases x)
  show ?thesis
  proof (cases "p_kill p")
    case True
    let ?e = "sat_add (kf_epoch st) 1"
    have "\<forall>(i, m) \<in> set (kf_marks st). km_epoch m \<le> ?e"
      using ok sat_add_ge [of "kf_epoch st" 1] by (force simp: fence_ok_def)
    then show ?thesis
      using ok True x set_bt_put by (fastforce simp: fence_ok_def fence_step_def record_store_def Let_def bt_ok_put)
  next
    case False
    with ok x show ?thesis by (simp add: fence_step_def record_store_def)
  qed
qed

interpretation fence: monotone_machine fence_step fence_ok kf_epoch
  by unfold_locales (auto intro: fence_step_ok fence_step_epoch)

text \<open>Collecting dead marks changes no answer about work that is still live.\<close>

lemma least_word_le: "x \<in> set xs \<Longrightarrow> \<exists>y. least_word xs = Some y \<and> y \<le> x"
  by (induction xs) (auto simp: min_le_iff_disj split: option.splits)

lemma foldl_t_del: "foldl (\<lambda>m i. t_del i m) m is = filter (\<lambda>p. fst p \<notin> set is) m"
  by (induction "is" arbitrary: m) (auto simp: t_del_filter intro: filter_cong)

lemma find_filter_same:
  "(\<And>x. x \<in> set xs \<Longrightarrow> P x \<Longrightarrow> Q x) \<Longrightarrow> find P (filter Q xs) = find P xs"
  by (induction xs) auto

lemma gc_marks_filter:
  assumes "bt_ok (kf_marks st)"
  shows "kf_marks (gc_marks sk live now st) =
    filter (\<lambda>(i, m). \<not> mark_dead sk (least_word live) now i m) (kf_marks st)"
proof -
  have "fst x \<in> set (dead_kill_marks st sk live now) \<longleftrightarrow> (\<lambda>(i, m). mark_dead sk (least_word live) now i m) x"
    if "x \<in> set (kf_marks st)" for x
    using that bt_ok_distinct [OF assms] by (force simp: dead_kill_marks_def dest: eq_key_imp_eq_value)
  then show ?thesis
    by (auto simp: gc_marks_def foldl_t_del intro!: filter_cong)
qed

lemma dead_mark_harmless:
  "kq_admitted_epoch q \<in> set live \<Longrightarrow> mark_dead sk (least_word live) now i m \<Longrightarrow> \<not> refuses L q m"
  using least_word_le [of "kq_admitted_epoch q" live] by (auto simp: mark_dead_def refuses_def)

lemma gc_verdict_same:
  assumes "bt_ok (kf_marks st)" "kq_admitted_epoch q \<in> set live"
  shows "kill_fence_verdict L stored (gc_marks sk live now st) q = kill_fence_verdict L stored st q"
proof -
  have "find (\<lambda>x. refuses L q (snd x)) (kf_marks (gc_marks sk live now st))
      = find (\<lambda>x. refuses L q (snd x)) (kf_marks st)"
    unfolding gc_marks_filter [OF assms(1)]
    by (rule find_filter_same) (use dead_mark_harmless [OF assms(2)] in auto)
  then show ?thesis by (simp only: verdict_unfold)
qed

section \<open>A kill outlives its policy\<close>

text \<open>
  What happens to a fence after a kill: other policies are stored, old marks are stamped, and dead
  marks are collected with the work in question among the live admissions.
\<close>

datatype fence_event =
    FStore instant policy
  | FStamp instant
  | FCollect "string \<Rightarrow> bool" "u64 list" instant

fun fence_apply :: "kill_fence_state \<Rightarrow> fence_event \<Rightarrow> kill_fence_state" where
  "fence_apply st (FStore now p) = snd (record_store now p st)"
| "fence_apply st (FStamp now) = snd (stamp_unstamped now st)"
| "fence_apply st (FCollect sk live now) = gc_marks sk live now st"

text \<open>An event that keeps the mark of policy \<open>i\<close> against the query: a kill stored again under that
  identifier still matches the work, and a collection counts the work as live.\<close>

fun keeps_kill :: "url_lib \<Rightarrow> kill_fence_query \<Rightarrow> string \<Rightarrow> fence_event \<Rightarrow> bool" where
  "keeps_kill L q i (FStore now p) =
     (p_kill p \<and> p_id p = i \<longrightarrow> patterns_match L q (p_credential_pattern p) (p_principal_pattern p))"
| "keeps_kill L q i (FStamp now) = True"
| "keeps_kill L q i (FCollect sk live now) = List.member live (kq_admitted_epoch q)"

definition killed :: "url_lib \<Rightarrow> kill_fence_query \<Rightarrow> string \<Rightarrow> kill_fence_state \<Rightarrow> bool" where
  "killed L q i st \<longleftrightarrow> bt_ok (kf_marks st) \<and> kq_admitted_epoch q < kf_epoch st
     \<and> (\<exists>m. t_get (kf_marks st) i = Some m \<and> refuses L q m)"

lemma killed_not_clear: "killed L q i st \<Longrightarrow> kill_fence_verdict L stored st q \<noteq> Clear"
  by (auto simp: killed_def verdict_clear_iff dest!: t_get_mem)

lemma killed_record_store:
  assumes "killed L q i st" "keeps_kill L q i (FStore now p)"
  shows "killed L q i (snd (record_store now p st))"
proof (cases "p_kill p")
  case True
  have "kq_admitted_epoch q < sat_add (kf_epoch st) 1"
    using assms(1) sat_add_ge [of "kf_epoch st" 1] by (auto simp: killed_def)
  with True assms show ?thesis
    by (auto simp: killed_def record_store_def Let_def bt_ok_put refuses_def)
next
  case False
  with assms show ?thesis by (simp add: record_store_def)
qed

lemma map_of_map_snd: "map_of (map (\<lambda>(i, m). (i, f m)) xs) k = map_option f (map_of xs k)"
  by (induction xs) auto

lemma killed_stamp:
  assumes "killed L q i st"
  shows "killed L q i (snd (stamp_unstamped now st))"
proof -
  have marks: "kf_marks (snd (stamp_unstamped now st)) = map (\<lambda>(i, m). (i, stamp_mark now m)) (kf_marks st)"
    and epoch: "kf_epoch (snd (stamp_unstamped now st)) = kf_epoch st"
    by (simp_all add: stamp_unstamped_def)
  have "map fst (map (\<lambda>(i, m). (i, stamp_mark now m)) (kf_marks st)) = map fst (kf_marks st)" by auto
  then have "bt_ok (map (\<lambda>(i, m). (i, stamp_mark now m)) (kf_marks st)) \<longleftrightarrow> bt_ok (kf_marks st)"
    by (simp only: bt_ok_def)
  moreover have "refuses L q (stamp_mark now m) = refuses L q m" for m
    by (simp add: refuses_def stamp_mark_def)
  ultimately show ?thesis
    using assms unfolding killed_def marks epoch t_get_def map_of_map_snd by auto
qed

lemma killed_collect:
  assumes "killed L q i st" "List.member live (kq_admitted_epoch q)"
  shows "killed L q i (gc_marks sk live now st)"
proof -
  obtain m where m: "t_get (kf_marks st) i = Some m" "refuses L q m" and ok: "bt_ok (kf_marks st)"
    using assms(1) by (auto simp: killed_def)
  have "\<not> mark_dead sk (least_word live) now i m"
    using dead_mark_harmless [of q live sk now i m L] m(2) assms(2) by (auto simp: List.member_iff)
  then have "t_get (kf_marks (gc_marks sk live now st)) i = Some m"
    using map_of_filter_distinct [OF bt_ok_distinct [OF ok], of "\<lambda>i m. \<not> mark_dead sk (least_word live) now i m"]
      m(1) by (simp add: gc_marks_filter [OF ok] t_get_def)
  moreover have "bt_ok (kf_marks (gc_marks sk live now st))"
    using ok by (simp add: gc_marks_filter bt_ok_filter)
  moreover have "kf_epoch (gc_marks sk live now st) = kf_epoch st" by (simp add: gc_marks_def)
  ultimately show ?thesis using assms(1) m(2) by (auto simp: killed_def)
qed

lemma killed_run:
  "killed L q i st \<Longrightarrow> \<forall>e \<in> set es. keeps_kill L q i e \<Longrightarrow> killed L q i (foldl fence_apply st es)"
proof (induction es arbitrary: st)
  case (Cons e es)
  have "killed L q i (fence_apply st e)"
    using Cons.prems by (cases e) (auto intro: killed_record_store killed_stamp killed_collect)
  with Cons show ?case by simp
qed simp

lemma kill_starts:
  assumes "fence_ok st" "p_kill p" "kf_epoch st \<noteq> u_max" "kq_admitted_epoch q \<le> kf_epoch st"
    and "patterns_match L q (p_credential_pattern p) (p_principal_pattern p)"
  shows "killed L q (p_id p) (snd (record_store now p st))"
proof -
  have "unat (kf_epoch st) \<noteq> unat (u_max :: u64)" using assms(3) by (simp add: word_unat_eq_iff)
  moreover have "unat (kf_epoch st) < 2 ^ LENGTH(64)" by (rule unsigned_less)
  ultimately have "unat (kf_epoch st) < unat (sat_add (kf_epoch st) 1)"
    by (simp add: unat_sat_add unat_u_max)
  then have "kf_epoch st < sat_add (kf_epoch st) 1" by (simp add: word_less_nat_alt)
  then have "kq_admitted_epoch q < sat_add (kf_epoch st) 1" using assms(4) by simp
  then show ?thesis
    using assms by (simp add: killed_def record_store_def Let_def bt_ok_put fence_ok_def refuses_def)
qed

end
