(* ===== verification/Samples.thy ===== *)
theory Samples
  imports Permit Policy_Store Kill_Fence
begin

text \<open>
  Concrete values at which the properties are applied: an instance of the packages the repository
  calls, a few policies, an engine that holds them, and requests.
\<close>

section \<open>An instance of the packages\<close>

definition sample_glob :: "string \<Rightarrow> (string \<Rightarrow> bool) option" where
  "sample_glob p =
     Some (\<lambda>s. if p \<noteq> [] \<and> last p = CHR ''*'' then starts_with s (butlast p) else s = p)"

definition sample_lib :: url_lib where
  "sample_lib =
     \<lparr> ul_parse = (\<lambda>s. if contains_str ''://'' s then Some s else None),
       ul_parse_base = (\<lambda>b s. Some (b @ s)), ul_host = (\<lambda>_. None), ul_host_str = (\<lambda>_. None),
       ul_port = (\<lambda>_. None), ul_scheme = (\<lambda>s. if starts_with s ''https:'' then ''https'' else ''http''),
       ul_port_or_default = (\<lambda>_. None), ul_ip = (\<lambda>_. None),
       ul_username = (\<lambda>_. []), ul_password = (\<lambda>_. None),
       ul_path = (\<lambda>_. ''/''), ul_query = (\<lambda>_. None), ul_drop_fragment = (\<lambda>s. s),
       ul_set_host = (\<lambda>s h. Some s), ul_encode = (\<lambda>s. s), ul_decode = (\<lambda>s. s),
       ul_glob = sample_glob \<rparr>"

definition sample_codec :: codec where
  "sample_codec = \<lparr> co_sha = (\<lambda>s. s), co_to_vec = (\<lambda>j. Some ''{}''), co_show = (\<lambda>j. ''{}'') \<rparr>"

definition sample_env :: "instant \<Rightarrow> eval_env" where
  "sample_env t = \<lparr> pe_lib = sample_lib, pe_now = t, pe_local = 0 \<rparr>"

section \<open>Policies\<close>

definition limited_rule :: policy_rule where
  "limited_rule = \<lparr> pr_condition = RateLimit 1 9, pr_action = Allow \<rparr>"

definition limited_policy :: policy where
  "limited_policy = (deny_all ''p1'' ''limited'' ''*'') \<lparr> p_rules := [limited_rule] \<rparr>"

definition limited_engine :: engine where
  "limited_engine = add_policy limited_policy engine_new"

definition sample_input :: eval_input where
  "sample_input =
     \<lparr> ei_credential_alias = ''github'', ei_url = None, ei_method = None,
       ei_action = Some ''http.request'', ei_principal = None, ei_spend = None \<rparr>"

definition halt_policy :: policy where
  "halt_policy = kill_switch ''k1'' ''agent''"

definition sample_principal :: principal where
  "sample_principal =
     \<lparr> pl_id = ''agent'', pl_agent_label = None, pl_owner = None, pl_workload_id = None \<rparr>"

definition sample_query :: admission_query where
  "sample_query =
     \<lparr> aq_credential_alias = ''github'', aq_action = ''http.request'', aq_params = JNull,
       aq_principal = Some sample_principal, aq_spend = None \<rparr>"

section \<open>Approvals\<close>

definition sample_new :: new_approval where
  "sample_new =
     \<lparr> na_credential = ''github'', na_action = ''http.request'', na_params = JNull,
       na_requester = \<lparr> ri_principal_kind = ''use_token'', ri_principal_id = Some ''agent'',
         ri_principal_name = None, ri_role = None, ri_owner = None \<rparr>,
       na_use_token_id = None, na_principal_id = Some ''agent'', na_agent_label = None,
       na_action_label = None, na_dual_control = True, na_criticality = CHigh,
       na_trusted_irreversible = None, na_escalate_after = 10, na_escalate_window = 10,
       na_oob_identity = None, na_reauth_interval_secs = None, na_required_approvals = 2,
       na_tenant = None, na_workload_id = None, na_preview = None, na_approval_rule = None \<rparr>"

definition sample_request :: approval_request where
  "sample_request =
     open_request \<lparr> fr_id = ''appr_1'', fr_decision_token_hash = ''h'', fr_summary = [] \<rparr> 0 sample_new"

definition once_approved :: approval_request where
  "once_approved = snd (approve_request 1 (new_decision ''panel'' ''alice'') sample_request)"

definition twice_approved :: approval_request where
  "twice_approved = snd (approve_request 2 (new_decision ''panel'' ''bob'') once_approved)"

definition one_senior :: approval_rule where
  "one_senior =
     \<lparr> ar_recipes = [\<lparr> rc_terms = [\<lparr> rt_class = Senior, rt_count = 1 \<rparr>] \<rparr>],
       ar_decision_mode = DenyOnAnyDeny, ar_exclude_owner = False \<rparr>"

definition senior_approved :: approval_request where
  "senior_approved =
     snd (approve_request 1 ((new_decision ''panel'' ''carol'') \<lparr> dc_resolved_class := Some Senior \<rparr>)
       (sample_request \<lparr> a_approval_rule := Some one_senior \<rparr>))"

end
