(* ===== verification/Policy_Properties.thy ===== *)
theory Policy_Properties
  imports Samples
begin

text \<open>
  The properties of the policy component: its decisions, its rate limits, the URLs it matches, the
  policies it accepts and loads, and the kill fence.
\<close>

section \<open>Decisions\<close>

text \<open>C13: the decision on a request, when nothing is charged, is the order-free specification over
  the set of the matching policies: storage order of policies and rules never decides.\<close>

theorem decision_order_free:
  "class_of (evaluate_readonly_full E i en) =
     decide_spec E i {p \<in> set (en_policies en). policy_matches (pe_lib E) i p} (en_default_deny en)"
  by (rule evaluate_readonly_spec)

text \<open>C14: a request that is allowed matches no kill policy and no deny or prompt rule outside a
  rate limit, and a rule or the defaults of all matching policies allow it.\<close>

theorem allowed_not_forbidden:
  assumes "evaluate_inner E i rec en = ((DAllow, c), en')"
  shows "(\<forall>p \<in> set (matching (pe_lib E) i en). \<not> p_kill p
            \<and> (\<forall>r \<in> set (p_rules p). plain rec (pr_condition r) \<longrightarrow> pr_action r \<in> {Deny, Prompt} \<longrightarrow>
                 \<not> rule_hit E i rec r \<and> \<not> rule_near E i r))
    \<and> ((\<exists>p \<in> set (matching (pe_lib E) i en). \<exists>r \<in> set (p_rules p). allow_holds E i rec r)
       \<or> (\<forall>p \<in> set (matching (pe_lib E) i en). p_default_action p = Allow)
         \<and> (matching (pe_lib E) i en = [] \<longrightarrow> \<not> en_default_deny en))"
proof -
  have m: "p \<in> set (matching (pe_lib E) i en) \<longleftrightarrow> p \<in> set (en_policies en) \<and> policy_matches (pe_lib E) i p"
    for p by (auto simp: matching_def)
  have e: "matching (pe_lib E) i en = [] \<longleftrightarrow> (\<forall>p \<in> set (en_policies en). \<not> policy_matches (pe_lib E) i p)"
    by (simp add: matching_def filter_empty_conv)
  show ?thesis
    unfolding e m Ball_def Bex_def
    using allowed_sound [OF assms] allowed_reason [OF assms] by blast
qed

theorem allowed_not_forbidden_witness:
  "evaluate_inner (sample_env 0) sample_input True limited_engine
     = ((DAllow, None), snd (evaluate_inner (sample_env 0) sample_input True limited_engine))
   \<and> \<not> p_kill limited_policy"
proof -
  let ?en = "snd (evaluate_inner (sample_env 0) sample_input True limited_engine)"
  have d: "fst (evaluate_inner (sample_env 0) sample_input True limited_engine) = (DAllow, None)"
    by code_simp
  then have p: "evaluate_inner (sample_env 0) sample_input True limited_engine = ((DAllow, None), ?en)"
    by (metis prod.collapse)
  have "limited_policy \<in> set (matching (pe_lib (sample_env 0)) sample_input limited_engine)"
    by code_simp
  with allowed_not_forbidden [OF p] p show ?thesis by blast
qed

text \<open>The rule evaluator never reports that a condition holds under the narrow reading of URLs
  without reporting that it holds under the broad one, so an allowance is never wider than the
  matching denial.\<close>

theorem narrow_within_wide:
  "fst (fst (eval_pair E i rec \<lparr>w_narrow = True, w_wide = True\<rparr> c l)) \<Longrightarrow>
   snd (fst (eval_pair E i rec \<lparr>w_narrow = True, w_wide = True\<rparr> c l))"
  using eval_pair_ordered [of E i rec "\<lparr>w_narrow = True, w_wide = True\<rparr>" c l]
  by (auto simp: ordered_def)

theorem narrow_within_wide_witness:
  "snd (fst (eval_pair (sample_env 0) sample_input True \<lparr>w_narrow = True, w_wide = True\<rparr> Always []))"
  by (rule narrow_within_wide) code_simp

section \<open>Rate limits\<close>



text \<open>The limits of one request are charged together: a request that finds one of them
  exhausted changes no counter, and a request that is charged takes a slot of every one.\<close>

theorem charges_all_or_nothing:
  assumes "charge_rate_limits now a p guards l = (ok, l')" "distinct guards"
  shows "(\<not> ok \<longrightarrow> l' = l) \<and>
    (ok \<longrightarrow> (\<forall>(mx, w) \<in> set guards. charged now (rate_limit_key a p mx w) mx w l l'))"
  using assms charge_rate_limits_False [of now a p guards l l']
    charge_rate_limits_charged [of now a p guards l l']
  by (cases ok) auto

theorem charges_all_or_nothing_witness:
  "fst (charge_rate_limits 0 ''github'' None [(1, 6), (2, 9)] [])
   \<and> charged 0 (rate_limit_key ''github'' None 2 9) 2 9 []
       (snd (charge_rate_limits 0 ''github'' None [(1, 6), (2, 9)] []))"
proof -
  let ?c = "charge_rate_limits 0 ''github'' None [(1, 6), (2, 9)] []"
  have ok: "fst ?c" by code_simp
  have "?c = (fst ?c, snd ?c)" by simp
  from charges_all_or_nothing [OF this] ok show ?thesis by simp
qed

text \<open>Distinct credentials, principals and limits are counted apart, as long as no name holds
  the separator.\<close>

theorem counters_apart:
  assumes "CHR 0x1F \<notin> set a" "CHR 0x1F \<notin> set a'" "CHR 0x1F \<notin> set i" "CHR 0x1F \<notin> set i'"
    and "rate_limit_key a (Some i) mx w = rate_limit_key a' (Some i') mx' w'"
  shows "a = a' \<and> i = i' \<and> mx = mx' \<and> w = w'"
  using rate_limit_key_inj [of a a' "Some i" "Some i'" mx w mx' w'] assms by simp

theorem counters_apart_witness:
  "rate_limit_key ''a'' (Some ''p'') 1 60 = rate_limit_key ''a'' (Some ''p'') 1 60
   \<and> (''a'' = ''a'' \<and> ''p'' = ''p'' \<and> (1 :: u32) = 1 \<and> (60 :: u64) = 60)"
  using counters_apart [of "''a''" "''a''" "''p''" "''p''" 1 60 1 60] by simp

section \<open>URLs\<close>

text \<open>Canonical form is stable: the canonical form of a URL is its own canonical form, so a
  policy and the request it judges are compared on the same spelling.\<close>

theorem canonical_url_stable:
  "canonical_url L raw = Some c \<Longrightarrow> canonical_url L c = Some c"
  by (rule canonical_url_idem)

theorem canonical_url_stable_witness:
  "canonical_url sample_lib ''http://h/a'' = Some ''http://h/a''"
  by (rule canonical_url_stable [of _ "''http://h/%61''"]) code_simp

text \<open>Normalising percent escapes twice is normalising them once.\<close>

theorem percent_normal_form: "normalize_percent (normalize_percent s) = normalize_percent s"
  by (rule normalize_percent_idem)

text \<open>A pattern that is a scheme, a host and a star matches URLs of that host only: the
  authority is the host itself, alone or with a port, never a longer name that starts with it.\<close>

theorem host_prefix_pins_authority:
  assumes "scheme \<noteq> []" "list_all scheme_char scheme" "h \<noteq> []" "set h \<inter> set ''/?#'' = {}"
    and "canonical_matches L url (scheme @ ''://'' @ h @ ''*'')"
  shows "\<exists>auth rest. split_url url = Some (scheme, auth, rest)
      \<and> (auth = h \<or> (\<exists>port. auth = h @ '':'' @ port))"
  using assms by (rule prefix_host_authority)

theorem host_prefix_pins_authority_witness:
  "canonical_matches sample_lib ''http://h/x'' (''http'' @ ''://'' @ ''h'' @ ''*'')
   \<and> (\<exists>auth rest. split_url ''http://h/x'' = Some (''http'', auth, rest)
        \<and> (auth = ''h'' \<or> (\<exists>port. auth = ''h'' @ '':'' @ port)))"
proof
  show m: "canonical_matches sample_lib ''http://h/x'' (''http'' @ ''://'' @ ''h'' @ ''*'')"
    by code_simp
  show "\<exists>auth rest. split_url ''http://h/x'' = Some (''http'', auth, rest)
        \<and> (auth = ''h'' \<or> (\<exists>port. auth = ''h'' @ '':'' @ port))"
    by (rule host_prefix_pins_authority [OF _ _ _ _ m]) code_simp+
qed

text \<open>A deny or prompt pattern that matches a URL still matches it, under the broad reading,
  when query parameters are appended to it.\<close>

theorem parameters_do_not_evade:
  assumes "canonical_matches L m (cp_text (canonical_pattern L pat))"
    and "canonical_url L raw = Some (m @ x)"
    and "x = [] \<or> hd x = (if CHR ''?'' \<in> set m then CHR ''&'' else CHR ''?'')"
  shows "url_matches_for L raw pat True"
  using assms by (rule appended_parameters_match)

theorem parameters_do_not_evade_witness:
  "canonical_matches sample_lib ''http://h/a'' (cp_text (canonical_pattern sample_lib ''http://h/a''))
   \<and> canonical_url sample_lib ''http://h/a?q'' = Some (''http://h/a'' @ ''?q'')
   \<and> url_matches_for sample_lib ''http://h/a?q'' ''http://h/a'' True"
proof -
  have m: "canonical_matches sample_lib ''http://h/a'' (cp_text (canonical_pattern sample_lib ''http://h/a''))"
    by code_simp
  have u: "canonical_url sample_lib ''http://h/a?q'' = Some (''http://h/a'' @ ''?q'')" by code_simp
  show ?thesis using m u parameters_do_not_evade [OF m u] by simp
qed

text \<open>The alternatives that a stored brace pattern is rewritten to hold no literal brace, so the
  repaired policy is one that loads.\<close>

theorem repaired_alternatives:
  assumes "expand_brace_alternation p = Some alts" "a \<in> set alts"
  shows "\<not> braces_are_literal a"
  using assms by (rule expanded_no_braces)

theorem repaired_alternatives_witness:
  "expand_brace_alternation ''h/{a,b}'' = Some [''h/a'', ''h/b''] \<and> \<not> braces_are_literal ''h/b''"
proof -
  have e: "expand_brace_alternation ''h/{a,b}'' = Some [''h/a'', ''h/b'']" by code_simp
  with repaired_alternatives [OF e, of "''h/b''"] show ?thesis by simp
qed

section \<open>Policies\<close>


text \<open>Among reloads that overtake each other, the policies of the one that began last stay.\<close>

theorem newest_load_stays:
  assumes "distinct (map fst xs)" "(t, ps) \<in> set xs" "\<forall>(t', ps') \<in> set xs. t' \<le> t"
    and "en_applied_load_ticket en < t"
  shows "en_policies (foldl apply_load en xs) = ps"
  using assms by (rule loads_newest_wins)

theorem newest_load_stays_witness:
  "en_policies (foldl apply_load engine_new [(2, [limited_policy]), (1, [])]) = [limited_policy]"
  by (rule newest_load_stays [where t = 2]) (simp_all add: engine_new_def)

text \<open>Asking the tiers one after the other, and stopping at the first that matches, gives the
  verdict of the strongest outcome among all tiers.\<close>

theorem lazy_precedence:
  assumes "matched RDeny s = (d, s1)" "matched RPrompt s1 = (p, s2)" "matched RAllow s2 = (a, s3)"
  shows "fst (resolve_lazily kill matched ds dd s) =
    precedence_spec (strongest ((if kill then [RKill] else []) @ (if d then [RDeny] else [])
       @ (if p then [RPrompt] else []) @ (if a then [RAllow] else []))) ds dd"
  by (simp only: resolve_lazily_sequential [OF assms] resolve_precedence_spec fst_conv)

theorem lazy_precedence_witness:
  "fst (resolve_lazily False (\<lambda>t s. (t = RPrompt, s)) [Allow] True ()) =
     precedence_spec (strongest [RPrompt]) [Allow] True"
  using lazy_precedence [of "\<lambda>t s. (t = RPrompt, s)" "()" False "()" True "()" False "()" False "[Allow]" True]
  by simp

section \<open>The kill fence\<close>


definition sample_fence_query :: "u64 \<Rightarrow> kill_fence_query" where
  "sample_fence_query e =
     \<lparr> kq_credential_alias = ''github'', kq_principal = Some sample_principal, kq_admitted_epoch = e \<rparr>"

definition empty_fence :: kill_fence_state where
  "empty_fence = \<lparr> kf_epoch = 0, kf_marks = [] \<rparr>"


text \<open>Collecting marks changes no verdict on work that is still live.\<close>

theorem collection_keeps_verdicts:
  assumes "bt_ok (kf_marks st)" "kq_admitted_epoch q \<in> set live"
  shows "kill_fence_verdict L stored (gc_marks sk live now st) q = kill_fence_verdict L stored st q"
  using assms by (rule gc_verdict_same)

theorem collection_keeps_verdicts_witness:
  "kill_fence_verdict sample_lib [] (gc_marks (\<lambda>_. False) [0] (10 ^ 18) empty_fence) (sample_fence_query 0)
     = kill_fence_verdict sample_lib [] empty_fence (sample_fence_query 0)"
  by (rule collection_keeps_verdicts) (simp_all add: empty_fence_def sample_fence_query_def bt_ok_def)


end
