(* ===== verification/Approval_Properties.thy ===== *)
theory Approval_Properties
  imports Samples
begin

text \<open>
  The properties of approvals and permits: what a grant rests on, what a decision keeps, and what a
  payload that reaches a plugin was authorised by.
\<close>

section \<open>Grants\<close>

text \<open>C16: the grant a claim executes under rests, for a numeric threshold, on at least as many
  sign-offs as are required, of named and pairwise distinct people, and on two of them under dual
  control.  This is read off the stored sign-offs alone.\<close>

theorem grant_needs_distinct_people:
  assumes "grant_witness_for_epoch K now epoch a = Some g" "a_approval_rule a = None"
  shows "\<exists>ps. set ps \<subseteq> set (a_signoffs a) \<and> distinct (map principal_key ps)
    \<and> (\<forall>s \<in> set ps. so_approve s \<and> \<not> blank (bare_approver_identity (so_approver_identity s)))
    \<and> unat (effective_required_approvals a) \<le> length ps \<and> (a_dual_control a \<longrightarrow> 2 \<le> length ps)"
proof (intro exI conjI)
  have "grant_basis_of a \<noteq> None"
    using assms(1) by (auto simp: grant_witness_for_epoch_def grant_witness_inner_Some)
  note g = this [unfolded grant_basis_numeric [OF assms(2)]]
  show "set (positives a) \<subseteq> set (a_signoffs a)" by (auto simp: positives_def)
  show "distinct (map principal_key (positives a))" using g by blast
  show "\<forall>s \<in> set (positives a). so_approve s \<and> \<not> blank (bare_approver_identity (so_approver_identity s))"
    using g by (auto simp: positives_def)
  show l: "unat (effective_required_approvals a) \<le> length (positives a)"
    using g unat_of_nat_le [where 'a = 32, of "length (positives a)"] by (simp add: word_le_nat_alt)
  have "2 \<le> unat (effective_required_approvals a)" if "a_dual_control a"
    using that by (simp add: effective_required_approvals_def max_def word_le_nat_alt)
  with l show "a_dual_control a \<longrightarrow> 2 \<le> length (positives a)" by linarith
qed

theorem grant_needs_distinct_people_witness:
  "grant_witness_for_epoch sample_codec 3 1 twice_approved \<noteq> None
   \<and> (\<exists>ps. set ps \<subseteq> set (a_signoffs twice_approved) \<and> distinct (map principal_key ps) \<and> 2 \<le> length ps)"
proof -
  have "grant_witness_for_epoch sample_codec 3 1 twice_approved \<noteq> None" by code_simp
  moreover then obtain g where g: "grant_witness_for_epoch sample_codec 3 1 twice_approved = Some g" by blast
  have "a_approval_rule twice_approved = None" "a_dual_control twice_approved" by code_simp+
  with grant_needs_distinct_people [OF g] have
    "\<exists>ps. set ps \<subseteq> set (a_signoffs twice_approved) \<and> distinct (map principal_key ps) \<and> 2 \<le> length ps"
    by blast
  ultimately show ?thesis by blast
qed

text \<open>C17: the grant of a request with a recipe rule fills every slot of one of its recipes, with
  sign-offs of pairwise distinct named humans, a senior in every senior slot; agent reviewers fill
  none.\<close>

theorem recipe_grant_fills_slots:
  assumes "grant_witness_for_epoch K now epoch a = Some g" "a_approval_rule a = Some rule"
  shows "\<exists>r ss ts. r \<in> set (ar_recipes rule) \<and> recipe_well_formed r \<and> demand AgentReviewer r = 0
    \<and> fills_slots (a_signoffs a) r ss ts \<and> ss @ ts \<noteq> []"
proof -
  have "grant_basis_of a \<noteq> None"
    using assms(1) by (auto simp: grant_witness_for_epoch_def grant_witness_inner_Some)
  then have "approval_rule_satisfied rule (a_signoffs a)" by (simp only: grant_basis_recipe [OF assms(2)])
  then show ?thesis by (rule rule_satisfied_fills) blast
qed

theorem recipe_grant_fills_slots_witness:
  "grant_witness_for_epoch sample_codec 3 1 senior_approved \<noteq> None
   \<and> (\<exists>r ss ts. r \<in> set (ar_recipes one_senior) \<and> fills_slots (a_signoffs senior_approved) r ss ts
        \<and> ss @ ts \<noteq> [])"
proof -
  have "grant_witness_for_epoch sample_codec 3 1 senior_approved \<noteq> None" by code_simp
  moreover then obtain g where g: "grant_witness_for_epoch sample_codec 3 1 senior_approved = Some g" by blast
  have "a_approval_rule senior_approved = Some one_senior" by code_simp
  from recipe_grant_fills_slots [OF g this] have
    "\<exists>r ss ts. r \<in> set (ar_recipes one_senior) \<and> fills_slots (a_signoffs senior_approved) r ss ts
        \<and> ss @ ts \<noteq> []" by blast
  ultimately show ?thesis by blast
qed

text \<open>C18: a request that the operations brought to the approved state is granted again when its
  evidence is read back, so the check before execution never refuses a decision that was made.\<close>

theorem decided_grant_is_rederived:
  assumes "request_reachable a" "a_status a = SApproved" "lower_keys a"
    and "uint (unrun_window a) < 2 ^ 63" "\<forall>j. co_to_vec K j \<noteq> None"
  shows "grant_witness K now a \<noteq> None"
  using inv_witness [OF reachable_inv [OF assms(1)] assms(2-5)] .

lemma approve_reachable: "request_reachable a \<Longrightarrow> request_reachable (snd (approve_request now d a))"
  unfolding approve_request_def
  by (rule request_reachable.step, assumption, rule request_step.decide, rule surjective_pairing)

theorem decided_grant_is_rederived_witness: "grant_witness sample_codec 3 twice_approved \<noteq> None"
proof (rule decided_grant_is_rederived)
  show "request_reachable twice_approved"
    unfolding twice_approved_def once_approved_def sample_request_def
    by (intro approve_reachable open_reachable)
  show "a_status twice_approved = SApproved" by code_simp
  have "\<forall>s \<in> set (a_signoffs twice_approved). aggregator_key_prefix (so_approver_identity s) = None"
    by code_simp
  then show "lower_keys twice_approved" by (simp add: lower_keys_def)
  show "uint (unrun_window twice_approved) < 2 ^ 63" by code_simp
  show "\<forall>j. co_to_vec sample_codec j \<noteq> None" by (simp add: sample_codec_def)
qed

section \<open>Decisions\<close>



text \<open>C19: a decision is final: a denied or expired request takes no further decision, and an
  approved one only the veto of a human inside its veto window, which denies it.\<close>

theorem decisions_are_final:
  assumes "transition now to d a = (r, a')" "\<not> is_open (a_status a)"
  shows "(a_status a \<noteq> SApproved \<longrightarrow> a' = a \<and> isl r)
    \<and> (a_status a = SApproved \<longrightarrow> a' = a
         \<or> a_status a' = SDenied \<and> dc_approver_kind d \<noteq> ''delegate-agent''
           \<and> \<not> a_executed a \<and> (\<exists>t. a_delegate_veto_until a = Some t \<and> now < t))"
  using assms(1)
proof (cases rule: transition_cases)
  case expired
  then show ?thesis using assms(2) by (simp add: expire_if_due_def)
next
  case denied
  then have "is_delegate_veto now to d a" using assms(2) by blast
  with denied(6) show ?thesis
    by (auto simp: is_delegate_veto_def record_denial_def Let_def split: option.splits)
qed (use assms(2) in auto)

theorem decisions_are_final_witness:
  "a_status twice_approved = SApproved
   \<and> snd (transition 3 SDenied (new_decision ''panel'' ''carol'') twice_approved) = twice_approved"
proof -
  have s: "a_status twice_approved = SApproved" by code_simp
  have v: "a_delegate_veto_until twice_approved = None" by code_simp
  from decisions_are_final [OF surjective_pairing, of twice_approved] s v show ?thesis by auto
qed

text \<open>With separation of duty enforced, the requesting agent cannot sign its own request off,
  under any of its names and whatever route asserts its identity.\<close>

theorem no_self_approval:
  assumes "dc_enforce_sod d" "sod_for a (trim (dc_approver_identity d)) = Some True"
    and "transition now SApproved d a = (r, a')"
  shows "isl r \<and> a_signoffs a' = a_signoffs a \<and> a_status a' \<in> {a_status a, SExpired}"
  using assms(3)
proof (cases rule: transition_cases)
  case expired
  then show ?thesis by (simp add: expire_if_due_def)
next
  case approved
  then show ?thesis using guard_None(2) [OF approved(6)] assms(1,2) by blast
qed auto

theorem no_self_approval_witness:
  "isl (fst (transition 1 SApproved ((new_decision ''panel'' ''agg:k:Agent'') \<lparr> dc_enforce_sod := True \<rparr>)
     sample_request))"
proof -
  let ?d = "(new_decision ''panel'' ''agg:k:Agent'') \<lparr> dc_enforce_sod := True \<rparr>"
  have "dc_enforce_sod ?d" "sod_for sample_request (trim (dc_approver_identity ?d)) = Some True"
    by code_simp+
  from no_self_approval [OF this surjective_pairing] show ?thesis by blast
qed

text \<open>C37: the veto of a delegate's approval is refused once the request's own deadline has passed, even
  inside the veto window.\<close>

theorem veto_refused_after_deadline:
  assumes "is_delegate_veto now SDenied d a" "a_expires_at a \<le> now"
    and "\<not> blank (bare_approver_identity (trim (dc_approver_identity d)))"
  shows "transition now SDenied d a = (Inl ApprovalExpired, a)"
  using assms by (auto simp: transition_def Let_def is_past_ttl_def expire_if_due_def is_delegate_veto_def)

theorem veto_refused_after_deadline_witness:
  "transition (10 ^ 18) SDenied (new_decision ''panel'' ''alice'')
     (twice_approved \<lparr> a_delegate_veto_until := Some (2 * 10 ^ 18) \<rparr>)
   = (Inl ApprovalExpired, twice_approved \<lparr> a_delegate_veto_until := Some (2 * 10 ^ 18) \<rparr>)"
  by (rule veto_refused_after_deadline) code_simp+

section \<open>Permits\<close>

text \<open>C7: what a direct permit lets a plugin see is what the policy engine judged: the same
  credential, principal and parameters; and the engine allowed it, or denied it for a tenant that
  only observes, with no kill switch and no spend or rate guard against it.\<close>

theorem direct_dispatch_was_judged:
  assumes "evaluate_for_admission K E q observe en = (ev, en')" "admit ev req = Inr w"
    and "authorize (payload_binding K) (direct w rid tenant act) p = Inr x"
  shows "\<not> req \<and> cr_alias (py_credential p) = aq_credential_alias q
    \<and> digest_params (co_sha K) (co_to_vec K) (py_params p)
        = digest_params (co_sha K) (co_to_vec K) (aq_params q)
    \<and> or_empty (rx_api_key_id (py_context p)) = (case aq_principal q of Some pr \<Rightarrow> pl_id pr | None \<Rightarrow> [])
    \<and> \<not> py_approved_execution p
    \<and> (ev_decision ev = DAllow
       \<or> is_deny (ev_decision ev) \<and> observe
         \<and> \<not> is_halted (pe_lib E) (query_input q (policy_url (pe_lib E) (co_show K) (aq_params q))) en'
         \<and> \<not> has_resource_guard (pe_lib E) (query_input q (policy_url (pe_lib E) (co_show K) (aq_params q))) en')"
  using assms by (rule direct_authorized)

definition sample_payload :: action_payload where
  "sample_payload =
     \<lparr> py_credential = new_credential ''c1'' 0 ''github'' (UrlTokenData ''t''),
       py_plugin_name = ''http'', py_action_name = ''request'', py_params = JNull,
       py_context = (context_new ''r1'' 0) \<lparr> rx_api_key_id := Some ''agent'' \<rparr>,
       py_use_token_id = None, py_evidence_subject_id = None, py_approved_execution = False,
       py_evidence_action = ''http.request'', py_evidence_required = False, py_d8_fallback_ok = False,
       py_kill_fence = \<lparr> ks_principal = None, ks_admitted_epoch = 0, ks_tenant = None \<rparr>,
       py_refusal = ctx_new EntryExecute None ''http.request'' \<rparr>"

theorem direct_dispatch_was_judged_witness:
  "\<exists>ev en' w x. evaluate_for_admission sample_codec (sample_env 0) sample_query False limited_engine = (ev, en')
     \<and> admit ev False = Inr w
     \<and> authorize (payload_binding sample_codec) (direct w ''r1'' [] ''http.request'') sample_payload = Inr x
     \<and> ev_decision ev = DAllow"
proof -
  let ?e = "evaluate_for_admission sample_codec (sample_env 0) sample_query False limited_engine"
  let ?w = "projr (admit (fst ?e) False)"
  let ?x = "projr (authorize (payload_binding sample_codec) (direct ?w ''r1'' [] ''http.request'') sample_payload)"
  have w: "\<not> isl (admit (fst ?e) False)" by code_simp
  have x: "\<not> isl (authorize (payload_binding sample_codec) (direct ?w ''r1'' [] ''http.request'') sample_payload)"
    by code_simp
  have *: "?e = (fst ?e, snd ?e)" "admit (fst ?e) False = Inr ?w"
    "authorize (payload_binding sample_codec) (direct ?w ''r1'' [] ''http.request'') sample_payload = Inr ?x"
    using w x by simp_all
  from direct_dispatch_was_judged [OF *] have "ev_decision (fst ?e) = DAllow" by blast
  with * show ?thesis by blast
qed

text \<open>C6: what an approved permit lets a plugin see is the request that people approved: the same
  identifier, claim, tenant, credential, action and parameters, and the policies did not deny it when
  it was resumed.\<close>

theorem approved_dispatch_was_approved:
  assumes "grant_witness_for_epoch K now epoch a = Some g" "approved g ev now_secs = Inr permit"
    and "authorize (payload_binding K) permit payload = Inr x"
  shows "py_approved_execution payload
    \<and> rx_approval_id (py_context payload) = Some (a_id a)
    \<and> rx_approval_execution_epoch (py_context payload) = Some epoch
    \<and> or_empty (rx_tenant (py_context payload)) = or_empty (a_tenant a)
    \<and> cr_alias (py_credential payload) = a_credential a
    \<and> py_plugin_name payload @ ''.'' @ py_action_name payload = a_action a
    \<and> digest_params (co_sha K) (co_to_vec K) (py_params payload)
        = digest_params (co_sha K) (co_to_vec K) (a_params a)
    \<and> ev_verdict ev \<noteq> VDeny"
  using assms by (rule approved_authorized)

definition resumed_payload :: action_payload where
  "resumed_payload = sample_payload \<lparr> py_approved_execution := True,
     py_context := (py_context sample_payload) \<lparr> rx_approval_id := Some ''appr_1'',
       rx_approval_execution_epoch := Some 1 \<rparr> \<rparr>"

theorem approved_dispatch_was_approved_witness:
  "\<exists>g permit x. grant_witness_for_epoch sample_codec 3 1 twice_approved = Some g
     \<and> approved g (evaluate_readonly_for_admission sample_codec (sample_env 0) sample_query limited_engine) 0
         = Inr permit
     \<and> authorize (payload_binding sample_codec) permit resumed_payload = Inr x
     \<and> cr_alias (py_credential resumed_payload) = a_credential twice_approved"
proof -
  let ?g = "the (grant_witness_for_epoch sample_codec 3 1 twice_approved)"
  let ?ev = "evaluate_readonly_for_admission sample_codec (sample_env 0) sample_query limited_engine"
  let ?p = "projr (approved ?g ?ev 0)"
  let ?x = "projr (authorize (payload_binding sample_codec) ?p resumed_payload)"
  have "grant_witness_for_epoch sample_codec 3 1 twice_approved \<noteq> None" "\<not> isl (approved ?g ?ev 0)"
    "\<not> isl (authorize (payload_binding sample_codec) ?p resumed_payload)"
    by code_simp+
  then have *: "grant_witness_for_epoch sample_codec 3 1 twice_approved = Some ?g"
    "approved ?g ?ev 0 = Inr ?p" "authorize (payload_binding sample_codec) ?p resumed_payload = Inr ?x"
    by auto
  from approved_dispatch_was_approved [OF *] * show ?thesis by blast
qed

text \<open>C8: while a kill policy matches a request, no permit for it can be minted: not by a new
  admission, even of a tenant that only observes, and not for a request that people approved.\<close>

theorem kill_leaves_no_permit:
  assumes "is_halted (pe_lib E) (query_input q (policy_url (pe_lib E) (co_show K) (aq_params q))) en"
  shows "admit (fst (evaluate_for_admission K E q observe en)) req = Inl PolicyDenied
    \<and> approved g (evaluate_readonly_for_admission K E q en) now = Inl PolicyDenied"
  using halted_no_direct [OF assms] halted_no_approved [OF assms] by blast

theorem kill_leaves_no_permit_witness:
  "admit (fst (evaluate_for_admission sample_codec (sample_env 0) sample_query True
     (add_policy halt_policy limited_engine))) False = Inl PolicyDenied"
proof -
  have "is_halted (pe_lib (sample_env 0)) (query_input sample_query (policy_url (pe_lib (sample_env 0))
      (co_show sample_codec) (aq_params sample_query))) (add_policy halt_policy limited_engine)"
    by code_simp
  from kill_leaves_no_permit [OF this] show ?thesis by blast
qed

end
