(* ===== verification/Vault_Log.thy ===== *)
theory Vault_Log
  imports Strings
begin

text \<open>
  The write-ahead log of the vault, \<open>src/src/storage/vault_log.rs\<close>: the map that tracks what a
  mutation touched, so that it can be written as a few records or undone, and the reader of the log.

  The JSON and encryption packages are the record \<open>log_packages\<close>; what the log relies on is the
  predicate \<open>log_laws\<close>: what was written is read back, and a written line holds no newline.
\<close>

section \<open>Tracked maps\<close>

record 'v tracked =
  tr_map :: "'v table"
  tr_touched :: "'v option table"

definition tracked_default :: "'v tracked" where
  "tracked_default = \<lparr> tr_map = [], tr_touched = [] \<rparr>"

definition tracked_from_map :: "'v table \<Rightarrow> 'v tracked" where
  "tracked_from_map m = \<lparr> tr_map = m, tr_touched = [] \<rparr>"

definition touch :: "string \<Rightarrow> 'v tracked \<Rightarrow> 'v tracked" where
  "touch k t =
     (if t_get (tr_touched t) k = None
      then t \<lparr> tr_touched := t_put k (t_get (tr_map t) k) (tr_touched t) \<rparr> else t)"

definition tracked_insert :: "string \<Rightarrow> 'v \<Rightarrow> 'v tracked \<Rightarrow> 'v option \<times> 'v tracked" where
  "tracked_insert k v t =
     (t_get (tr_map t) k, (touch k t) \<lparr> tr_map := t_put k v (tr_map t) \<rparr>)"

definition tracked_remove :: "string \<Rightarrow> 'v tracked \<Rightarrow> 'v option \<times> 'v tracked" where
  "tracked_remove k t = (t_get (tr_map t) k, (touch k t) \<lparr> tr_map := t_del k (tr_map t) \<rparr>)"

text \<open>A mutable borrow of the record under a key, and what the caller makes of it.\<close>

definition tracked_get_mut :: "string \<Rightarrow> ('v \<Rightarrow> 'v) \<Rightarrow> 'v tracked \<Rightarrow> 'v option \<times> 'v tracked" where
  "tracked_get_mut k f t =
     (case t_get (tr_map t) k of
        None \<Rightarrow> (None, t)
      | Some v \<Rightarrow> (Some v, (touch k t) \<lparr> tr_map := t_put k (f v) (tr_map t) \<rparr>))"

definition tracked_retain :: "(string \<Rightarrow> 'v \<Rightarrow> bool) \<Rightarrow> 'v tracked \<Rightarrow> 'v tracked" where
  "tracked_retain keep t =
     foldl (\<lambda>t k. snd (tracked_remove k t)) t
       (map fst (filter (\<lambda>(k, v). \<not> keep k v) (tr_map t)))"

definition insert_clean :: "string \<Rightarrow> 'v \<Rightarrow> 'v tracked \<Rightarrow> 'v tracked" where
  "insert_clean k v t = t \<lparr> tr_map := t_put k v (tr_map t) \<rparr>"

definition remove_clean :: "string \<Rightarrow> 'v tracked \<Rightarrow> 'v tracked" where
  "remove_clean k t = t \<lparr> tr_map := t_del k (tr_map t) \<rparr>"

definition tracked_changes :: "'v tracked \<Rightarrow> (string \<times> 'v option) list" where
  "tracked_changes t =
     map (\<lambda>(k, pre). (k, t_get (tr_map t) k))
       (filter (\<lambda>(k, pre). \<not> (t_get (tr_map t) k = None \<and> pre = None)) (tr_touched t))"

definition tracked_commit :: "'v tracked \<Rightarrow> 'v tracked" where
  "tracked_commit t = t \<lparr> tr_touched := [] \<rparr>"

definition undo_one :: "'v table \<Rightarrow> string \<times> 'v option \<Rightarrow> 'v table" where
  "undo_one m kp = (case kp of (k, Some v) \<Rightarrow> t_put k v m | (k, None) \<Rightarrow> t_del k m)"

definition tracked_rollback :: "'v tracked \<Rightarrow> 'v tracked" where
  "tracked_rollback t = \<lparr> tr_map = foldl undo_one (tr_map t) (tr_touched t), tr_touched = [] \<rparr>"

text \<open>Applying the changes of a durable record to a map that was loaded earlier.\<close>

definition replay_change :: "'v tracked \<Rightarrow> string \<times> 'v option \<Rightarrow> 'v tracked" where
  "replay_change t kc = (case kc of (k, Some v) \<Rightarrow> insert_clean k v t | (k, None) \<Rightarrow> remove_clean k t)"

section \<open>Log records\<close>

datatype log_op =
    OpPut string string json
  | OpDel string string
  | OpKillEpoch u64
  | OpMisc json

record envelope =
  nv_seq :: u64
  nv_nonce :: string
  nv_ct :: string

record log_packages =
  lp_write_env :: "envelope \<Rightarrow> string option"
  lp_read_env :: "string \<Rightarrow> envelope option"
  lp_write_plain :: "u64 \<times> log_op list \<Rightarrow> string option"
  lp_read_plain :: "string \<Rightarrow> (u64 \<times> log_op list) option"
  lp_encrypt :: "string \<Rightarrow> (string \<times> string) option"
  lp_decrypt :: "string \<times> string \<Rightarrow> string option"

datatype log_error =
    SerializationFailed
  | EncryptionFailed
  | UnparseableRecord nat
  | UnexpectedRecord u64 u64
  | DecryptionFailed u64
  | BadPlaintext u64
  | InnerSequence u64 u64

definition newline :: char where
  "newline = CHR 0x0A"

definition encode_record :: "log_packages \<Rightarrow> u64 \<Rightarrow> log_op list \<Rightarrow> log_error + string" where
  "encode_record K seq ops =
     (case lp_write_plain K (seq, ops) of
        None \<Rightarrow> Inl SerializationFailed
      | Some plain \<Rightarrow>
          (case lp_encrypt K plain of
             None \<Rightarrow> Inl EncryptionFailed
           | Some (nonce, ct) \<Rightarrow>
               (case lp_write_env K \<lparr> nv_seq = seq, nv_nonce = nonce, nv_ct = ct \<rparr> of
                  None \<Rightarrow> Inl SerializationFailed
                | Some line \<Rightarrow> Inr (line @ [newline]))))"

record parsed_log =
  pg_records :: "(u64 \<times> log_op list) list"
  pg_consumed :: nat
  pg_torn_tail :: bool
  pg_decrypted_bytes :: u64
  pg_decrypts :: u64

function parse_from ::
  "log_packages \<Rightarrow> u64 \<Rightarrow> u64 \<Rightarrow> nat \<Rightarrow> string \<Rightarrow> parsed_log \<Rightarrow> log_error + parsed_log" where
  "parse_from K applied_seq nxt pos region out =
     (if region = [] then Inr out
      else (case split_once newline region of
              None \<Rightarrow> Inr (out \<lparr> pg_torn_tail := True \<rparr>)
            | Some (line, rest) \<Rightarrow>
                (case lp_read_env K line of
                   None \<Rightarrow> Inl (UnparseableRecord pos)
                 | Some env \<Rightarrow>
                     (let pos' = pos + length line + 1;
                          out' = out \<lparr> pg_consumed := pos' \<rparr>
                      in if nv_seq env \<le> applied_seq then parse_from K applied_seq nxt pos' rest out'
                         else if nv_seq env \<noteq> nxt then Inl (UnexpectedRecord nxt (nv_seq env))
                         else (case lp_decrypt K (nv_nonce env, nv_ct env) of
                                 None \<Rightarrow> Inl (DecryptionFailed (nv_seq env))
                               | Some plain \<Rightarrow>
                                   (case lp_read_plain K plain of
                                      None \<Rightarrow> Inl (BadPlaintext (nv_seq env))
                                    | Some (s, ops) \<Rightarrow>
                                        (if s \<noteq> nv_seq env then Inl (InnerSequence (nv_seq env) s)
                                         else parse_from K applied_seq (nxt + 1) pos' rest
                                           (out' \<lparr> pg_records := pg_records out @ [(nv_seq env, ops)],
                                              pg_decrypts := pg_decrypts out + 1,
                                              pg_decrypted_bytes :=
                                                pg_decrypted_bytes out + of_nat (length plain) \<rparr>))))))))"
  by pat_completeness auto
termination
  by (relation "measure (\<lambda>(K, a, n, p, region, out). length region)")
    (auto simp: split_once_Some)

declare parse_from.simps [simp del]

definition parse_log :: "log_packages \<Rightarrow> string \<Rightarrow> u64 \<Rightarrow> log_error + parsed_log" where
  "parse_log K region applied_seq =
     parse_from K applied_seq (applied_seq + 1) 0 region
       \<lparr> pg_records = [], pg_consumed = 0, pg_torn_tail = False, pg_decrypted_bytes = 0,
         pg_decrypts = 0 \<rparr>"

section \<open>A tracked map can be undone and replayed\<close>

text \<open>\<open>base\<close> is what the map held when the last mutation was committed.\<close>

definition tracks :: "(string \<Rightarrow> 'v option) \<Rightarrow> 'v tracked \<Rightarrow> bool" where
  "tracks base t \<longleftrightarrow>
     t_ok (tr_map t) \<and> t_ok (tr_touched t)
     \<and> (\<forall>k. base k = (case t_get (tr_touched t) k of Some pre \<Rightarrow> pre | None \<Rightarrow> t_get (tr_map t) k))"

lemma tracks_committed: "t_ok (tr_map t) \<Longrightarrow> tracks (t_get (tr_map t)) (tracked_commit t)"
  by (simp add: tracks_def tracked_commit_def)

lemma tracks_from_map: "t_ok m \<Longrightarrow> tracks (t_get m) (tracked_from_map m)"
  by (simp add: tracks_def tracked_from_map_def)

lemma touch_map [simp]: "tr_map (touch k t) = tr_map t"
  by (simp add: touch_def)

lemma tracks_touch: "tracks base t \<Longrightarrow> tracks base (touch k t)"
  by (auto simp: tracks_def touch_def split: option.splits)

lemma touch_touched: "t_get (tr_touched (touch k t)) k \<noteq> None"
  by (simp add: touch_def)

text \<open>A key that was touched may then hold anything.\<close>

lemma tracks_overwrite:
  assumes "tracks base (touch k t)" "t_ok m" "\<forall>j. j \<noteq> k \<longrightarrow> t_get m j = t_get (tr_map t) j"
  shows "tracks base ((touch k t) \<lparr> tr_map := m \<rparr>)"
proof -
  have "base j = (case t_get (tr_touched (touch k t)) j of Some pre \<Rightarrow> pre | None \<Rightarrow> t_get m j)" for j
  proof (cases "j = k")
    case True
    with assms(1) touch_touched [of k t] show ?thesis by (auto simp: tracks_def split: option.splits)
  next
    case False
    with assms show ?thesis by (auto simp: tracks_def split: option.split)
  qed
  with assms(1,2) show ?thesis by (simp add: tracks_def cong: option.case_cong)
qed

lemma tracks_insert: "tracks base t \<Longrightarrow> tracks base (snd (tracked_insert k v t))"
  using tracks_overwrite [OF tracks_touch [of base t k], of "t_put k v (tr_map t)"]
  by (simp add: tracked_insert_def tracks_def)

lemma tracks_remove: "tracks base t \<Longrightarrow> tracks base (snd (tracked_remove k t))"
  using tracks_overwrite [OF tracks_touch [of base t k], of "t_del k (tr_map t)"]
  by (simp add: tracked_remove_def tracks_def)

lemma tracks_get_mut: "tracks base t \<Longrightarrow> tracks base (snd (tracked_get_mut k f t))"
  using tracks_insert [of base t k]
  by (auto simp: tracked_get_mut_def tracked_insert_def split: option.split)

lemma tracks_retain: "tracks base t \<Longrightarrow> tracks base (tracked_retain keep t)"
proof -
  have "tracks base t \<Longrightarrow> tracks base (foldl (\<lambda>t k. snd (tracked_remove k t)) t ks)" for ks t
    by (induction ks arbitrary: t) (simp_all add: tracks_remove)
  then show "tracks base t \<Longrightarrow> tracks base (tracked_retain keep t)" by (simp add: tracked_retain_def)
qed

lemma retain_map:
  assumes "t_ok (tr_map t)"
  shows "t_get (tr_map (tracked_retain keep t)) k =
    (case t_get (tr_map t) k of None \<Rightarrow> None | Some v \<Rightarrow> if keep k v then Some v else None)"
proof -
  have f: "t_get (tr_map (foldl (\<lambda>t k. snd (tracked_remove k t)) t ks)) k =
      (if k \<in> set ks then None else t_get (tr_map t) k)" for ks
    by (induction ks arbitrary: t) (auto simp: tracked_remove_def)
  have "k \<in> set (map fst (filter (\<lambda>(k, v). \<not> keep k v) (tr_map t))) \<longleftrightarrow>
      (\<exists>v. t_get (tr_map t) k = Some v \<and> \<not> keep k v)"
    using assms by (force simp: t_get_in)
  with f show ?thesis by (auto simp: tracked_retain_def split: option.splits)
qed

lemma undo_all:
  "distinct (map fst ps) \<Longrightarrow> t_get (foldl undo_one m ps) k =
     (case map_of ps k of Some pre \<Rightarrow> pre | None \<Rightarrow> t_get m k)"
proof (induction ps arbitrary: m)
  case (Cons p ps)
  obtain j c where p: "p = (j, c)" by (cases p)
  have "map_of ps j = None" using Cons.prems p by (simp add: map_of_eq_None_iff)
  with Cons p show ?case by (cases c) (auto simp: undo_one_def split: option.split)
qed simp

lemma rollback_restores:
  assumes "tracks base t"
  shows "t_get (tr_map (tracked_rollback t)) = base"
  using assms undo_all [of "tr_touched t" "tr_map t"]
  by (auto simp: fun_eq_iff tracks_def tracked_rollback_def t_ok_def t_get_def split: option.splits)

lemma replay_map:
  "tr_map (foldl replay_change t cs) = foldl undo_one (tr_map t) cs"
  by (induction cs arbitrary: t)
    (auto simp: replay_change_def undo_one_def insert_clean_def remove_clean_def
      split: prod.split option.split)

lemma changes_lookup:
  assumes "t_ok (tr_touched t)"
  shows "map_of (tracked_changes t) k =
    (case t_get (tr_touched t) k of
       None \<Rightarrow> None
     | Some pre \<Rightarrow> if t_get (tr_map t) k = None \<and> pre = None then None else Some (t_get (tr_map t) k))"
proof -
  have m: "map_of (map (\<lambda>(k, pre). (k, g k)) ps) k = map_option (\<lambda>_. g k) (map_of ps k)"
    for g :: "string \<Rightarrow> 'b" and ps :: "(string \<times> 'c) list"
    by (induction ps) auto
  have f: "map_of (filter (\<lambda>(k, pre). \<not> (t_get (tr_map t) k = None \<and> pre = None)) (tr_touched t)) k =
      (case map_of (tr_touched t) k of None \<Rightarrow> None
       | Some pre \<Rightarrow> if \<not> (t_get (tr_map t) k = None \<and> pre = None) then Some pre else None)"
    using assms unfolding t_ok_def by (rule map_of_filter_distinct)
  show ?thesis
    unfolding tracked_changes_def m f t_get_def [of "tr_touched t"] by (auto split: option.split)
qed

lemma replay_reaches:
  assumes "tracks (t_get (tr_map old)) t"
  shows "t_get (tr_map (foldl replay_change old (tracked_changes t))) = t_get (tr_map t)"
proof
  fix k
  have ok: "t_ok (tr_touched t)"
    and b: "t_get (tr_map old) k = (case t_get (tr_touched t) k of Some pre \<Rightarrow> pre | None \<Rightarrow> t_get (tr_map t) k)"
    using assms by (simp_all add: tracks_def)
  have "map fst (tracked_changes t) =
      map fst (filter (\<lambda>(k, pre). \<not> (t_get (tr_map t) k = None \<and> pre = None)) (tr_touched t))"
    by (auto simp: tracked_changes_def)
  then have "distinct (map fst (tracked_changes t))"
    using ok by (simp add: t_ok_def distinct_map_filter)
  from undo_all [OF this, of "tr_map old" k] changes_lookup [OF ok, of k] b
  show "t_get (tr_map (foldl replay_change old (tracked_changes t))) k = t_get (tr_map t) k"
    by (auto simp: replay_map split: option.splits if_splits)
qed

section \<open>Reading what was written\<close>

definition log_laws :: "log_packages \<Rightarrow> bool" where
  "log_laws K \<longleftrightarrow>
     (\<forall>x s. lp_write_plain K x = Some s \<longrightarrow> lp_read_plain K s = Some x)
     \<and> (\<forall>p e. lp_encrypt K p = Some e \<longrightarrow> lp_decrypt K e = Some p)
     \<and> (\<forall>v l. lp_write_env K v = Some l \<longrightarrow> lp_read_env K l = Some v \<and> newline \<notin> set l)"

definition written :: "log_packages \<Rightarrow> (u64 \<times> log_op list) list \<Rightarrow> string list \<Rightarrow> bool" where
  "written K recs lines = list_all2 (\<lambda>(s, ops) line. encode_record K s ops = Inr line) recs lines"

fun contiguous :: "u64 \<Rightarrow> (u64 \<times> log_op list) list \<Rightarrow> bool" where
  "contiguous s [] = True"
| "contiguous s ((n, ops) # recs) \<longleftrightarrow> n = s \<and> contiguous (s + 1) recs"

lemma encode_record_Inr:
  assumes "log_laws K" "encode_record K seq ops = Inr b"
  obtains line env plain where "b = line @ [newline]" "newline \<notin> set line"
    "lp_read_env K line = Some env" "nv_seq env = seq"
    "lp_decrypt K (nv_nonce env, nv_ct env) = Some plain" "lp_read_plain K plain = Some (seq, ops)"
proof -
  obtain plain nonce ct line where e: "lp_write_plain K (seq, ops) = Some plain"
    "lp_encrypt K plain = Some (nonce, ct)"
    "lp_write_env K \<lparr> nv_seq = seq, nv_nonce = nonce, nv_ct = ct \<rparr> = Some line" "b = line @ [newline]"
    using assms(2) by (auto simp: encode_record_def split: option.splits)
  with assms(1) show thesis
    by (intro that [of line "\<lparr> nv_seq = seq, nv_nonce = nonce, nv_ct = ct \<rparr>" plain])
      (auto simp: log_laws_def)
qed

lemma parse_line:
  assumes "log_laws K" "encode_record K seq ops = Inr b"
  shows "seq \<le> applied \<Longrightarrow> parse_from K applied nxt pos (b @ rest) out =
      parse_from K applied nxt (pos + length b) rest (out \<lparr> pg_consumed := pos + length b \<rparr>)"
    and "\<not> seq \<le> applied \<Longrightarrow> seq \<noteq> nxt \<Longrightarrow>
      parse_from K applied nxt pos (b @ rest) out = Inl (UnexpectedRecord nxt seq)"
    and "\<not> seq \<le> applied \<Longrightarrow> seq = nxt \<Longrightarrow>
      \<exists>out'. parse_from K applied nxt pos (b @ rest) out =
          parse_from K applied (nxt + 1) (pos + length b) rest out'
        \<and> pg_records out' = pg_records out @ [(seq, ops)] \<and> pg_consumed out' = pos + length b
        \<and> pg_torn_tail out' = pg_torn_tail out"
proof -
  obtain line env plain where e: "b = line @ [newline]" "newline \<notin> set line"
    "lp_read_env K line = Some env" "nv_seq env = seq"
    "lp_decrypt K (nv_nonce env, nv_ct env) = Some plain" "lp_read_plain K plain = Some (seq, ops)"
    by (rule encode_record_Inr [OF assms])
  then have "split_once newline (b @ rest) = Some (line, rest)" by (simp add: split_once_Some)
  note u = parse_from.simps [of K applied nxt pos "b @ rest" out, unfolded this]
  show "seq \<le> applied \<Longrightarrow> parse_from K applied nxt pos (b @ rest) out =
      parse_from K applied nxt (pos + length b) rest (out \<lparr> pg_consumed := pos + length b \<rparr>)"
    using u e by (simp add: Let_def)
  show "\<not> seq \<le> applied \<Longrightarrow> seq \<noteq> nxt \<Longrightarrow>
      parse_from K applied nxt pos (b @ rest) out = Inl (UnexpectedRecord nxt seq)"
    using u e by (simp add: Let_def)
  show "\<not> seq \<le> applied \<Longrightarrow> seq = nxt \<Longrightarrow>
      \<exists>out'. parse_from K applied nxt pos (b @ rest) out =
          parse_from K applied (nxt + 1) (pos + length b) rest out'
        \<and> pg_records out' = pg_records out @ [(seq, ops)] \<and> pg_consumed out' = pos + length b
        \<and> pg_torn_tail out' = pg_torn_tail out"
    using u e
    by (intro exI [of _ "out \<lparr> pg_consumed := pos + length b, pg_records := pg_records out @ [(seq, ops)],
        pg_decrypts := pg_decrypts out + 1,
        pg_decrypted_bytes := pg_decrypted_bytes out + of_nat (length plain) \<rparr>"])
      (simp add: Let_def)
qed

lemma parse_tail:
  "newline \<notin> set t \<Longrightarrow> parse_from K applied nxt pos t out = Inr (out \<lparr> pg_torn_tail := pg_torn_tail out \<or> t \<noteq> [] \<rparr>)"
  by (subst parse_from.simps) (simp add: split_once_None [THEN iffD2])

lemma unat_suc: "unat s + 1 < 2 ^ 64 \<Longrightarrow> unat (s + 1 :: u64) = unat s + 1"
  by (simp add: unat_add_lem [THEN iffD1])

text \<open>Complete lines, of which the first may be folded into the snapshot already, and a fragment.\<close>

lemma parse_written_from:
  assumes K: "log_laws K" and w: "written K recs lines" and c: "contiguous s recs"
    and b: "unat s + length recs < 2 ^ 64"
    and n: "nxt = (if s \<le> applied then applied + 1 else s)" and t: "newline \<notin> set t"
    and p: "pg_consumed out = pos" "\<not> pg_torn_tail out"
  shows "\<exists>out'. parse_from K applied nxt pos (concat lines @ t) out = Inr out'
    \<and> pg_records out' = pg_records out @ filter (\<lambda>(n, ops). applied < n) recs
    \<and> pg_consumed out' = pos + length (concat lines) \<and> pg_torn_tail out' = (t \<noteq> [])"
  using w c b n p
proof (induction recs arbitrary: lines s nxt pos out)
  case Nil
  then show ?case using parse_tail [OF t] by (simp add: written_def)
next
  case (Cons r recs)
  obtain ops where r: "r = (s, ops)" and c: "contiguous (s + 1) recs" using Cons.prems(2) by (cases r) auto
  obtain l ls where l: "lines = l # ls" "encode_record K s ops = Inr l" "written K recs ls"
    using Cons.prems(1) r by (auto simp: written_def list_all2_Cons1)
  have u: "unat (s + 1) = unat s + 1" using Cons.prems(3) by (intro unat_suc) simp
  have b: "unat (s + 1) + length recs < 2 ^ 64" using Cons.prems(3) u by simp
  show ?case
  proof (cases "s \<le> applied")
    case True
    have "s = applied" if "\<not> s + 1 \<le> applied"
      using True that u by (simp add: word_le_nat_alt word_unat_eq_iff)
    then have "nxt = (if s + 1 \<le> applied then applied + 1 else s + 1)"
      using True Cons.prems(4) by auto
    from Cons.IH [OF l(3) c b this, of "out \<lparr> pg_consumed := pos + length l \<rparr>" "pos + length l"]
      Cons.prems(6) parse_line(1) [OF K l(2) True, of nxt pos "concat ls @ t" out] True l(1) r
    show ?thesis by (auto simp: add.assoc)
  next
    case False
    then have n: "nxt = s" using Cons.prems(4) by simp
    obtain out1 where o: "parse_from K applied nxt pos (l @ concat ls @ t) out =
        parse_from K applied (nxt + 1) (pos + length l) (concat ls @ t) out1"
      "pg_records out1 = pg_records out @ [(s, ops)]" "pg_consumed out1 = pos + length l"
      "pg_torn_tail out1 = pg_torn_tail out"
      using parse_line(3) [OF K l(2) False] n by blast
    have "nxt + 1 = (if s + 1 \<le> applied then applied + 1 else s + 1)"
      using False n u by (auto simp: word_le_nat_alt)
    from Cons.IH [OF l(3) c b this o(3)] o Cons.prems(6) False l(1) r
    show ?thesis by (auto simp: add.assoc not_le)
  qed
qed

lemma parse_log_written:
  assumes "log_laws K" "written K recs lines" "contiguous s recs" "unat s + length recs < 2 ^ 64"
    "s \<le> applied \<or> s = applied + 1" "newline \<notin> set t"
  shows "\<exists>out. parse_log K (concat lines @ t) applied = Inr out
    \<and> pg_records out = filter (\<lambda>(n, ops). applied < n) recs
    \<and> pg_consumed out = length (concat lines) \<and> pg_torn_tail out = (t \<noteq> [])"
proof -
  have "applied + 1 = (if s \<le> applied then applied + 1 else s)" using assms(5) by auto
  from parse_written_from [OF assms(1-4) this assms(6),
      of "\<lparr> pg_records = [], pg_consumed = 0, pg_torn_tail = False, pg_decrypted_bytes = 0, pg_decrypts = 0 \<rparr>" 0]
  show ?thesis by (simp add: parse_log_def)
qed

text \<open>A write cut short keeps whole lines and a fragment that has no newline.\<close>

lemma cut_lines:
  assumes "\<forall>l\<in>set lines. \<exists>b. l = b @ [newline] \<and> newline \<notin> set b" "n \<le> length (concat lines)"
  shows "\<exists>i t. i \<le> length lines \<and> take n (concat lines) = concat (take i lines) @ t \<and> newline \<notin> set t
    \<and> (i < length lines \<longrightarrow> n < length (concat (take (i + 1) lines)))"
  using assms
proof (induction lines arbitrary: n)
  case (Cons l lines)
  then obtain b where b: "l = b @ [newline]" "newline \<notin> set b" by auto
  show ?case
  proof (cases "n < length l")
    case True
    then have "take n (concat (l # lines)) = take n b" using b by simp
    with True b show ?thesis
      by (intro exI [of _ 0] exI [of _ "take n b"]) (auto dest: in_set_takeD)
  next
    case False
    then have "n - length l \<le> length (concat lines)" using Cons.prems(2) by simp
    from Cons.IH [OF _ this] Cons.prems(1)
    obtain i t where "i \<le> length lines" "take (n - length l) (concat lines) = concat (take i lines) @ t"
      "newline \<notin> set t" "i < length lines \<longrightarrow> n - length l < length (concat (take (i + 1) lines))"
      by (metis list.set_intros(2))
    with False show ?thesis by (intro exI [of _ "Suc i"] exI [of _ t]) auto
  qed
qed simp

lemma written_lines:
  assumes "log_laws K" "written K recs lines"
  shows "\<forall>l\<in>set lines. \<exists>b. l = b @ [newline] \<and> newline \<notin> set b"
proof
  fix l assume "l \<in> set lines"
  then obtain i where "i < length lines" "l = lines ! i" by (auto simp: in_set_conv_nth)
  with assms(2) have "encode_record K (fst (recs ! i)) (snd (recs ! i)) = Inr l"
    by (auto simp: written_def list_all2_conv_all_nth case_prod_beta)
  then show "\<exists>b. l = b @ [newline] \<and> newline \<notin> set b"
    by (rule encode_record_Inr [OF assms(1)]) blast
qed

lemma contiguous_take: "contiguous s recs \<Longrightarrow> contiguous s (take i recs)"
  by (induction s recs arbitrary: i rule: contiguous.induct) (auto simp: take_Cons split: nat.split)

lemma written_take: "written K recs lines \<Longrightarrow> written K (take i recs) (take i lines)"
  by (simp add: written_def list_all2_takeI)

lemma parse_log_cut:
  assumes "log_laws K" "written K recs lines" "contiguous s recs" "unat s + length recs < 2 ^ 64"
    "s \<le> applied \<or> s = applied + 1" "n \<le> length (concat lines)"
  shows "\<exists>i out. parse_log K (take n (concat lines)) applied = Inr out \<and> i \<le> length recs
    \<and> pg_records out = filter (\<lambda>(n, ops). applied < n) (take i recs)
    \<and> pg_consumed out = length (concat (take i lines)) \<and> pg_consumed out \<le> n
    \<and> (i < length recs \<longrightarrow> n < length (concat (take (i + 1) lines)))"
proof -
  have len: "length lines = length recs" using assms(2) by (simp add: written_def list_all2_lengthD)
  obtain i t where c: "i \<le> length lines" "take n (concat lines) = concat (take i lines) @ t" "newline \<notin> set t"
    "i < length lines \<longrightarrow> n < length (concat (take (i + 1) lines))"
    using cut_lines [OF written_lines [OF assms(1,2)] assms(6)] by blast
  have "unat s + length (take i recs) < 2 ^ 64" using assms(4) by simp
  from parse_log_written [OF assms(1) written_take [OF assms(2)] contiguous_take [OF assms(3)] this assms(5) c(3)]
  obtain out where "parse_log K (take n (concat lines)) applied = Inr out"
    "pg_records out = filter (\<lambda>(n, ops). applied < n) (take i recs)"
    "pg_consumed out = length (concat (take i lines))"
    unfolding c(2) by blast
  moreover have "length (concat (take i lines)) \<le> n"
    using arg_cong [OF c(2), of length] assms(6) by simp
  ultimately show ?thesis using c(1,4) len by auto
qed

section \<open>Properties of the log\<close>

text \<open>What a mutation makes of the records of the last commit.\<close>

inductive mutated :: "'v tracked \<Rightarrow> 'v tracked \<Rightarrow> bool" for old where
  mutated_start: "mutated old (tracked_commit old)"
| mutated_insert: "mutated old t \<Longrightarrow> mutated old (snd (tracked_insert k v t))"
| mutated_remove: "mutated old t \<Longrightarrow> mutated old (snd (tracked_remove k t))"
| mutated_edit: "mutated old t \<Longrightarrow> mutated old (snd (tracked_get_mut k f t))"
| mutated_retain: "mutated old t \<Longrightarrow> mutated old (tracked_retain keep t)"

lemma mutated_tracks: "mutated old t \<Longrightarrow> t_ok (tr_map old) \<Longrightarrow> tracks (t_get (tr_map old)) t"
  by (induction rule: mutated.induct)
    (auto intro: tracks_committed tracks_insert tracks_remove tracks_get_mut tracks_retain)

text \<open>Whatever a mutation inserts, removes, edits or prunes, rolling the map back restores the
  records it held at the last commit, and replaying the changes it logs on the map as of that commit
  reaches the mutated records.\<close>

theorem mutation_undone_or_replayed:
  assumes "mutated old t" "t_ok (tr_map old)"
  shows "t_get (tr_map (tracked_rollback t)) = t_get (tr_map old)
    \<and> t_get (tr_map (foldl replay_change old (tracked_changes t))) = t_get (tr_map t)"
  using mutated_tracks [OF assms] by (simp add: rollback_restores replay_reaches)

theorem mutation_undone_or_replayed_witness:
  "let old = tracked_from_map [(''a'', 1 :: nat), (''b'', 2)];
       t = snd (tracked_insert ''c'' 3 (snd (tracked_remove ''a'' (tracked_commit old))))
   in t_get (tr_map (tracked_rollback t)) = t_get (tr_map old)
      \<and> t_get (tr_map (foldl replay_change old (tracked_changes t))) = t_get (tr_map t)"
proof -
  have "t_ok (tr_map (tracked_from_map [(''a'', 1 :: nat), (''b'', 2)]))"
    by (simp add: tracked_from_map_def t_ok_def)
  from mutation_undone_or_replayed [OF mutated_insert [OF mutated_remove [OF mutated_start]] this]
  show ?thesis unfolding Let_def .
qed

text \<open>An instance of the packages that writes two records.\<close>

definition sample_packages :: log_packages where
  "sample_packages =
     \<lparr> lp_write_env = (\<lambda>e. if nv_nonce e = ''n'' \<and> nv_seq e = 1 \<and> nv_ct e = ''p'' then Some ''ep''
                           else if nv_nonce e = ''n'' \<and> nv_seq e = 2 \<and> nv_ct e = ''q'' then Some ''eq''
                           else None),
       lp_read_env = (\<lambda>l. if l = ''ep'' then Some \<lparr> nv_seq = 1, nv_nonce = ''n'', nv_ct = ''p'' \<rparr>
                          else if l = ''eq'' then Some \<lparr> nv_seq = 2, nv_nonce = ''n'', nv_ct = ''q'' \<rparr>
                          else None),
       lp_write_plain = (\<lambda>x. if x = (1, [OpKillEpoch 7]) then Some ''p''
                             else if x = (2, [OpDel ''t'' ''k'']) then Some ''q'' else None),
       lp_read_plain = (\<lambda>s. if s = ''p'' then Some (1, [OpKillEpoch 7])
                            else if s = ''q'' then Some (2, [OpDel ''t'' ''k'']) else None),
       lp_encrypt = (\<lambda>p. Some (''n'', p)), lp_decrypt = (\<lambda>(n, c). Some c) \<rparr>"

lemma sample_log_laws: "log_laws sample_packages"
  by (auto simp: log_laws_def sample_packages_def newline_def split: if_splits)

text \<open>C35: after a crash the log holds a prefix of the bytes that were written; reading it yields
  exactly the records whose lines are whole and that the snapshot does not hold yet, in order, never
  an error, and tells where the fragment begins.\<close>

theorem crash_keeps_whole_records:
  assumes "log_laws K" "written K recs lines" "contiguous s recs" "unat s + length recs < 2 ^ 64"
    "s \<le> applied \<or> s = applied + 1" "n \<le> length (concat lines)"
  shows "\<exists>i out. parse_log K (take n (concat lines)) applied = Inr out \<and> i \<le> length recs
    \<and> pg_records out = filter (\<lambda>(n, ops). applied < n) (take i recs)
    \<and> pg_consumed out = length (concat (take i lines)) \<and> pg_consumed out \<le> n
    \<and> (i < length recs \<longrightarrow> n < length (concat (take (i + 1) lines)))"
  using assms by (rule parse_log_cut)

theorem crash_keeps_whole_records_witness:
  "let recs = [(1, [OpKillEpoch 7]), (2, [OpDel ''t'' ''k''])]; lines = [''ep'' @ [newline], ''eq'' @ [newline]]
   in \<exists>i out. parse_log sample_packages (take 4 (concat lines)) 0 = Inr out \<and> i \<le> length recs
    \<and> pg_records out = filter (\<lambda>(n, ops). 0 < n) (take i recs)
    \<and> pg_consumed out = length (concat (take i lines)) \<and> pg_consumed out \<le> 4
    \<and> (i < length recs \<longrightarrow> 4 < length (concat (take (i + 1) lines)))"
proof -
  let ?recs = "[(1, [OpKillEpoch 7]), (2, [OpDel ''t'' ''k''])]"
    and ?lines = "[''ep'' @ [newline], ''eq'' @ [newline]]"
  have "written sample_packages ?recs ?lines"
    by (simp add: written_def encode_record_def sample_packages_def)
  from crash_keeps_whole_records [OF sample_log_laws this, of 1 0 4]
  show ?thesis unfolding Let_def by simp
qed

end
