(* ===== verification/Auth.thy ===== *)
theory Auth
  imports Approval
begin

text \<open>
  Authentication and authorisation, \<open>src/src/auth\<close>: permissions and roles (\<open>types.rs\<close>), use tokens
  (\<open>tokens.rs\<close>), approval tokens of delegates (\<open>approval_tokens.rs\<close>), the manager of roles and keys
  (\<open>manager.rs\<close>) and the check of a request's header (\<open>middleware.rs\<close>).

  Random strings and the instant are arguments; \<open>h\<close> is the hash of a key or token, SHA-256 in Base64.
\<close>

section \<open>Permissions and roles\<close>

datatype permission = Read | Write | Update | Delete | Execute | Admin

definition all_permissions :: "permission set" where
  "all_permissions = {Read, Write, Update, Delete, Execute, Admin}"

definition parse_permission :: "string \<Rightarrow> permission option" where
  "parse_permission s =
     (let l = ascii_lower s in
      if l = ''read'' then Some Read else if l = ''write'' then Some Write
      else if l = ''update'' then Some Update else if l = ''delete'' then Some Delete
      else if l = ''execute'' then Some Execute else if l = ''admin'' then Some Admin else None)"

fun parse_parts :: "string list \<Rightarrow> permission set \<Rightarrow> string + permission set" where
  "parse_parts [] acc = Inr acc"
| "parse_parts (part # parts) acc =
     (if trim part = [] then parse_parts parts acc
      else (case parse_permission (trim part) of
              Some p \<Rightarrow> parse_parts parts (insert p acc)
            | None \<Rightarrow> Inl (''Unknown permission: '' @ trim part)))"

definition parse_many :: "string \<Rightarrow> string + permission set" where
  "parse_many s = parse_parts (split_on (CHR '','') s) {}"

fun show_permission :: "permission \<Rightarrow> string" where
  "show_permission Read = ''read''"
| "show_permission Write = ''write''"
| "show_permission Update = ''update''"
| "show_permission Delete = ''delete''"
| "show_permission Execute = ''execute''"
| "show_permission Admin = ''admin''"

record role =
  rl_id :: string
  rl_name :: string
  rl_description :: "string option"
  rl_permissions :: "permission set"
  rl_credential_scopes :: "string list"
  rl_created_at :: instant

definition new_role :: "string \<Rightarrow> instant \<Rightarrow> string \<Rightarrow> permission set \<Rightarrow> role" where
  "new_role uuid now name permissions =
     \<lparr> rl_id = uuid, rl_name = name, rl_description = None, rl_permissions = permissions,
       rl_credential_scopes = [], rl_created_at = now \<rparr>"

definition has_permission :: "role \<Rightarrow> permission \<Rightarrow> bool" where
  "has_permission r p \<longleftrightarrow> p \<in> rl_permissions r"

definition scope_matches :: "url_lib \<Rightarrow> string \<Rightarrow> string \<Rightarrow> bool" where
  "scope_matches L pattern v =
     (if pattern = ''*'' then True
      else case ul_glob L pattern of Some g \<Rightarrow> g v | None \<Rightarrow> pattern = v)"

definition can_access_credential :: "url_lib \<Rightarrow> role \<Rightarrow> string \<Rightarrow> bool" where
  "can_access_credential L r a =
     (if rl_credential_scopes r = [] then True
      else list_ex (\<lambda>pattern. scope_matches L pattern a) (rl_credential_scopes r))"

definition admin_role :: "instant \<Rightarrow> role" where
  "admin_role now =
     (new_role ''admin'' now ''admin'' all_permissions)
       \<lparr> rl_description := Some ''Full administrative access to all credentials'' \<rparr>"

definition read_only_role :: "instant \<Rightarrow> role" where
  "read_only_role now =
     (new_role ''read-only'' now ''read-only'' {Read})
       \<lparr> rl_description := Some ''Read-only access to credential metadata'' \<rparr>"

definition executor_role :: "instant \<Rightarrow> role" where
  "executor_role now =
     (new_role ''executor'' now ''executor'' {Read, Execute})
       \<lparr> rl_description := Some ''Execute credentials without management access'' \<rparr>"

record api_key =
  ak_id :: string
  ak_key_prefix :: string
  ak_key_hash :: string
  ak_name :: string
  ak_role_id :: string
  ak_expires_at :: "instant option"
  ak_created_at :: instant
  ak_last_used_at :: "instant option"
  ak_agent_label :: "string option"
  ak_owner_identity :: "string option"
  ak_tenant :: "string option"
  ak_workload_id :: "string option"

definition key_is_expired :: "instant \<Rightarrow> api_key \<Rightarrow> bool" where
  "key_is_expired now k = (case ak_expires_at k of Some t \<Rightarrow> t \<le> now | None \<Rightarrow> False)"

section \<open>Use tokens\<close>

record use_token =
  ut_id :: string
  ut_token_prefix :: string
  ut_token_hash :: string
  ut_name :: string
  ut_credential_scope :: string
  ut_action_scope :: "string option"
  ut_max_uses :: "u32 option"
  ut_uses :: u32
  ut_require_approval :: bool
  ut_expires_at :: "instant option"
  ut_created_at :: instant
  ut_last_used_at :: "instant option"
  ut_revoked :: bool
  ut_agent_label :: "string option"
  ut_dual_control :: bool
  ut_owner_identity :: "string option"
  ut_tenant :: "string option"

datatype use_token_invalid = TokenRevoked | TokenExpired | TokenExhausted

record new_use_token =
  nt_name :: string
  nt_credential_scope :: string
  nt_action_scope :: "string option"
  nt_max_uses :: "u32 option"
  nt_require_approval :: bool
  nt_expires_in :: "int option"

datatype token_problem =
    EmptyScope | NoUses | NonPositiveExpiry | BadCredentialScope | BadActionScope

definition validate_new_token :: "url_lib \<Rightarrow> new_use_token \<Rightarrow> token_problem + unit" where
  "validate_new_token L n =
     (if blank (nt_credential_scope n) then Inl EmptyScope
      else if nt_max_uses n = Some 0 then Inl NoUses
      else if (case nt_expires_in n of Some d \<Rightarrow> d \<le> 0 | None \<Rightarrow> False) then Inl NonPositiveExpiry
      else if ul_glob L (nt_credential_scope n) = None then Inl BadCredentialScope
      else if (case nt_action_scope n of Some a \<Rightarrow> ul_glob L a = None | None \<Rightarrow> False)
        then Inl BadActionScope
      else Inr ())"

text \<open>The alphanumeric characters of the encoded random bytes, at most 32 of them.\<close>

definition token_text :: "string \<Rightarrow> string \<Rightarrow> string" where
  "token_text prefix' random = prefix' @ take 32 (filter is_alnum random)"

definition token_prefix :: "string \<Rightarrow> string \<Rightarrow> string" where
  "token_prefix prefix' random = prefix' @ take 8 (take 32 (filter is_alnum random))"

definition create_use_token ::
  "(string \<Rightarrow> string) \<Rightarrow> string \<Rightarrow> string \<Rightarrow> instant \<Rightarrow> new_use_token \<Rightarrow> string \<times> use_token" where
  "create_use_token h random uuid now n =
     (let full = token_text ''vut_'' random
      in (full,
          \<lparr> ut_id = ''ut_'' @ uuid, ut_token_prefix = token_prefix ''vut_'' random,
            ut_token_hash = h full, ut_name = nt_name n, ut_credential_scope = nt_credential_scope n,
            ut_action_scope = nt_action_scope n, ut_max_uses = nt_max_uses n, ut_uses = 0,
            ut_require_approval = nt_require_approval n,
            ut_expires_at = map_option (\<lambda>d. now + d) (nt_expires_in n), ut_created_at = now,
            ut_last_used_at = None, ut_revoked = False, ut_agent_label = None,
            ut_dual_control = False, ut_owner_identity = None, ut_tenant = None \<rparr>))"

definition looks_like_use_token :: "string \<Rightarrow> bool" where
  "looks_like_use_token s = starts_with s ''vut_''"

definition remaining_uses :: "use_token \<Rightarrow> u32 option" where
  "remaining_uses t = map_option (\<lambda>m. sat_sub m (ut_uses t)) (ut_max_uses t)"

definition is_exhausted :: "use_token \<Rightarrow> bool" where
  "is_exhausted t = (case ut_max_uses t of Some m \<Rightarrow> m \<le> ut_uses t | None \<Rightarrow> False)"

definition token_is_expired :: "instant \<Rightarrow> use_token \<Rightarrow> bool" where
  "token_is_expired now t = (case ut_expires_at t of Some e \<Rightarrow> e \<le> now | None \<Rightarrow> False)"

definition check_usable :: "instant \<Rightarrow> use_token \<Rightarrow> use_token_invalid + unit" where
  "check_usable now t =
     (if ut_revoked t then Inl TokenRevoked
      else if token_is_expired now t then Inl TokenExpired
      else if is_exhausted t then Inl TokenExhausted
      else Inr ())"

definition allows_credential :: "url_lib \<Rightarrow> use_token \<Rightarrow> string \<Rightarrow> bool" where
  "allows_credential L t a = scope_matches L (ut_credential_scope t) a"

definition allows_action :: "url_lib \<Rightarrow> use_token \<Rightarrow> string \<Rightarrow> bool" where
  "allows_action L t act =
     (case ut_action_scope t of None \<Rightarrow> True | Some s \<Rightarrow> scope_matches L s act)"

datatype label_problem = EmptyLabel | LongLabel | BadLabelCharacter

definition validate_agent_label :: "string \<Rightarrow> label_problem + unit" where
  "validate_agent_label label =
     (if label = [] then Inl EmptyLabel
      else if 128 < length label then Inl LongLabel
      else if \<not> list_all (\<lambda>c. is_alnum c \<or> c = CHR ''.'' \<or> c = CHR ''_'' \<or> c = CHR ''-'') label
        then Inl BadLabelCharacter
      else Inr ())"

section \<open>Approval tokens\<close>

record delegation_grant_scope =
  dg_max_risk_tier :: string
  dg_action_classes :: "string list"

definition scope_valid :: "delegation_grant_scope \<Rightarrow> bool" where
  "scope_valid s \<longleftrightarrow> trim (dg_max_risk_tier s) = ''Low'' \<or> trim (dg_max_risk_tier s) = ''Medium''"

record approval_token =
  at_id :: string
  at_token_prefix :: string
  at_token_hash :: string
  at_delegation_grant_ref :: string
  at_grant_scope :: delegation_grant_scope
  at_agent_label :: "string option"
  at_delegator_identity :: string
  at_tenant :: "string option"
  at_revoked :: bool
  at_expires_at :: "instant option"
  at_created_at :: instant

record new_approval_token =
  nw_delegation_grant_ref :: string
  nw_grant_scope :: delegation_grant_scope
  nw_agent_label :: "string option"
  nw_delegator_identity :: string
  nw_tenant :: "string option"
  nw_expires_in :: "int option"

datatype approval_token_problem =
    EmptyGrantRef | BadGrantScope | EmptyDelegator | BadLabel label_problem | NonPositiveLifetime

definition validate_new_approval_token ::
  "new_approval_token \<Rightarrow> approval_token_problem + unit" where
  "validate_new_approval_token n =
     (if blank (nw_delegation_grant_ref n) then Inl EmptyGrantRef
      else if \<not> scope_valid (nw_grant_scope n) then Inl BadGrantScope
      else if blank (nw_delegator_identity n) then Inl EmptyDelegator
      else (case (case nw_agent_label n of Some l \<Rightarrow> validate_agent_label l | None \<Rightarrow> Inr ()) of
              Inl e \<Rightarrow> Inl (BadLabel e)
            | Inr _ \<Rightarrow>
                if (case nw_expires_in n of Some d \<Rightarrow> d \<le> 0 | None \<Rightarrow> False) then Inl NonPositiveLifetime
                else Inr ()))"

definition create_approval_token ::
  "(string \<Rightarrow> string) \<Rightarrow> string \<Rightarrow> string \<Rightarrow> instant \<Rightarrow> new_approval_token \<Rightarrow> string \<times> approval_token" where
  "create_approval_token h random uuid now n =
     (let full = token_text ''vap_'' random
      in (full,
          \<lparr> at_id = ''apt_'' @ uuid, at_token_prefix = token_prefix ''vap_'' random,
            at_token_hash = h full, at_delegation_grant_ref = nw_delegation_grant_ref n,
            at_grant_scope = nw_grant_scope n, at_agent_label = nw_agent_label n,
            at_delegator_identity = nw_delegator_identity n, at_tenant = nw_tenant n,
            at_revoked = False, at_expires_at = map_option (\<lambda>d. now + d) (nw_expires_in n),
            at_created_at = now \<rparr>))"

definition looks_like_approval_token :: "string \<Rightarrow> bool" where
  "looks_like_approval_token s = starts_with s ''vap_''"

datatype approval_token_invalid = DelegateRevoked | DelegateExpired

definition check_approval_token :: "instant \<Rightarrow> approval_token \<Rightarrow> approval_token_invalid + unit" where
  "check_approval_token now t =
     (if at_revoked t then Inl DelegateRevoked
      else if (case at_expires_at t of Some e \<Rightarrow> e \<le> now | None \<Rightarrow> False) then Inl DelegateExpired
      else Inr ())"

definition approver_identity :: "approval_token \<Rightarrow> string" where
  "approver_identity t =
     (case at_agent_label t of
        Some l \<Rightarrow> if blank l then ''vap:'' @ at_id t else l
      | None \<Rightarrow> ''vap:'' @ at_id t)"

end
