(* ===== verification/Auth_Manager.thy ===== *)
theory Auth_Manager
  imports Auth
begin

text \<open>
  The manager of roles and API keys, \<open>src/src/auth/manager.rs\<close>, and the check of a request's
  authorisation header, \<open>src/src/auth/middleware.rs\<close>.  Each of its maps is behind its own lock; an
  operation here runs to its end before the next.
\<close>

section \<open>The manager\<close>

datatype auth_manager_error =
    RoleNotFound string
  | RoleAlreadyExists string
  | CannotDeletePredefined string
  | KeyNotFound string
  | InvalidKey
  | KeyExpired
  | PermissionDenied

record auth_manager =
  am_roles :: "role table"
  am_roles_by_name :: "string table"
  am_keys_by_hash :: "api_key table"
  am_keys_by_id :: "string table"

definition is_predefined_role :: "string \<Rightarrow> bool" where
  "is_predefined_role name \<longleftrightarrow> name = ''admin'' \<or> name = ''read-only'' \<or> name = ''executor''"

definition add_role_internal :: "role \<Rightarrow> auth_manager \<Rightarrow> auth_manager" where
  "add_role_internal r m =
     m \<lparr> am_roles_by_name := t_put (rl_name r) (rl_id r) (am_roles_by_name m),
         am_roles := t_put (rl_id r) r (am_roles m) \<rparr>"

definition add_key_internal :: "api_key \<Rightarrow> auth_manager \<Rightarrow> auth_manager" where
  "add_key_internal k m =
     m \<lparr> am_keys_by_id := t_put (ak_id k) (ak_key_hash k) (am_keys_by_id m),
         am_keys_by_hash := t_put (ak_key_hash k) k (am_keys_by_hash m) \<rparr>"

definition manager_new :: "instant \<Rightarrow> auth_manager" where
  "manager_new now =
     add_role_internal (executor_role now) (add_role_internal (read_only_role now)
       (add_role_internal (admin_role now)
          \<lparr> am_roles = [], am_roles_by_name = [], am_keys_by_hash = [], am_keys_by_id = [] \<rparr>))"

definition from_data :: "instant \<Rightarrow> role list \<Rightarrow> api_key list \<Rightarrow> auth_manager" where
  "from_data now roles keys =
     foldl (\<lambda>m k. add_key_internal k m)
       (foldl (\<lambda>m r. if is_predefined_role (rl_name r) then m else add_role_internal r m)
          (manager_new now) roles) keys"

definition create_role ::
  "string \<Rightarrow> instant \<Rightarrow> string \<Rightarrow> permission set \<Rightarrow> string list \<Rightarrow> string option \<Rightarrow> auth_manager
     \<Rightarrow> (auth_manager_error + role) \<times> auth_manager" where
  "create_role uuid now name permissions scopes description m =
     (if t_get (am_roles_by_name m) name \<noteq> None then (Inl (RoleAlreadyExists name), m)
      else (let r = (new_role uuid now name permissions) \<lparr> rl_credential_scopes := scopes \<rparr>;
                r = (case description of Some d \<Rightarrow> r \<lparr> rl_description := Some d \<rparr> | None \<Rightarrow> r)
            in (Inr r, add_role_internal r m)))"

definition get_role :: "string \<Rightarrow> auth_manager \<Rightarrow> role option" where
  "get_role id_or_name m =
     (case t_get (am_roles m) id_or_name of
        Some r \<Rightarrow> Some r
      | None \<Rightarrow>
          (case t_get (am_roles_by_name m) id_or_name of
             Some i \<Rightarrow> t_get (am_roles m) i
           | None \<Rightarrow> None))"

definition get_role_by_name :: "string \<Rightarrow> auth_manager \<Rightarrow> role option" where
  "get_role_by_name name m =
     (case t_get (am_roles_by_name m) name of Some i \<Rightarrow> t_get (am_roles m) i | None \<Rightarrow> None)"

definition delete_role :: "string \<Rightarrow> auth_manager \<Rightarrow> (auth_manager_error + unit) \<times> auth_manager" where
  "delete_role id_or_name m =
     (case get_role id_or_name m of
        None \<Rightarrow> (Inl (RoleNotFound id_or_name), m)
      | Some r \<Rightarrow>
          if is_predefined_role (rl_name r) then (Inl (CannotDeletePredefined (rl_name r)), m)
          else (Inr (), m \<lparr> am_roles := t_del (rl_id r) (am_roles m),
                            am_roles_by_name := t_del (rl_name r) (am_roles_by_name m) \<rparr>))"

definition create_api_key_scoped ::
  "(string \<Rightarrow> string) \<Rightarrow> string \<Rightarrow> string \<Rightarrow> instant \<Rightarrow> string \<Rightarrow> string \<Rightarrow> int option \<Rightarrow> string option
     \<Rightarrow> auth_manager \<Rightarrow> (auth_manager_error + string \<times> api_key) \<times> auth_manager" where
  "create_api_key_scoped h random uuid now name role_name expires_in tenant m =
     (case get_role role_name m of
        None \<Rightarrow> (Inl (RoleNotFound role_name), m)
      | Some r \<Rightarrow>
          (let full = token_text ''vk_'' random;
               k = \<lparr> ak_id = uuid, ak_key_prefix = token_prefix ''vk_'' random, ak_key_hash = h full,
                     ak_name = name, ak_role_id = rl_id r,
                     ak_expires_at = map_option (\<lambda>d. now + d) expires_in, ak_created_at = now,
                     ak_last_used_at = None, ak_agent_label = None, ak_owner_identity = None,
                     ak_tenant = (case map_option trim tenant of
                                    Some t \<Rightarrow> if t = [] then None else Some t
                                  | None \<Rightarrow> None),
                     ak_workload_id = None \<rparr>
           in (Inr (full, k), add_key_internal k m)))"

definition validate_key ::
  "(string \<Rightarrow> string) \<Rightarrow> instant \<Rightarrow> string \<Rightarrow> auth_manager \<Rightarrow> auth_manager_error + api_key \<times> role" where
  "validate_key h now key m =
     (if \<not> starts_with key ''vk_'' then Inl InvalidKey
      else (case t_get (am_keys_by_hash m) (h key) of
              None \<Rightarrow> Inl InvalidKey
            | Some k \<Rightarrow>
                if key_is_expired now k then Inl KeyExpired
                else (case get_role (ak_role_id k) m of
                        None \<Rightarrow> Inl (RoleNotFound (ak_role_id k))
                      | Some r \<Rightarrow> Inr (k, r))))"

definition update_key_last_used :: "instant \<Rightarrow> string \<Rightarrow> auth_manager \<Rightarrow> auth_manager" where
  "update_key_last_used now hsh m =
     (case t_get (am_keys_by_hash m) hsh of
        Some k \<Rightarrow> m \<lparr> am_keys_by_hash := t_put hsh (k \<lparr> ak_last_used_at := Some now \<rparr>) (am_keys_by_hash m) \<rparr>
      | None \<Rightarrow> m)"

definition revoke_api_key :: "string \<Rightarrow> auth_manager \<Rightarrow> (auth_manager_error + unit) \<times> auth_manager" where
  "revoke_api_key i m =
     (case t_get (am_keys_by_id m) i of
        None \<Rightarrow> (Inl (KeyNotFound i), m)
      | Some hsh \<Rightarrow> (Inr (), m \<lparr> am_keys_by_hash := t_del hsh (am_keys_by_hash m),
                                am_keys_by_id := t_del i (am_keys_by_id m) \<rparr>))"

definition check_permission ::
  "url_lib \<Rightarrow> role \<Rightarrow> permission \<Rightarrow> string option \<Rightarrow> auth_manager_error + unit" where
  "check_permission L r p credential_alias =
     (if \<not> has_permission r p then Inl PermissionDenied
      else (case credential_alias of
              Some a \<Rightarrow> if can_access_credential L r a then Inr () else Inl PermissionDenied
            | None \<Rightarrow> Inr ()))"

definition export_roles :: "auth_manager \<Rightarrow> role list" where
  "export_roles m = filter (\<lambda>r. \<not> is_predefined_role (rl_name r)) (map snd (am_roles m))"

definition export_keys :: "auth_manager \<Rightarrow> api_key list" where
  "export_keys m = map snd (am_keys_by_hash m)"

section \<open>Requests\<close>

datatype auth_error =
    MissingAuth
  | InvalidScheme
  | BadKey
  | ExpiredKey
  | NeedsPermission permission
  | CredentialAccessDenied string

record auth_result =
  ax_api_key :: api_key
  ax_role :: role

definition for_use_token :: "use_token \<Rightarrow> auth_result" where
  "for_use_token t =
     (let r = \<lparr> rl_id = ''use-token-role:'' @ ut_id t, rl_name = ''use-token:'' @ ut_name t,
                rl_description = Some ''Ephemeral grant backing a use token'',
                rl_permissions = {Read, Execute}, rl_credential_scopes = [ut_credential_scope t],
                rl_created_at = ut_created_at t \<rparr>
      in \<lparr> ax_api_key =
             \<lparr> ak_id = ut_id t, ak_key_prefix = ut_token_prefix t, ak_key_hash = ut_token_hash t,
               ak_name = ut_name t, ak_role_id = rl_id r, ak_expires_at = ut_expires_at t,
               ak_created_at = ut_created_at t, ak_last_used_at = ut_last_used_at t,
               ak_agent_label = ut_agent_label t, ak_owner_identity = ut_owner_identity t,
               ak_tenant = ut_tenant t, ak_workload_id = None \<rparr>,
           ax_role = r \<rparr>)"

definition require_permission :: "auth_result \<Rightarrow> permission \<Rightarrow> auth_error + unit" where
  "require_permission x p = (if has_permission (ax_role x) p then Inr () else Inl (NeedsPermission p))"

definition require_credential_access :: "url_lib \<Rightarrow> auth_result \<Rightarrow> string \<Rightarrow> auth_error + unit" where
  "require_credential_access L x a =
     (if can_access_credential L (ax_role x) a then Inr () else Inl (CredentialAccessDenied a))"

definition require_permission_for_credential ::
  "url_lib \<Rightarrow> auth_result \<Rightarrow> permission \<Rightarrow> string \<Rightarrow> auth_error + unit" where
  "require_permission_for_credential L x p a =
     (case require_permission x p of Inl e \<Rightarrow> Inl e | Inr _ \<Rightarrow> require_credential_access L x a)"

definition extract_api_key :: "string option \<Rightarrow> auth_error + string" where
  "extract_api_key auth_header =
     (case auth_header of
        None \<Rightarrow> Inl MissingAuth
      | Some header \<Rightarrow>
          (case split_once (CHR '' '') header of
             None \<Rightarrow> Inl InvalidScheme
           | Some (scheme, rest) \<Rightarrow>
               if \<not> eq_ignore_ascii_case scheme ''bearer'' then Inl InvalidScheme
               else if trim rest = [] then Inl BadKey
               else Inr (trim rest)))"

definition validate_request ::
  "(string \<Rightarrow> string) \<Rightarrow> instant \<Rightarrow> string \<Rightarrow> auth_manager \<Rightarrow> (auth_error + auth_result) \<times> auth_manager" where
  "validate_request h now key m =
     (case validate_key h now key m of
        Inl InvalidKey \<Rightarrow> (Inl BadKey, m)
      | Inl KeyExpired \<Rightarrow> (Inl ExpiredKey, m)
      | Inl _ \<Rightarrow> (Inl BadKey, m)
      | Inr (k, r) \<Rightarrow> (Inr \<lparr> ax_api_key = k, ax_role = r \<rparr>, update_key_last_used now (ak_key_hash k) m))"

definition authenticate ::
  "(string \<Rightarrow> string) \<Rightarrow> instant \<Rightarrow> string option \<Rightarrow> auth_manager \<Rightarrow> (auth_error + auth_result) \<times> auth_manager" where
  "authenticate h now auth_header m =
     (case extract_api_key auth_header of
        Inl e \<Rightarrow> (Inl e, m)
      | Inr key \<Rightarrow> validate_request h now key m)"

section \<open>Indexes and records agree\<close>

text \<open>Every key is stored under its own hash, and every role that can be found is one that was
  added, under its identifier.\<close>

definition manager_ok :: "role set \<Rightarrow> api_key set \<Rightarrow> auth_manager \<Rightarrow> bool" where
  "manager_ok rs ks m \<longleftrightarrow>
     (\<forall>hsh k. t_get (am_keys_by_hash m) hsh = Some k \<longrightarrow> k \<in> ks \<and> ak_key_hash k = hsh)
     \<and> (\<forall>i r. t_get (am_roles m) i = Some r \<longrightarrow> r \<in> rs \<and> rl_id r = i)
     \<and> (\<forall>n i. t_get (am_roles_by_name m) n = Some i \<longrightarrow> (\<exists>r \<in> rs. rl_name r = n \<and> rl_id r = i))"

lemma add_role_ok: "manager_ok rs ks m \<Longrightarrow> manager_ok (insert r rs) ks (add_role_internal r m)"
  by (auto simp: manager_ok_def add_role_internal_def)

lemma add_key_ok: "manager_ok rs ks m \<Longrightarrow> manager_ok rs (insert k ks) (add_key_internal k m)"
  by (auto simp: manager_ok_def add_key_internal_def)

lemma manager_ok_mono: "manager_ok rs ks m \<Longrightarrow> rs \<subseteq> rs' \<Longrightarrow> ks \<subseteq> ks' \<Longrightarrow> manager_ok rs' ks' m"
  unfolding manager_ok_def by (meson subsetD)

definition builtin_roles :: "instant \<Rightarrow> role set" where
  "builtin_roles now = {admin_role now, read_only_role now, executor_role now}"

lemma manager_new_ok: "manager_ok (builtin_roles now) {} (manager_new now)"
proof -
  have "manager_ok {} {} \<lparr> am_roles = [], am_roles_by_name = [], am_keys_by_hash = [], am_keys_by_id = [] \<rparr>"
    by (simp add: manager_ok_def)
  then show ?thesis
    unfolding manager_new_def builtin_roles_def
    by (intro manager_ok_mono [OF add_role_ok [OF add_role_ok [OF add_role_ok]]]) auto
qed

lemma from_data_ok:
  "manager_ok (builtin_roles now \<union> {r \<in> set roles. \<not> is_predefined_role (rl_name r)}) (set keys)
     (from_data now roles keys)"
proof -
  have r: "manager_ok rs ks m \<Longrightarrow>
      manager_ok (rs \<union> {r \<in> set roles. \<not> is_predefined_role (rl_name r)}) ks
        (foldl (\<lambda>m r. if is_predefined_role (rl_name r) then m else add_role_internal r m) m roles)"
    for rs ks m and roles :: "role list"
  proof (induction roles arbitrary: rs m)
    case (Cons a roles)
    then show ?case
      using Cons.IH [OF add_role_ok [OF Cons.prems]] Cons.IH [OF Cons.prems]
      by (auto intro: manager_ok_mono)
  qed simp
  have k: "manager_ok rs ks m \<Longrightarrow> manager_ok rs (ks \<union> set keys) (foldl (\<lambda>m k. add_key_internal k m) m keys)"
    for rs ks m and keys :: "api_key list"
  proof (induction keys arbitrary: ks m)
    case (Cons a keys)
    then show ?case using Cons.IH [OF add_key_ok [OF Cons.prems, of a]] by simp
  qed simp
  show ?thesis
    using k [OF r [OF manager_new_ok [of now], of roles], of keys] by (simp add: from_data_def)
qed

lemma validated_key:
  assumes "manager_ok rs ks m" "validate_key h now key m = Inr (k, r)"
  shows "k \<in> ks \<and> ak_key_hash k = h key \<and> \<not> key_is_expired now k
    \<and> r \<in> rs \<and> (rl_id r = ak_role_id k \<or> (\<exists>r' \<in> rs. rl_name r' = ak_role_id k \<and> rl_id r' = rl_id r))"
  using assms
  by (auto simp: validate_key_def manager_ok_def get_role_def split: if_splits option.splits)

end
