(* ===== verification/Drafts.thy ===== *)
theory Drafts
  imports Credentials
begin

text \<open>
  Records of provider-native draft operations, \<open>src/src/storage/social.rs\<close>: their keys, receipts and
  the shape the vault demands of them.  The notation of a key as JSON is the parameter \<open>jkey\<close>.
\<close>

section \<open>Keys and receipts\<close>

record native_draft_key =
  dk_tenant :: string
  dk_project_ref :: string
  dk_provider :: string
  dk_target_alias :: string
  dk_credential_alias :: string
  dk_campaign_id :: string
  dk_variant_id :: string
  dk_row_version :: u64

record native_draft_metadata =
  dm_approval_id :: string
  dm_execution_epoch :: u64
  dm_principal_id :: "string option"
  dm_agent_label :: "string option"
  dm_content_hash :: string
  dm_credential_id :: string

datatype draft_sync_status = Reserved | Succeeded | DraftFailed | DraftUnknown | Drift

record draft_receipt =
  rp_provider :: string
  rp_campaign_id :: string
  rp_variant_id :: string
  rp_row_version :: u64
  rp_content_hash :: string
  rp_channel_ref :: string
  rp_external_content_hash :: "string option"
  rp_external_id :: "string option"
  rp_external_status :: "string option"
  rp_review_url :: "string option"
  rp_sync_status :: draft_sync_status

record native_draft_record =
  nd_key :: native_draft_key
  nd_payload_hash :: string
  nd_metadata :: native_draft_metadata
  nd_reservation_token :: string
  nd_status :: draft_sync_status
  nd_receipt :: "draft_receipt option"
  nd_original_receipt :: "draft_receipt option"
  nd_error :: "string option"
  nd_created_at :: instant
  nd_updated_at :: instant

datatype native_draft_reservation = FreshDraft native_draft_record | ExistingDraft native_draft_record

record native_draft_outcome =
  no_status :: draft_sync_status
  no_receipt :: "draft_receipt option"
  no_error :: "string option"

section \<open>Checks\<close>

text \<open>The first failing check of a list of checks, each a condition that must hold and its message.\<close>

fun all_checks :: "(bool \<times> string) list \<Rightarrow> string + unit" where
  "all_checks [] = Inr ()"
| "all_checks ((ok, message) # cs) = (if ok then all_checks cs else Inl message)"

definition bounded :: "string \<Rightarrow> nat \<Rightarrow> bool" where
  "bounded v most \<longleftrightarrow> \<not> blank v \<and> char_count v \<le> most"

definition opt_bounded :: "string option \<Rightarrow> nat \<Rightarrow> bool" where
  "opt_bounded v most = (case v of None \<Rightarrow> True | Some s \<Rightarrow> bounded s most)"

definition key_field :: "string \<Rightarrow> string \<Rightarrow> nat \<Rightarrow> (bool \<times> string) list" where
  "key_field name v most =
     [(\<not> blank v, ''native draft '' @ name @ '' is blank''),
      (char_count v \<le> most, ''native draft '' @ name @ '' is too long'')]"

definition key_checks :: "native_draft_key \<Rightarrow> (bool \<times> string) list" where
  "key_checks k =
     key_field ''tenant'' (dk_tenant k) 256 @ key_field ''project_ref'' (dk_project_ref k) 512
     @ key_field ''provider'' (dk_provider k) 256 @ key_field ''target_alias'' (dk_target_alias k) 256
     @ key_field ''credential_alias'' (dk_credential_alias k) 256
     @ key_field ''campaign_id'' (dk_campaign_id k) 256 @ key_field ''variant_id'' (dk_variant_id k) 256
     @ [(dk_row_version k \<noteq> 0, ''native draft row_version must be positive'')]"

definition validate_draft_key :: "native_draft_key \<Rightarrow> string + unit" where
  "validate_draft_key k = all_checks (key_checks k)"

definition sha256_hex :: "string \<Rightarrow> bool" where
  "sha256_hex s \<longleftrightarrow> length s = 64 \<and> list_all (\<lambda>c. hex_value c \<noteq> None) s"

definition settled :: "draft_sync_status \<Rightarrow> bool" where
  "settled s \<longleftrightarrow> s = Succeeded \<or> s = Drift"

definition receipt_checks ::
  "native_draft_key \<Rightarrow> string \<Rightarrow> draft_sync_status \<Rightarrow> draft_receipt \<Rightarrow> (bool \<times> string) list" where
  "receipt_checks k content_hash outcome r =
     [(bounded (rp_provider r) 256, ''native draft receipt provider is invalid''),
      (bounded (rp_campaign_id r) 256, ''native draft receipt campaign is invalid''),
      (bounded (rp_variant_id r) 256, ''native draft receipt variant is invalid''),
      (bounded (rp_channel_ref r) 256, ''native draft receipt target is invalid''),
      (bounded (rp_content_hash r) 128, ''native draft receipt content hash is invalid''),
      (rp_provider r = dk_provider k \<and> rp_campaign_id r = dk_campaign_id k
         \<and> rp_variant_id r = dk_variant_id k \<and> rp_row_version r = dk_row_version k
         \<and> rp_channel_ref r = dk_target_alias k \<and> rp_content_hash r = content_hash,
       ''native draft receipt identity does not match its key''),
      (rp_sync_status r = outcome, ''native draft receipt status does not match record status''),
      (opt_bounded (rp_external_id r) 256, ''native draft external id is invalid''),
      (opt_bounded (rp_external_content_hash r) 128, ''native draft external content hash is invalid''),
      (case rp_external_content_hash r of None \<Rightarrow> True | Some s \<Rightarrow> sha256_hex s,
       ''native draft external content hash is not SHA-256 hex''),
      (opt_bounded (rp_external_status r) 256, ''native draft external status is invalid''),
      (opt_bounded (rp_review_url r) 2048, ''native draft review URL is invalid''),
      (\<not> (settled outcome \<and> (blank_opt (rp_external_id r) \<or> blank_opt (rp_external_status r))),
       ''successful/drift native draft receipt lacks provider identity/status''),
      (\<not> (settled outcome \<and> blank_opt (rp_external_content_hash r)),
       ''successful/drift native draft receipt lacks provider content digest'')]"

definition record_checks :: "native_draft_record \<Rightarrow> (bool \<times> string) list" where
  "record_checks d =
     (let m = nd_metadata d in
      key_checks (nd_key d)
      @ [(bounded (nd_payload_hash d) 128, ''native draft payload_hash is invalid''),
         (bounded (dm_approval_id m) 256, ''native draft approval identity is invalid''),
         (dm_execution_epoch m \<noteq> 0, ''native draft execution_epoch must be positive''),
         (opt_bounded (dm_principal_id m) 256, ''native draft principal is invalid''),
         (dm_principal_id m \<noteq> None, ''native draft principal identity is missing''),
         (opt_bounded (dm_agent_label m) 256, ''native draft agent label is invalid''),
         (bounded (dm_credential_id m) 256, ''native draft credential identity is invalid''),
         (sha256_hex (dm_content_hash m), ''native draft canonical content hash is not SHA-256 hex''),
         (bounded (nd_reservation_token d) 128, ''native draft reservation token is invalid''),
         (case nd_error d of None \<Rightarrow> True | Some e \<Rightarrow> char_count e \<le> 4096, ''native draft error is too long''),
         (\<not> (nd_status d = Reserved \<and> nd_receipt d \<noteq> None),
          ''reserved native draft cannot carry a receipt'')]
      @ (case nd_receipt d of
           None \<Rightarrow> []
         | Some r \<Rightarrow> receipt_checks (nd_key d) (dm_content_hash m) (nd_status d) r)
      @ (case nd_original_receipt d of
           None \<Rightarrow> []
         | Some r \<Rightarrow> receipt_checks (nd_key d) (dm_content_hash m) (rp_sync_status r) r)
      @ [(\<not> (settled (nd_status d) \<and> nd_receipt d = None),
          ''successful/drift native draft lacks a receipt''),
         (nd_created_at d \<le> nd_updated_at d, ''native draft timestamps are out of order'')])"

definition validate_draft :: "native_draft_record \<Rightarrow> string + unit" where
  "validate_draft d = all_checks (record_checks d)"

section \<open>What passes\<close>

lemma all_checks_append: "all_checks (a @ b) = (case all_checks a of Inl e \<Rightarrow> Inl e | Inr _ \<Rightarrow> all_checks b)"
  by (induction a rule: all_checks.induct) auto

lemma all_checks_Inr: "all_checks cs = Inr () \<longleftrightarrow> list_all fst cs"
  by (induction cs rule: all_checks.induct) auto

text \<open>A confirmed draft carries a receipt of its own key and content.\<close>

lemma settled_receipt:
  assumes "validate_draft d = Inr ()" "settled (nd_status d)"
  obtains r where "nd_receipt d = Some r" "rp_sync_status r = nd_status d"
    "rp_provider r = dk_provider (nd_key d)" "rp_row_version r = dk_row_version (nd_key d)"
    "rp_content_hash r = dm_content_hash (nd_metadata d)" "\<not> blank_opt (rp_external_id r)"
  using assms
  by (auto simp: validate_draft_def record_checks_def Let_def all_checks_Inr receipt_checks_def
      split: option.splits)

end
