(* ===== verification/Capability.thy ===== *)
theory Capability
  imports Url_Canon Credentials
begin

text \<open>
  Capabilities of \<open>src/src/capability/mod.rs\<close>: named tools bound to a credential and an action, with
  the checks made when one is stored, the subset of JSON Schema their arguments are checked against,
  the parameters a call is built from, and the upstream address of a model channel.

  The URL parser, the glob constructor and the Unicode upper case of the standard library are
  arguments.  An object keeps its keys in order, as the map of the JSON package does.
\<close>

section \<open>Data\<close>

record capability_target =
  ct_url_glob :: "string option"
  ct_methods :: "string list"
  ct_plugin_params :: "(string \<times> json) list"

record llm_proxy =
  lp_protocol :: string
  lp_provider :: "string option"
  lp_region :: "string option"
  lp_provider_base :: string
  lp_allowed_models :: "string list"
  lp_max_output_tokens :: "u64 option"
  lp_reasoning_effort :: "string option"

record preview_field_spec =
  ps_label :: string
  ps_path :: string
  ps_format :: "string option"

record approval_preview_spec =
  px_title :: "string option"
  px_fields :: "preview_field_spec list"

record capability =
  cp_id :: string
  cp_tool_name :: string
  cp_description :: string
  cp_action :: string
  cp_plugin :: "string option"
  cp_target :: capability_target
  cp_credential_ref :: string
  cp_input_schema :: json
  cp_reversibility :: string
  cp_llm :: "llm_proxy option"
  cp_approval_preview :: "approval_preview_spec option"

definition max_input_schema_depth :: nat where
  "max_input_schema_depth = 32"

definition llm_protocols :: "string list" where
  "llm_protocols =
     [''openai-chat'', ''openai-responses'', ''azure-openai'', ''anthropic-messages'', ''bedrock-converse'',
      ''bedrock-invoke'', ''gemini'', ''vertex-ai'', ''nvidia'', ''observed-only'']"

definition llm_reasoning_efforts :: "string list" where
  "llm_reasoning_efforts = [''none'', ''minimal'', ''low'', ''medium'', ''high'']"

definition llm_reasoning_effort_protocols :: "string list" where
  "llm_reasoning_effort_protocols = [''openai-chat'', ''openai-responses'']"

definition internal_http_plugin :: string where
  "internal_http_plugin = ''internal_http''"

definition internal_http_verbs :: "string list" where
  "internal_http_verbs = [''GET'', ''HEAD'', ''POST'', ''PUT'', ''PATCH'', ''DELETE'', ''OPTIONS'']"

definition reserved_tool_names :: "string list" where
  "reserved_tool_names = [''list_credentials'', ''http_request'', ''get_credential_info'', ''check_approval'']"

section \<open>Previews\<close>

text \<open>The number a text denotes, as the standard library reads a \<open>usize\<close>.\<close>

fun decimal :: "nat \<Rightarrow> string \<Rightarrow> nat option" where
  "decimal acc [] = Some acc"
| "decimal acc (c # s) =
     (if 48 \<le> byte c \<and> byte c \<le> 57 then decimal (10 * acc + (byte c - 48)) s else None)"

definition parse_usize :: "string \<Rightarrow> nat option" where
  "parse_usize s =
     (let digits = (case s of CHR ''+'' # t \<Rightarrow> t | _ \<Rightarrow> s)
      in case digits of
           [] \<Rightarrow> None
         | _ \<Rightarrow> (case decimal 0 digits of Some n \<Rightarrow> if n < 2 ^ 64 then Some n else None | None \<Rightarrow> None))"

fun dot_path_from :: "json \<Rightarrow> string list \<Rightarrow> json option" where
  "dot_path_from v [] = Some v"
| "dot_path_from v (s # ss) =
     (if s = [] then None
      else
        (case v of
           JObj kvs \<Rightarrow> (case map_of kvs s of Some w \<Rightarrow> dot_path_from w ss | None \<Rightarrow> None)
         | JArr xs \<Rightarrow>
             (case parse_usize s of
                Some i \<Rightarrow> if i < length xs then dot_path_from (xs ! i) ss else None
              | None \<Rightarrow> None)
         | _ \<Rightarrow> None))"

definition dot_path_get :: "json \<Rightarrow> string \<Rightarrow> json option" where
  "dot_path_get v path = dot_path_from v (split_on (CHR ''.'') path)"

text \<open>\<open>show\<close> prints a number.\<close>

fun coerce_preview_value :: "(json \<Rightarrow> string) \<Rightarrow> json \<Rightarrow> string option" where
  "coerce_preview_value show (JStr s) = Some s"
| "coerce_preview_value show (JPos n) = Some (show (JPos n))"
| "coerce_preview_value show (JNeg n) = Some (show (JNeg n))"
| "coerce_preview_value show (JFloat t) = Some (show (JFloat t))"
| "coerce_preview_value show (JBool b) = Some (if b then ''true'' else ''false'')"
| "coerce_preview_value show JNull = None"
| "coerce_preview_value show (JArr _) = None"
| "coerce_preview_value show (JObj _) = None"

definition preview_field_of :: "(json \<Rightarrow> string) \<Rightarrow> json \<Rightarrow> preview_field_spec \<Rightarrow> preview_field option" where
  "preview_field_of show params s =
     (case dot_path_get params (ps_path s) of
        None \<Rightarrow> None
      | Some v \<Rightarrow>
          map_option (\<lambda>d. \<lparr> pf_label = ps_label s, pf_value = d,
                            pf_format = (case ps_format s of Some f \<Rightarrow> f | None \<Rightarrow> ''inline'') \<rparr>)
            (coerce_preview_value show v))"

definition extract_preview :: "(json \<Rightarrow> string) \<Rightarrow> approval_preview_spec \<Rightarrow> json \<Rightarrow> approval_preview" where
  "extract_preview show spec params =
     \<lparr> ap_title = px_title spec, ap_fields = List.map_filter (preview_field_of show params) (px_fields spec) \<rparr>"

section \<open>Schemas\<close>

datatype schema_error =
    SchemaTooDeep string
  | SchemaNotObject string
  | BadSchemaType string
  | RequiredNotArray string
  | RequiredNotString string nat
  | PropertiesNotObject string
  | BadAdditional string
  | EnumNotArray string
  | BadBound string string

definition json_type_names :: "string list" where
  "json_type_names = [''object'', ''array'', ''string'', ''number'', ''integer'', ''boolean'', ''null'']"

definition validate_schema_type :: "json \<Rightarrow> string \<Rightarrow> schema_error + unit" where
  "validate_schema_type t path =
     (if (case j_str t of
            Some s \<Rightarrow> s \<in> set json_type_names
          | None \<Rightarrow>
              (case j_arr t of
                 Some xs \<Rightarrow>
                   xs \<noteq> [] \<and> list_all (\<lambda>x. case j_str x of Some s \<Rightarrow> s \<in> set json_type_names | None \<Rightarrow> False) xs
               | None \<Rightarrow> False))
      then Inr () else Inl (BadSchemaType path))"

fun first_not_string :: "nat \<Rightarrow> json list \<Rightarrow> nat option" where
  "first_not_string i [] = None"
| "first_not_string i (x # xs) = (if j_str x = None then Some i else first_not_string (Suc i) xs)"

definition validate_required :: "(string \<times> json) list \<Rightarrow> string \<Rightarrow> schema_error + unit" where
  "validate_required obj path =
     (case map_of obj ''required'' of
        None \<Rightarrow> Inr ()
      | Some r \<Rightarrow>
          (case j_arr r of
             None \<Rightarrow> Inl (RequiredNotArray path)
           | Some xs \<Rightarrow>
               (case first_not_string 0 xs of Some i \<Rightarrow> Inl (RequiredNotString path i) | None \<Rightarrow> Inr ())))"

definition validate_bounds :: "(string \<times> json) list \<Rightarrow> string \<Rightarrow> schema_error + unit" where
  "validate_bounds obj path =
     (case find (\<lambda>k. case map_of obj k of Some v \<Rightarrow> j_u64 v = None | None \<Rightarrow> False)
             [''minLength'', ''maxLength'', ''minItems'', ''maxItems''] of
        Some k \<Rightarrow> Inl (BadBound k path)
      | None \<Rightarrow> Inr ())"

text \<open>The first error of a list of checks.\<close>

fun first_error :: "('e + unit) list \<Rightarrow> 'e + unit" where
  "first_error [] = Inr ()"
| "first_error (Inl e # _) = Inl e"
| "first_error (Inr _ # rs) = first_error rs"

text \<open>The depth of a nested schema is one more than that of the schema around it.\<close>

function validate_schema_shape :: "json \<Rightarrow> string \<Rightarrow> nat \<Rightarrow> schema_error + unit" where
  "validate_schema_shape schema path depth =
     (if max_input_schema_depth < depth then Inl (SchemaTooDeep path)
      else
        (case j_obj schema of
           None \<Rightarrow> Inl (SchemaNotObject path)
         | Some obj \<Rightarrow> first_error
             [case map_of obj ''type'' of Some t \<Rightarrow> validate_schema_type t path | None \<Rightarrow> Inr (),
              validate_required obj path,
              case map_of obj ''properties'' of
                None \<Rightarrow> Inr ()
              | Some p \<Rightarrow>
                  (case j_obj p of
                     None \<Rightarrow> Inl (PropertiesNotObject path)
                   | Some ps \<Rightarrow>
                       first_error (map (\<lambda>(name, child).
                         validate_schema_shape child (path @ ''.properties.'' @ name) (Suc depth)) ps)),
              case map_of obj ''additionalProperties'' of
                None \<Rightarrow> Inr ()
              | Some a \<Rightarrow>
                  (case a of
                     JBool _ \<Rightarrow> Inr ()
                   | JObj _ \<Rightarrow> validate_schema_shape a (path @ ''.additionalProperties'') (Suc depth)
                   | _ \<Rightarrow> Inl (BadAdditional path)),
              case map_of obj ''items'' of
                None \<Rightarrow> Inr ()
              | Some items \<Rightarrow> validate_schema_shape items (path @ ''.items'') (Suc depth),
              case map_of obj ''enum'' of
                None \<Rightarrow> Inr ()
              | Some vs \<Rightarrow> if j_arr vs = None then Inl (EnumNotArray path) else Inr (),
              validate_bounds obj path]))"
  by pat_completeness auto

termination
  by (relation "measure (\<lambda>(schema, path, depth). Suc max_input_schema_depth - depth)") auto

declare validate_schema_shape.simps [simp del]

definition validate_input_schema_definition :: "json \<Rightarrow> (schema_error option) + unit" where
  "validate_input_schema_definition schema =
     (if schema = JNull then Inr ()
      else if j_obj schema = None then Inl None
      else (case validate_schema_shape schema ''$'' 0 of Inl e \<Rightarrow> Inl (Some e) | Inr _ \<Rightarrow> Inr ()))"

section \<open>Arguments against a schema\<close>

datatype input_error =
    InputTooDeep string
  | InputSchemaNotObject string
  | NotTheConstant string
  | NotInEnum string
  | WrongType string
  | TooShort string
  | TooLong string
  | TooFewItems string
  | TooManyItems string
  | MissingField string string
  | UnknownField string string

definition json_type_matches :: "string \<Rightarrow> json \<Rightarrow> bool" where
  "json_type_matches kind v =
     (if kind = ''object'' then j_obj v \<noteq> None
      else if kind = ''array'' then j_arr v \<noteq> None
      else if kind = ''string'' then j_str v \<noteq> None
      else if kind = ''number'' then (case v of JPos _ \<Rightarrow> True | JNeg _ \<Rightarrow> True | JFloat _ \<Rightarrow> True | _ \<Rightarrow> False)
      else if kind = ''integer'' then (case v of JPos _ \<Rightarrow> True | JNeg _ \<Rightarrow> True | _ \<Rightarrow> False)
      else if kind = ''boolean'' then j_bool v \<noteq> None
      else if kind = ''null'' then v = JNull
      else False)"

definition type_admits :: "json \<Rightarrow> json \<Rightarrow> bool" where
  "type_admits t v =
     (case j_str t of
        Some kind \<Rightarrow> json_type_matches kind v
      | None \<Rightarrow>
          (case j_arr t of
             Some ts \<Rightarrow> list_ex (\<lambda>k. case j_str k of Some kind \<Rightarrow> json_type_matches kind v | None \<Rightarrow> False) ts
           | None \<Rightarrow> False))"

definition bound_of :: "(string \<times> json) list \<Rightarrow> string \<Rightarrow> nat option" where
  "bound_of obj k = map_option unat (Option.bind (map_of obj k) j_u64)"

definition opt_all :: "('a \<Rightarrow> bool) \<Rightarrow> 'a option \<Rightarrow> bool" where
  "opt_all P x = (case x of Some y \<Rightarrow> P y | None \<Rightarrow> True)"

text \<open>The checks of one level; \<open>char_count\<close> counts characters.\<close>

definition check_scalar :: "(string \<times> json) list \<Rightarrow> json \<Rightarrow> string \<Rightarrow> input_error + unit" where
  "check_scalar obj v path =
     (if \<not> opt_all (\<lambda>c. v = c) (map_of obj ''const'') then Inl (NotTheConstant path)
      else if \<not> opt_all (\<lambda>vs. v \<in> set vs) (Option.bind (map_of obj ''enum'') j_arr) then Inl (NotInEnum path)
      else if \<not> opt_all (\<lambda>t. type_admits t v) (map_of obj ''type'') then Inl (WrongType path)
      else
        (case v of
           JStr s \<Rightarrow>
             if \<not> opt_all (\<lambda>n. n \<le> char_count s) (bound_of obj ''minLength'') then Inl (TooShort path)
             else if \<not> opt_all (\<lambda>n. char_count s \<le> n) (bound_of obj ''maxLength'') then Inl (TooLong path)
             else Inr ()
         | JArr xs \<Rightarrow>
             if \<not> opt_all (\<lambda>n. n \<le> length xs) (bound_of obj ''minItems'') then Inl (TooFewItems path)
             else if \<not> opt_all (\<lambda>n. length xs \<le> n) (bound_of obj ''maxItems'') then Inl (TooManyItems path)
             else Inr ()
         | JObj kvs \<Rightarrow>
             (case find (\<lambda>k. case j_str k of Some name \<Rightarrow> map_of kvs name = None | None \<Rightarrow> False)
                     (case Option.bind (map_of obj ''required'') j_arr of Some rs \<Rightarrow> rs | None \<Rightarrow> []) of
                Some k \<Rightarrow> Inl (MissingField (case j_str k of Some name \<Rightarrow> name | None \<Rightarrow> []) path)
              | None \<Rightarrow> Inr ())
         | _ \<Rightarrow> Inr ()))"

text \<open>The schema of a field: the one declared for it, else the one for additional fields.\<close>

definition field_schema :: "(string \<times> json) list \<Rightarrow> string \<Rightarrow> (json option) option" where
  "field_schema obj name =
     (case Option.bind (Option.bind (map_of obj ''properties'') j_obj) (\<lambda>ps. map_of ps name) of
        Some s \<Rightarrow> Some (Some s)
      | None \<Rightarrow>
          (case map_of obj ''additionalProperties'' of
             Some (JBool False) \<Rightarrow> None
           | Some (JObj a) \<Rightarrow> Some (Some (JObj a))
           | _ \<Rightarrow> Some None))"

function validate_json_schema :: "json \<Rightarrow> json \<Rightarrow> string \<Rightarrow> nat \<Rightarrow> input_error + unit" where
  "validate_json_schema schema v path depth =
     (if max_input_schema_depth < depth then Inl (InputTooDeep path)
      else
        (case j_obj schema of
           None \<Rightarrow> Inl (InputSchemaNotObject path)
         | Some obj \<Rightarrow> first_error
             [check_scalar obj v path,
              case j_arr v of
                None \<Rightarrow> Inr ()
              | Some xs \<Rightarrow>
                  (case map_of obj ''items'' of
                     None \<Rightarrow> Inr ()
                   | Some item_schema \<Rightarrow>
                       first_error (map (\<lambda>(i, x).
                         validate_json_schema item_schema x (path @ ''['' @ show_nat i @ '']'') (Suc depth))
                         (enumerate 0 xs))),
              case j_obj v of
                None \<Rightarrow> Inr ()
              | Some kvs \<Rightarrow>
                  first_error (map (\<lambda>(name, child).
                    case field_schema obj name of
                      None \<Rightarrow> Inl (UnknownField name path)
                    | Some None \<Rightarrow> Inr ()
                    | Some (Some s) \<Rightarrow> validate_json_schema s child (path @ ''.'' @ name) (Suc depth)) kvs)]))"
  by pat_completeness auto

termination
  by (relation "measure (\<lambda>(schema, v, path, depth). Suc max_input_schema_depth - depth)") auto

declare validate_json_schema.simps [simp del]

definition empty_object_schema :: json where
  "empty_object_schema = JObj [(''properties'', JObj []), (''type'', JStr ''object'')]"

definition validate_input :: "capability \<Rightarrow> json \<Rightarrow> input_error + unit" where
  "validate_input c args =
     validate_json_schema (if j_obj (cp_input_schema c) \<noteq> None then cp_input_schema c else empty_object_schema)
       args ''$'' 0"

section \<open>The verb of the internal transport\<close>

datatype method_error =
    MethodNotString
  | MethodsDisagree string "string list"
  | NoMethod
  | ManyMethods "string list"
  | NotAVerb string

definition declared_methods :: "capability \<Rightarrow> string list" where
  "declared_methods c = filter (\<lambda>m. m \<noteq> []) (map (\<lambda>m. ascii_upper (trim m)) (ct_methods (cp_target c)))"

definition resolve_pinned_http_method :: "capability \<Rightarrow> method_error + string" where
  "resolve_pinned_http_method c =
     (let declared = declared_methods c in
      case map_of (ct_plugin_params (cp_target c)) ''method'' of
        Some v \<Rightarrow>
          (case j_str v of
             None \<Rightarrow> Inl MethodNotString
           | Some s \<Rightarrow>
               (let p = ascii_upper (trim s)
                in if declared = [] \<or> declared = [p]
                   then (if p \<in> set internal_http_verbs then Inr p else Inl (NotAVerb p))
                   else Inl (MethodsDisagree p declared)))
      | None \<Rightarrow>
          (case declared of
             [] \<Rightarrow> Inl NoMethod
           | [m] \<Rightarrow> if m \<in> set internal_http_verbs then Inr m else Inl (NotAVerb m)
           | ms \<Rightarrow> Inl (ManyMethods ms)))"

definition declares_internal_http :: "capability \<Rightarrow> bool" where
  "declares_internal_http c \<longleftrightarrow>
     map_option trim (cp_plugin c) = Some internal_http_plugin \<or> trim (cp_action c) = ''internal_http.request''"

definition effective_http_method :: "capability \<Rightarrow> string option" where
  "effective_http_method c =
     (let first = (case ct_methods (cp_target c) of m # _ \<Rightarrow> Some m | [] \<Rightarrow> None)
      in if declares_internal_http c
         then (case resolve_pinned_http_method c of Inr m \<Rightarrow> Some m | Inl _ \<Rightarrow> first)
         else first)"

section \<open>Stored capabilities\<close>

datatype capability_error =
    EmptyToolName
  | BadToolName string
  | ReservedToolName string
  | EmptyAction
  | EmptyCredentialRef
  | BadSchema "schema_error option"
  | BadReversibility string
  | BadUrlGlob string
  | UnknownProtocol string
  | BadEffort string
  | EffortUnsupported string
  | EmptyProviderBase
  | ProviderBaseNotUrl string
  | ProviderBaseScheme string
  | ProviderBaseLinkLocal string
  | ProviderBaseNotNvidia string
  | BadMethod method_error

definition ends_with :: "string \<Rightarrow> string \<Rightarrow> bool" where
  "ends_with s t \<longleftrightarrow> starts_with (rev s) (rev t)"

definition bare_host :: "string \<Rightarrow> string" where
  "bare_host host = ascii_lower (trim_end_char (CHR '']'') (dropWhile (\<lambda>c. c = CHR ''['') host))"

definition validate_provider :: "url_lib \<Rightarrow> llm_proxy \<Rightarrow> capability_error + unit" where
  "validate_provider L l =
     (let base = trim (lp_provider_base l) in
      if base = [] then Inl EmptyProviderBase
      else
        (case ul_parse L base of
           None \<Rightarrow> Inl (ProviderBaseNotUrl base)
         | Some u \<Rightarrow>
             if ul_scheme L u \<noteq> ''http'' \<and> ul_scheme L u \<noteq> ''https'' then Inl (ProviderBaseScheme base)
             else
               (case ul_host_str L u of
                  None \<Rightarrow> Inr ()
                | Some host \<Rightarrow>
                    (let h = bare_host host;
                         link_local = (case ul_ip L u of
                                         Some ip \<Rightarrow> is_link_local_or_metadata_ip ip
                                       | None \<Rightarrow> starts_with h ''169.254.'')
                     in if link_local then Inl (ProviderBaseLinkLocal base)
                        else if lp_protocol l = ''nvidia'' \<and> \<not> (h = ''nvidia.com'' \<or> ends_with h ''.nvidia.com'')
                        then Inl (ProviderBaseNotNvidia base)
                        else Inr ()))))"

definition validate_llm :: "url_lib \<Rightarrow> llm_proxy \<Rightarrow> capability_error + unit" where
  "validate_llm L l =
     (if lp_protocol l \<notin> set llm_protocols then Inl (UnknownProtocol (lp_protocol l))
      else
        (case lp_reasoning_effort l of
           Some e \<Rightarrow>
             if e \<notin> set llm_reasoning_efforts then Inl (BadEffort e)
             else if lp_protocol l \<notin> set llm_reasoning_effort_protocols then Inl (EffortUnsupported (lp_protocol l))
             else validate_provider L l
         | None \<Rightarrow> validate_provider L l))"

definition tool_name_char :: "char \<Rightarrow> bool" where
  "tool_name_char c \<longleftrightarrow>
     97 \<le> byte c \<and> byte c \<le> 122 \<or> 48 \<le> byte c \<and> byte c \<le> 57 \<or> c = CHR ''_''"

definition validate_capability :: "url_lib \<Rightarrow> capability \<Rightarrow> capability_error + unit" where
  "validate_capability L c =
     (let name = trim (cp_tool_name c) in
      if name = [] then Inl EmptyToolName
      else if \<not> list_all tool_name_char name then Inl (BadToolName name)
      else if name \<in> set reserved_tool_names then Inl (ReservedToolName name)
      else if trim (cp_action c) = [] then Inl EmptyAction
      else if trim (cp_credential_ref c) = [] then Inl EmptyCredentialRef
      else
        (case validate_input_schema_definition (cp_input_schema c) of
           Inl e \<Rightarrow> Inl (BadSchema e)
         | Inr _ \<Rightarrow>
             if trim (cp_reversibility c) \<notin> {''reversible'', ''partially-reversible'', ''irreversible''}
             then Inl (BadReversibility (trim (cp_reversibility c)))
             else if \<not> opt_all (\<lambda>g. ul_glob L g \<noteq> None) (ct_url_glob (cp_target c))
             then Inl (BadUrlGlob (case ct_url_glob (cp_target c) of Some g \<Rightarrow> g | None \<Rightarrow> []))
             else
               (case (case cp_llm c of Some l \<Rightarrow> validate_llm L l | None \<Rightarrow> Inr ()) of
                  Inl e \<Rightarrow> Inl e
                | Inr _ \<Rightarrow>
                    if declares_internal_http c
                    then (case resolve_pinned_http_method c of Inl e \<Rightarrow> Inl (BadMethod e) | Inr _ \<Rightarrow> Inr ())
                    else Inr ())))"

section \<open>Model channels\<close>

definition is_llm_proxy :: "capability \<Rightarrow> bool" where
  "is_llm_proxy c \<longleftrightarrow> cp_llm c \<noteq> None"

definition llm_model_allowed :: "capability \<Rightarrow> string option \<Rightarrow> bool" where
  "llm_model_allowed c requested =
     (case cp_llm c of
        None \<Rightarrow> True
      | Some l \<Rightarrow>
          if lp_allowed_models l = [] then True
          else (case requested of Some m \<Rightarrow> m \<in> set (lp_allowed_models l) | None \<Rightarrow> False))"

definition llm_max_output_tokens :: "capability \<Rightarrow> u64 option" where
  "llm_max_output_tokens c = Option.bind (cp_llm c) lp_max_output_tokens"

definition llm_reasoning_effort :: "capability \<Rightarrow> string option" where
  "llm_reasoning_effort c = Option.bind (cp_llm c) lp_reasoning_effort"

definition path_contained :: "string \<Rightarrow> string \<Rightarrow> bool" where
  "path_contained base_path up_path =
     (if base_path = [] then starts_with up_path ''/''
      else up_path = base_path \<or> starts_with up_path (base_path @ ''/''))"

definition llm_upstream_url :: "url_lib \<Rightarrow> capability \<Rightarrow> string \<Rightarrow> string option" where
  "llm_upstream_url L c path =
     (case cp_llm c of
        None \<Rightarrow> None
      | Some l \<Rightarrow>
          (let base_str = trim_end_char (CHR ''/'') (lp_provider_base l) in
           case ul_parse L base_str of
             None \<Rightarrow> None
           | Some base \<Rightarrow>
               (let suffix = dropWhile (\<lambda>ch. ch = CHR ''/'') path;
                    joined = (if suffix = [] then base_str else base_str @ ''/'' @ suffix)
                in if contains_str ''%2f'' (ascii_lower suffix) \<or> contains_str ''%5c'' (ascii_lower suffix) then None
                   else
                     (case ul_parse L joined of
                        None \<Rightarrow> None
                      | Some p \<Rightarrow>
                          if ul_scheme L p \<noteq> ''http'' \<and> ul_scheme L p \<noteq> ''https'' then None
                          else if ul_scheme L p \<noteq> ul_scheme L base \<or> ul_host_str L p \<noteq> ul_host_str L base
                                  \<or> ul_port_or_default L p \<noteq> ul_port_or_default L base then None
                          else if path_contained (trim_end_char (CHR ''/'') (ul_path L base)) (ul_path L p)
                          then Some joined else None))))"

section \<open>The schema shown to a model\<close>

definition or_insert :: "string \<Rightarrow> json \<Rightarrow> (string \<times> json) list \<Rightarrow> (string \<times> json) list" where
  "or_insert k v m = (if map_of m k = None then bt_put k v m else m)"

definition api_key_field :: json where
  "api_key_field =
     JObj [(''description'', JStr (''Your vultrino use token (starts with '' @ [CHR 0x27] @ ''vut_'' @ [CHR 0x27]
              @ '') or API key (starts with '' @ [CHR 0x27] @ ''vk_'' @ [CHR 0x27] @ '') for authentication'')),
           (''type'', JStr ''string'')]"

definition mcp_input_schema :: "capability \<Rightarrow> json" where
  "mcp_input_schema c =
     (let obj = (case j_obj (cp_input_schema c) of
                   Some o' \<Rightarrow> o' | None \<Rightarrow> [(''properties'', JObj []), (''type'', JStr ''object'')]);
          obj = or_insert ''properties'' (JObj []) (or_insert ''type'' (JStr ''object'') obj);
          obj = (case map_of obj ''properties'' of
                   Some (JObj ps) \<Rightarrow> bt_put ''properties'' (JObj (bt_put ''api_key'' api_key_field ps)) obj
                 | _ \<Rightarrow> obj);
          obj = or_insert ''required'' (JArr []) obj
      in JObj (case map_of obj ''required'' of
                 Some (JArr rs) \<Rightarrow>
                   (if list_ex (\<lambda>r. j_str r = Some ''api_key'') rs then obj
                    else bt_put ''required'' (JArr (JStr ''api_key'' # rs)) obj)
               | _ \<Rightarrow> obj))"

section \<open>The parameters of a call\<close>

datatype params_error =
    ArgsNotObject
  | BadInput input_error
  | CallerMethod string
  | PinnedMethod method_error

definition overlay :: "(string \<times> json) list \<Rightarrow> (string \<times> json) list \<Rightarrow> (string \<times> json) list" where
  "overlay pinned params = foldl (\<lambda>m (k, v). bt_put k v m) params pinned"

definition build_internal_http_params ::
  "capability \<Rightarrow> (string \<times> json) list \<Rightarrow> params_error + json" where
  "build_internal_http_params c args =
     (if map_of args ''method'' \<noteq> None then Inl (CallerMethod (cp_tool_name c))
      else
        (case resolve_pinned_http_method c of
           Inl e \<Rightarrow> Inl (PinnedMethod e)
         | Inr m \<Rightarrow>
             Inr (JObj (bt_put ''method'' (JStr m) (overlay (ct_plugin_params (cp_target c)) args)))))"

definition http_headers :: "capability \<Rightarrow> (string \<times> json) list \<Rightarrow> (string \<times> json) list" where
  "http_headers c args =
     (let agent = (case Option.bind (map_of args ''headers'') j_obj of Some h \<Rightarrow> overlay h [] | None \<Rightarrow> [])
      in case Option.bind (map_of (ct_plugin_params (cp_target c)) ''headers'') j_obj of
           None \<Rightarrow> agent
         | Some pinned \<Rightarrow>
             overlay pinned
               (filter (\<lambda>(k, v). \<not> list_ex (\<lambda>(p, w). eq_ignore_ascii_case k p) pinned) agent))"

definition build_http_params ::
  "(string \<Rightarrow> string) \<Rightarrow> capability \<Rightarrow> (string \<times> json) list \<Rightarrow> json" where
  "build_http_params upper c args =
     (let method = (case Option.bind (map_of args ''method'') j_str of
                      Some m \<Rightarrow> upper m
                    | None \<Rightarrow> (case ct_methods (cp_target c) of m # _ \<Rightarrow> upper m | [] \<Rightarrow> ''GET''));
          url = (case Option.bind (map_of args ''url'') j_str of
                   Some u \<Rightarrow> Some u | None \<Rightarrow> ct_url_glob (cp_target c));
          params = bt_put ''method'' (JStr method) [];
          params = (case url of Some u \<Rightarrow> bt_put ''url'' (JStr u) params | None \<Rightarrow> params);
          headers = http_headers c args;
          notion = contains_str ''api.notion.com'' (case url of Some u \<Rightarrow> u | None \<Rightarrow> []);
          headers = (if notion \<and> \<not> list_ex (\<lambda>(k, v). eq_ignore_ascii_case k ''Notion-Version'') headers
                     then bt_put ''Notion-Version'' (JStr ''2022-06-28'') headers else headers);
          params = (if headers = [] then params else bt_put ''headers'' (JObj headers) params);
          params = (case map_of args ''body'' of Some b \<Rightarrow> bt_put ''body'' b params | None \<Rightarrow> params);
          params = (case map_of args ''query'' of Some q \<Rightarrow> bt_put ''query'' q params | None \<Rightarrow> params)
      in JObj params)"

definition build_action_params ::
  "(string \<Rightarrow> string) \<Rightarrow> capability \<Rightarrow> string \<Rightarrow> json \<Rightarrow> params_error + json" where
  "build_action_params upper c plugin_name args =
     (case j_obj args of
        None \<Rightarrow> Inl ArgsNotObject
      | Some obj \<Rightarrow>
          (case validate_input c args of
             Inl e \<Rightarrow> Inl (BadInput e)
           | Inr _ \<Rightarrow>
               if plugin_name = ''http'' then Inr (build_http_params upper c obj)
               else if plugin_name = internal_http_plugin then build_internal_http_params c obj
               else Inr (JObj (overlay (ct_plugin_params (cp_target c)) obj))))"

end
