(* ===== verification/Vault.thy ===== *)
theory Vault
  imports Auth Drafts Kill_Fence Capability
begin

text \<open>
  The vault of \<open>src/src/storage/file.rs\<close>: its records and indexes, the check that every commit makes,
  the locked mutation every operation goes through, and the operations on credentials, roles, keys,
  use tokens, workload assertions and approval tokens.

  A collection is the table its tracked map holds; \<open>Vault_Log\<close> shows that a tracked map can be rolled
  back and replayed.  The file lock serialises the mutations of all processes, and a mutation whose
  record cannot be appended is rolled back as one that is refused.  An operation takes the packages
  and the instant from an environment; where the code reads the clock twice, the reads agree.
\<close>

section \<open>Records\<close>

datatype storage_error =
    CredentialNotFound string
  | CredentialExists string
  | StoredRoleNotFound string
  | StoredRoleExists string
  | ApiKeyNotFound string
  | UseTokenNotFound string
  | UseTokenUnusable use_token_invalid
  | ApprovalTokenNotFound string
  | ApprovalMissing string
  | PolicyNotFound string
  | CapabilityNotFound string
  | Conflict string
  | DecisionConflict approval_error
  | Malformed string
  | Unavailable string
  | InvalidConfig string

record staged_event =
  sv_dedup_id :: string
  sv_subject :: string
  sv_event_type :: string
  sv_payload :: json

record idempotency_record =
  ir_done :: bool
  ir_body_hash :: string
  ir_status :: "16 word"
  ir_response :: string
  ir_created_at :: instant

record storage_cache =
  sc_credentials :: "credential table"
  sc_roles :: "role table"
  sc_api_keys :: "api_key table"
  sc_use_tokens :: "use_token table"
  sc_workload_jtis :: "i64 table"
  sc_workload_grants :: "json table"
  sc_approval_tokens :: "approval_token table"
  sc_approvals :: "approval_request table"
  sc_policies :: "policy table"
  sc_kill_fence :: kill_fence_state
  sc_capabilities :: "capability table"
  sc_idempotency :: "idempotency_record table"
  sc_native_drafts :: "native_draft_record table"
  sc_pending_events :: "staged_event list"
  sc_alias_index :: "string table"
  sc_role_name_index :: "string table"
  sc_api_key_hash_index :: "string table"
  sc_use_token_hash_index :: "string table"
  sc_approval_token_hash_index :: "string table"

record vault_env =
  ve_codec :: codec
  ve_lib :: url_lib
  ve_draft_key :: "native_draft_key \<Rightarrow> string"
  ve_show_time :: "instant \<Rightarrow> json"
  ve_now :: instant

definition empty_cache :: storage_cache where
  "empty_cache =
     \<lparr> sc_credentials = [], sc_roles = [], sc_api_keys = [], sc_use_tokens = [], sc_workload_jtis = [],
       sc_workload_grants = [], sc_approval_tokens = [], sc_approvals = [], sc_policies = [],
       sc_kill_fence = \<lparr> kf_epoch = 0, kf_marks = [] \<rparr>, sc_capabilities = [],
       sc_idempotency = [], sc_native_drafts = [],
       sc_pending_events = [], sc_alias_index = [], sc_role_name_index = [], sc_api_key_hash_index = [],
       sc_use_token_hash_index = [], sc_approval_token_hash_index = [] \<rparr>"

section \<open>Every commit is checked\<close>

fun credentials_shape :: "string list \<Rightarrow> (string \<times> credential) list \<Rightarrow> string + unit" where
  "credentials_shape aliases [] = Inr ()"
| "credentials_shape aliases ((map_id, c) # cs) =
     (if map_id \<noteq> cr_id c then Inl ''credential map key does not match embedded id''
      else (case credential_shape c of
              Inl reason \<Rightarrow> Inl reason
            | Inr _ \<Rightarrow>
                if cr_alias c \<in> set aliases then Inl ''duplicate credential alias in vault''
                else credentials_shape (cr_alias c # aliases) cs))"

fun approvals_shape :: "vault_env \<Rightarrow> (string \<times> approval_request) list \<Rightarrow> string + unit" where
  "approvals_shape V [] = Inr ()"
| "approvals_shape V ((map_id, a) # as) =
     (if map_id \<noteq> a_id a then Inl ''approval map key does not match embedded id''
      else (case validate_vault_shape (ve_codec V) (ve_now V) a of
              Inl reason \<Rightarrow> Inl reason
            | Inr _ \<Rightarrow> approvals_shape V as))"

fun drafts_shape :: "vault_env \<Rightarrow> (string \<times> native_draft_record) list \<Rightarrow> string + unit" where
  "drafts_shape V [] = Inr ()"
| "drafts_shape V ((map_id, d) # ds) =
     (if map_id \<noteq> ve_draft_key V (nd_key d) then Inl ''native draft map key does not match embedded key''
      else (case validate_draft d of Inl reason \<Rightarrow> Inl reason | Inr _ \<Rightarrow> drafts_shape V ds))"

definition validate_primary_shapes :: "vault_env \<Rightarrow> storage_cache \<Rightarrow> storage_error + unit" where
  "validate_primary_shapes V c =
     (case credentials_shape [] (sc_credentials c) of
        Inl e \<Rightarrow> Inl (Malformed e)
      | Inr _ \<Rightarrow>
          (case approvals_shape V (sc_approvals c) of
             Inl e \<Rightarrow> Inl (Malformed e)
           | Inr _ \<Rightarrow>
               (case drafts_shape V (sc_native_drafts c) of Inl e \<Rightarrow> Inl (Malformed e) | Inr _ \<Rightarrow> Inr ())))"

definition index_by :: "('r \<Rightarrow> string) \<Rightarrow> 'r table \<Rightarrow> string table" where
  "index_by f m = foldl (\<lambda>ix (i, r). t_put (f r) i ix) [] m"

definition rebuild_indexes :: "storage_cache \<Rightarrow> storage_cache" where
  "rebuild_indexes c =
     c \<lparr> sc_alias_index := index_by cr_alias (sc_credentials c),
         sc_role_name_index := index_by rl_name (sc_roles c),
         sc_api_key_hash_index := index_by ak_key_hash (sc_api_keys c),
         sc_use_token_hash_index := index_by ut_token_hash (sc_use_tokens c),
         sc_approval_token_hash_index := index_by at_token_hash (sc_approval_tokens c) \<rparr>"

type_synonym 'a mutation = "storage_cache \<Rightarrow> storage_error + 'a \<times> storage_cache"
type_synonym 'a operation = "storage_cache \<Rightarrow> (storage_error + 'a) \<times> storage_cache"

definition locked_mutate :: "vault_env \<Rightarrow> 'a mutation \<Rightarrow> 'a operation" where
  "locked_mutate V f c =
     (case f c of
        Inl e \<Rightarrow> (Inl e, rebuild_indexes c)
      | Inr (r, c') \<Rightarrow>
          (case validate_primary_shapes V c' of
             Inl e \<Rightarrow> (Inl e, rebuild_indexes c)
           | Inr _ \<Rightarrow> (Inr r, c')))"

definition record_count :: "storage_cache \<Rightarrow> nat" where
  "record_count c =
     length (sc_credentials c) + length (sc_roles c) + length (sc_api_keys c) + length (sc_use_tokens c)
     + length (sc_workload_jtis c) + length (sc_workload_grants c) + length (sc_approval_tokens c)
     + length (sc_approvals c) + length (sc_policies c) + length (kf_marks (sc_kill_fence c))
     + length (sc_capabilities c) + length (sc_idempotency c) + length (sc_native_drafts c)"

section \<open>Credentials\<close>

definition claims_alias :: "credential \<Rightarrow> storage_cache \<Rightarrow> bool" where
  "claims_alias cred c =
     (case t_get (sc_alias_index c) (cr_alias cred) of Some i \<Rightarrow> i \<noteq> cr_id cred | None \<Rightarrow> False)"

definition url_token_unsafe :: "credential \<Rightarrow> bool" where
  "url_token_unsafe cred =
     (case cr_data cred of UrlTokenData token \<Rightarrow> \<not> url_token_secret_is_path_safe token | _ \<Rightarrow> False)"

definition store_credential :: "vault_env \<Rightarrow> credential \<Rightarrow> unit operation" where
  "store_credential V cred c =
     (if url_token_unsafe cred
      then (Inl (InvalidConfig ''url_token secret would change the URL it is substituted into''), c)
      else locked_mutate V (\<lambda>c.
        if claims_alias cred c then Inl (CredentialExists (cr_alias cred))
        else Inr ((), c \<lparr> sc_alias_index := t_put (cr_alias cred) (cr_id cred) (sc_alias_index c),
                          sc_credentials := t_put (cr_id cred) cred (sc_credentials c) \<rparr>)) c)"

definition get_by_alias :: "string \<Rightarrow> storage_cache \<Rightarrow> credential option" where
  "get_by_alias a c =
     (case t_get (sc_alias_index c) a of Some i \<Rightarrow> t_get (sc_credentials c) i | None \<Rightarrow> None)"

definition drop_credential :: "string \<Rightarrow> credential \<Rightarrow> storage_cache \<Rightarrow> storage_cache" where
  "drop_credential i cred c =
     c \<lparr> sc_credentials := t_del i (sc_credentials c),
         sc_alias_index := t_del (cr_alias cred) (sc_alias_index c) \<rparr>"

definition delete_credential :: "vault_env \<Rightarrow> string \<Rightarrow> unit operation" where
  "delete_credential V i = locked_mutate V (\<lambda>c.
     case t_get (sc_credentials c) i of
       Some cred \<Rightarrow> Inr ((), drop_credential i cred c)
     | None \<Rightarrow> Inl (CredentialNotFound i))"

definition delete_scoped :: "vault_env \<Rightarrow> string \<Rightarrow> string option \<Rightarrow> unit operation" where
  "delete_scoped V i acting = locked_mutate V (\<lambda>c.
     case t_get (sc_credentials c) i of
       None \<Rightarrow> Inl (CredentialNotFound i)
     | Some cred \<Rightarrow>
         if \<not> tenant_may_act acting (credential_tenant cred) then Inl (CredentialNotFound i)
         else Inr ((), drop_credential i cred c))"

definition update_credential :: "vault_env \<Rightarrow> credential \<Rightarrow> unit operation" where
  "update_credential V cred = locked_mutate V (\<lambda>c.
     case t_get (sc_credentials c) (cr_id cred) of
       None \<Rightarrow> Inl (CredentialNotFound (cr_id cred))
     | Some old \<Rightarrow>
         if claims_alias cred c then Inl (CredentialExists (cr_alias cred))
         else Inr ((),
           c \<lparr> sc_alias_index :=
                 (if cr_alias old \<noteq> cr_alias cred
                  then t_put (cr_alias cred) (cr_id cred) (t_del (cr_alias old) (sc_alias_index c))
                  else sc_alias_index c),
               sc_credentials := t_put (cr_id cred) cred (sc_credentials c) \<rparr>))"

section \<open>Roles and keys\<close>

definition store_role :: "vault_env \<Rightarrow> role \<Rightarrow> unit operation" where
  "store_role V r = locked_mutate V (\<lambda>c.
     if (case t_get (sc_role_name_index c) (rl_name r) of Some i \<Rightarrow> i \<noteq> rl_id r | None \<Rightarrow> False)
     then Inl (StoredRoleExists (rl_name r))
     else Inr ((), c \<lparr> sc_role_name_index := t_put (rl_name r) (rl_id r) (sc_role_name_index c),
                       sc_roles := t_put (rl_id r) r (sc_roles c) \<rparr>))"

definition stored_role_by_name :: "string \<Rightarrow> storage_cache \<Rightarrow> role option" where
  "stored_role_by_name name c =
     (case t_get (sc_role_name_index c) name of Some i \<Rightarrow> t_get (sc_roles c) i | None \<Rightarrow> None)"

definition drop_role :: "string \<Rightarrow> unit mutation" where
  "drop_role i c =
     (case t_get (sc_roles c) i of
        Some r \<Rightarrow> Inr ((), c \<lparr> sc_roles := t_del i (sc_roles c),
                              sc_role_name_index := t_del (rl_name r) (sc_role_name_index c) \<rparr>)
      | None \<Rightarrow> Inl (StoredRoleNotFound i))"

definition delete_stored_role :: "vault_env \<Rightarrow> string \<Rightarrow> unit operation" where
  "delete_stored_role V i = locked_mutate V (drop_role i)"

definition delete_role_if_unreferenced :: "vault_env \<Rightarrow> string \<Rightarrow> unit operation" where
  "delete_role_if_unreferenced V i = locked_mutate V (\<lambda>c.
     if list_ex (\<lambda>(j, k). ak_role_id k = i) (sc_api_keys c)
     then Inl (Conflict (''role '' @ [CHR 0x27] @ i @ [CHR 0x27] @ '' is still referenced by an API key''))
     else drop_role i c)"

definition store_api_key :: "vault_env \<Rightarrow> api_key \<Rightarrow> unit operation" where
  "store_api_key V k = locked_mutate V (\<lambda>c.
     Inr ((), c \<lparr> sc_api_key_hash_index := t_put (ak_key_hash k) (ak_id k) (sc_api_key_hash_index c),
                  sc_api_keys := t_put (ak_id k) k (sc_api_keys c) \<rparr>))"

definition get_api_key_by_hash :: "string \<Rightarrow> storage_cache \<Rightarrow> api_key option" where
  "get_api_key_by_hash hsh c =
     (case t_get (sc_api_key_hash_index c) hsh of Some i \<Rightarrow> t_get (sc_api_keys c) i | None \<Rightarrow> None)"

definition delete_api_key :: "vault_env \<Rightarrow> string \<Rightarrow> unit operation" where
  "delete_api_key V i = locked_mutate V (\<lambda>c.
     case t_get (sc_api_keys c) i of
       Some k \<Rightarrow> Inr ((), c \<lparr> sc_api_keys := t_del i (sc_api_keys c),
                             sc_api_key_hash_index := t_del (ak_key_hash k) (sc_api_key_hash_index c) \<rparr>)
     | None \<Rightarrow> Inl (ApiKeyNotFound i))"

definition update_api_key_last_used :: "vault_env \<Rightarrow> string \<Rightarrow> unit operation" where
  "update_api_key_last_used V i = locked_mutate V (\<lambda>c.
     case t_get (sc_api_keys c) i of
       Some k \<Rightarrow> Inr ((), c \<lparr> sc_api_keys := t_put i (k \<lparr> ak_last_used_at := Some (ve_now V) \<rparr>) (sc_api_keys c) \<rparr>)
     | None \<Rightarrow> Inl (ApiKeyNotFound i))"

section \<open>Use tokens\<close>

definition put_use_token :: "string \<Rightarrow> use_token \<Rightarrow> storage_cache \<Rightarrow> storage_cache" where
  "put_use_token i t c = c \<lparr> sc_use_tokens := t_put i t (sc_use_tokens c) \<rparr>"

definition store_use_token :: "vault_env \<Rightarrow> use_token \<Rightarrow> unit operation" where
  "store_use_token V t = locked_mutate V (\<lambda>c.
     Inr ((), put_use_token (ut_id t) t
       (c \<lparr> sc_use_token_hash_index := t_put (ut_token_hash t) (ut_id t) (sc_use_token_hash_index c) \<rparr>)))"

definition get_use_token_by_hash :: "string \<Rightarrow> storage_cache \<Rightarrow> use_token option" where
  "get_use_token_by_hash hsh c =
     (case t_get (sc_use_token_hash_index c) hsh of Some i \<Rightarrow> t_get (sc_use_tokens c) i | None \<Rightarrow> None)"

definition delete_use_token :: "vault_env \<Rightarrow> string \<Rightarrow> unit operation" where
  "delete_use_token V i = locked_mutate V (\<lambda>c.
     case t_get (sc_use_tokens c) i of
       Some t \<Rightarrow> Inr ((), c \<lparr> sc_use_tokens := t_del i (sc_use_tokens c),
                             sc_use_token_hash_index := t_del (ut_token_hash t) (sc_use_token_hash_index c) \<rparr>)
     | None \<Rightarrow> Inl (UseTokenNotFound i))"

definition consume_use_token :: "vault_env \<Rightarrow> string \<Rightarrow> use_token operation" where
  "consume_use_token V i = locked_mutate V (\<lambda>c.
     case t_get (sc_use_tokens c) i of
       None \<Rightarrow> Inl (UseTokenNotFound i)
     | Some t \<Rightarrow>
         (case check_usable (ve_now V) t of
            Inl e \<Rightarrow> Inl (UseTokenUnusable e)
          | Inr _ \<Rightarrow>
              (let t' = t \<lparr> ut_uses := ut_uses t + 1, ut_last_used_at := Some (ve_now V) \<rparr>
               in Inr (t', put_use_token i t' c))))"

definition set_use_token_revoked :: "vault_env \<Rightarrow> string \<Rightarrow> use_token operation" where
  "set_use_token_revoked V i = locked_mutate V (\<lambda>c.
     case t_get (sc_use_tokens c) i of
       None \<Rightarrow> Inl (UseTokenNotFound i)
     | Some t \<Rightarrow> (let t' = t \<lparr> ut_revoked := True \<rparr> in Inr (t', put_use_token i t' c)))"

text \<open>A tenant name that is blank counts as none.\<close>

definition named_tenant :: "string option \<Rightarrow> string option" where
  "named_tenant t =
     (case t of Some s \<Rightarrow> if trim s = [] then None else Some (trim s) | None \<Rightarrow> None)"

definition set_use_token_revoked_scoped :: "vault_env \<Rightarrow> string \<Rightarrow> string option \<Rightarrow> use_token operation" where
  "set_use_token_revoked_scoped V i acting = locked_mutate V (\<lambda>c.
     case t_get (sc_use_tokens c) i of
       None \<Rightarrow> Inl (UseTokenNotFound i)
     | Some t \<Rightarrow>
         if \<not> tenant_may_act acting (named_tenant (ut_tenant t)) then Inl (UseTokenNotFound i)
         else (let t' = t \<lparr> ut_revoked := True \<rparr> in Inr (t', put_use_token i t' c)))"

definition live_workload_token :: "vault_env \<Rightarrow> string \<Rightarrow> string \<Rightarrow> use_token \<Rightarrow> bool" where
  "live_workload_token V tenant agent_label t \<longleftrightarrow>
     ut_tenant t = Some tenant \<and> ut_agent_label t = Some agent_label
     \<and> \<not> (ut_revoked t \<or> token_is_expired (ve_now V) t)"

definition revoke_if_stored :: "string \<Rightarrow> nat \<times> storage_cache \<Rightarrow> nat \<times> storage_cache" where
  "revoke_if_stored i rc =
     (case rc of (retired, c) \<Rightarrow>
        (case t_get (sc_use_tokens c) i of
           Some t \<Rightarrow> (retired + 1, put_use_token i (t \<lparr> ut_revoked := True \<rparr>) c)
         | None \<Rightarrow> (retired, c)))"

definition retire_workload_generations ::
  "vault_env \<Rightarrow> string \<Rightarrow> string \<Rightarrow> string list \<Rightarrow> (nat \<times> nat) operation" where
  "retire_workload_generations V tenant agent_label keep = locked_mutate V (\<lambda>c.
     let live = filter (live_workload_token V tenant agent_label) (map snd (sc_use_tokens c));
         to_retire = map ut_id (filter (\<lambda>t. ut_id t \<notin> set keep) live);
         (retired, c') = foldl (\<lambda>rc i. revoke_if_stored i rc) (0, c) to_retire
     in Inr ((length live, retired), c'))"

definition count_live_workload_tokens :: "vault_env \<Rightarrow> string \<Rightarrow> string \<Rightarrow> storage_cache \<Rightarrow> nat" where
  "count_live_workload_tokens V tenant agent_label c =
     length (filter (live_workload_token V tenant agent_label) (map snd (sc_use_tokens c)))"

section \<open>Workload assertions\<close>

definition consume_workload_jti :: "vault_env \<Rightarrow> string \<Rightarrow> i64 \<Rightarrow> i64 \<Rightarrow> bool operation" where
  "consume_workload_jti V jti expires_at now = locked_mutate V (\<lambda>c.
     let c = c \<lparr> sc_workload_jtis := t_retain (\<lambda>_ expiry. now < expiry) (sc_workload_jtis c) \<rparr>
     in if t_get (sc_workload_jtis c) jti \<noteq> None then Inr (False, c)
        else Inr (True, c \<lparr> sc_workload_jtis := t_put jti expires_at (sc_workload_jtis c) \<rparr>))"

definition store_workload_grant :: "vault_env \<Rightarrow> string \<Rightarrow> json \<Rightarrow> unit operation" where
  "store_workload_grant V key grant = locked_mutate V (\<lambda>c.
     Inr ((), c \<lparr> sc_workload_grants := t_put key grant (sc_workload_grants c) \<rparr>))"

definition delete_workload_grant :: "vault_env \<Rightarrow> string \<Rightarrow> bool operation" where
  "delete_workload_grant V key = locked_mutate V (\<lambda>c.
     Inr (t_get (sc_workload_grants c) key \<noteq> None,
          c \<lparr> sc_workload_grants := t_del key (sc_workload_grants c) \<rparr>))"

section \<open>Approval tokens\<close>

definition put_approval_token :: "string \<Rightarrow> approval_token \<Rightarrow> storage_cache \<Rightarrow> storage_cache" where
  "put_approval_token i t c = c \<lparr> sc_approval_tokens := t_put i t (sc_approval_tokens c) \<rparr>"

definition store_approval_token :: "vault_env \<Rightarrow> approval_token \<Rightarrow> unit operation" where
  "store_approval_token V t = locked_mutate V (\<lambda>c.
     Inr ((), put_approval_token (at_id t) t
       (c \<lparr> sc_approval_token_hash_index :=
              t_put (at_token_hash t) (at_id t) (sc_approval_token_hash_index c) \<rparr>)))"

definition get_approval_token_by_hash :: "string \<Rightarrow> storage_cache \<Rightarrow> approval_token option" where
  "get_approval_token_by_hash hsh c =
     (case t_get (sc_approval_token_hash_index c) hsh of
        Some i \<Rightarrow> t_get (sc_approval_tokens c) i
      | None \<Rightarrow> None)"

definition set_approval_token_revoked :: "vault_env \<Rightarrow> string \<Rightarrow> approval_token operation" where
  "set_approval_token_revoked V i = locked_mutate V (\<lambda>c.
     case t_get (sc_approval_tokens c) i of
       None \<Rightarrow> Inl (ApprovalTokenNotFound i)
     | Some t \<Rightarrow> (let t' = t \<lparr> at_revoked := True \<rparr> in Inr (t', put_approval_token i t' c)))"

definition set_approval_token_revoked_scoped ::
  "vault_env \<Rightarrow> string \<Rightarrow> string option \<Rightarrow> approval_token operation" where
  "set_approval_token_revoked_scoped V i acting = locked_mutate V (\<lambda>c.
     case t_get (sc_approval_tokens c) i of
       None \<Rightarrow> Inl (ApprovalTokenNotFound i)
     | Some t \<Rightarrow>
         if \<not> tenant_may_act acting (named_tenant (at_tenant t)) then Inl (ApprovalTokenNotFound i)
         else (let t' = t \<lparr> at_revoked := True \<rparr> in Inr (t', put_approval_token i t' c)))"

section \<open>Facts about the locked mutation\<close>

lemma locked_mutate_Inr:
  "locked_mutate V f c = (Inr r, c') \<Longrightarrow> f c = Inr (r, c') \<and> validate_primary_shapes V c' = Inr ()"
  by (auto simp: locked_mutate_def split: sum.splits prod.splits)

lemma locked_mutate_Inl: "locked_mutate V f c = (Inl e, c') \<Longrightarrow> c' = rebuild_indexes c"
  by (auto simp: locked_mutate_def split: sum.splits prod.splits)

lemma locked_mutate_cases:
  obtains e where "locked_mutate V f c = (Inl e, rebuild_indexes c)"
  | r c' where "locked_mutate V f c = (Inr r, c')" "f c = Inr (r, c')" "validate_primary_shapes V c' = Inr ()"
proof (cases "locked_mutate V f c")
  case (Pair r c')
  with that locked_mutate_Inl [of V f c] locked_mutate_Inr [of V f c] show ?thesis by (cases r) auto
qed

lemma approvals_shape_Inr:
  "approvals_shape V as = Inr () \<longleftrightarrow>
     (\<forall>(i, a) \<in> set as. i = a_id a \<and> validate_vault_shape (ve_codec V) (ve_now V) a = Inr ())"
  by (induction V as rule: approvals_shape.induct) (auto split: sum.splits)

lemma shapes_approvals:
  "validate_primary_shapes V c = Inr () \<Longrightarrow> approvals_shape V (sc_approvals c) = Inr ()"
  by (auto simp: validate_primary_shapes_def split: sum.splits)

end
