(* ===== verification/Vault_Approvals.thy ===== *)
theory Vault_Approvals
  imports Vault
begin

text \<open>
  The approvals of the vault, \<open>src/src/storage/file.rs\<close>: storing and deciding them, the poll and the
  sweep that advance their deadlines, the claim that hands out the right to execute one, and the
  finalisation that is fenced by the epoch of the claim.  Every change of state that an outside
  observer must learn of stages an event in the same mutation.

  The identifiers of staged events are random; \<open>fresh n\<close> is the one of the \<open>n\<close>-th event an operation
  stages.
\<close>

section \<open>Staged events\<close>

definition max_pending_events :: nat where
  "max_pending_events = 10000"

definition stage_event ::
  "string \<Rightarrow> string \<Rightarrow> string \<Rightarrow> json \<Rightarrow> storage_cache \<Rightarrow> storage_error + storage_cache" where
  "stage_event dedup subject event_type payload c =
     (if max_pending_events \<le> length (sc_pending_events c)
      then Inl (Unavailable ''outbox unwritable: too many events staged-but-undelivered'')
      else Inr (c \<lparr> sc_pending_events := sc_pending_events c
                      @ [\<lparr> sv_dedup_id = dedup, sv_subject = subject, sv_event_type = event_type,
                           sv_payload = payload \<rparr>] \<rparr>))"

fun status_name :: "approval_status \<Rightarrow> string" where
  "status_name SPending = ''pending''"
| "status_name SEscalated = ''escalated''"
| "status_name SApproved = ''approved''"
| "status_name SDenied = ''denied''"
| "status_name SExpired = ''expired''"

fun to_govder_risk_tier :: "criticality_class \<Rightarrow> string" where
  "to_govder_risk_tier CLow = ''Low''"
| "to_govder_risk_tier CMedium = ''Medium''"
| "to_govder_risk_tier CHigh = ''High''"
| "to_govder_risk_tier CCritical = ''Extreme''"

definition approval_irreversible :: "approval_request \<Rightarrow> bool" where
  "approval_irreversible a = a_trusted_irreversible a"

definition opt_json :: "('a \<Rightarrow> json) \<Rightarrow> 'a option \<Rightarrow> json" where
  "opt_json f v = (case v of Some x \<Rightarrow> f x | None \<Rightarrow> JNull)"

definition i64_json :: "i64 \<Rightarrow> json" where
  "i64_json n = (if 0 \<le> n then JPos (word_of_int n) else JNeg n)"

definition signoff_payload :: "vault_env \<Rightarrow> signoff \<Rightarrow> json" where
  "signoff_payload V s =
     JObj [(''approver_identity'', JStr (bare_approver_identity (so_approver_identity s))),
           (''channel'', JStr (so_channel s)),
           (''decided_at'', ve_show_time V (so_decided_at s)),
           (''approver_kind'', JStr (so_approver_kind s)),
           (''resolved_class'', opt_json (\<lambda>k. JStr (class_wire k)) (so_resolved_class s)),
           (''controller'', opt_json JStr (so_controller s)),
           (''delegation_grant_ref'', opt_json JStr (so_delegation_grant_ref s)),
           (''approve'', JBool (so_approve s))]"

definition last_signoff :: "approval_request \<Rightarrow> signoff option" where
  "last_signoff a = (if a_signoffs a = [] then None else Some (last (a_signoffs a)))"

definition approval_event_payload :: "vault_env \<Rightarrow> approval_request \<Rightarrow> json" where
  "approval_event_payload V a =
     JObj ([(''approval_id'', JStr (a_id a)),
            (''status'', JStr (status_name (a_status a))),
            (''credential'', JStr (a_credential a)),
            (''action'', JStr (a_action a)),
            (''summary'', JStr (a_summary a)),
            (''decided_by'', opt_json JStr (a_decided_by a)),
            (''approver_identity'', opt_json JStr (a_approver_identity a)),
            (''tenant'', opt_json JStr (a_tenant a)),
            (''approver_kind'', JStr (case last_signoff a of Some s \<Rightarrow> so_approver_kind s | None \<Rightarrow> ''human'')),
            (''delegation_grant_ref'',
               opt_json JStr (case last_signoff a of Some s \<Rightarrow> so_delegation_grant_ref s | None \<Rightarrow> None)),
            (''risk_tier'', JStr (to_govder_risk_tier (a_criticality a))),
            (''irreversible'', JBool (approval_irreversible a)),
            (''agent_label'', opt_json JStr (a_agent_label a)),
            (''spend_amount_minor'', opt_json i64_json (a_trusted_spend_amount_minor a)),
            (''spend_asset'', opt_json JStr (a_trusted_spend_asset a)),
            (''signoffs'', JArr (map (signoff_payload V) (a_signoffs a)))]
           @ (case a_approval_rule a of
                None \<Rightarrow> []
              | Some rule \<Rightarrow>
                  [(''recipe'', JObj [(''approval_rule'', rule_json rule),
                                      (''risk_tier'', JStr (a_authoritative_risk_tier a)),
                                      (''irreversible'', JBool (a_authoritative_irreversible a))])]))"

section \<open>Storing and deciding\<close>

definition put_approval :: "string \<Rightarrow> approval_request \<Rightarrow> storage_cache \<Rightarrow> storage_cache" where
  "put_approval i a c = c \<lparr> sc_approvals := t_put i a (sc_approvals c) \<rparr>"

definition store_approval :: "vault_env \<Rightarrow> approval_request \<Rightarrow> unit operation" where
  "store_approval V a = locked_mutate V (\<lambda>c. Inr ((), put_approval (a_id a) a c))"

definition store_approval_reserving ::
  "vault_env \<Rightarrow> approval_request \<Rightarrow> string \<Rightarrow> u32 \<Rightarrow> unit operation" where
  "store_approval_reserving V a token_id max_uses = locked_mutate V (\<lambda>c.
     let uses = (case t_get (sc_use_tokens c) token_id of Some t \<Rightarrow> ut_uses t | None \<Rightarrow> 0);
         pending = of_nat (length (filter (\<lambda>(i, b). a_status b = SPending \<and> \<not> is_past_ttl (ve_now V) b
                                              \<and> a_use_token_id b = Some token_id) (sc_approvals c)))
     in if max_uses \<le> uses + pending
        then Inl (Conflict ''use token has no remaining capacity for a new pending approval'')
        else Inr ((), put_approval (a_id a) a c))"

definition update_approval :: "vault_env \<Rightarrow> approval_request \<Rightarrow> unit operation" where
  "update_approval V a = locked_mutate V (\<lambda>c.
     if t_get (sc_approvals c) (a_id a) = None then Inl (ApprovalMissing (a_id a))
     else Inr ((), put_approval (a_id a) a c))"

definition delete_approval :: "vault_env \<Rightarrow> string \<Rightarrow> unit operation" where
  "delete_approval V i = locked_mutate V (\<lambda>c.
     if t_get (sc_approvals c) i = None then Inl (ApprovalMissing i)
     else Inr ((), c \<lparr> sc_approvals := t_del i (sc_approvals c) \<rparr>))"

record decide_call =
  dl_approve :: bool
  dl_channel :: string
  dl_approver_identity :: string
  dl_enforce_sod :: bool
  dl_note :: "string option"
  dl_delegation_grant_ref :: "string option"
  dl_delegate_pep_ok :: "bool option"
  dl_resolved_class :: "approver_class option"
  dl_controller :: "string option"
  dl_veto_until :: "instant option"

definition decision_of :: "decide_call \<Rightarrow> decision" where
  "decision_of d =
     (let x = (new_decision (dl_channel d) (dl_approver_identity d))
                \<lparr> dc_note := dl_note d, dc_enforce_sod := dl_enforce_sod d \<rparr>;
          x = (case dl_delegation_grant_ref d of Some g \<Rightarrow> as_delegate g x | None \<Rightarrow> x);
          x = (case dl_resolved_class d of Some k \<Rightarrow> x \<lparr> dc_resolved_class := Some k \<rparr> | None \<Rightarrow> x)
      in (case dl_controller d of Some k \<Rightarrow> x \<lparr> dc_controller := Some k \<rparr> | None \<Rightarrow> x))"

fun decision_event :: "approval_status \<Rightarrow> string option" where
  "decision_event SApproved = Some ''approval.approved''"
| "decision_event SDenied = Some ''approval.denied''"
| "decision_event SExpired = Some ''approval.expired''"
| "decision_event SPending = None"
| "decision_event SEscalated = None"

definition decide_in ::
  "vault_env \<Rightarrow> (nat \<Rightarrow> string) \<Rightarrow> string \<Rightarrow> decide_call \<Rightarrow> approval_request mutation" where
  "decide_in V fresh i d c =
     (case t_get (sc_approvals c) i of
        None \<Rightarrow> Inl (ApprovalMissing i)
      | Some a \<Rightarrow>
          if dl_channel d = ''delegate-agent'' \<and> dl_approve d \<and> dl_delegate_pep_ok d \<noteq> Some True
          then Inl (Conflict ''delegate approval blocked: govder PEP evaluation required (fail-closed)'')
          else
            (let a1 = snd (advance_lifecycle (ve_now V) a)
             in (case (if dl_approve d then approve_request (ve_now V) (decision_of d) a1
                       else deny_request (ve_now V) (decision_of d) a1) of
                   (Inl e, _) \<Rightarrow> Inl (DecisionConflict e)
                 | (Inr _, a2) \<Rightarrow>
                     (let a3 = (if dl_approve d \<and> dl_channel d = ''delegate-agent''
                                then a2 \<lparr> a_delegate_veto_until := dl_veto_until d \<rparr> else a2);
                          c' = put_approval i a3 c
                      in (case decision_event (a_status a3) of
                            None \<Rightarrow> Inr (a3, c')
                          | Some et \<Rightarrow>
                              (case stage_event (fresh 0) (a_id a3) et (approval_event_payload V a3) c' of
                                 Inl e \<Rightarrow> Inl e
                               | Inr c'' \<Rightarrow> Inr (a3, c'')))))))"

definition decide_approval_atomic ::
  "vault_env \<Rightarrow> (nat \<Rightarrow> string) \<Rightarrow> string \<Rightarrow> decide_call \<Rightarrow> approval_request operation" where
  "decide_approval_atomic V fresh i d = locked_mutate V (decide_in V fresh i d)"

definition decide_delegate_approval ::
  "vault_env \<Rightarrow> (nat \<Rightarrow> string) \<Rightarrow> string \<Rightarrow> bool \<Rightarrow> string \<Rightarrow> bool \<Rightarrow> string option \<Rightarrow> string \<Rightarrow> string
     \<Rightarrow> instant option \<Rightarrow> approval_request operation" where
  "decide_delegate_approval V fresh i approve identity enforce_sod note grant_ref controller veto_until =
     decide_approval_atomic V fresh i
       \<lparr> dl_approve = approve, dl_channel = ''delegate-agent'', dl_approver_identity = identity,
         dl_enforce_sod = enforce_sod, dl_note = note, dl_delegation_grant_ref = Some grant_ref,
         dl_delegate_pep_ok = (if approve then Some True else None),
         dl_resolved_class = Some AgentReviewer,
         dl_controller = (if trim controller = [] then None else Some (trim controller)),
         dl_veto_until = veto_until \<rparr>"

section \<open>Deadlines\<close>

definition approval_is_due :: "instant \<Rightarrow> approval_request \<Rightarrow> bool" where
  "approval_is_due now a \<longleftrightarrow>
     is_open (a_status a)
       \<and> (a_expires_at a \<le> now \<or> a_status a = SPending \<and> a_escalate_at a \<le> now)
     \<or> needs_reauth now a"

text \<open>What the poll and the sweep do to one request, and the event that goes with it.\<close>

definition refresh :: "instant \<Rightarrow> approval_request \<Rightarrow> lifecycle_change \<times> approval_request" where
  "refresh now a =
     (case advance_lifecycle now a of
        (NoChange, a') \<Rightarrow>
          if needs_reauth now a' then (BecameExpired, expire_reauth_lapsed a') else (NoChange, a')
      | r \<Rightarrow> r)"

fun lifecycle_event :: "lifecycle_change \<Rightarrow> string option" where
  "lifecycle_event BecameEscalated = Some ''approval.escalated''"
| "lifecycle_event BecameExpired = Some ''approval.expired''"
| "lifecycle_event NoChange = None"

definition poll_in :: "vault_env \<Rightarrow> (nat \<Rightarrow> string) \<Rightarrow> string \<Rightarrow> approval_request mutation" where
  "poll_in V fresh i c =
     (case t_get (sc_approvals c) i of
        None \<Rightarrow> Inl (ApprovalMissing i)
      | Some a \<Rightarrow>
          (case refresh (ve_now V) a of
             (change, a') \<Rightarrow>
               (case lifecycle_event change of
                  None \<Rightarrow> Inr (a', put_approval i a' c)
                | Some et \<Rightarrow>
                    (case stage_event (fresh 0) (a_id a') et (approval_event_payload V a')
                            (put_approval i a' c) of
                       Inl e \<Rightarrow> Inl e
                     | Inr c' \<Rightarrow> Inr (a', c')))))"

definition poll_refresh_approval ::
  "vault_env \<Rightarrow> (nat \<Rightarrow> string) \<Rightarrow> string \<Rightarrow> approval_request operation" where
  "poll_refresh_approval V fresh i c =
     (case t_get (sc_approvals c) i of
        None \<Rightarrow> (Inl (ApprovalMissing i), c)
      | Some a \<Rightarrow>
          if \<not> approval_is_due (ve_now V) a then (Inr a, c)
          else locked_mutate V (poll_in V fresh i) c)"

record approval_sweep =
  sw_escalated :: "approval_request list"
  sw_expired :: "string list"

type_synonym sweep_state = "storage_cache \<times> approval_sweep \<times> (string \<times> string \<times> json) list"

definition sweep_one :: "vault_env \<Rightarrow> sweep_state \<Rightarrow> string \<Rightarrow> sweep_state" where
  "sweep_one V s i =
     (case s of (c, sw, events) \<Rightarrow>
        (case t_get (sc_approvals c) i of
           None \<Rightarrow> s
         | Some a \<Rightarrow>
             (case refresh (ve_now V) a of
                (change, a') \<Rightarrow>
                  (put_approval i a' c,
                   (case change of
                      BecameEscalated \<Rightarrow> sw \<lparr> sw_escalated := sw_escalated sw @ [a'] \<rparr>
                    | BecameExpired \<Rightarrow> sw \<lparr> sw_expired := sw_expired sw @ [a_id a'] \<rparr>
                    | NoChange \<Rightarrow> sw),
                   (case lifecycle_event change of
                      Some et \<Rightarrow> events @ [(a_id a', et, approval_event_payload V a')]
                    | None \<Rightarrow> events)))))"

fun stage_all ::
  "(nat \<Rightarrow> string) \<Rightarrow> nat \<Rightarrow> (string \<times> string \<times> json) list \<Rightarrow> storage_cache \<Rightarrow> storage_error + storage_cache" where
  "stage_all fresh n [] c = Inr c"
| "stage_all fresh n ((subject, et, payload) # es) c =
     (case stage_event (fresh n) subject et payload c of
        Inl e \<Rightarrow> Inl e
      | Inr c' \<Rightarrow> stage_all fresh (n + 1) es c')"

definition sweep_candidates :: "instant \<Rightarrow> storage_cache \<Rightarrow> string list" where
  "sweep_candidates now c =
     map (\<lambda>(i, a). a_id a) (filter (\<lambda>(i, a). is_open (a_status a) \<or> needs_reauth now a) (sc_approvals c))"

definition sweep_in :: "vault_env \<Rightarrow> (nat \<Rightarrow> string) \<Rightarrow> approval_sweep mutation" where
  "sweep_in V fresh c =
     (case foldl (sweep_one V) (c, \<lparr> sw_escalated = [], sw_expired = [] \<rparr>, [])
             (sweep_candidates (ve_now V) c) of
        (c', sw, events) \<Rightarrow>
          (case stage_all fresh 0 events c' of Inl e \<Rightarrow> Inl e | Inr c'' \<Rightarrow> Inr (sw, c'')))"

definition sweep_approval_lifecycle :: "vault_env \<Rightarrow> (nat \<Rightarrow> string) \<Rightarrow> approval_sweep operation" where
  "sweep_approval_lifecycle V fresh c =
     (if \<not> list_ex (\<lambda>(i, a). approval_is_due (ve_now V) a) (sc_approvals c)
      then (Inr \<lparr> sw_escalated = [], sw_expired = [] \<rparr>, c)
      else locked_mutate V (sweep_in V fresh) c)"

section \<open>Executing\<close>

record execution_claim =
  ec_approval :: approval_request
  ec_epoch :: u64
  ec_stale_retake :: bool
  ec_grant :: granted

definition stale_executing_secs :: i64 where
  "stale_executing_secs = 120"

definition stale_claim :: "instant \<Rightarrow> approval_request \<Rightarrow> bool" where
  "stale_claim now a \<longleftrightarrow>
     a_executing a
     \<and> (case a_executing_since a of
          Some t \<Rightarrow> stale_executing_secs < num_seconds (now - t)
        | None \<Rightarrow> True)"

definition claim_fence :: "vault_env \<Rightarrow> storage_cache \<Rightarrow> approval_request \<Rightarrow> string option" where
  "claim_fence V c a =
     refusal_reason
       (kill_fence_verdict (ve_lib V) (map snd (sc_policies c)) (sc_kill_fence c)
          \<lparr> kq_credential_alias = a_credential a, kq_principal = policy_principal a,
            kq_admitted_epoch = (case a_kill_epoch_at_open a of Some e \<Rightarrow> e | None \<Rightarrow> 0) \<rparr>)"

definition claimable :: "instant \<Rightarrow> approval_request \<Rightarrow> bool" where
  "claimable now a \<longleftrightarrow>
     \<not> (a_status a \<noteq> SApproved \<or> a_executed a \<or> (a_executing a \<and> \<not> stale_claim now a)
        \<or> needs_reauth now a \<or> veto_pending now a)"

definition claim_approval_for_execution ::
  "vault_env \<Rightarrow> string \<Rightarrow> execution_claim option operation" where
  "claim_approval_for_execution V i = locked_mutate V (\<lambda>c.
     case t_get (sc_approvals c) i of
       None \<Rightarrow> Inl (ApprovalMissing i)
     | Some a \<Rightarrow>
         if \<not> claimable (ve_now V) a then Inr (None, c)
         else
           (case (if a_executing a \<and> stale_claim (ve_now V) a then None else claim_fence V c a) of
              Some reason \<Rightarrow>
                Inr (None, put_approval i
                  (a \<lparr> a_executed := True, a_executing := False, a_executing_since := None,
                       a_result_status := None, a_result_body := None, a_result_error := Some reason \<rparr>) c)
            | None \<Rightarrow>
                (case next_epoch (a_execution_epoch a) of
                   None \<Rightarrow> Inr (None, c)
                 | Some epoch \<Rightarrow>
                     (case grant_witness_for_epoch (ve_codec V) (ve_now V) epoch a of
                        None \<Rightarrow> Inr (None, c)
                      | Some g \<Rightarrow>
                          (let a' = a \<lparr> a_execution_epoch := epoch, a_executing := True,
                                        a_executing_since := Some (ve_now V) \<rparr>
                           in Inr (Some \<lparr> ec_approval = a', ec_epoch = epoch,
                                          ec_stale_retake = (a_executing a \<and> stale_claim (ve_now V) a),
                                          ec_grant = g \<rparr>,
                                   put_approval i a' c))))))"

definition finalize_execution ::
  "vault_env \<Rightarrow> string \<Rightarrow> u64 \<Rightarrow> approval_request \<Rightarrow> bool operation" where
  "finalize_execution V i epoch result = locked_mutate V (\<lambda>c.
     case t_get (sc_approvals c) i of
       None \<Rightarrow> Inl (ApprovalMissing i)
     | Some a \<Rightarrow>
         if a_execution_epoch a \<noteq> epoch then Inr (False, c)
         else Inr (True, put_approval i
                (a \<lparr> a_executed := a_executed result, a_executing := a_executing result,
                     a_executing_since := a_executing_since result,
                     a_result_status := a_result_status result, a_result_body := a_result_body result,
                     a_result_error := a_result_error result \<rparr>) c))"

definition heartbeat_approval :: "vault_env \<Rightarrow> string \<Rightarrow> unit operation" where
  "heartbeat_approval V i = locked_mutate V (\<lambda>c.
     case t_get (sc_approvals c) i of
       None \<Rightarrow> Inr ((), c)
     | Some a \<Rightarrow>
         Inr ((), if a_executing a \<and> \<not> a_executed a
                  then put_approval i (a \<lparr> a_executing_since := Some (ve_now V) \<rparr>) c
                  else put_approval i a c))"

end
