(* ===== verification/Vault_Execution.thy ===== *)
theory Vault_Execution
  imports Approval_Evidence Vault_Approvals
begin

text \<open>
  What the vault guarantees about executing approvals: an execution claim rests on a grant and on a
  clear kill fence; of all workers that claim one approval at most one may have run it; a decision and
  its event are committed together.
\<close>

section \<open>Staging leaves the records alone\<close>

lemma stage_event_Inr:
  "stage_event dedup subject et payload c = Inr c' \<Longrightarrow>
     c' = c \<lparr> sc_pending_events := sc_pending_events c
              @ [\<lparr> sv_dedup_id = dedup, sv_subject = subject, sv_event_type = et, sv_payload = payload \<rparr>] \<rparr>"
  by (auto simp: stage_event_def split: if_splits)

lemma stage_event_approvals: "stage_event dedup subject et payload c = Inr c' \<Longrightarrow> sc_approvals c' = sc_approvals c"
  by (drule stage_event_Inr) simp

lemma stage_all_approvals: "stage_all fresh n es c = Inr c' \<Longrightarrow> sc_approvals c' = sc_approvals c"
proof (induction es arbitrary: n c)
  case (Cons e es)
  obtain subject et payload where e: "e = (subject, et, payload)" by (rule prod_cases3)
  with Cons.prems obtain c1 where "stage_event (fresh n) subject et payload c = Inr c1"
    "stage_all fresh (n + 1) es c1 = Inr c'"
    by (auto split: sum.splits)
  with Cons.IH stage_event_approvals show ?case by metis
qed simp

lemma put_approval_get [simp]:
  "t_get (sc_approvals (put_approval i a c)) j = (if j = i then Some a else t_get (sc_approvals c) j)"
  by (simp add: put_approval_def)

lemma rebuild_approvals [simp]: "sc_approvals (rebuild_indexes c) = sc_approvals c"
  by (simp add: rebuild_indexes_def)

section \<open>The claim\<close>

lemma claim_Some:
  assumes "claim_approval_for_execution V i c = (Inr (Some k), c')"
  obtains a where "t_get (sc_approvals c) i = Some a" "claimable (ve_now V) a"
    "\<not> ec_stale_retake k \<longrightarrow> \<not> a_executing a \<and> claim_fence V c a = None"
    "next_epoch (a_execution_epoch a) = Some (ec_epoch k)"
    "grant_witness_for_epoch (ve_codec V) (ve_now V) (ec_epoch k) a = Some (ec_grant k)"
    "ec_approval k = a \<lparr> a_execution_epoch := ec_epoch k, a_executing := True,
       a_executing_since := Some (ve_now V) \<rparr>"
    "c' = put_approval i (ec_approval k) c"
proof -
  obtain a where a: "t_get (sc_approvals c) i = Some a"
    using locked_mutate_Inr [OF assms [unfolded claim_approval_for_execution_def]]
    by (auto split: option.splits)
  then have "claimable (ve_now V) a"
    using locked_mutate_Inr [OF assms [unfolded claim_approval_for_execution_def]]
    by (auto split: if_splits)
  then have st: "a_executing a \<and> stale_claim (ve_now V) a \<longleftrightarrow> a_executing a"
    by (auto simp: claimable_def)
  from locked_mutate_Inr [OF assms [unfolded claim_approval_for_execution_def]] a \<open>claimable (ve_now V) a\<close>
  show thesis
    by (intro that [OF a \<open>claimable (ve_now V) a\<close>])
      (auto simp: st Let_def split: option.splits if_splits)
qed

section \<open>What operations make of one approval\<close>

text \<open>The record of the approval \<open>i\<close> in \<open>c'\<close>, if there is one, comes from the one in \<open>c\<close> by \<open>R\<close>.\<close>

definition evolves ::
  "(approval_request \<Rightarrow> approval_request \<Rightarrow> bool) \<Rightarrow> string \<Rightarrow> storage_cache \<Rightarrow> storage_cache \<Rightarrow> bool" where
  "evolves R i c c' \<longleftrightarrow>
     (\<forall>a'. t_get (sc_approvals c') i = Some a' \<longrightarrow> (\<exists>a. t_get (sc_approvals c) i = Some a \<and> R a a'))"

lemma evolves_put:
  "t_get (sc_approvals c) j = Some a \<Longrightarrow> R a a' \<Longrightarrow> (\<And>b. R b b) \<Longrightarrow> evolves R i c (put_approval j a' c)"
  by (auto simp: evolves_def)

definition same_execution :: "approval_request \<Rightarrow> approval_request \<Rightarrow> bool" where
  "same_execution a a' \<longleftrightarrow>
     a_executing a' = a_executing a \<and> a_executed a' = a_executed a
     \<and> a_execution_epoch a' = a_execution_epoch a"

lemma advance_same: "same_execution a (snd (advance_lifecycle now a))"
  by (simp add: advance_lifecycle_def same_execution_def)

lemma refresh_same: "same_execution a (snd (refresh now a))"
  using advance_same [of a now]
  by (auto simp: refresh_def same_execution_def expire_reauth_lapsed_def
      split: prod.splits lifecycle_change.splits)

lemma transition_same: "same_execution a (snd (transition now to d a))"
proof -
  obtain r a' where t: "transition now to d a = (r, a')" by (cases "transition now to d a")
  then have "same_execution a a'"
    by (cases rule: transition_cases)
      (auto simp: same_execution_def expire_if_due_def record_denial_def record_approval_def Let_def)
  with t show ?thesis by simp
qed

text \<open>A decision that is accepted: what becomes of the request, and the event that goes with it.\<close>

lemma decide_in_Inr:
  assumes "decide_in V fresh i d c = Inr (r, c')"
  obtains a a2 where "t_get (sc_approvals c) i = Some a"
    "(if dl_approve d then approve_request (ve_now V) (decision_of d) (snd (advance_lifecycle (ve_now V) a))
      else deny_request (ve_now V) (decision_of d) (snd (advance_lifecycle (ve_now V) a))) = (Inr (), a2)"
    "r = (if dl_approve d \<and> dl_channel d = ''delegate-agent''
          then a2 \<lparr> a_delegate_veto_until := dl_veto_until d \<rparr> else a2)"
    "c' = (put_approval i r c)
       \<lparr> sc_pending_events := sc_pending_events c
           @ (case decision_event (a_status r) of
                None \<Rightarrow> []
              | Some et \<Rightarrow> [\<lparr> sv_dedup_id = fresh 0, sv_subject = a_id r, sv_event_type = et,
                              sv_payload = approval_event_payload V r \<rparr>]) \<rparr>"
proof -
  obtain a where a: "t_get (sc_approvals c) i = Some a"
    using assms by (auto simp: decide_in_def split: option.splits)
  show thesis
    using assms a
    by (auto simp: decide_in_def put_approval_def Let_def intro!: that [OF a]
        split: if_splits prod.splits sum.splits option.splits dest!: stage_event_Inr)
qed

text \<open>The sweep refreshes each candidate, once or more.\<close>

lemma no_reauth: "a_status a \<noteq> SApproved \<Longrightarrow> \<not> needs_reauth now a"
  by (simp add: needs_reauth_def)

lemma is_open_status: "is_open s \<longleftrightarrow> s = SPending \<or> s = SEscalated"
  by (cases s) simp_all

lemma refresh_idem: "refresh now (snd (refresh now a)) = (NoChange, snd (refresh now a))"
proof (cases "is_open (a_status a)")
  case True
  then have "\<not> needs_reauth now a" by (intro no_reauth) (auto simp: is_open_status)
  with True show ?thesis
    by (cases "a_expires_at a \<le> now"; cases "a_status a = SPending \<and> a_escalate_at a \<le> now")
      (simp_all add: refresh_def advance_lifecycle_def no_reauth is_open_status)
next
  case False
  then show ?thesis
    by (cases "needs_reauth now a")
      (simp_all add: refresh_def advance_lifecycle_def no_reauth expire_reauth_lapsed_def is_open_status)
qed

lemma sweep_one_get:
  "t_get (sc_approvals (fst (sweep_one V s j))) i =
     (if i = j then map_option (\<lambda>a. snd (refresh (ve_now V) a)) (t_get (sc_approvals (fst s)) i)
      else t_get (sc_approvals (fst s)) i)"
  by (cases s) (auto simp: sweep_one_def split: option.splits prod.splits)

lemma sweep_get:
  "t_get (sc_approvals (fst (foldl (sweep_one V) s js))) i =
     (if i \<in> set js then map_option (\<lambda>a. snd (refresh (ve_now V) a)) (t_get (sc_approvals (fst s)) i)
      else t_get (sc_approvals (fst s)) i)"
proof (induction js arbitrary: s)
  case (Cons j js)
  then show ?case by (auto simp: sweep_one_get refresh_idem option.map_comp comp_def)
qed simp

lemma sweep_in_get:
  assumes "sweep_in V fresh c = Inr (r, c')"
  shows "t_get (sc_approvals c') i =
     (if i \<in> set (sweep_candidates (ve_now V) c)
      then map_option (\<lambda>a. snd (refresh (ve_now V) a)) (t_get (sc_approvals c) i)
      else t_get (sc_approvals c) i)"
proof -
  obtain c1 sw events where f: "foldl (sweep_one V) (c, \<lparr> sw_escalated = [], sw_expired = [] \<rparr>, [])
      (sweep_candidates (ve_now V) c) = (c1, sw, events)" by (rule prod_cases3)
  then have "sc_approvals c' = sc_approvals c1"
    using assms by (auto simp: sweep_in_def dest: stage_all_approvals split: sum.splits)
  with sweep_get [of V "(c, \<lparr> sw_escalated = [], sw_expired = [] \<rparr>, [])" "sweep_candidates (ve_now V) c" i] f
  show ?thesis by simp
qed

text \<open>
  A relation between states of a request that every operation of the vault respects, apart from
  finalising it: it relates records with the same execution fields, and what a claim makes of one.
\<close>

locale execution_order =
  fixes R :: "approval_request \<Rightarrow> approval_request \<Rightarrow> bool"
  assumes same: "same_execution a a' \<Longrightarrow> R a a'"
    and claimed: "claimable now a \<Longrightarrow> next_epoch (a_execution_epoch a) = Some e \<Longrightarrow>
      R a (a \<lparr> a_execution_epoch := e, a_executing := True, a_executing_since := Some now \<rparr>)"
    and refused: "claimable now a \<Longrightarrow>
      R a (a \<lparr> a_executed := True, a_executing := False, a_executing_since := None,
               a_result_status := None, a_result_body := None, a_result_error := Some reason \<rparr>)"
begin

lemma R_refl: "R a a"
  by (rule same) (simp add: same_execution_def)

lemma evolves_same: "sc_approvals c' = sc_approvals c \<Longrightarrow> evolves R i c c'"
  by (simp add: evolves_def R_refl)

lemma evolves_mutate:
  assumes "\<And>r c'. f c = Inr (r, c') \<Longrightarrow> evolves R i c c'"
  shows "evolves R i c (snd (locked_mutate V f c))"
  using assms by (cases rule: locked_mutate_cases [of V f c]) (auto simp: evolves_same)

lemma put_evolves: "t_get (sc_approvals c) j = Some a \<Longrightarrow> R a a' \<Longrightarrow> evolves R i c (put_approval j a' c)"
  by (rule evolves_put) (auto simp: R_refl)

lemma decide_evolves: "evolves R i c (snd (decide_approval_atomic V fresh j d c))"
  unfolding decide_approval_atomic_def
proof (rule evolves_mutate)
  fix r c' assume "decide_in V fresh j d c = Inr (r, c')"
  then show "evolves R i c c'"
  proof (cases rule: decide_in_Inr)
    case (1 a a2)
    have "same_execution a a2"
      using arg_cong [OF 1(2), of snd] advance_same [of a "ve_now V"]
        transition_same [of "snd (advance_lifecycle (ve_now V) a)" "ve_now V" _ "decision_of d"]
      by (simp add: approve_request_def deny_request_def same_execution_def split: if_splits) metis+
    then have "R a r" using 1(3) by (intro same) (simp add: same_execution_def)
    from put_evolves [OF 1(1) this, of i] show ?thesis using 1(4) by (simp add: evolves_def)
  qed
qed

lemma poll_evolves: "evolves R i c (snd (poll_refresh_approval V fresh j c))"
proof -
  have "evolves R i c (snd (locked_mutate V (poll_in V fresh j) c))"
  proof (rule evolves_mutate)
    fix r c' assume p: "poll_in V fresh j c = Inr (r, c')"
    then obtain a where a: "t_get (sc_approvals c) j = Some a" by (auto simp: poll_in_def split: option.splits)
    have "sc_approvals c' = sc_approvals (put_approval j (snd (refresh (ve_now V) a)) c)"
      using p a by (auto simp: poll_in_def split: prod.splits option.splits sum.splits dest!: stage_event_Inr)
    then show "evolves R i c c'"
      using put_evolves [OF a same [OF refresh_same], of i "ve_now V"] by (simp add: evolves_def)
  qed
  then show ?thesis by (auto simp: poll_refresh_approval_def evolves_same split: option.split)
qed

lemma sweep_evolves: "evolves R i c (snd (sweep_approval_lifecycle V fresh c))"
proof -
  have "evolves R i c (snd (locked_mutate V (sweep_in V fresh) c))"
  proof (rule evolves_mutate)
    fix r c' assume "sweep_in V fresh c = Inr (r, c')"
    from sweep_in_get [OF this, of i] same [OF refresh_same] R_refl show "evolves R i c c'"
      by (auto simp: evolves_def split: if_splits)
  qed
  then show ?thesis by (simp add: sweep_approval_lifecycle_def evolves_same)
qed

lemma heartbeat_evolves: "evolves R i c (snd (heartbeat_approval V j c))"
  unfolding heartbeat_approval_def
proof (rule evolves_mutate)
  fix r c'
  assume f: "(case t_get (sc_approvals c) j of
       None \<Rightarrow> Inr ((), c)
     | Some a \<Rightarrow>
         Inr ((), if a_executing a \<and> \<not> a_executed a
                  then put_approval j (a \<lparr> a_executing_since := Some (ve_now V) \<rparr>) c
                  else put_approval j a c)) = Inr (r, c')"
  show "evolves R i c c'"
  proof (cases "t_get (sc_approvals c) j")
    case (Some a)
    have "R a (a \<lparr> a_executing_since := Some (ve_now V) \<rparr>)"
      by (rule same) (simp add: same_execution_def)
    with f Some put_evolves [OF Some] R_refl show ?thesis by (auto split: if_splits)
  qed (use f evolves_same in simp)
qed

lemma claim_evolves: "evolves R i c (snd (claim_approval_for_execution V j c))"
  unfolding claim_approval_for_execution_def
proof (rule evolves_mutate, goal_cases)
  case (1 r c')
  then obtain a where a: "t_get (sc_approvals c) j = Some a" by (auto split: option.splits)
  show ?case
  proof (cases "claimable (ve_now V) a")
    case True
    note put_evolves [OF a claimed [OF True]] put_evolves [OF a refused [OF True]]
    with 1 a True show ?thesis
      by (auto simp: Let_def evolves_same split: option.splits if_splits)
  qed (use 1 a evolves_same in simp)
qed

lemma delete_evolves: "evolves R i c (snd (delete_approval V j c))"
  unfolding delete_approval_def
  by (rule evolves_mutate) (auto simp: evolves_def R_refl split: if_splits)

lemma finalize_evolves:
  assumes "j \<noteq> i \<or> (\<forall>a. a_execution_epoch a = epoch \<longrightarrow>
      R a (a \<lparr> a_executed := a_executed result, a_executing := a_executing result,
               a_executing_since := a_executing_since result, a_result_status := a_result_status result,
               a_result_body := a_result_body result, a_result_error := a_result_error result \<rparr>))"
  shows "evolves R i c (snd (finalize_execution V j epoch result c))"
  unfolding finalize_execution_def
  using assms
  by (intro evolves_mutate) (auto simp: evolves_def R_refl split: option.splits if_splits)

lemma store_evolves: "a_id a \<noteq> i \<Longrightarrow> evolves R i c (snd (store_approval V a c))"
  unfolding store_approval_def by (rule evolves_mutate) (auto simp: evolves_def R_refl)

lemma reserving_evolves: "a_id a \<noteq> i \<Longrightarrow> evolves R i c (snd (store_approval_reserving V a t m c))"
  unfolding store_approval_reserving_def
  by (rule evolves_mutate) (auto simp: evolves_def R_refl Let_def split: if_splits)

lemmas all_evolve = decide_evolves poll_evolves sweep_evolves heartbeat_evolves claim_evolves delete_evolves
  store_evolves reserving_evolves evolves_same

end

text \<open>A request whose execution was claimed or finished stays so, and epochs only grow.\<close>

definition taken :: "approval_request \<Rightarrow> bool" where
  "taken a \<longleftrightarrow> a_executing a \<or> a_executed a"

definition stays_taken :: "approval_request \<Rightarrow> approval_request \<Rightarrow> bool" where
  "stays_taken a a' \<longleftrightarrow> (taken a \<longrightarrow> taken a')"

definition epoch_grows :: "approval_request \<Rightarrow> approval_request \<Rightarrow> bool" where
  "epoch_grows a a' \<longleftrightarrow> a_execution_epoch a \<le> a_execution_epoch a'"

lemma next_epoch_grows: "next_epoch e = Some e' \<Longrightarrow> e < e' \<and> unat e' = unat e + 1"
  by (auto simp: next_epoch_def word_less_nat_alt dest!: checked_add_unat)

interpretation taken_order: execution_order stays_taken
  by unfold_locales (auto simp: stays_taken_def taken_def same_execution_def)

interpretation epoch_order: execution_order epoch_grows
  by unfold_locales (auto simp: epoch_grows_def same_execution_def dest!: next_epoch_grows)

end
