(* ===== verification/Resume.thy ===== *)
theory Resume
  imports Vault_Execution Auth_Manager
begin

text \<open>
  Polling an approval and running what was approved, \<open>check_and_resume_approval\<close> of
  \<open>src/src/server/mod.rs\<close>.  The run itself, which re-evaluates policy, mints the permit and calls the
  plugin, is the parameter \<open>run\<close>: it returns a response or an error that says whether the plugin had
  been called.
\<close>

section \<open>Who may poll\<close>

record approval_caller =
  cl_principal_id :: string
  cl_agent_label :: "string option"
  cl_tenant :: "string option"

definition caller_from_auth :: "auth_result \<Rightarrow> approval_caller" where
  "caller_from_auth x =
     \<lparr> cl_principal_id = ak_id (ax_api_key x), cl_agent_label = ak_agent_label (ax_api_key x),
       cl_tenant = ak_tenant (ax_api_key x) \<rparr>"

definition id_only :: "string \<Rightarrow> approval_caller" where
  "id_only i = \<lparr> cl_principal_id = i, cl_agent_label = None, cl_tenant = None \<rparr>"

definition non_blank :: "string option \<Rightarrow> string option" where
  "non_blank v = (case v of Some s \<Rightarrow> if trim s = [] then None else Some (trim s) | None \<Rightarrow> None)"

definition owns :: "approval_caller \<Rightarrow> approval_request \<Rightarrow> bool" where
  "owns k a =
     (if ri_principal_id (a_requester a) = Some (cl_principal_id k) then True
      else (case (non_blank (cl_agent_label k), non_blank (a_agent_label a)) of
              (Some caller_label, Some requester_label) \<Rightarrow>
                caller_label = requester_label \<and> non_blank (cl_tenant k) = non_blank (a_tenant a)
            | _ \<Rightarrow> False))"

section \<open>Outcomes of a run\<close>

record run_error =
  re_retryable :: bool
  re_committed :: bool
  re_error :: string

record run_response =
  rr_status :: "16 word"
  rr_body :: string

definition retryable_error :: "string \<Rightarrow> run_error" where
  "retryable_error e = \<lparr> re_retryable = True, re_committed = False, re_error = e \<rparr>"

definition terminal_error :: "string \<Rightarrow> run_error" where
  "terminal_error e = \<lparr> re_retryable = False, re_committed = False, re_error = e \<rparr>"

definition committed_error :: "string \<Rightarrow> run_error" where
  "committed_error e = \<lparr> re_retryable = False, re_committed = True, re_error = e \<rparr>"

definition max_stored_result_body :: nat where
  "max_stored_result_body = 64 * 1024"

text \<open>The last position at which a character begins, not after \<open>n\<close>.\<close>

fun char_boundary :: "string \<Rightarrow> nat \<Rightarrow> nat" where
  "char_boundary s 0 = 0"
| "char_boundary s (Suc n) =
     (if length s = Suc n \<or> Suc n < length s \<and> \<not> cont_byte (byte (s ! Suc n)) then Suc n
      else char_boundary s n)"

definition cap_result_body :: "string \<Rightarrow> string" where
  "cap_result_body body =
     (let txt = utf8_lossy body
      in if length txt \<le> max_stored_result_body then txt
         else (let e = char_boundary txt max_stored_result_body
               in take e txt @ CHR 0x0A # [CHR 0xE2, CHR 0x80, CHR 0xA6] @ ''[truncated ''
                    @ show_nat (length txt - e) @ '' bytes]''))"

definition release_claim :: "approval_request \<Rightarrow> approval_request" where
  "release_claim a = a \<lparr> a_executing := False, a_executing_since := None \<rparr>"

definition finish_stale :: "approval_request \<Rightarrow> approval_request" where
  "finish_stale a =
     (release_claim a)
       \<lparr> a_result_status := None, a_result_body := None,
         a_result_error := Some (''outcome unknown '' @ [CHR 0xE2, CHR 0x80, CHR 0x94]
            @ '' original worker lost mid-execution; re-approve to retry''),
         a_executed := True \<rparr>"

definition finish_run :: "run_error + run_response \<Rightarrow> approval_request \<Rightarrow> approval_request" where
  "finish_run outcome a =
     (case outcome of
        Inr resp \<Rightarrow>
          (release_claim a)
            \<lparr> a_result_status := Some (rr_status resp), a_result_body := Some (cap_result_body (rr_body resp)),
              a_result_error := None, a_executed := True \<rparr>
      | Inl e \<Rightarrow>
          if \<not> re_retryable e then
            (release_claim a)
              \<lparr> a_result_error := Some (if re_committed e
                  then ''outcome unknown '' @ [CHR 0xE2, CHR 0x80, CHR 0x94]
                    @ '' the action may have completed; check the connected service before retrying: ''
                    @ re_error e
                  else re_error e),
                a_executed := True \<rparr>
          else
            (release_claim a)
              \<lparr> a_result_error :=
                  Some (''could not start the approved action (will retry on next check): '' @ re_error e) \<rparr>)"

section \<open>Polling and running\<close>

datatype resume_error =
    ApprovalUnknown string
  | NotTheOwner
  | StorageFailed storage_error

text \<open>The committed record if the finalisation took effect, else the stored one.\<close>

definition settle ::
  "vault_env \<Rightarrow> string \<Rightarrow> u64 \<Rightarrow> approval_request \<Rightarrow> storage_cache
     \<Rightarrow> (resume_error + approval_request) \<times> storage_cache" where
  "settle V i epoch claimed c =
     (case finalize_execution V i epoch claimed c of
        (Inl e, c') \<Rightarrow> (Inl (StorageFailed e), c')
      | (Inr True, c') \<Rightarrow> (Inr claimed, c')
      | (Inr False, c') \<Rightarrow>
          (Inr (case t_get (sc_approvals c') i of Some a \<Rightarrow> a | None \<Rightarrow> claimed), c'))"

text \<open>\<open>V\<close> is the environment when the poll begins and \<open>V'\<close> when the run has ended; \<open>during\<close> is what
  the other operations make of the vault in between.\<close>

definition check_and_resume_approval ::
  "vault_env \<Rightarrow> vault_env \<Rightarrow> (nat \<Rightarrow> string) \<Rightarrow> (storage_cache \<Rightarrow> storage_cache)
     \<Rightarrow> (approval_request \<Rightarrow> granted \<Rightarrow> run_error + run_response)
     \<Rightarrow> string \<Rightarrow> approval_caller option \<Rightarrow> storage_cache
     \<Rightarrow> (resume_error + approval_request) \<times> storage_cache" where
  "check_and_resume_approval V V' fresh during run i caller c =
     (case t_get (sc_approvals c) i of
        None \<Rightarrow> (Inl (ApprovalUnknown i), c)
      | Some a0 \<Rightarrow>
          if (case caller of Some k \<Rightarrow> \<not> owns k a0 | None \<Rightarrow> False) then (Inl NotTheOwner, c)
          else
            (case poll_refresh_approval V fresh i c of
               (Inl e, c1) \<Rightarrow> (Inl (StorageFailed e), c1)
             | (Inr a, c1) \<Rightarrow>
                 if a_status a \<noteq> SApproved \<or> a_executed a then (Inr a, c1)
                 else
                   (case claim_approval_for_execution V i c1 of
                      (Inl e, c2) \<Rightarrow> (Inl (StorageFailed e), c2)
                    | (Inr None, c2) \<Rightarrow>
                        (Inr (case t_get (sc_approvals c2) i of Some a' \<Rightarrow> a' | None \<Rightarrow> a), c2)
                    | (Inr (Some k), c2) \<Rightarrow>
                        if ec_stale_retake k then settle V i (ec_epoch k) (finish_stale (ec_approval k)) c2
                        else settle V' i (ec_epoch k)
                               (finish_run (run (ec_approval k) (ec_grant k)) (ec_approval k))
                               (during c2))))"

section \<open>Workers that share the vault\<close>

text \<open>
  The state is the vault and the epochs of the fresh claims on the approval \<open>i\<close> whose run may have had
  an effect: an epoch is added when a fresh claim is handed out and removed when its worker ends with
  an error before the plugin was called.  Any operation may come between; the identifier of a new
  approval is not the one of \<open>i\<close>.
\<close>

inductive worker_step ::
  "string \<Rightarrow> storage_cache \<times> u64 set \<Rightarrow> storage_cache \<times> u64 set \<Rightarrow> bool" for i where
  ws_claim: "claim_approval_for_execution V i c = (Inr (Some k), c') \<Longrightarrow>
     worker_step i (c, live)
       (c', if ec_stale_retake k then live else insert (ec_epoch k) live)"
| ws_no_claim: "claim_approval_for_execution V i c = (r, c') \<Longrightarrow> (\<And>k. r \<noteq> Inr (Some k)) \<Longrightarrow>
     worker_step i (c, live) (c', live)"
| ws_stale: "worker_step i (c, live) (snd (finalize_execution V i epoch (finish_stale a) c), live)"
| ws_finish: "(\<And>e. outcome = Inl e \<Longrightarrow> \<not> re_retryable e) \<Longrightarrow>
     worker_step i (c, live) (snd (finalize_execution V i epoch (finish_run outcome a) c), live)"
| ws_retry: "epoch \<in> live \<Longrightarrow> re_retryable e \<Longrightarrow>
     worker_step i (c, live) (snd (finalize_execution V i epoch (finish_run (Inl e) a) c), live - {epoch})"
| ws_heartbeat: "worker_step i (c, live) (snd (heartbeat_approval V j c), live)"
| ws_decide: "worker_step i (c, live) (snd (decide_approval_atomic V fresh j d c), live)"
| ws_poll: "worker_step i (c, live) (snd (poll_refresh_approval V fresh j c), live)"
| ws_sweep: "worker_step i (c, live) (snd (sweep_approval_lifecycle V fresh c), live)"
| ws_delete: "worker_step i (c, live) (snd (delete_approval V j c), live)"
| ws_open: "a_id b \<noteq> i \<Longrightarrow> worker_step i (c, live) (snd (store_approval V b c), live)"
| ws_reserve: "a_id b \<noteq> i \<Longrightarrow> worker_step i (c, live) (snd (store_approval_reserving V b t m c), live)"
| ws_other_claim: "j \<noteq> i \<Longrightarrow> worker_step i (c, live) (snd (claim_approval_for_execution V j c), live)"
| ws_other_finish: "j \<noteq> i \<Longrightarrow> worker_step i (c, live) (snd (finalize_execution V j epoch a c), live)"
| ws_elsewhere: "sc_approvals c' = sc_approvals c \<Longrightarrow> worker_step i (c, live) (c', live)"

definition one_run :: "string \<Rightarrow> storage_cache \<times> u64 set \<Rightarrow> bool" where
  "one_run i s \<longleftrightarrow>
     (case s of (c, live) \<Rightarrow>
        live = {} \<or> (\<exists>e. live = {e})
          \<and> (\<forall>a. t_get (sc_approvals c) i = Some a \<longrightarrow> taken a))"

lemma one_run_evolves:
  "one_run i (c, live) \<Longrightarrow> evolves stays_taken i c c' \<Longrightarrow> one_run i (c', live)"
  by (fastforce simp: one_run_def evolves_def stays_taken_def)

lemma finish_taken:
  "taken (finish_stale a)"
  "(\<And>e. outcome = Inl e \<Longrightarrow> \<not> re_retryable e) \<Longrightarrow> taken (finish_run outcome a)"
  by (auto simp: taken_def finish_stale_def finish_run_def split: sum.split)

lemma finalize_taken:
  "j \<noteq> i \<or> taken result \<Longrightarrow> evolves stays_taken i c (snd (finalize_execution V j epoch result c))"
  by (rule taken_order.finalize_evolves) (auto simp: stays_taken_def taken_def)

lemma worker_one_run:
  assumes "worker_step i s s'" "one_run i s"
  shows "one_run i s'"
  using assms
proof (induction rule: worker_step.induct)
  case (ws_claim V c k c' live)
  from ws_claim.hyps show ?case
  proof (cases rule: claim_Some)
    case (1 a)
    show ?thesis
    proof (cases "ec_stale_retake k")
      case True
      with ws_claim.prems 1 show ?thesis by (auto simp: one_run_def taken_def)
    next
      case False
      with 1 have "\<not> taken a" by (auto simp: taken_def claimable_def)
      with ws_claim.prems 1 have "live = {}" by (auto simp: one_run_def)
      with False 1 show ?thesis by (auto simp: one_run_def taken_def)
    qed
  qed
next
  case (ws_no_claim V c r c' live)
  then show ?case using one_run_evolves taken_order.claim_evolves [of i c V i] by simp
next
  case (ws_retry epoch live e c V a)
  then have "live - {epoch} = {}" by (auto simp: one_run_def)
  then show ?case by (simp add: one_run_def)
qed (auto intro: one_run_evolves finalize_taken taken_order.all_evolve finish_taken)

text \<open>A worker whose claim was superseded cannot commit its outcome.\<close>

lemma finalize_epoch: "evolves epoch_grows i c (snd (finalize_execution V j epoch result c))"
  by (rule epoch_order.finalize_evolves) (simp add: epoch_grows_def)

lemma worker_epoch:
  assumes "worker_step i s s'"
  shows "evolves epoch_grows i (fst s) (fst s')"
  using assms
proof (induction rule: worker_step.induct)
  case (ws_claim V c k c' live)
  then show ?case using epoch_order.claim_evolves [of i c V i] by simp
next
  case (ws_no_claim V c r c' live)
  then show ?case using epoch_order.claim_evolves [of i c V i] by simp
qed (auto intro: epoch_order.all_evolve finalize_epoch)

lemma workers_epoch:
  assumes "(worker_step i)\<^sup>*\<^sup>* s s'"
  shows "evolves epoch_grows i (fst s) (fst s')"
  using assms
proof (induction rule: rtranclp_induct)
  case base
  then show ?case by (simp add: epoch_order.evolves_same)
next
  case (step y z)
  with worker_epoch [OF step(2)] show ?case
    unfolding evolves_def epoch_grows_def by (meson order_trans)
qed

lemma finalize_fenced:
  assumes "\<And>b. t_get (sc_approvals c) i = Some b \<Longrightarrow> a_execution_epoch b \<noteq> epoch"
  shows "sc_approvals (snd (finalize_execution V i epoch result c)) = sc_approvals c
    \<and> fst (finalize_execution V i epoch result c) \<noteq> Inr True"
  using assms by (auto simp: finalize_execution_def locked_mutate_def split: option.split sum.split)

lemma superseded_cannot_commit:
  assumes "claim_approval_for_execution V i c = (Inr (Some k), c1)"
    and "(worker_step i)\<^sup>*\<^sup>* (c1, l1) (c2, l2)"
    and "claim_approval_for_execution V' i c2 = (Inr (Some k'), c3)"
    and "(worker_step i)\<^sup>*\<^sup>* (c3, l3) (c4, l4)"
  shows "sc_approvals (snd (finalize_execution W i (ec_epoch k) result c4)) = sc_approvals c4
    \<and> fst (finalize_execution W i (ec_epoch k) result c4) \<noteq> Inr True"
proof (rule finalize_fenced)
  have k: "t_get (sc_approvals c1) i = Some (ec_approval k)" "a_execution_epoch (ec_approval k) = ec_epoch k"
    using assms(1) by (cases rule: claim_Some; simp)+
  from assms(3) obtain a where a: "t_get (sc_approvals c2) i = Some a"
    "next_epoch (a_execution_epoch a) = Some (ec_epoch k')"
    and k': "t_get (sc_approvals c3) i = Some (ec_approval k')" "a_execution_epoch (ec_approval k') = ec_epoch k'"
    by (cases rule: claim_Some) auto
  have "ec_epoch k \<le> a_execution_epoch a"
    using workers_epoch [OF assms(2)] a k by (auto simp: evolves_def epoch_grows_def)
  then have lt: "ec_epoch k < ec_epoch k'" using next_epoch_grows [OF a(2)] by (auto intro: le_less_trans)
  fix b assume "t_get (sc_approvals c4) i = Some b"
  then have "ec_epoch k' \<le> a_execution_epoch b"
    using workers_epoch [OF assms(4)] k' by (auto simp: evolves_def epoch_grows_def)
  with lt show "a_execution_epoch b \<noteq> ec_epoch k" by force
qed

section \<open>A lapsed grant that is being executed\<close>

text \<open>The window of a grant lapses for good.\<close>

lemma num_seconds_mono:
  assumes "s \<le> t"
  shows "num_seconds s \<le> num_seconds t"
proof (cases "t < 0")
  case True
  then have "(- t) div nanos \<le> (- s) div nanos" using assms by (intro zdiv_mono1) auto
  with True assms show ?thesis by (simp add: num_seconds_def)
next
  case False
  then have "0 \<le> t div nanos" by (simp add: pos_imp_zdiv_nonneg_iff)
  moreover have "s < 0 \<Longrightarrow> 0 \<le> (- s) div nanos" by (simp add: pos_imp_zdiv_nonneg_iff)
  moreover have "\<not> s < 0 \<Longrightarrow> s div nanos \<le> t div nanos" using assms by (intro zdiv_mono1) auto
  ultimately show ?thesis using False by (auto simp: num_seconds_def)
qed

lemma needs_reauth_later:
  assumes "needs_reauth now a" "now \<le> later"
  shows "needs_reauth later a"
proof -
  obtain t where t: "a_status a = SApproved" "\<not> a_executed a" "a_decided_at a = Some t"
    "sint (unrun_window a) < num_seconds (now - t)"
    using assms(1) by (auto simp: needs_reauth_def split: if_splits option.splits)
  moreover have "num_seconds (now - t) \<le> num_seconds (later - t)" using assms(2) by (intro num_seconds_mono) simp
  ultimately show ?thesis by (simp add: needs_reauth_def)
qed

lemma refresh_lapsed: "needs_reauth now a \<Longrightarrow> refresh now a = (BecameExpired, expire_reauth_lapsed a)"
  by (auto simp: refresh_def advance_lifecycle_def needs_reauth_def is_open_status split: if_splits)

lemma lapse_shape: "a_executing a \<Longrightarrow> validate_vault_shape K now (expire_reauth_lapsed a) \<noteq> Inr ()"
  by (auto simp: shape_iff execution_shape_def expire_reauth_lapsed_def)

lemma malformed_commit:
  assumes "\<And>r c'. f c = Inr (r, c') \<Longrightarrow> t_get (sc_approvals c') i = Some (expire_reauth_lapsed a)"
    and "a_executing a"
  shows "\<exists>e. locked_mutate V f c = (Inl e, rebuild_indexes c)"
proof (cases rule: locked_mutate_cases [of V f c])
  case (2 r c')
  then have "(i, expire_reauth_lapsed a) \<in> set (sc_approvals c')" using assms(1) by (auto dest: t_get_mem)
  with 2(3) have "validate_vault_shape (ve_codec V) (ve_now V) (expire_reauth_lapsed a) = Inr ()"
    by (fastforce dest!: shapes_approvals simp: approvals_shape_Inr)
  with lapse_shape [OF assms(2)] show ?thesis by blast
qed auto

lemma lapsed_execution_wedges:
  assumes "t_get (sc_approvals c) i = Some a" "a_id a = i" "a_executing a" "needs_reauth now a"
    and "now \<le> ve_now V"
  shows "(\<exists>e. sweep_approval_lifecycle V fresh c = (Inl e, rebuild_indexes c))
    \<and> (\<exists>e. poll_refresh_approval V fresh i c = (Inl e, rebuild_indexes c))
    \<and> sc_approvals (snd (claim_approval_for_execution V i c)) = sc_approvals c"
proof (intro conjI)
  have n: "needs_reauth (ve_now V) a" using assms(4,5) by (rule needs_reauth_later)
  then have due: "approval_is_due (ve_now V) a" by (simp add: approval_is_due_def)
  have m: "(i, a) \<in> set (sc_approvals c)" using assms(1) by (rule t_get_mem)
  have "i \<in> set (sweep_candidates (ve_now V) c)"
    using m n assms(2) by (force simp: sweep_candidates_def)
  then have "\<exists>e. locked_mutate V (sweep_in V fresh) c = (Inl e, rebuild_indexes c)"
    using assms(1,3) refresh_lapsed [OF n] by (intro malformed_commit) (auto simp: sweep_in_get)
  moreover have "list_ex (\<lambda>(i, a). approval_is_due (ve_now V) a) (sc_approvals c)"
    using m due by (auto simp: list_ex_iff)
  ultimately show "\<exists>e. sweep_approval_lifecycle V fresh c = (Inl e, rebuild_indexes c)"
    by (simp add: sweep_approval_lifecycle_def)
  have "\<exists>e. locked_mutate V (poll_in V fresh i) c = (Inl e, rebuild_indexes c)"
  proof (rule malformed_commit)
    fix r c' assume "poll_in V fresh i c = Inr (r, c')"
    then show "t_get (sc_approvals c') i = Some (expire_reauth_lapsed a)"
      using assms(1) refresh_lapsed [OF n]
      by (auto simp: poll_in_def split: sum.splits dest!: stage_event_Inr)
  qed (rule assms(3))
  then show "\<exists>e. poll_refresh_approval V fresh i c = (Inl e, rebuild_indexes c)"
    using assms(1) due by (simp add: poll_refresh_approval_def)
  have "\<not> claimable (ve_now V) a" using n by (simp add: claimable_def)
  then show "sc_approvals (snd (claim_approval_for_execution V i c)) = sc_approvals c"
    using assms(1)
    by (auto simp: claim_approval_for_execution_def locked_mutate_def split: sum.split)
qed

end
