(* ===== verification/Vault_Admin.thy ===== *)
theory Vault_Admin
  imports Vault
begin

text \<open>
  Further operations of the vault, \<open>src/src/storage/file.rs\<close>: stored policies with the kill fence, capabilities,
  the idempotency records of the admin API, native drafts, and the collection of what is no longer
  needed.
\<close>

section \<open>Policies and the kill fence\<close>

definition store_policy :: "vault_env \<Rightarrow> policy \<Rightarrow> unit operation" where
  "store_policy V p = locked_mutate V (\<lambda>c.
     Inr ((), c \<lparr> sc_kill_fence := snd (record_store (ve_now V) p (sc_kill_fence c)),
                  sc_policies := t_put (p_id p) p (sc_policies c) \<rparr>))"

definition kill_fence_epoch :: "storage_cache \<Rightarrow> u64" where
  "kill_fence_epoch c = kf_epoch (sc_kill_fence c)"

definition kill_fence_check :: "vault_env \<Rightarrow> kill_fence_query \<Rightarrow> storage_cache \<Rightarrow> fence_verdict" where
  "kill_fence_check V q c = kill_fence_verdict (ve_lib V) (map snd (sc_policies c)) (sc_kill_fence c) q"

definition kill_fence_ack :: "string \<Rightarrow> storage_cache \<Rightarrow> u64 option" where
  "kill_fence_ack policy_id c =
     (case t_get (sc_policies c) policy_id of
        Some p \<Rightarrow> if p_kill p then map_option km_epoch (t_get (kf_marks (sc_kill_fence c)) policy_id) else None
      | None \<Rightarrow> None)"

definition delete_policy :: "vault_env \<Rightarrow> string \<Rightarrow> unit operation" where
  "delete_policy V i = locked_mutate V (\<lambda>c.
     if t_get (sc_policies c) i = None then Inl (PolicyNotFound i)
     else Inr ((), c \<lparr> sc_policies := t_del i (sc_policies c) \<rparr>))"

section \<open>Capabilities\<close>

definition store_capability :: "vault_env \<Rightarrow> capability \<Rightarrow> unit operation" where
  "store_capability V p = locked_mutate V (\<lambda>c.
     Inr ((), c \<lparr> sc_capabilities := t_put (cp_id p) p (sc_capabilities c) \<rparr>))"

definition delete_capability :: "vault_env \<Rightarrow> string \<Rightarrow> unit operation" where
  "delete_capability V i = locked_mutate V (\<lambda>c.
     if t_get (sc_capabilities c) i = None then Inl (CapabilityNotFound i)
     else Inr ((), c \<lparr> sc_capabilities := t_del i (sc_capabilities c) \<rparr>))"

section \<open>Idempotency keys\<close>

datatype idempotency_state = Fresh | IdemPending | Done "16 word" string | Mismatch

definition stale_idempotency_reservation_secs :: i64 where
  "stale_idempotency_reservation_secs = 60"

definition idempotency_retention_secs :: i64 where
  "idempotency_retention_secs = 24 * 60 * 60"

definition gc_idempotency :: "instant \<Rightarrow> storage_cache \<Rightarrow> storage_cache" where
  "gc_idempotency now c =
     c \<lparr> sc_idempotency :=
           t_retain (\<lambda>_ rec. let age = num_seconds (now - ir_created_at rec)
                             in if ir_done rec then age < idempotency_retention_secs
                                else age < stale_idempotency_reservation_secs) (sc_idempotency c) \<rparr>"

definition reserve_key :: "instant \<Rightarrow> string \<Rightarrow> string \<Rightarrow> storage_cache \<Rightarrow> storage_cache" where
  "reserve_key now key body_hash c =
     (let c = gc_idempotency now c
      in c \<lparr> sc_idempotency :=
               t_put key \<lparr> ir_done = False, ir_body_hash = body_hash, ir_status = 0, ir_response = [],
                           ir_created_at = now \<rparr> (sc_idempotency c) \<rparr>)"

definition idempotency_check_or_reserve ::
  "vault_env \<Rightarrow> string \<Rightarrow> string \<Rightarrow> idempotency_state operation" where
  "idempotency_check_or_reserve V key body_hash = locked_mutate V (\<lambda>c.
     case t_get (sc_idempotency c) key of
       None \<Rightarrow> Inr (Fresh, reserve_key (ve_now V) key body_hash c)
     | Some rec \<Rightarrow>
         if \<not> ir_done rec
            \<and> stale_idempotency_reservation_secs < num_seconds (ve_now V - ir_created_at rec)
         then Inr (Fresh, reserve_key (ve_now V) key body_hash c)
         else if ir_body_hash rec \<noteq> body_hash then Inr (Mismatch, c)
         else if ir_done rec then Inr (Done (ir_status rec) (ir_response rec), c)
         else Inr (IdemPending, c))"

definition idempotency_complete ::
  "vault_env \<Rightarrow> string \<Rightarrow> string \<Rightarrow> 16 word \<Rightarrow> string \<Rightarrow> unit operation" where
  "idempotency_complete V key body_hash status body = locked_mutate V (\<lambda>c.
     Inr ((),
       (case t_get (sc_idempotency c) key of
          Some rec \<Rightarrow>
            if ir_body_hash rec = body_hash
            then c \<lparr> sc_idempotency := t_put key (rec \<lparr> ir_done := True, ir_status := status,
                                                        ir_response := body \<rparr>) (sc_idempotency c) \<rparr>
            else c
        | None \<Rightarrow>
            c \<lparr> sc_idempotency :=
                  t_put key \<lparr> ir_done = True, ir_body_hash = body_hash, ir_status = status,
                              ir_response = body, ir_created_at = ve_now V \<rparr> (sc_idempotency c) \<rparr>)))"

definition idempotency_release :: "vault_env \<Rightarrow> string \<Rightarrow> unit operation" where
  "idempotency_release V key = locked_mutate V (\<lambda>c.
     Inr ((),
       (case t_get (sc_idempotency c) key of
          Some rec \<Rightarrow> if \<not> ir_done rec then c \<lparr> sc_idempotency := t_del key (sc_idempotency c) \<rparr> else c
        | None \<Rightarrow> c)))"

section \<open>Native drafts\<close>

definition put_draft :: "string \<Rightarrow> native_draft_record \<Rightarrow> storage_cache \<Rightarrow> storage_cache" where
  "put_draft k d c = c \<lparr> sc_native_drafts := t_put k d (sc_native_drafts c) \<rparr>"

definition reserve_native_draft ::
  "vault_env \<Rightarrow> string \<Rightarrow> native_draft_key \<Rightarrow> string \<Rightarrow> native_draft_metadata
     \<Rightarrow> native_draft_reservation operation" where
  "reserve_native_draft V uuid key payload_hash metadata c =
     (case validate_draft_key key of
        Inl reason \<Rightarrow> (Inl (InvalidConfig reason), c)
      | Inr _ \<Rightarrow>
          if blank payload_hash then (Inl (InvalidConfig ''native draft payload_hash is blank''), c)
          else locked_mutate V (\<lambda>c.
            let storage_key = ve_draft_key V key in
            case t_get (sc_native_drafts c) storage_key of
              Some existing \<Rightarrow>
                if nd_payload_hash existing \<noteq> payload_hash
                   \<or> dm_content_hash (nd_metadata existing) \<noteq> dm_content_hash metadata
                then Inl (Conflict ''native draft key is already bound to different content'')
                else Inr (ExistingDraft existing, c)
            | None \<Rightarrow>
                (let d = \<lparr> nd_key = key, nd_payload_hash = payload_hash, nd_metadata = metadata,
                           nd_reservation_token = uuid, nd_status = Reserved, nd_receipt = None,
                           nd_original_receipt = None, nd_error = None, nd_created_at = ve_now V,
                           nd_updated_at = ve_now V \<rparr>
                 in (case validate_draft d of
                       Inl reason \<Rightarrow> Inl (Malformed (''new native draft record is invalid: '' @ reason))
                     | Inr _ \<Rightarrow> Inr (FreshDraft d, put_draft storage_key d c)))) c)"

definition get_native_draft ::
  "vault_env \<Rightarrow> native_draft_key \<Rightarrow> storage_cache \<Rightarrow> storage_error + native_draft_record option" where
  "get_native_draft V key c =
     (case validate_draft_key key of
        Inl reason \<Rightarrow> Inl (InvalidConfig reason)
      | Inr _ \<Rightarrow> Inr (t_get (sc_native_drafts c) (ve_draft_key V key)))"

definition release_native_draft :: "vault_env \<Rightarrow> native_draft_key \<Rightarrow> string \<Rightarrow> bool operation" where
  "release_native_draft V key reservation_token c =
     (case validate_draft_key key of
        Inl reason \<Rightarrow> (Inl (InvalidConfig reason), c)
      | Inr _ \<Rightarrow>
          if blank reservation_token
          then (Inl (InvalidConfig ''native draft release token is blank''), c)
          else locked_mutate V (\<lambda>c.
            let storage_key = ve_draft_key V key;
                releasable = (case t_get (sc_native_drafts c) storage_key of
                                Some d \<Rightarrow> nd_status d = Reserved \<and> nd_reservation_token d = reservation_token
                              | None \<Rightarrow> False)
            in Inr (releasable,
                    if releasable then c \<lparr> sc_native_drafts := t_del storage_key (sc_native_drafts c) \<rparr>
                    else c)) c)"

definition finalize_native_draft ::
  "vault_env \<Rightarrow> native_draft_key \<Rightarrow> string \<Rightarrow> string \<Rightarrow> native_draft_outcome
     \<Rightarrow> native_draft_record operation" where
  "finalize_native_draft V key reservation_token payload_hash outcome c =
     (case validate_draft_key key of
        Inl reason \<Rightarrow> (Inl (InvalidConfig reason), c)
      | Inr _ \<Rightarrow>
          if blank reservation_token \<or> blank payload_hash
          then (Inl (InvalidConfig ''native draft finalize token/hash is blank''), c)
          else locked_mutate V (\<lambda>c.
            let storage_key = ve_draft_key V key in
            case t_get (sc_native_drafts c) storage_key of
              None \<Rightarrow> Inl (CredentialNotFound ''native draft mapping'')
            | Some d \<Rightarrow>
                if nd_payload_hash d \<noteq> payload_hash
                then Inl (Conflict ''native draft finalize payload does not match reservation'')
                else if nd_reservation_token d \<noteq> reservation_token
                then Inl (Conflict ''native draft finalize token is not the reservation owner'')
                else if nd_status d \<noteq> Reserved then
                  (if nd_status d = no_status outcome \<and> nd_receipt d = no_receipt outcome
                      \<and> nd_error d = no_error outcome
                   then Inr (d, put_draft storage_key d c)
                   else Inl (Conflict ''native draft operation already has a different terminal outcome''))
                else if no_status outcome = Reserved
                then Inl (Conflict ''native draft cannot finalize back to reserved'')
                else
                  (let d' = d \<lparr> nd_status := no_status outcome,
                                nd_original_receipt :=
                                  (if nd_original_receipt d = None then no_receipt outcome
                                   else nd_original_receipt d),
                                nd_receipt := no_receipt outcome, nd_error := no_error outcome,
                                nd_updated_at := ve_now V \<rparr>
                   in (case validate_draft d' of
                         Inl reason \<Rightarrow> Inl (Malformed (''finalized native draft record is invalid: '' @ reason))
                       | Inr _ \<Rightarrow> Inr (d', put_draft storage_key d' c)))) c)"

section \<open>Collection\<close>

definition terminal_approval_body_retention_secs :: i64 where
  "terminal_approval_body_retention_secs = 7 * 24 * 60 * 60"

definition dead_use_token_grace_secs :: i64 where
  "dead_use_token_grace_secs = 24 * 60 * 60"

definition approval_result_body_prunable :: "instant \<Rightarrow> approval_request \<Rightarrow> bool" where
  "approval_result_body_prunable now a \<longleftrightarrow>
     a_executed a \<and> a_result_body a \<noteq> None \<and> \<not> is_open (a_status a) \<and> \<not> a_executing a
     \<and> (case a_decided_at a of
          Some t \<Rightarrow> terminal_approval_body_retention_secs < num_seconds (now - t)
        | None \<Rightarrow> False)"

definition use_token_prunable :: "instant \<Rightarrow> use_token \<Rightarrow> bool" where
  "use_token_prunable now t =
     (if check_usable now t = Inr () then False
      else
        (let reference = max (case ut_last_used_at t of Some u \<Rightarrow> u | None \<Rightarrow> ut_created_at t) (ut_created_at t);
             reference = (case ut_expires_at t of
                            Some e \<Rightarrow> if e \<le> now then max reference e else reference
                          | None \<Rightarrow> reference)
         in dead_use_token_grace_secs < num_seconds (now - reference)))"

definition live_for_marks :: "approval_request \<Rightarrow> bool" where
  "live_for_marks a \<longleftrightarrow>
     a_executing a \<or> (\<not> a_executed a \<and> \<not> (a_status a = SDenied \<or> a_status a = SExpired))"

definition dead_marks :: "instant \<Rightarrow> storage_cache \<Rightarrow> string list" where
  "dead_marks now c =
     dead_kill_marks (sc_kill_fence c)
       (\<lambda>i. case t_get (sc_policies c) i of Some p \<Rightarrow> p_kill p | None \<Rightarrow> False)
       (map (\<lambda>a. case a_kill_epoch_at_open a of Some e \<Rightarrow> e | None \<Rightarrow> 0)
          (filter live_for_marks (map snd (sc_approvals c)))) now"

definition shed_body :: "string \<Rightarrow> storage_cache \<Rightarrow> storage_cache" where
  "shed_body i c =
     (case t_get (sc_approvals c) i of
        Some a \<Rightarrow> c \<lparr> sc_approvals := t_put i (a \<lparr> a_result_body := None \<rparr>) (sc_approvals c) \<rparr>
      | None \<Rightarrow> c)"

definition drop_token :: "string \<times> string \<Rightarrow> storage_cache \<Rightarrow> storage_cache" where
  "drop_token ih c =
     c \<lparr> sc_use_tokens := t_del (fst ih) (sc_use_tokens c),
         sc_use_token_hash_index := t_del (snd ih) (sc_use_token_hash_index c) \<rparr>"

definition drop_mark :: "string \<Rightarrow> storage_cache \<Rightarrow> storage_cache" where
  "drop_mark i c =
     c \<lparr> sc_kill_fence := (sc_kill_fence c) \<lparr> kf_marks := t_del i (kf_marks (sc_kill_fence c)) \<rparr> \<rparr>"

definition gc_in :: "instant \<Rightarrow> (nat \<times> nat \<times> nat) mutation" where
  "gc_in now c =
     (let ids = map a_id (filter (approval_result_body_prunable now) (map snd (sc_approvals c)));
          c1 = foldl (\<lambda>c i. shed_body i c) c ids;
          dead = map (\<lambda>t. (ut_id t, ut_token_hash t))
                   (filter (use_token_prunable now) (map snd (sc_use_tokens c1)));
          c2 = foldl (\<lambda>c ih. drop_token ih c) c1 dead;
          marks = dead_marks now c2;
          c3 = foldl (\<lambda>c i. drop_mark i c) c2 marks
      in Inr ((length ids, length dead, length marks), c3))"

definition gc_vault_at :: "vault_env \<Rightarrow> (nat \<times> nat \<times> nat) operation" where
  "gc_vault_at V c =
     (let now = ve_now V
      in if \<not> (list_ex (\<lambda>(i, a). approval_result_body_prunable now a) (sc_approvals c)
               \<or> list_ex (\<lambda>(i, t). use_token_prunable now t) (sc_use_tokens c) \<or> dead_marks now c \<noteq> [])
         then (Inr (0, 0, 0), c)
         else locked_mutate V (gc_in now) c)"

end
