(* ===== verification/Vault_Limits.thy ===== *)
theory Vault_Limits
  imports Vault_Admin
begin

text \<open>
  What the vault bounds: how often a use token drives an execution, that a workload assertion is taken
  once, and that a completed idempotency key replays its response.
\<close>

lemma rebuild_tables [simp]:
  "sc_use_tokens (rebuild_indexes c) = sc_use_tokens c"
  "sc_workload_jtis (rebuild_indexes c) = sc_workload_jtis c"
  "sc_idempotency (rebuild_indexes c) = sc_idempotency c"
  by (simp_all add: rebuild_indexes_def)

lemma put_use_token_get [simp]:
  "t_get (sc_use_tokens (put_use_token i t c)) j = (if j = i then Some t else t_get (sc_use_tokens c) j)"
  by (simp add: put_use_token_def)

section \<open>Use tokens\<close>

text \<open>The token \<open>i\<close> keeps its limit and its count, and a revocation lasts.\<close>

definition token_kept :: "string \<Rightarrow> storage_cache \<Rightarrow> storage_cache \<Rightarrow> bool" where
  "token_kept i c c' \<longleftrightarrow>
     (\<forall>t'. t_get (sc_use_tokens c') i = Some t' \<longrightarrow>
        (\<exists>t. t_get (sc_use_tokens c) i = Some t \<and> ut_max_uses t' = ut_max_uses t
             \<and> ut_uses t' = ut_uses t \<and> (ut_revoked t \<longrightarrow> ut_revoked t')))"

lemma token_kept_refl: "token_kept i c c"
  by (simp add: token_kept_def)

lemma token_kept_trans: "token_kept i c c' \<Longrightarrow> token_kept i c' c'' \<Longrightarrow> token_kept i c c''"
  unfolding token_kept_def by fastforce

lemma token_kept_same: "sc_use_tokens c' = sc_use_tokens c \<Longrightarrow> token_kept i c c'"
  by (simp add: token_kept_def)

lemma token_kept_fold:
  assumes "\<And>c x. token_kept i c (f c x)"
  shows "token_kept i c (foldl f c xs)"
  by (induction xs arbitrary: c) (auto intro: token_kept_refl token_kept_trans assms)

lemma token_kept_revoke:
  "t_get (sc_use_tokens c) j = Some t \<Longrightarrow> token_kept i c (put_use_token j (t \<lparr> ut_revoked := True \<rparr>) c)"
  by (auto simp: token_kept_def)

lemma token_kept_mutate:
  assumes "\<And>r c'. f c = Inr (r, c') \<Longrightarrow> token_kept i c c'"
  shows "token_kept i c (snd (locked_mutate V f c))"
  using assms by (cases rule: locked_mutate_cases [of V f c]) (auto simp: token_kept_same)

lemma revoke_kept: "token_kept i c (snd (set_use_token_revoked V j c))"
  unfolding set_use_token_revoked_def
  by (rule token_kept_mutate) (auto simp: Let_def token_kept_revoke split: option.splits)

lemma revoke_scoped_kept: "token_kept i c (snd (set_use_token_revoked_scoped V j acting c))"
  unfolding set_use_token_revoked_scoped_def
  by (rule token_kept_mutate) (auto simp: Let_def token_kept_revoke split: option.splits if_splits)

lemma delete_kept: "token_kept i c (snd (delete_use_token V j c))"
  unfolding delete_use_token_def
  by (rule token_kept_mutate) (auto simp: token_kept_def split: option.splits if_splits)

lemma store_kept: "ut_id t \<noteq> i \<Longrightarrow> token_kept i c (snd (store_use_token V t c))"
  unfolding store_use_token_def by (rule token_kept_mutate) (auto simp: token_kept_def)

lemma retire_kept: "token_kept i c (snd (retire_workload_generations V tenant label keep c))"
  unfolding retire_workload_generations_def
proof (rule token_kept_mutate)
  have one: "token_kept i c (snd (revoke_if_stored j (n, c)))" for j n c
    by (auto simp: revoke_if_stored_def token_kept_refl token_kept_revoke split: option.split)
  have all: "token_kept i c (snd (foldl (\<lambda>rc j. revoke_if_stored j rc) (n, c) js))" for js n c
  proof (induction js arbitrary: n c)
    case (Cons j js)
    obtain n' c1 where r: "revoke_if_stored j (n, c) = (n', c1)" by fastforce
    with token_kept_trans [OF one [of c j n], of "snd (foldl (\<lambda>rc j. revoke_if_stored j rc) (n', c1) js)"]
      Cons.IH [of c1 n'] show ?case by simp
  qed (simp add: token_kept_refl)
  fix r c'
  assume "(let live = filter (live_workload_token V tenant label) (map snd (sc_use_tokens c));
         to_retire = map ut_id (filter (\<lambda>t. ut_id t \<notin> set keep) live);
         (retired, c') = foldl (\<lambda>rc i. revoke_if_stored i rc) (0, c) to_retire
     in Inr ((length live, retired), c')) = Inr (r, c')"
  then have "c' = snd (foldl (\<lambda>rc i. revoke_if_stored i rc) (0, c)
      (map ut_id (filter (\<lambda>t. ut_id t \<notin> set keep)
         (filter (live_workload_token V tenant label) (map snd (sc_use_tokens c))))))"
    by (simp only: Let_def split_beta sum.inject prod.inject)
  with all [of c 0] show "token_kept i c c'" by simp
qed

lemma gc_kept: "token_kept i c (snd (gc_vault_at V c))"
proof -
  have shed: "token_kept i c (shed_body j c)" for c j
    by (auto simp: shed_body_def token_kept_same split: option.split)
  have drop: "token_kept i c (drop_token x c)" for c x
    by (auto simp: drop_token_def token_kept_def split: if_splits)
  have mark: "token_kept i c (drop_mark j c)" for c j
    by (simp add: drop_mark_def token_kept_same)
  have "token_kept i c (foldl (\<lambda>c i. drop_mark i c) (foldl (\<lambda>c ih. drop_token ih c)
      (foldl (\<lambda>c i. shed_body i c) c xs) ys) zs)" for xs ys zs
    by (intro token_kept_trans [OF token_kept_trans [OF token_kept_fold token_kept_fold] token_kept_fold]
        shed drop mark)
  note all = this
  have "token_kept i c (snd (locked_mutate V (gc_in (ve_now V)) c))"
    by (rule token_kept_mutate)
      (simp only: gc_in_def Let_def sum.inject prod.inject, use all in blast)
  then show ?thesis by (simp add: gc_vault_at_def Let_def token_kept_refl)
qed

text \<open>Runs of the vault, with the number of uses of \<open>i\<close> that were granted.  The identifier of a
  token is random, so no other token is stored under it.\<close>

inductive token_step :: "string \<Rightarrow> storage_cache \<times> nat \<Rightarrow> storage_cache \<times> nat \<Rightarrow> bool" for i where
  ts_use: "consume_use_token V i c = (Inr t, c') \<Longrightarrow> token_step i (c, n) (c', Suc n)"
| ts_refused: "consume_use_token V i c = (Inl e, c') \<Longrightarrow> token_step i (c, n) (c', n)"
| ts_other: "j \<noteq> i \<Longrightarrow> token_step i (c, n) (snd (consume_use_token V j c), n)"
| ts_revoke: "token_step i (c, n) (snd (set_use_token_revoked V j c), n)"
| ts_revoke_scoped: "token_step i (c, n) (snd (set_use_token_revoked_scoped V j acting c), n)"
| ts_retire: "token_step i (c, n) (snd (retire_workload_generations V tenant label keep c), n)"
| ts_delete: "token_step i (c, n) (snd (delete_use_token V j c), n)"
| ts_store: "ut_id t \<noteq> i \<Longrightarrow> token_step i (c, n) (snd (store_use_token V t c), n)"
| ts_gc: "token_step i (c, n) (snd (gc_vault_at V c), n)"
| ts_elsewhere: "sc_use_tokens c' = sc_use_tokens c \<Longrightarrow> token_step i (c, n) (c', n)"

definition within_limit :: "string \<Rightarrow> u32 \<Rightarrow> storage_cache \<times> nat \<Rightarrow> bool" where
  "within_limit i m s \<longleftrightarrow>
     (case s of (c, n) \<Rightarrow>
        n \<le> unat m
        \<and> (\<forall>t. t_get (sc_use_tokens c) i = Some t \<longrightarrow> ut_max_uses t = Some m \<and> unat (ut_uses t) = n))"

lemma within_kept: "within_limit i m (c, n) \<Longrightarrow> token_kept i c c' \<Longrightarrow> within_limit i m (c', n)"
  by (fastforce simp: within_limit_def token_kept_def)

lemma consume_Inr:
  assumes "consume_use_token V i c = (Inr u, c')"
  obtains t where "t_get (sc_use_tokens c) i = Some t" "check_usable (ve_now V) t = Inr ()"
    "c' = put_use_token i (t \<lparr> ut_uses := ut_uses t + 1, ut_last_used_at := Some (ve_now V) \<rparr>) c"
  using locked_mutate_Inr [OF assms [unfolded consume_use_token_def]]
  by (auto simp: Let_def split: option.splits sum.splits)

lemma consume_other: "j \<noteq> i \<Longrightarrow> token_kept i c (snd (consume_use_token V j c))"
  unfolding consume_use_token_def
  by (rule token_kept_mutate) (auto simp: Let_def token_kept_def split: option.splits sum.splits)

lemma consume_refused: "consume_use_token V i c = (Inl e, c') \<Longrightarrow> token_kept i c c'"
  unfolding consume_use_token_def by (drule locked_mutate_Inl) (simp add: token_kept_same)

lemma token_step_within:
  assumes "token_step i s s'" "within_limit i m s"
  shows "within_limit i m s'"
  using assms
proof (induction rule: token_step.induct)
  case (ts_use V c u c' n)
  from ts_use.hyps show ?case
  proof (cases rule: consume_Inr)
    case (1 t)
    have u: "ut_max_uses t = Some m" "unat (ut_uses t) = n" using ts_use.prems 1(1) by (auto simp: within_limit_def)
    then have lt: "ut_uses t < m"
      using 1(2) by (auto simp: check_usable_def is_exhausted_def split: if_splits)
    have "unat (ut_uses t) + unat (1 :: u32) < 2 ^ LENGTH(32)"
      using lt unsigned_less [of m, where ?'a = nat] by (simp add: word_less_nat_alt)
    then have "unat (ut_uses t + 1) = Suc n" using u(2) by (simp add: unat_add_lem [THEN iffD1])
    moreover have "Suc n \<le> unat m" using lt u(2) by (simp add: word_less_nat_alt)
    ultimately show ?thesis using u 1(3) by (simp add: within_limit_def)
  qed
qed (auto intro: within_kept consume_refused consume_other revoke_kept revoke_scoped_kept retire_kept
      delete_kept store_kept gc_kept token_kept_same)

section \<open>Workload assertions\<close>

lemma jti_consumed:
  assumes "consume_workload_jti V jti e now c = (Inr True, c')"
  shows "t_get (sc_workload_jtis c') jti = Some e"
  using locked_mutate_Inr [OF assms [unfolded consume_workload_jti_def]]
  by (auto simp: Let_def split: if_splits)

lemma jti_stays:
  assumes "t_ok (sc_workload_jtis c)" "t_get (sc_workload_jtis c) jti = Some e" "now < e"
  shows "t_get (sc_workload_jtis (snd (consume_workload_jti V jti' e' now c))) jti = Some e
    \<and> t_ok (sc_workload_jtis (snd (consume_workload_jti V jti' e' now c)))
    \<and> fst (consume_workload_jti V jti e' now c) \<noteq> Inr True"
proof -
  have r: "t_get (t_retain (\<lambda>_ expiry. now < expiry) (sc_workload_jtis c)) jti = Some e"
    using assms by (simp add: tbl.lookup_purge)
  show ?thesis
    using r assms
    by (auto simp: consume_workload_jti_def locked_mutate_def Let_def split: sum.split)
qed

section \<open>Idempotency keys\<close>

text \<open>Steps of the vault while the record of a completed key is retained: any use of any key, except
  a second completion of the same request.\<close>

inductive idem_step :: "string \<Rightarrow> idempotency_record \<Rightarrow> storage_cache \<Rightarrow> storage_cache \<Rightarrow> bool" for key rec where
  is_check: "num_seconds (ve_now V - ir_created_at rec) < idempotency_retention_secs \<Longrightarrow>
     idem_step key rec c (snd (idempotency_check_or_reserve V k h c))"
| is_complete: "k \<noteq> key \<or> h \<noteq> ir_body_hash rec \<Longrightarrow> idem_step key rec c (snd (idempotency_complete V k h s b c))"
| is_release: "idem_step key rec c (snd (idempotency_release V k c))"
| is_elsewhere: "sc_idempotency c' = sc_idempotency c \<Longrightarrow> idem_step key rec c c'"

definition completed :: "string \<Rightarrow> idempotency_record \<Rightarrow> storage_cache \<Rightarrow> bool" where
  "completed key rec c \<longleftrightarrow>
     t_ok (sc_idempotency c) \<and> t_get (sc_idempotency c) key = Some rec \<and> ir_done rec"

lemma completed_mutate:
  assumes "completed key rec c" "\<And>r c'. f c = Inr (r, c') \<Longrightarrow> completed key rec c'"
  shows "completed key rec (snd (locked_mutate V f c))"
  using assms by (cases rule: locked_mutate_cases [of V f c]) (auto simp: completed_def)

lemma reserve_other:
  assumes "completed key rec c" "k \<noteq> key"
    and "num_seconds (now - ir_created_at rec) < idempotency_retention_secs"
  shows "completed key rec (reserve_key now k h c)"
  using assms by (auto simp: completed_def reserve_key_def gc_idempotency_def Let_def tbl.lookup_purge)

lemma check_completed:
  assumes "completed key rec c"
    and "num_seconds (ve_now V - ir_created_at rec) < idempotency_retention_secs"
  shows "completed key rec (snd (idempotency_check_or_reserve V k h c))"
  unfolding idempotency_check_or_reserve_def
proof (rule completed_mutate [OF assms(1)], goal_cases)
  case (1 r c')
  then show ?case
    using assms reserve_other [OF assms(1) _ assms(2), of k h]
    by (cases "k = key") (auto simp: completed_def split: option.splits if_splits)
qed

lemma idem_step_completed:
  assumes "idem_step key rec c c'" "completed key rec c"
  shows "completed key rec c'"
  using assms
proof (induction rule: idem_step.induct)
  case (is_check V c k h)
  then show ?case by (intro check_completed)
next
  case (is_complete k h c V s b)
  then show ?case
    unfolding idempotency_complete_def
    by (intro completed_mutate) (auto simp: completed_def split: option.splits if_splits)
next
  case (is_release c V k)
  then show ?case
    unfolding idempotency_release_def
    by (intro completed_mutate) (auto simp: completed_def split: option.splits if_splits)
qed (simp add: completed_def)

lemma completed_answers:
  assumes "completed key rec c" "validate_primary_shapes V c = Inr ()"
  shows "idempotency_check_or_reserve V key h c =
     (Inr (if h = ir_body_hash rec then Done (ir_status rec) (ir_response rec) else Mismatch), c)"
  using assms by (auto simp: completed_def idempotency_check_or_reserve_def locked_mutate_def)

text \<open>A release drops the reservation of whoever holds the key.\<close>

lemma release_then_fresh:
  assumes "t_get (sc_idempotency c) key = Some rec" "\<not> ir_done rec"
    and "validate_primary_shapes V c = Inr ()" "validate_primary_shapes V' c = Inr ()"
  shows "fst (idempotency_check_or_reserve V' key h (snd (idempotency_release V key c))) = Inr Fresh"
proof -
  have v: "validate_primary_shapes W (c' \<lparr> sc_idempotency := x \<rparr>) = validate_primary_shapes W c'" for W c' x
    by (simp add: validate_primary_shapes_def cong: sum.case_cong)
  have "snd (idempotency_release V key c) = c \<lparr> sc_idempotency := t_del key (sc_idempotency c) \<rparr>"
    using assms by (simp add: idempotency_release_def locked_mutate_def v)
  then show ?thesis
    using assms(4)
    by (simp add: idempotency_check_or_reserve_def locked_mutate_def reserve_key_def gc_idempotency_def Let_def v)
qed

end
