(* ===== verification/Vault_Properties.thy ===== *)
theory Vault_Properties
  imports Samples Auth_Manager Resume Vault_Limits
begin

text \<open>
  The properties of the vault: who may run an approved action and how often, what is committed
  together, and what tokens, assertions and idempotency keys bound.
\<close>

section \<open>Concrete vaults\<close>

definition sample_vault :: "instant \<Rightarrow> vault_env" where
  "sample_vault t =
     \<lparr> ve_codec = sample_codec, ve_lib = sample_lib, ve_draft_key = dk_campaign_id,
       ve_show_time = i64_json, ve_now = t \<rparr>"

definition approved_cache :: storage_cache where
  "approved_cache = put_approval ''appr_1'' twice_approved empty_cache"

definition claimed_cache :: storage_cache where
  "claimed_cache = snd (claim_approval_for_execution (sample_vault 3) ''appr_1'' approved_cache)"

definition late :: instant where
  "late = 3600000000003"

definition retaken_cache :: storage_cache where
  "retaken_cache = snd (claim_approval_for_execution (sample_vault late) ''appr_1'' claimed_cache)"

lemma sample_claims:
  "(case fst (claim_approval_for_execution (sample_vault 3) ''appr_1'' approved_cache) of
      Inr (Some k) \<Rightarrow> \<not> ec_stale_retake k \<and> ec_epoch k = 1 | _ \<Rightarrow> False)"
  "(case fst (claim_approval_for_execution (sample_vault late) ''appr_1'' claimed_cache) of
      Inr (Some k) \<Rightarrow> ec_stale_retake k \<and> ec_epoch k = 2 | _ \<Rightarrow> False)"
  by code_simp+

lemma claimedE:
  assumes "(case fst (claim_approval_for_execution V i c) of Inr (Some k) \<Rightarrow> P k | _ \<Rightarrow> False)"
  obtains k where "claim_approval_for_execution V i c = (Inr (Some k), snd (claim_approval_for_execution V i c))"
    "P k"
  using assms by (cases "claim_approval_for_execution V i c") (auto split: sum.splits option.splits)

section \<open>Execution of approved requests\<close>

text \<open>C9: an execution claim is handed out only for an approved request that was not executed, whose
  grant is re-derived from its evidence for the new epoch, inside its window and outside a pending
  veto.  A claim that may run the action is on a request nobody is executing, and no kill fences it.
  The epoch is one more than before, and the claim is stored before it is handed out.\<close>

theorem claim_rests_on_grant:
  assumes "claim_approval_for_execution V i c = (Inr (Some k), c')"
  shows "\<exists>a. t_get (sc_approvals c) i = Some a
    \<and> a_status a = SApproved \<and> \<not> a_executed a \<and> \<not> needs_reauth (ve_now V) a \<and> \<not> veto_pending (ve_now V) a
    \<and> grant_witness_for_epoch (ve_codec V) (ve_now V) (ec_epoch k) a = Some (ec_grant k)
    \<and> unat (ec_epoch k) = unat (a_execution_epoch a) + 1
    \<and> t_get (sc_approvals c') i = Some (ec_approval k)
    \<and> (if ec_stale_retake k then stale_claim (ve_now V) a
       else \<not> a_executing a \<and> claim_fence V c a = None)"
  using assms
proof (cases rule: claim_Some)
  case (1 a)
  moreover have "ec_stale_retake k \<longrightarrow> stale_claim (ve_now V) a"
    using locked_mutate_Inr [OF assms [unfolded claim_approval_for_execution_def]] 1(1,2)
    by (auto simp: Let_def split: option.splits if_splits)
  ultimately show ?thesis using next_epoch_grows [OF 1(4)] by (auto simp: claimable_def)
qed

theorem claim_rests_on_grant_witness:
  "\<exists>k. fst (claim_approval_for_execution (sample_vault 3) ''appr_1'' approved_cache) = Inr (Some k)
     \<and> ec_grant k \<in> {g. \<exists>a. t_get (sc_approvals approved_cache) ''appr_1'' = Some a
          \<and> grant_witness_for_epoch sample_codec 3 (ec_epoch k) a = Some g}"
proof -
  obtain k where k: "claim_approval_for_execution (sample_vault 3) ''appr_1'' approved_cache
      = (Inr (Some k), claimed_cache)"
    using sample_claims(1) by (rule claimedE) (auto simp: claimed_cache_def)
  from claim_rests_on_grant [OF k] k show ?thesis by (auto simp: sample_vault_def)
qed

text \<open>C10: of all the workers that share the vault, at most one ever holds a claim on an approval whose
  run may have had an effect: through any interleaving of claims, retakes, heartbeats, finished and
  retried runs, decisions, polls, sweeps and deletions.\<close>

theorem at_most_one_run:
  assumes "(worker_step i)\<^sup>*\<^sup>* (c, {}) (c', live)"
  shows "finite live \<and> card live \<le> 1"
proof -
  have "one_run i (c', live)" using assms
  proof (induction rule: rtranclp_induct)
    case (step y z)
    from step(2,3) show ?case by (rule worker_one_run)
  qed (simp add: one_run_def)
  then show ?thesis by (auto simp: one_run_def)
qed

theorem at_most_one_run_witness:
  "(worker_step ''appr_1'')\<^sup>*\<^sup>* (approved_cache, {}) (claimed_cache, {1}) \<and> card {1 :: u64} \<le> 1"
proof -
  obtain k where "claim_approval_for_execution (sample_vault 3) ''appr_1'' approved_cache
      = (Inr (Some k), claimed_cache)" "\<not> ec_stale_retake k" "ec_epoch k = 1"
    using sample_claims(1) by (rule claimedE) (auto simp: claimed_cache_def)
  with ws_claim [of "sample_vault 3" "''appr_1''" approved_cache k claimed_cache "{}"]
  have w: "(worker_step ''appr_1'')\<^sup>*\<^sup>* (approved_cache, {}) (claimed_cache, {1})" by auto
  from w at_most_one_run [OF w] show ?thesis by blast
qed

text \<open>C20: a worker whose claim was superseded cannot commit its outcome, whatever the workers do before
  and after the claim that superseded it: finalising under the old epoch changes no approval and
  reports that nothing was committed.\<close>

theorem superseded_worker_cannot_commit:
  assumes "claim_approval_for_execution V i c = (Inr (Some k), c1)"
    and "(worker_step i)\<^sup>*\<^sup>* (c1, l1) (c2, l2)"
    and "claim_approval_for_execution V' i c2 = (Inr (Some k'), c3)"
    and "(worker_step i)\<^sup>*\<^sup>* (c3, l3) (c4, l4)"
  shows "sc_approvals (snd (finalize_execution W i (ec_epoch k) result c4)) = sc_approvals c4
    \<and> fst (finalize_execution W i (ec_epoch k) result c4) \<noteq> Inr True"
  using assms by (rule superseded_cannot_commit)

theorem superseded_worker_cannot_commit_witness:
  "fst (finalize_execution (sample_vault late) ''appr_1'' 1 twice_approved retaken_cache) \<noteq> Inr True"
proof -
  obtain k where k: "claim_approval_for_execution (sample_vault 3) ''appr_1'' approved_cache
      = (Inr (Some k), claimed_cache)" "ec_epoch k = 1"
    using sample_claims(1) by (rule claimedE) (auto simp: claimed_cache_def)
  obtain k' where k': "claim_approval_for_execution (sample_vault late) ''appr_1'' claimed_cache
      = (Inr (Some k'), retaken_cache)"
    using sample_claims(2) by (rule claimedE) (auto simp: retaken_cache_def)
  from superseded_worker_cannot_commit [OF k(1) rtranclp.rtrancl_refl k' rtranclp.rtrancl_refl] k(2)
  show ?thesis by auto
qed

text \<open>C38: when the window of a grant lapses while it is being executed, from then on every lifecycle
  sweep of the vault and every poll of the request fails and is rolled back, and no worker can claim
  the request.  If its worker died this lasts: the sweep expires and escalates no other request
  either.\<close>

theorem lapsed_execution_blocks_sweep:
  assumes "t_get (sc_approvals c) i = Some a" "a_id a = i" "a_executing a" "needs_reauth now a"
    and "now \<le> ve_now V"
  shows "(\<exists>e. sweep_approval_lifecycle V fresh c = (Inl e, rebuild_indexes c))
    \<and> (\<exists>e. poll_refresh_approval V fresh i c = (Inl e, rebuild_indexes c))
    \<and> sc_approvals (snd (claim_approval_for_execution V i c)) = sc_approvals c"
  using assms by (rule lapsed_execution_wedges)

definition much_later :: instant where
  "much_later = 999999999999999999"

theorem lapsed_execution_blocks_sweep_witness:
  "\<exists>e. sweep_approval_lifecycle (sample_vault much_later) (\<lambda>_. ''e'') claimed_cache
     = (Inl e, rebuild_indexes claimed_cache)"
proof -
  have "(case t_get (sc_approvals claimed_cache) ''appr_1'' of
      Some a \<Rightarrow> a_id a = ''appr_1'' \<and> a_executing a \<and> needs_reauth much_later a | None \<Rightarrow> False)" by code_simp
  then obtain a where "t_get (sc_approvals claimed_cache) ''appr_1'' = Some a"
    "a_id a = ''appr_1''" "a_executing a" "needs_reauth much_later a"
    by (auto split: option.splits)
  moreover have "much_later \<le> ve_now (sample_vault much_later)" by (simp add: sample_vault_def)
  ultimately show ?thesis by (rule lapsed_execution_blocks_sweep [THEN conjunct1])
qed

section \<open>Decisions\<close>

text \<open>C21: a decision and its event are committed together or not at all.  When a decision is accepted
  the stored request carries it, and if it is decided the one event added to the vault names its status
  and carries the record as stored.  When it is refused the approvals and staged events are as
  before.\<close>

theorem decision_commits_with_event:
  "case decide_approval_atomic V fresh i d c of
     (Inl e, c') \<Rightarrow> sc_approvals c' = sc_approvals c \<and> sc_pending_events c' = sc_pending_events c
   | (Inr a, c') \<Rightarrow>
       sc_approvals c' = t_put i a (sc_approvals c)
       \<and> validate_vault_shape (ve_codec V) (ve_now V) a = Inr ()
       \<and> sc_pending_events c' = sc_pending_events c
           @ (case decision_event (a_status a) of
                None \<Rightarrow> []
              | Some et \<Rightarrow> [\<lparr> sv_dedup_id = fresh 0, sv_subject = a_id a, sv_event_type = et,
                              sv_payload = approval_event_payload V a \<rparr>])"
proof (cases "decide_approval_atomic V fresh i d c")
  case (Pair r c')
  note d = Pair [unfolded decide_approval_atomic_def]
  show ?thesis
  proof (cases r)
    case (Inl e)
    with d have "c' = rebuild_indexes c" by (auto dest: locked_mutate_Inl)
    then show ?thesis using Pair Inl by (simp add: rebuild_indexes_def)
  next
    case (Inr a)
    with d have m: "decide_in V fresh i d c = Inr (a, c')" "validate_primary_shapes V c' = Inr ()"
      by (auto simp: locked_mutate_def split: sum.splits prod.splits)
    then show ?thesis
    proof (cases rule: decide_in_Inr)
      case (1 b b2)
      then have "sc_approvals c' = t_put i a (sc_approvals c)" by (simp add: put_approval_def)
      moreover have "validate_vault_shape (ve_codec V) (ve_now V) a = Inr ()"
      proof -
        have "(i, a) \<in> set (sc_approvals c')" using calculation by (intro t_get_mem) simp
        with shapes_approvals [OF m(2)] show ?thesis by (fastforce simp: approvals_shape_Inr)
      qed
      ultimately show ?thesis using Pair Inr 1(4) by (simp add: put_approval_def)
    qed
  qed
qed

section \<open>Tokens and assertions\<close>

text \<open>C22: a use token with a limit drives at most that many executions, through any interleaving of uses
  of this and other tokens, revocations, deletions, retirements and collections.\<close>

theorem use_token_limit:
  assumes "(token_step i)\<^sup>*\<^sup>* (c, 0) (c', n)"
    and "t_get (sc_use_tokens c) i = Some t" "ut_max_uses t = Some m" "ut_uses t = 0"
  shows "n \<le> unat m"
proof -
  have "within_limit i m (c', n)" using assms(1)
  proof (induction rule: rtranclp_induct)
    case base
    then show ?case using assms(2-4) by (simp add: within_limit_def)
  next
    case (step y z)
    from step(2,3) show ?case by (rule token_step_within)
  qed
  then show ?thesis by (simp add: within_limit_def)
qed

definition sample_token :: use_token where
  "sample_token =
     snd (create_use_token (\<lambda>s. s) ''r'' ''1'' 0
       \<lparr> nt_name = ''t'', nt_credential_scope = ''*'', nt_action_scope = None, nt_max_uses = Some 1,
         nt_require_approval = False, nt_expires_in = None \<rparr>)"

definition token_cache :: storage_cache where
  "token_cache = snd (store_use_token (sample_vault 1) sample_token empty_cache)"

theorem use_token_limit_witness:
  "(token_step ''ut_1'')\<^sup>*\<^sup>* (token_cache, 0) (snd (consume_use_token (sample_vault 2) ''ut_1'' token_cache), Suc 0)
   \<and> Suc 0 \<le> unat (1 :: u32)"
proof -
  have "(case t_get (sc_use_tokens token_cache) ''ut_1'' of
      Some t \<Rightarrow> ut_max_uses t = Some 1 \<and> ut_uses t = 0 | None \<Rightarrow> False)"
    "(case fst (consume_use_token (sample_vault 2) ''ut_1'' token_cache) of Inr t \<Rightarrow> True | Inl e \<Rightarrow> False)"
    by code_simp+
  then obtain t u where t: "t_get (sc_use_tokens token_cache) ''ut_1'' = Some t" "ut_max_uses t = Some 1"
    "ut_uses t = 0" and "consume_use_token (sample_vault 2) ''ut_1'' token_cache
      = (Inr u, snd (consume_use_token (sample_vault 2) ''ut_1'' token_cache))"
    by (cases "consume_use_token (sample_vault 2) ''ut_1'' token_cache") (auto split: option.splits sum.splits)
  then have "(token_step ''ut_1'')\<^sup>*\<^sup>* (token_cache, 0)
      (snd (consume_use_token (sample_vault 2) ''ut_1'' token_cache), Suc 0)"
    by (intro r_into_rtranclp ts_use)
  with use_token_limit [OF this t] show ?thesis by blast
qed

text \<open>A workload assertion is taken once.  After it was accepted, no sequence of assertions presented
  before it expires, on any process that shares the vault, gets it accepted again.\<close>

theorem assertion_taken_once:
  assumes "t_ok (sc_workload_jtis c)" "consume_workload_jti V jti e now c = (Inr True, c1)"
    and "\<forall>(V', j, e', now') \<in> set later. now' < e" "again < e"
  shows "fst (consume_workload_jti W jti e'' again
      (foldl (\<lambda>c (V', j, e', now'). snd (consume_workload_jti V' j e' now' c)) c1 later)) \<noteq> Inr True"
proof -
  have "t_ok (sc_workload_jtis c1)"
    using assms(1) locked_mutate_Inr [OF assms(2) [unfolded consume_workload_jti_def]]
    by (auto simp: Let_def split: if_splits)
  with jti_consumed [OF assms(2)] assms(3)
  have "t_get (sc_workload_jtis (foldl (\<lambda>c (V', j, e', now'). snd (consume_workload_jti V' j e' now' c)) c1 later)) jti
      = Some e
    \<and> t_ok (sc_workload_jtis (foldl (\<lambda>c (V', j, e', now'). snd (consume_workload_jti V' j e' now' c)) c1 later))"
  proof (induction later arbitrary: c1)
    case (Cons x later)
    then show ?case using jti_stays [OF Cons.prems(3,1)] by (auto split: prod.splits)
  qed simp
  with jti_stays assms(4) show ?thesis by blast
qed

theorem assertion_taken_once_witness:
  "fst (consume_workload_jti (sample_vault 1) ''j'' 9 5 empty_cache) = Inr True
   \<and> fst (consume_workload_jti (sample_vault 2) ''j'' 9 6
        (snd (consume_workload_jti (sample_vault 1) ''j'' 9 5 empty_cache))) \<noteq> Inr True"
proof -
  have f: "fst (consume_workload_jti (sample_vault 1) ''j'' 9 5 empty_cache) = Inr True" by code_simp
  then have "consume_workload_jti (sample_vault 1) ''j'' 9 5 empty_cache
      = (Inr True, snd (consume_workload_jti (sample_vault 1) ''j'' 9 5 empty_cache))"
    by (simp add: prod_eq_iff)
  moreover have "t_ok (sc_workload_jtis empty_cache)" by code_simp
  ultimately show ?thesis
    using f assertion_taken_once [of empty_cache "sample_vault 1" "''j''" 9 5 _ "[]" 6 "sample_vault 2" 9] by simp
qed

section \<open>Idempotency keys\<close>

text \<open>Once a request under an idempotency key is complete, every repetition within the retention
  replays the stored response, and another request under the key is refused, whatever checks,
  completions and releases of any key came between.\<close>

theorem completed_key_replays:
  assumes "(idem_step key rec)\<^sup>*\<^sup>* c c'" "t_ok (sc_idempotency c)"
    and "t_get (sc_idempotency c) key = Some rec" "ir_done rec" "validate_primary_shapes V c' = Inr ()"
  shows "idempotency_check_or_reserve V key h c' =
     (Inr (if h = ir_body_hash rec then Done (ir_status rec) (ir_response rec) else Mismatch), c')"
proof -
  have "completed key rec c'" using assms(1)
  proof (induction rule: rtranclp_induct)
    case base
    then show ?case using assms by (simp add: completed_def)
  next
    case (step y z)
    from step(2,3) show ?case by (rule idem_step_completed)
  qed
  then show ?thesis using assms(5) by (rule completed_answers)
qed

definition done_record :: idempotency_record where
  "done_record = \<lparr> ir_done = True, ir_body_hash = ''h'', ir_status = 200, ir_response = ''ok'', ir_created_at = 0 \<rparr>"

definition done_cache :: storage_cache where
  "done_cache = empty_cache \<lparr> sc_idempotency := [(''k'', done_record)] \<rparr>"

theorem completed_key_replays_witness:
  "fst (idempotency_check_or_reserve (sample_vault 5) ''k'' ''h''
     (snd (idempotency_release (sample_vault 4) ''k'' done_cache))) = Inr (Done 200 ''ok'')"
proof -
  have "(idem_step ''k'' done_record)\<^sup>*\<^sup>* done_cache (snd (idempotency_release (sample_vault 4) ''k'' done_cache))"
    by (intro r_into_rtranclp is_release)
  moreover have "t_ok (sc_idempotency done_cache)" "t_get (sc_idempotency done_cache) ''k'' = Some done_record"
    "ir_done done_record" by (simp_all add: done_cache_def done_record_def t_get_def t_ok_def)
  moreover have "validate_primary_shapes (sample_vault 5)
      (snd (idempotency_release (sample_vault 4) ''k'' done_cache)) = Inr ()" by code_simp
  ultimately show ?thesis
    using completed_key_replays [of "''k''" done_record done_cache _ "sample_vault 5" "''h''"]
    by (simp add: done_record_def)
qed

text \<open>C39: a release drops whatever live reservation the key has.  It is not checked against the request
  that made the reservation, as a completion is, so after it any request under the key, also the one
  that is still running, is told to execute.\<close>

theorem release_drops_any_reservation:
  assumes "t_get (sc_idempotency c) key = Some rec" "\<not> ir_done rec"
    and "validate_primary_shapes V c = Inr ()" "validate_primary_shapes V' c = Inr ()"
  shows "fst (idempotency_check_or_reserve V' key h (snd (idempotency_release V key c))) = Inr Fresh"
  using assms by (rule release_then_fresh)

theorem release_drops_any_reservation_witness:
  "fst (idempotency_check_or_reserve (sample_vault 2) ''k'' ''h''
     (snd (idempotency_release (sample_vault 1) ''k''
       (empty_cache \<lparr> sc_idempotency := [(''k'', done_record \<lparr> ir_done := False \<rparr>)] \<rparr>)))) = Inr Fresh"
proof (rule release_drops_any_reservation)
  let ?c = "empty_cache \<lparr> sc_idempotency := [(''k'', done_record \<lparr> ir_done := False \<rparr>)] \<rparr>"
  show "t_get (sc_idempotency ?c) ''k'' = Some (done_record \<lparr> ir_done := False \<rparr>)" by (simp add: t_get_def)
  show "\<not> ir_done (done_record \<lparr> ir_done := False \<rparr>)" by simp
  show "validate_primary_shapes (sample_vault 1) ?c = Inr ()" "validate_primary_shapes (sample_vault 2) ?c = Inr ()"
    by code_simp+
qed

section \<open>Authenticated requests\<close>


definition sample_key :: api_key where
  "sample_key =
     \<lparr> ak_id = ''1'', ak_key_prefix = ''vk_1'', ak_key_hash = ''vk_1'', ak_name = ''n'', ak_role_id = ''executor'',
       ak_expires_at = None, ak_created_at = 0, ak_last_used_at = None, ak_agent_label = None,
       ak_owner_identity = None, ak_tenant = None, ak_workload_id = None \<rparr>"


end
