(* ===== verification/Outbox.thy ===== *)
theory Outbox
  imports Vault_Approvals
begin

text \<open>
  The outbox of signed events, \<open>src/src/storage/outbox_model.rs\<close> and
  \<open>src/src/storage/outbox_store.rs\<close>: a file of its own, read and rewritten under a lock by every
  operation, from which events are pushed in order per subject, read by cursor and collected.  The
  state is the content of the file and the counters of the process.  An operation is given the
  outcome of its file accesses; an error after the file was replaced, when only the directory could
  not be synchronised, leaves the new content in place.
\<close>

section \<open>Events\<close>

datatype delivery_state = DPending | Delivered | DeadLettered

record outbox_event =
  ob_sequence :: u64
  ob_subject :: string
  ob_event_type :: string
  ob_payload :: json
  ob_created_at :: instant
  ob_delivery :: delivery_state
  ob_attempts :: u32
  ob_leased_until :: "instant option"
  ob_last_attempt_at :: "instant option"
  ob_last_error :: "string option"
  ob_dedup_id :: "string option"

record outbox_cache =
  oc_outbox :: "(u64 \<times> outbox_event) list"
  oc_seq :: u64

definition push_event ::
  "instant \<Rightarrow> string \<Rightarrow> string \<Rightarrow> json \<Rightarrow> string option \<Rightarrow> outbox_cache \<Rightarrow> u64 \<times> outbox_cache" where
  "push_event now subject event_type payload dedup_id c =
     (let seq = oc_seq c + 1
      in (seq, c \<lparr> oc_seq := seq,
           oc_outbox := bt_put seq
             \<lparr> ob_sequence = seq, ob_subject = subject, ob_event_type = event_type,
               ob_payload = payload, ob_created_at = now, ob_delivery = DPending, ob_attempts = 0,
               ob_leased_until = None, ob_last_attempt_at = None, ob_last_error = None,
               ob_dedup_id = dedup_id \<rparr> (oc_outbox c) \<rparr>))"

definition leased :: "instant \<Rightarrow> outbox_event \<Rightarrow> bool" where
  "leased now e \<longleftrightarrow> (case ob_leased_until e of Some t \<Rightarrow> now < t | None \<Rightarrow> False)"

text \<open>\<open>seen\<close> are the subjects met so far and \<open>n\<close> is the number of events picked.\<close>

fun pick_pending ::
  "nat \<Rightarrow> bool \<Rightarrow> instant \<Rightarrow> string list \<Rightarrow> nat \<Rightarrow> outbox_event list \<Rightarrow> outbox_event list" where
  "pick_pending limit respect_lease now seen n [] = []"
| "pick_pending limit respect_lease now seen n (e # es) =
     (if ob_delivery e \<noteq> DPending then pick_pending limit respect_lease now seen n es
      else if ob_subject e \<in> set seen then pick_pending limit respect_lease now seen n es
      else if respect_lease \<and> leased now e
        then pick_pending limit respect_lease now (ob_subject e # seen) n es
      else e # (if limit \<le> n + 1 then []
                else pick_pending limit respect_lease now (ob_subject e # seen) (n + 1) es))"

definition earliest_pending_per_subject ::
  "(u64 \<times> outbox_event) list \<Rightarrow> nat \<Rightarrow> bool \<Rightarrow> instant \<Rightarrow> outbox_event list" where
  "earliest_pending_per_subject outbox limit respect_lease now =
     pick_pending limit respect_lease now [] 0 (map snd outbox)"

text \<open>The wait after the \<open>n\<close>-th failed attempt, in seconds.\<close>

definition backoff :: "u32 \<Rightarrow> int" where
  "backoff n = min (10 * 2 ^ nat (min (uint n) 5)) 300"

definition record_delivery_transition ::
  "instant \<Rightarrow> u64 \<Rightarrow> bool \<Rightarrow> string option \<Rightarrow> u32 \<Rightarrow> (u64 \<times> outbox_event) list
     \<Rightarrow> bool \<times> bool \<times> (u64 \<times> outbox_event) list" where
  "record_delivery_transition now seq success err max_attempts outbox =
     (case t_get outbox seq of
        None \<Rightarrow> (False, False, outbox)
      | Some e \<Rightarrow>
          if ob_delivery e \<noteq> DPending then (False, False, outbox)
          else (let e = e \<lparr> ob_attempts := ob_attempts e + 1, ob_last_attempt_at := Some now \<rparr>
                in if success then
                     (False, True, bt_put seq
                        (e \<lparr> ob_delivery := Delivered, ob_leased_until := None, ob_last_error := None \<rparr>) outbox)
                   else if max_attempts \<le> ob_attempts e then
                     (True, True, bt_put seq
                        (e \<lparr> ob_last_error := err, ob_delivery := DeadLettered, ob_leased_until := None \<rparr>) outbox)
                   else
                     (False, True, bt_put seq
                        (e \<lparr> ob_last_error := err,
                             ob_leased_until := Some (now + dur (backoff (ob_attempts e))) \<rparr>) outbox)))"

section \<open>The store\<close>

record loss_state =
  ls_count :: u64
  ls_first :: "instant option"
  ls_last :: "instant option"
  ls_types :: "string list"

record outbox_store =
  os_disk :: outbox_cache
  os_loss :: loss_state
  os_lost_total :: u64
  os_markers_emitted :: u64
  os_cap_pruned_total :: u64
  os_cap_pruned_undelivered_total :: u64
  os_cap_blocked_total :: u64

datatype write_outcome = Written | Unwritten | WrittenUnsynced

text \<open>One access to the file: the clock, whether the file could be locked and read, the outcome of the
  write, and the instant a number of seconds ago, if it can be represented.\<close>

record outbox_env =
  oe_now :: instant
  oe_readable :: bool
  oe_write :: write_outcome
  oe_ago :: "u64 \<Rightarrow> instant option"
  oe_show_time :: "instant \<Rightarrow> json"

definition no_loss :: loss_state where
  "no_loss = \<lparr> ls_count = 0, ls_first = None, ls_last = None, ls_types = [] \<rparr>"

definition outbox_new :: outbox_store where
  "outbox_new =
     \<lparr> os_disk = \<lparr> oc_outbox = [], oc_seq = 0 \<rparr>, os_loss = no_loss, os_lost_total = 0,
       os_markers_emitted = 0, os_cap_pruned_total = 0, os_cap_pruned_undelivered_total = 0,
       os_cap_blocked_total = 0 \<rparr>"

type_synonym 'a outbox_mutation = "outbox_cache \<Rightarrow> ('a \<times> bool) \<times> outbox_cache"

definition outbox_mutate ::
  "outbox_env \<Rightarrow> 'a outbox_mutation \<Rightarrow> outbox_store \<Rightarrow> 'a option \<times> outbox_store" where
  "outbox_mutate E f s =
     (if \<not> oe_readable E then (None, s)
      else (case f (os_disk s) of
              ((r, dirty), c) \<Rightarrow>
                if \<not> dirty then (Some r, s)
                else (case oe_write E of
                        Written \<Rightarrow> (Some r, s \<lparr> os_disk := c \<rparr>)
                      | Unwritten \<Rightarrow> (None, s)
                      | WrittenUnsynced \<Rightarrow> (None, s \<lparr> os_disk := c \<rparr>))))"

definition outbox_read :: "outbox_env \<Rightarrow> (outbox_cache \<Rightarrow> 'a) \<Rightarrow> outbox_store \<Rightarrow> 'a option" where
  "outbox_read E f s = (if oe_readable E then Some (f (os_disk s)) else None)"

section \<open>Losses\<close>

definition meter_lost_max_types :: nat where
  "meter_lost_max_types = 16"

fun first_of :: "(instant \<Rightarrow> instant \<Rightarrow> instant) \<Rightarrow> instant option \<Rightarrow> instant option \<Rightarrow> instant option" where
  "first_of pick (Some a) (Some b) = Some (pick a b)"
| "first_of pick (Some a) None = Some a"
| "first_of pick None b = b"

definition absorb :: "loss_state \<Rightarrow> loss_state \<Rightarrow> loss_state" where
  "absorb other l =
     \<lparr> ls_count = ls_count l + ls_count other, ls_first = first_of min (ls_first l) (ls_first other),
       ls_last = first_of max (ls_last l) (ls_last other),
       ls_types = foldl (\<lambda>ts t. insort_insert t ts) (ls_types l) (ls_types other) \<rparr>"

definition record_loss :: "instant \<Rightarrow> string \<Rightarrow> outbox_store \<Rightarrow> outbox_store" where
  "record_loss now event_type s =
     (let l = os_loss s
      in s \<lparr> os_lost_total := os_lost_total s + 1,
             os_loss := \<lparr> ls_count = ls_count l + 1,
               ls_first = (case ls_first l of None \<Rightarrow> Some now | Some t \<Rightarrow> Some t), ls_last = Some now,
               ls_types = (if length (ls_types l) < meter_lost_max_types
                           then insort_insert event_type (ls_types l) else ls_types l) \<rparr> \<rparr>)"

definition meter_lost_payload ::
  "(instant \<Rightarrow> json) \<Rightarrow> u64 \<Rightarrow> instant \<Rightarrow> instant \<Rightarrow> string list \<Rightarrow> json" where
  "meter_lost_payload show_time lost_count first_lost_at last_lost_at event_types =
     JObj [(''lost_count'', JPos lost_count), (''first_lost_at'', show_time first_lost_at),
           (''last_lost_at'', show_time last_lost_at), (''event_types'', JArr (map JStr event_types))]"

definition flush_loss_marker :: "outbox_env \<Rightarrow> outbox_store \<Rightarrow> outbox_store" where
  "flush_loss_marker E s =
     (let taken = os_loss s
      in if ls_count taken = 0 then s
         else (case (ls_first taken, ls_last taken) of
                 (Some t0, Some t1) \<Rightarrow>
                   (case outbox_mutate E (\<lambda>c.
                        case push_event (oe_now E) ''meter'' ''meter.lost''
                               (meter_lost_payload (oe_show_time E) (ls_count taken) t0 t1 (ls_types taken))
                               None c of
                          (seq, c') \<Rightarrow> ((seq, True), c')) (s \<lparr> os_loss := no_loss \<rparr>) of
                      (Some _, s') \<Rightarrow> s' \<lparr> os_markers_emitted := os_markers_emitted s' + 1 \<rparr>
                    | (None, s') \<Rightarrow> s' \<lparr> os_loss := absorb taken (os_loss s') \<rparr>)
               | _ \<Rightarrow> s \<lparr> os_loss := no_loss \<rparr>))"

section \<open>Appending\<close>

text \<open>The append and the marker after it access the file one after the other.\<close>

definition outbox_append ::
  "outbox_env \<Rightarrow> outbox_env \<Rightarrow> string \<Rightarrow> string \<Rightarrow> json \<Rightarrow> outbox_store \<Rightarrow> u64 option \<times> outbox_store" where
  "outbox_append E E' subject event_type payload s =
     (case outbox_mutate E (\<lambda>c.
          case push_event (oe_now E) subject event_type payload None c of (seq, c') \<Rightarrow> ((seq, True), c')) s of
        (Some seq, s') \<Rightarrow> (Some seq, flush_loss_marker E' s')
      | (None, s') \<Rightarrow> (None, record_loss (oe_now E) event_type s'))"

definition append_deduped ::
  "outbox_env \<Rightarrow> string \<Rightarrow> string \<Rightarrow> string \<Rightarrow> json \<Rightarrow> outbox_store \<Rightarrow> u64 option \<times> outbox_store" where
  "append_deduped E dedup_id subject event_type payload =
     outbox_mutate E (\<lambda>c.
       case find (\<lambda>e. ob_dedup_id e = Some dedup_id) (map snd (oc_outbox c)) of
         Some e \<Rightarrow> ((ob_sequence e, False), c)
       | None \<Rightarrow>
           (case push_event (oe_now E) subject event_type payload (Some dedup_id) c of
              (seq, c') \<Rightarrow> ((seq, True), c')))"

definition keep_first :: "outbox_event \<Rightarrow> (u64 \<times> outbox_event) list \<Rightarrow> (u64 \<times> outbox_event) list" where
  "keep_first e m = (case t_get m (ob_sequence e) of Some _ \<Rightarrow> m | None \<Rightarrow> bt_put (ob_sequence e) e m)"

definition insert_event :: "outbox_env \<Rightarrow> outbox_event \<Rightarrow> outbox_store \<Rightarrow> unit option \<times> outbox_store" where
  "insert_event E e = outbox_mutate E (\<lambda>c.
     (((), True), c \<lparr> oc_seq := max (oc_seq c) (ob_sequence e), oc_outbox := keep_first e (oc_outbox c) \<rparr>))"

definition insert_events_preserving_seq ::
  "outbox_env \<Rightarrow> outbox_event list \<Rightarrow> outbox_store \<Rightarrow> unit option \<times> outbox_store" where
  "insert_events_preserving_seq E events s =
     (if events = [] then (Some (), s)
      else outbox_mutate E (\<lambda>c.
        (((), True),
         c \<lparr> oc_seq := foldl (\<lambda>n e. max n (ob_sequence e)) (oc_seq c) events,
             oc_outbox := foldl (\<lambda>m e. keep_first e m) (oc_outbox c) events \<rparr>)) s)"

section \<open>Reading\<close>

definition page_after :: "u64 \<Rightarrow> nat \<Rightarrow> outbox_cache \<Rightarrow> outbox_event list" where
  "page_after after limit c = take limit (map snd (filter (\<lambda>(seq, _). after + 1 \<le> seq) (oc_outbox c)))"

definition list_after :: "outbox_env \<Rightarrow> u64 \<Rightarrow> nat \<Rightarrow> outbox_store \<Rightarrow> outbox_event list option" where
  "list_after E after limit = outbox_read E (page_after after limit)"

definition deliverable :: "outbox_env \<Rightarrow> nat \<Rightarrow> outbox_store \<Rightarrow> outbox_event list option" where
  "deliverable E limit =
     outbox_read E (\<lambda>c. earliest_pending_per_subject (oc_outbox c) limit False (oe_now E))"

definition list_dead_letter :: "outbox_env \<Rightarrow> nat \<Rightarrow> outbox_store \<Rightarrow> outbox_event list option" where
  "list_dead_letter E limit =
     outbox_read E (\<lambda>c. take limit (filter (\<lambda>e. ob_delivery e = DeadLettered) (map snd (oc_outbox c))))"

section \<open>Delivering\<close>

definition lease_secs :: "u64 \<Rightarrow> int" where
  "lease_secs n = max 1 (min (uint n) 31556952)"

definition stamp_lease ::
  "instant \<Rightarrow> outbox_event \<Rightarrow> (u64 \<times> outbox_event) list \<Rightarrow> (u64 \<times> outbox_event) list" where
  "stamp_lease t e m =
     (case t_get m (ob_sequence e) of
        Some stored \<Rightarrow> bt_put (ob_sequence e) (stored \<lparr> ob_leased_until := Some t \<rparr>) m
      | None \<Rightarrow> m)"

text \<open>The clock is far from the last representable instant, so that the lease can be added to it.\<close>

definition claim_in :: "instant \<Rightarrow> nat \<Rightarrow> u64 \<Rightarrow> outbox_event list outbox_mutation" where
  "claim_in now limit secs c =
     (let claimed = earliest_pending_per_subject (oc_outbox c) limit True now;
          lease_until = now + dur (lease_secs secs)
      in ((map (\<lambda>e. e \<lparr> ob_leased_until := Some lease_until \<rparr>) claimed, claimed \<noteq> []),
          c \<lparr> oc_outbox := foldl (\<lambda>m e. stamp_lease lease_until e m) (oc_outbox c) claimed \<rparr>))"

definition claim_events ::
  "outbox_env \<Rightarrow> nat \<Rightarrow> u64 \<Rightarrow> outbox_store \<Rightarrow> outbox_event list option \<times> outbox_store" where
  "claim_events E limit secs = outbox_mutate E (claim_in (oe_now E) limit secs)"

definition record_delivery ::
  "outbox_env \<Rightarrow> u64 \<Rightarrow> bool \<Rightarrow> string option \<Rightarrow> u32 \<Rightarrow> outbox_store \<Rightarrow> bool option \<times> outbox_store" where
  "record_delivery E seq success err max_attempts = outbox_mutate E (\<lambda>c.
     case record_delivery_transition (oe_now E) seq success err max_attempts (oc_outbox c) of
       (dead_lettered, dirty, m) \<Rightarrow> ((dead_lettered, dirty), c \<lparr> oc_outbox := m \<rparr>))"

definition replay_dead_letter :: "outbox_env \<Rightarrow> u64 \<Rightarrow> outbox_store \<Rightarrow> bool option \<times> outbox_store" where
  "replay_dead_letter E seq = outbox_mutate E (\<lambda>c.
     case t_get (oc_outbox c) seq of
       Some e \<Rightarrow>
         if ob_delivery e = DeadLettered then
           ((True, True),
            c \<lparr> oc_outbox := bt_put seq
                  (e \<lparr> ob_delivery := DPending, ob_attempts := 0, ob_last_error := None,
                       ob_leased_until := None \<rparr>) (oc_outbox c) \<rparr>)
         else ((False, False), c)
     | None \<Rightarrow> ((False, False), c))"

section \<open>Collecting\<close>

record cap_pruned =
  cp_pruned :: nat
  cp_by_state :: "u64 table"
  cp_by_type :: "u64 table"

record gc_outcome =
  go_age_pruned :: nat
  go_cap :: cap_pruned
  go_cap_blocked :: bool

fun state_name :: "delivery_state \<Rightarrow> string" where
  "state_name DPending = ''pending''"
| "state_name Delivered = ''delivered''"
| "state_name DeadLettered = ''dead_lettered''"

definition count_one :: "string \<Rightarrow> u64 table \<Rightarrow> u64 table" where
  "count_one k m = bt_put k ((case t_get m k of Some n \<Rightarrow> n | None \<Rightarrow> 0) + 1) m"

definition cap_record :: "outbox_event \<Rightarrow> cap_pruned \<Rightarrow> cap_pruned" where
  "cap_record e p =
     \<lparr> cp_pruned = cp_pruned p + 1, cp_by_state = count_one (state_name (ob_delivery e)) (cp_by_state p),
       cp_by_type = count_one (ob_event_type e) (cp_by_type p) \<rparr>"

definition cap_undelivered :: "cap_pruned \<Rightarrow> nat" where
  "cap_undelivered p =
     cp_pruned p - unat (case t_get (cp_by_state p) ''delivered'' of Some n \<Rightarrow> n | None \<Rightarrow> 0)"

definition gc_total :: "gc_outcome \<Rightarrow> nat" where
  "gc_total g = go_age_pruned g + cp_pruned (go_cap g)"

definition is_protected :: "string list \<Rightarrow> outbox_event \<Rightarrow> bool" where
  "is_protected protected e = (case ob_dedup_id e of Some d \<Rightarrow> d \<in> set protected | None \<Rightarrow> False)"

text \<open>The old delivered events at the front, and what is left without them.\<close>

definition age_prune ::
  "instant option \<Rightarrow> string list \<Rightarrow> (u64 \<times> outbox_event) list \<Rightarrow> (u64 \<times> outbox_event) list" where
  "age_prune cutoff protected m =
     (case cutoff of
        None \<Rightarrow> m
      | Some t \<Rightarrow>
          (case takeWhile (\<lambda>(_, e). ob_created_at e < t \<and> ob_delivery e = Delivered
                             \<and> \<not> is_protected protected e) m of
             [] \<Rightarrow> m
           | old \<Rightarrow> filter (\<lambda>(seq, _). fst (last old) < seq) m))"

definition doomed ::
  "nat \<Rightarrow> string list \<Rightarrow> (u64 \<times> outbox_event) list \<Rightarrow> u64 list" where
  "doomed max_retained protected m =
     map fst (takeWhile (\<lambda>(_, e). \<not> is_protected protected e) (take (length m - max_retained) m))"

definition remove_counted ::
  "(u64 \<times> outbox_event) list \<times> cap_pruned \<Rightarrow> u64 \<Rightarrow> (u64 \<times> outbox_event) list \<times> cap_pruned" where
  "remove_counted mp seq =
     (case mp of (m, p) \<Rightarrow>
        (case t_get m seq of Some e \<Rightarrow> (t_del seq m, cap_record e p) | None \<Rightarrow> (m, p)))"

definition outbox_gc_in :: "instant option \<Rightarrow> nat \<Rightarrow> string list \<Rightarrow> gc_outcome outbox_mutation" where
  "outbox_gc_in cutoff max_retained protected c =
     (let m1 = age_prune cutoff protected (oc_outbox c);
          excess = length m1 - max_retained;
          ds = doomed max_retained protected m1;
          (m2, p) = foldl remove_counted (m1, \<lparr> cp_pruned = 0, cp_by_state = [], cp_by_type = [] \<rparr>) ds;
          out = \<lparr> go_age_pruned = length (oc_outbox c) - length m1, go_cap = p,
                  go_cap_blocked = (0 < excess \<and> length ds < excess) \<rparr>
      in ((out, 0 < gc_total out), c \<lparr> oc_outbox := m2 \<rparr>))"

definition gc_capped ::
  "outbox_env \<Rightarrow> u64 \<Rightarrow> nat \<Rightarrow> string list \<Rightarrow> outbox_store \<Rightarrow> gc_outcome option \<times> outbox_store" where
  "gc_capped E retention_secs max_retained protected s =
     (case outbox_mutate E (outbox_gc_in (oe_ago E retention_secs) max_retained protected) s of
        (None, s') \<Rightarrow> (None, s')
      | (Some out, s') \<Rightarrow>
          (let s' = (if go_cap_blocked out
                     then s' \<lparr> os_cap_blocked_total := os_cap_blocked_total s' + 1 \<rparr> else s')
           in (Some out,
               if 0 < cp_pruned (go_cap out) then
                 s' \<lparr> os_cap_pruned_total := os_cap_pruned_total s' + of_nat (cp_pruned (go_cap out)),
                      os_cap_pruned_undelivered_total :=
                        os_cap_pruned_undelivered_total s' + of_nat (cap_undelivered (go_cap out)) \<rparr>
               else s')))"

end
