(* ===== verification/Outbox_Delivery.thy ===== *)
theory Outbox_Delivery
  imports Outbox
begin

text \<open>
  What the outbox guarantees: sequences ascend, events of a subject are handed out in order and under a
  lease that excludes others, and a collection removes a prefix that no staged intent protects.
\<close>

section \<open>The stored events\<close>

definition outbox_ok :: "outbox_cache \<Rightarrow> bool" where
  "outbox_ok c \<longleftrightarrow>
     bt_ok (oc_outbox c) \<and> (\<forall>(k, e) \<in> set (oc_outbox c). ob_sequence e = k \<and> k \<le> oc_seq c)"

lemma outbox_okD:
  "outbox_ok c \<Longrightarrow> bt_ok (oc_outbox c)"
  "outbox_ok c \<Longrightarrow> (k, e) \<in> set (oc_outbox c) \<Longrightarrow> ob_sequence e = k \<and> k \<le> oc_seq c"
  by (auto simp: outbox_ok_def)

lemma get_ok: "outbox_ok c \<Longrightarrow> t_get (oc_outbox c) k = Some e \<longleftrightarrow> (k, e) \<in> set (oc_outbox c)"
  using bt_ok_distinct [OF outbox_okD(1)] by (simp add: t_get_def)

lemma bt_put_mem: "bt_ok m \<Longrightarrow> set (bt_put k v m) = insert (k, v) {x \<in> set m. fst x \<noteq> k}"
  by (induction k v m rule: bt_put.induct) (auto simp: bt_ok_Cons)

lemma bt_ok_drop: "bt_ok m \<Longrightarrow> bt_ok (drop n m)"
  by (simp add: bt_ok_def drop_map [symmetric] sorted_wrt_drop)

lemma next_seq: "c < (- 1 :: u64) \<Longrightarrow> c < c + 1"
  by unat_arith

lemma seq_room: "(n :: u64) < - 2 \<Longrightarrow> n < - 1 \<and> n + 1 < - 1"
proof -
  assume "n < - 2"
  then have n: "unat n < 18446744073709551614" by (simp add: word_less_nat_alt)
  then have "unat (n + 1) = unat n + 1" by (simp add: unat_add_lem [THEN iffD1])
  moreover have "unat (- 1 :: u64) = 18446744073709551615"
    using unat_u_max [where 'a = 64] by (simp add: u_max_def)
  ultimately show ?thesis using n by (simp add: word_less_nat_alt)
qed

text \<open>Appending a fresh event adds one entry at the end.\<close>

lemma push_appends:
  assumes "outbox_ok c" "oc_seq c < - 1" "push_event now subject et payload d c = (q, c')"
  shows "q = oc_seq c + 1 \<and> oc_seq c' = q \<and> outbox_ok c'
    \<and> (\<exists>e. oc_outbox c' = oc_outbox c @ [(q, e)] \<and> ob_sequence e = q \<and> ob_subject e = subject
           \<and> ob_event_type e = et \<and> ob_payload e = payload \<and> ob_dedup_id e = d)"
proof -
  have lt: "k < oc_seq c + 1" if "k \<in> fst ` set (oc_outbox c)" for k
  proof -
    from that obtain e where "(k, e) \<in> set (oc_outbox c)" by auto
    from outbox_okD(2) [OF assms(1) this] next_seq [OF assms(2)] show ?thesis by auto
  qed
  have le: "oc_seq c \<le> oc_seq c + 1" using next_seq [OF assms(2)] by simp
  obtain e where q: "q = oc_seq c + 1" and c': "c' = c \<lparr> oc_seq := q, oc_outbox := bt_put q e (oc_outbox c) \<rparr>"
    and e: "ob_sequence e = q" "ob_subject e = subject" "ob_event_type e = et" "ob_payload e = payload"
      "ob_dedup_id e = d"
    using assms(3) by (auto simp: push_event_def Let_def)
  have p: "bt_put q e (oc_outbox c) = oc_outbox c @ [(q, e)]"
    unfolding q by (rule bt_put_append) (rule lt)
  have "bt_ok (oc_outbox c @ [(q, e)])"
    using bt_ok_put [OF outbox_okD(1) [OF assms(1)], of q e] p by simp
  moreover have "\<And>k x. (k, x) \<in> set (oc_outbox c) \<Longrightarrow> ob_sequence x = k \<and> k \<le> q"
    using outbox_okD(2) [OF assms(1)] le q by (meson order_trans)
  ultimately have "outbox_ok c'" using c' p e by (auto simp: outbox_ok_def)
  with q c' p e show ?thesis by auto
qed

section \<open>Handing out events\<close>

lemma pick_pending_mem:
  assumes "e \<in> set (pick_pending limit rl now seen n es)"
  shows "\<exists>pre post. es = pre @ e # post \<and> ob_delivery e = DPending \<and> ob_subject e \<notin> set seen
    \<and> (rl \<longrightarrow> \<not> leased now e) \<and> (\<forall>x \<in> set pre. ob_subject x = ob_subject e \<longrightarrow> ob_delivery x \<noteq> DPending)"
  using assms
proof (induction limit rl now seen n es rule: pick_pending.induct)
  case (2 limit rl now seen n x es)
  show ?case
  proof (cases "e = x \<and> ob_delivery x = DPending \<and> ob_subject x \<notin> set seen \<and> \<not> (rl \<and> leased now x)")
    case True
    then show ?thesis by (intro exI [of _ "[]"] exI [of _ es]) auto
  next
    case False
    with 2 obtain pre post where "es = pre @ e # post" "ob_delivery e = DPending"
      "ob_subject e \<notin> set seen" "rl \<longrightarrow> \<not> leased now e"
      "\<forall>y \<in> set pre. ob_subject y = ob_subject e \<longrightarrow> ob_delivery y \<noteq> DPending"
      "ob_subject x = ob_subject e \<longrightarrow> ob_delivery x \<noteq> DPending"
      by (auto split: if_splits) (fastforce)+
    then show ?thesis by (intro exI [of _ "x # pre"] exI [of _ post]) auto
  qed
qed simp

lemma pick_pending_subjects:
  "distinct (map ob_subject (pick_pending limit rl now seen n es))
    \<and> set (map ob_subject (pick_pending limit rl now seen n es)) \<inter> set seen = {}"
  by (induction limit rl now seen n es rule: pick_pending.induct) auto

lemma stamp_get:
  "t_get (foldl (\<lambda>m e. stamp_lease u e m) m es) k =
     (if k \<in> ob_sequence ` set es then map_option (\<lambda>e. e \<lparr> ob_leased_until := Some u \<rparr>) (t_get m k)
      else t_get m k)"
proof (induction es arbitrary: m)
  case (Cons e es)
  have "t_get (stamp_lease u e m) k =
      (if k = ob_sequence e then map_option (\<lambda>e. e \<lparr> ob_leased_until := Some u \<rparr>) (t_get m k) else t_get m k)"
    by (auto simp: stamp_lease_def split: option.split)
  with Cons show ?case by (auto simp: option.map_comp comp_def)
qed simp

text \<open>An event that is picked is the first pending one of its subject.\<close>

lemma picked_head:
  assumes "outbox_ok c" "e \<in> set (earliest_pending_per_subject (oc_outbox c) limit True now)"
  shows "t_get (oc_outbox c) (ob_sequence e) = Some e" "ob_delivery e = DPending" "\<not> leased now e"
    "\<forall>(k, x) \<in> set (oc_outbox c). k < ob_sequence e \<and> ob_subject x = ob_subject e \<longrightarrow> ob_delivery x \<noteq> DPending"
proof -
  obtain pre post where es: "map snd (oc_outbox c) = pre @ e # post"
    and e: "ob_delivery e = DPending" "\<not> leased now e"
    and pre: "\<forall>x \<in> set pre. ob_subject x = ob_subject e \<longrightarrow> ob_delivery x \<noteq> DPending"
    using pick_pending_mem [OF assms(2) [unfolded earliest_pending_per_subject_def]] by auto
  then obtain us vs k where m: "oc_outbox c = us @ (k, e) # vs" "pre = map snd us"
    by (auto simp: map_eq_append_conv)
  then have k: "ob_sequence e = k" using outbox_okD(2) [OF assms(1), of k e] by simp
  then show "t_get (oc_outbox c) (ob_sequence e) = Some e" using m get_ok [OF assms(1)] by simp
  show "ob_delivery e = DPending" "\<not> leased now e" by (fact e)+
  have "bt_ok (us @ (k, e) # vs)" using outbox_okD(1) [OF assms(1)] m(1) by simp
  then have after: "\<forall>x \<in> set vs. k < fst x" by (auto simp: bt_ok_def sorted_wrt_append)
  show "\<forall>(k, x) \<in> set (oc_outbox c). k < ob_sequence e \<and> ob_subject x = ob_subject e \<longrightarrow> ob_delivery x \<noteq> DPending"
    using m k pre after by fastforce
qed

lemma claim_eventsE:
  assumes "claim_events E limit secs s = (Some evs, s')" "outbox_ok (os_disk s)"
  shows "distinct (map ob_subject evs)
    \<and> (\<forall>e \<in> set evs. \<exists>e0. t_get (oc_outbox (os_disk s)) (ob_sequence e) = Some e0
         \<and> ob_delivery e0 = DPending \<and> \<not> leased (oe_now E) e0
         \<and> e = e0 \<lparr> ob_leased_until := Some (oe_now E + dur (lease_secs secs)) \<rparr>
         \<and> t_get (oc_outbox (os_disk s')) (ob_sequence e) = Some e
         \<and> (\<forall>(k, x) \<in> set (oc_outbox (os_disk s)).
              k < ob_sequence e \<and> ob_subject x = ob_subject e \<longrightarrow> ob_delivery x \<noteq> DPending))"
proof (intro conjI ballI)
  let ?c = "os_disk s" and ?u = "oe_now E + dur (lease_secs secs)"
  let ?es = "earliest_pending_per_subject (oc_outbox ?c) limit True (oe_now E)"
  have evs: "evs = map (\<lambda>e. e \<lparr> ob_leased_until := Some ?u \<rparr>) ?es"
    and s': "?es \<noteq> [] \<Longrightarrow> oc_outbox (os_disk s') = foldl (\<lambda>m e. stamp_lease ?u e m) (oc_outbox ?c) ?es"
    using assms(1)
    by (auto simp: claim_events_def outbox_mutate_def claim_in_def Let_def split: if_splits write_outcome.splits)
  show "distinct (map ob_subject evs)"
    using pick_pending_subjects [of limit True "oe_now E" "[]" 0 "map snd (oc_outbox ?c)"]
    by (simp add: evs comp_def earliest_pending_per_subject_def)
  fix e assume "e \<in> set evs"
  then obtain e0 where e0: "e0 \<in> set ?es" "e = e0 \<lparr> ob_leased_until := Some ?u \<rparr>" using evs by auto
  then have "t_get (oc_outbox (os_disk s')) (ob_sequence e0) = Some e"
    using s' picked_head(1) [OF assms(2) e0(1)] by (cases "?es = []") (auto simp: stamp_get)
  with e0 picked_head [OF assms(2) e0(1)] show "\<exists>e0. t_get (oc_outbox ?c) (ob_sequence e) = Some e0
         \<and> ob_delivery e0 = DPending \<and> \<not> leased (oe_now E) e0
         \<and> e = e0 \<lparr> ob_leased_until := Some ?u \<rparr>
         \<and> t_get (oc_outbox (os_disk s')) (ob_sequence e) = Some e
         \<and> (\<forall>(k, x) \<in> set (oc_outbox ?c).
              k < ob_sequence e \<and> ob_subject x = ob_subject e \<longrightarrow> ob_delivery x \<noteq> DPending)"
    by auto
qed

section \<open>Collections\<close>

lemma filter_above:
  assumes "bt_ok (xs @ ys)" "xs \<noteq> []"
  shows "filter (\<lambda>(k, _). fst (last xs) < k) (xs @ ys) = ys"
proof -
  have xs: "\<forall>x \<in> set xs. fst x \<le> fst (last xs)"
  proof
    fix x assume "x \<in> set xs"
    moreover have "xs = butlast xs @ [last xs]" using assms(2) by simp
    ultimately consider "x \<in> set (butlast xs)" | "x = last xs" by (metis Un_iff empty_iff empty_set set_ConsD set_append)
    then show "fst x \<le> fst (last xs)"
    proof cases
      case 1
      have "bt_ok (butlast xs @ [last xs])" using assms by (simp add: bt_ok_def sorted_wrt_append)
      with 1 show ?thesis by (force simp: bt_ok_def sorted_wrt_append)
    qed simp
  qed
  have ys: "\<forall>y \<in> set ys. fst (last xs) < fst y" using assms by (auto simp: bt_ok_def sorted_wrt_append)
  have "filter (\<lambda>(k, _). fst (last xs) < k) xs = []" using xs by (fastforce simp: filter_empty_conv)
  moreover have "filter (\<lambda>(k, _). fst (last xs) < k) ys = ys" using ys by (auto simp: filter_id_conv)
  ultimately show ?thesis by simp
qed

lemma age_prune_drops:
  assumes "bt_ok m"
  obtains n where "age_prune cutoff protected m = drop n m"
    "\<forall>x \<in> set (take n m). \<not> is_protected protected (snd x) \<and> ob_delivery (snd x) = Delivered"
proof (cases cutoff)
  case None
  then show thesis using that [of 0] by (simp add: age_prune_def)
next
  case (Some t)
  let ?P = "\<lambda>(_ :: u64, e). ob_created_at e < t \<and> ob_delivery e = Delivered \<and> \<not> is_protected protected e"
  let ?n = "length (takeWhile ?P m)"
  have split: "take ?n m = takeWhile ?P m" "drop ?n m = dropWhile ?P m"
    by (simp_all add: takeWhile_eq_take [symmetric] dropWhile_eq_drop [symmetric])
  have "bt_ok (takeWhile ?P m @ dropWhile ?P m)" using assms by simp
  then have "age_prune cutoff protected m = drop ?n m"
    using filter_above [of "takeWhile ?P m" "dropWhile ?P m"] Some split
    by (auto simp: age_prune_def split: list.split)
  moreover have "\<forall>x \<in> set (takeWhile ?P m). ?P x" by (auto dest: set_takeWhileD)
  ultimately show thesis using that [of ?n] split(1) by fastforce
qed

lemma remove_counted_drops:
  "bt_ok (xs @ ys) \<Longrightarrow> fst (foldl remove_counted (xs @ ys, p) (map fst xs)) = ys"
proof (induction xs arbitrary: p)
  case (Cons x xs)
  obtain k e where x: "x = (k, e)" by (cases x)
  have "k \<notin> fst ` set (xs @ ys)" using Cons.prems x by (auto simp: bt_ok_Cons)
  then have "t_del k (xs @ ys) = xs @ ys" unfolding t_del_filter filter_id_conv by force
  then have "remove_counted (x # xs @ ys, p) k = (xs @ ys, cap_record e p)"
    by (simp add: remove_counted_def x t_get_def t_del_def)
  then show ?case using Cons x by (simp add: bt_ok_Cons)
qed simp

text \<open>A collection drops a prefix in which no event is protected.\<close>

lemma gc_in_drops:
  assumes "bt_ok (oc_outbox c)"
  obtains n where "snd (outbox_gc_in cutoff most protected c) = c \<lparr> oc_outbox := drop n (oc_outbox c) \<rparr>"
    "\<forall>x \<in> set (take n (oc_outbox c)). \<not> is_protected protected (snd x)"
proof -
  obtain n where n: "age_prune cutoff protected (oc_outbox c) = drop n (oc_outbox c)"
    "\<forall>x \<in> set (take n (oc_outbox c)). \<not> is_protected protected (snd x)"
    using age_prune_drops [OF assms] by metis
  let ?m = "drop n (oc_outbox c)" and ?Q = "\<lambda>(_ :: u64, e). \<not> is_protected protected e"
  let ?xs = "takeWhile ?Q (take (length ?m - most) ?m)"
  have m: "take (length ?xs) ?m = ?xs"
    by (metis (no_types, lifting) append_take_drop_id takeWhile_eq_take take_take takeWhile_dropWhile_id append_eq_conv_conj)
  have ok: "bt_ok ?m" using assms by (rule bt_ok_drop)
  have "fst (foldl remove_counted (?m, p) (doomed most protected ?m)) = drop (length ?xs) ?m" for p
    using remove_counted_drops [of ?xs "drop (length ?xs) ?m" p] ok m
    by (metis (no_types, lifting) append_take_drop_id doomed_def)
  then have "snd (outbox_gc_in cutoff most protected c)
      = c \<lparr> oc_outbox := drop (n + length ?xs) (oc_outbox c) \<rparr>"
    by (simp add: outbox_gc_in_def n(1) Let_def split_beta add.commute)
  moreover have "\<forall>x \<in> set ?xs. \<not> is_protected protected (snd x)" by (auto dest: set_takeWhileD)
  moreover have "take (n + length ?xs) (oc_outbox c) = take n (oc_outbox c) @ ?xs"
    using m by (simp add: take_add)
  ultimately show thesis using that [of "n + length ?xs"] n(2) by auto
qed

section \<open>Laws that every operation keeps\<close>

definition dedup_in :: "string \<Rightarrow> outbox_cache \<Rightarrow> bool" where
  "dedup_in d c \<longleftrightarrow> (\<exists>(k, e) \<in> set (oc_outbox c). ob_dedup_id e = Some d)"

text \<open>The event, apart from its delivery.\<close>

definition same_event :: "outbox_event \<Rightarrow> outbox_event \<Rightarrow> bool" where
  "same_event e e' \<longleftrightarrow>
     ob_sequence e' = ob_sequence e \<and> ob_subject e' = ob_subject e \<and> ob_event_type e' = ob_event_type e
     \<and> ob_payload e' = ob_payload e \<and> ob_dedup_id e' = ob_dedup_id e"

text \<open>
  Steps of the processes that share the outbox: appends, claims at a time in \<open>clock\<close>, outcomes and
  replays of events in \<open>touch\<close>, deduplicating appends of identifiers in \<open>adm\<close> and collections that
  protect a set in \<open>prot\<close>.  Fewer than \<open>2 ^ 64\<close> events are ever appended.
\<close>

inductive outbox_step ::
  "(instant \<Rightarrow> bool) \<Rightarrow> (u64 \<Rightarrow> bool) \<Rightarrow> (string \<Rightarrow> bool) \<Rightarrow> (string list \<Rightarrow> bool)
     \<Rightarrow> outbox_store \<Rightarrow> outbox_store \<Rightarrow> bool" for clock touch adm prot where
  ob_append: "oc_seq (os_disk s) < - 2 \<Longrightarrow>
     outbox_step clock touch adm prot s (snd (outbox_append E E' subject et payload s))"
| ob_append_deduped: "oc_seq (os_disk s) < - 1 \<Longrightarrow> adm d \<Longrightarrow>
     outbox_step clock touch adm prot s (snd (append_deduped E d subject et payload s))"
| ob_claim: "clock (oe_now E) \<Longrightarrow> outbox_step clock touch adm prot s (snd (claim_events E limit secs s))"
| ob_outcome: "touch k \<Longrightarrow>
     outbox_step clock touch adm prot s (snd (record_delivery E k success err attempts s))"
| ob_replay: "touch k \<Longrightarrow> outbox_step clock touch adm prot s (snd (replay_dead_letter E k s))"
| ob_gc: "prot protected \<Longrightarrow>
     outbox_step clock touch adm prot s (snd (gc_capped E retention most protected s))"

locale outbox_law =
  fixes I :: "outbox_cache \<Rightarrow> bool"
    and clock :: "instant \<Rightarrow> bool" and touch :: "u64 \<Rightarrow> bool"
    and adm :: "string \<Rightarrow> bool" and prot :: "string list \<Rightarrow> bool"
  assumes I_ok: "I c \<Longrightarrow> outbox_ok c"
    and pushed: "I c \<Longrightarrow> oc_seq c < - 1 \<Longrightarrow> push_event now subject et payload d c = (q, c') \<Longrightarrow>
      (\<And>d'. d = Some d' \<Longrightarrow> adm d' \<and> \<not> dedup_in d' c) \<Longrightarrow> I c'"
    and stamped: "I c \<Longrightarrow> clock now \<Longrightarrow> t_get (oc_outbox c) k = Some e \<Longrightarrow> ob_delivery e = DPending \<Longrightarrow>
      \<not> leased now e \<Longrightarrow> I (c \<lparr> oc_outbox := bt_put k (e \<lparr> ob_leased_until := Some u \<rparr>) (oc_outbox c) \<rparr>)"
    and touched: "I c \<Longrightarrow> touch k \<Longrightarrow> t_get (oc_outbox c) k = Some e \<Longrightarrow> same_event e e' \<Longrightarrow>
      I (c \<lparr> oc_outbox := bt_put k e' (oc_outbox c) \<rparr>)"
    and dropped: "I c \<Longrightarrow> prot p \<Longrightarrow> (\<And>x. x \<in> set (take n (oc_outbox c)) \<Longrightarrow> \<not> is_protected p (snd x)) \<Longrightarrow>
      I (c \<lparr> oc_outbox := drop n (oc_outbox c) \<rparr>)"
begin

lemma mutate_keeps:
  assumes "I (os_disk s)" "I (snd (f (os_disk s)))"
  shows "I (os_disk (snd (outbox_mutate E f s)))"
  using assms by (auto simp: outbox_mutate_def split: prod.split write_outcome.split)

lemma push_keeps:
  assumes "I (os_disk s)" "oc_seq (os_disk s) < - 1"
    and "outbox_mutate E (\<lambda>c. case push_event now subject et payload None c of (q, c') \<Rightarrow> ((q, True), c')) s
      = (r, s')"
  shows "I (os_disk s')"
  using mutate_keeps [of s "\<lambda>c. case push_event now subject et payload None c of (q, c') \<Rightarrow> ((q, True), c')" E]
    pushed [OF assms(1,2), of now subject et payload None] assms
  by (auto split: prod.splits)

lemma flush_keeps:
  assumes "I (os_disk s)" "oc_seq (os_disk s) < - 1"
  shows "I (os_disk (flush_loss_marker E s))"
proof -
  note push_keeps [of "s \<lparr> os_loss := no_loss \<rparr>" E, simplified, OF assms]
  then show ?thesis
    using assms(1) by (auto simp: flush_loss_marker_def Let_def split: option.split prod.split)
qed

lemma append_keeps:
  assumes "I (os_disk s)" "oc_seq (os_disk s) < - 2"
  shows "I (os_disk (snd (outbox_append E E' subject et payload s)))"
proof -
  let ?f = "\<lambda>c. case push_event (oe_now E) subject et payload None c of (q, c') \<Rightarrow> ((q, True), c')"
  have lt: "oc_seq (os_disk s) < - 1" "oc_seq (os_disk s) + 1 < - 1" using seq_room [OF assms(2)] by simp_all
  obtain r s' where m: "outbox_mutate E ?f s = (r, s')" by fastforce
  have "I (os_disk s')" using push_keeps [OF assms(1) lt(1) m] .
  moreover have "oc_seq (os_disk s') < - 1" if "r \<noteq> None"
    using m that lt by (auto simp: outbox_mutate_def push_event_def Let_def split: if_splits write_outcome.splits)
  ultimately show ?thesis
    using m flush_keeps [of s' E'] by (auto simp: outbox_append_def record_loss_def Let_def split: option.split)
qed

lemma dedup_keeps:
  assumes "I (os_disk s)" "oc_seq (os_disk s) < - 1" "adm d"
  shows "I (os_disk (snd (append_deduped E d subject et payload s)))"
  unfolding append_deduped_def
proof (rule mutate_keeps [OF assms(1)])
  let ?c = "os_disk s"
  show "I (snd (case find (\<lambda>e. ob_dedup_id e = Some d) (map snd (oc_outbox ?c)) of
      Some e \<Rightarrow> ((ob_sequence e, False), ?c)
    | None \<Rightarrow> (case push_event (oe_now E) subject et payload (Some d) ?c of (q, c') \<Rightarrow> ((q, True), c'))))"
  proof (cases "find (\<lambda>e. ob_dedup_id e = Some d) (map snd (oc_outbox ?c))")
    case None
    then have "\<not> dedup_in d ?c" by (auto simp: find_None_iff dedup_in_def)
    with None assms pushed [OF assms(1,2), of "oe_now E" subject et payload "Some d"] show ?thesis
      by (auto split: prod.split)
  qed (use assms(1) in simp)
qed

lemma stamps_keep:
  assumes "I c" "clock now" "distinct (map ob_sequence es)"
    and "\<forall>e \<in> set es. t_get (oc_outbox c) (ob_sequence e) = Some e \<and> ob_delivery e = DPending \<and> \<not> leased now e"
  shows "I (c \<lparr> oc_outbox := foldl (\<lambda>m e. stamp_lease u e m) (oc_outbox c) es \<rparr>)"
  using assms
proof (induction es arbitrary: c)
  case (Cons e es)
  let ?c = "c \<lparr> oc_outbox := stamp_lease u e (oc_outbox c) \<rparr>"
  have e: "stamp_lease u e (oc_outbox c) = bt_put (ob_sequence e) (e \<lparr> ob_leased_until := Some u \<rparr>) (oc_outbox c)"
    using Cons.prems(4) by (simp add: stamp_lease_def)
  have "I ?c" unfolding e by (rule stamped [OF Cons.prems(1,2)]) (use Cons.prems(4) in simp_all)
  moreover have "\<forall>x \<in> set es. t_get (oc_outbox ?c) (ob_sequence x) = Some x \<and> ob_delivery x = DPending \<and> \<not> leased now x"
  proof
    fix x assume x: "x \<in> set es"
    have "ob_sequence x \<noteq> ob_sequence e" using Cons.prems(3) imageI [OF x, of ob_sequence] by auto
    then have "t_get (oc_outbox ?c) (ob_sequence x) = t_get (oc_outbox c) (ob_sequence x)" by (simp add: e)
    with Cons.prems(4) x show "t_get (oc_outbox ?c) (ob_sequence x) = Some x \<and> ob_delivery x = DPending \<and> \<not> leased now x"
      by (auto simp only: list.set_intros)
  qed
  ultimately show ?case using Cons.IH [of ?c] Cons.prems(2,3) by simp
qed simp

lemma claim_keeps:
  assumes "I (os_disk s)" "clock (oe_now E)"
  shows "I (os_disk (snd (claim_events E limit secs s)))"
  unfolding claim_events_def
proof (rule mutate_keeps [OF assms(1)])
  let ?c = "os_disk s"
  let ?es = "earliest_pending_per_subject (oc_outbox ?c) limit True (oe_now E)"
  have ok: "outbox_ok ?c" by (rule I_ok) fact
  have "inj_on ob_sequence (set ?es)"
    by (rule inj_onI) (metis picked_head(1) [OF ok] option.inject)
  moreover have "distinct ?es"
    using pick_pending_subjects [of limit True "oe_now E" "[]" 0 "map snd (oc_outbox ?c)"]
    by (simp add: earliest_pending_per_subject_def distinct_map)
  ultimately have "distinct (map ob_sequence ?es)" by (simp add: distinct_map)
  then show "I (snd (claim_in (oe_now E) limit secs ?c))"
    using stamps_keep [OF assms] picked_head [OF ok] by (simp add: claim_in_def Let_def)
qed

lemma outcome_keeps:
  assumes "I (os_disk s)" "touch k"
  shows "I (os_disk (snd (record_delivery E k success err attempts s)))"
  unfolding record_delivery_def
proof (rule mutate_keeps [OF assms(1)], cases "t_get (oc_outbox (os_disk s)) k")
  case (Some e)
  note t = touched [OF assms Some]
  show "I (snd (case record_delivery_transition (oe_now E) k success err attempts (oc_outbox (os_disk s)) of
      (dead_lettered, dirty, m) \<Rightarrow> ((dead_lettered, dirty), os_disk s \<lparr> oc_outbox := m \<rparr>)))"
    using Some assms(1) by (auto simp: record_delivery_transition_def Let_def same_event_def intro!: t)
qed (use assms(1) in \<open>simp add: record_delivery_transition_def\<close>)

lemma replay_keeps:
  assumes "I (os_disk s)" "touch k"
  shows "I (os_disk (snd (replay_dead_letter E k s)))"
  unfolding replay_dead_letter_def
  by (rule mutate_keeps [OF assms(1)])
    (auto simp: same_event_def assms(1) intro!: touched [OF assms] split: option.split)

lemma gc_keeps:
  assumes "I (os_disk s)" "prot p"
  shows "I (os_disk (snd (gc_capped E retention most p s)))"
proof -
  obtain n where n: "snd (outbox_gc_in (oe_ago E retention) most p (os_disk s))
      = os_disk s \<lparr> oc_outbox := drop n (oc_outbox (os_disk s)) \<rparr>"
    "\<forall>x \<in> set (take n (oc_outbox (os_disk s))). \<not> is_protected p (snd x)"
    using gc_in_drops [OF outbox_okD(1) [OF I_ok [OF assms(1)]]] by metis
  have "I (os_disk (snd (outbox_mutate E (outbox_gc_in (oe_ago E retention) most p) s)))"
    using dropped [OF assms, of n] n(2) by (intro mutate_keeps [OF assms(1)]) (simp add: n(1))
  then show ?thesis by (auto simp: gc_capped_def Let_def split: prod.split option.split)
qed

lemma step_keeps: "outbox_step clock touch adm prot s s' \<Longrightarrow> I (os_disk s) \<Longrightarrow> I (os_disk s')"
  by (induction rule: outbox_step.induct)
    (auto intro: append_keeps dedup_keeps claim_keeps outcome_keeps replay_keeps gc_keeps)

lemma steps_keep: "(outbox_step clock touch adm prot)\<^sup>*\<^sup>* s s' \<Longrightarrow> I (os_disk s) \<Longrightarrow> I (os_disk s')"
  by (induction rule: rtranclp_induct) (auto intro: step_keeps)

end

text \<open>Sequences stay in order.\<close>

lemma ok_push: "outbox_ok c \<Longrightarrow> oc_seq c < - 1 \<Longrightarrow> push_event now subject et payload d c = (q, c') \<Longrightarrow> outbox_ok c'"
  using push_appends by blast

lemma ok_put:
  assumes "outbox_ok c" "t_get (oc_outbox c) k = Some e" "ob_sequence e' = ob_sequence e"
  shows "outbox_ok (c \<lparr> oc_outbox := bt_put k e' (oc_outbox c) \<rparr>)"
  using assms outbox_okD(2) [OF assms(1), of k e]
  by (auto simp: outbox_ok_def bt_ok_put bt_put_mem get_ok [OF assms(1)])

lemma ok_drop: "outbox_ok c \<Longrightarrow> outbox_ok (c \<lparr> oc_outbox := drop n (oc_outbox c) \<rparr>)"
  by (auto simp: outbox_ok_def bt_ok_drop dest: in_set_dropD)

interpretation seq_law: outbox_law outbox_ok "\<lambda>_. True" "\<lambda>_. True" "\<lambda>_. True" "\<lambda>_. True"
  by unfold_locales (auto intro: ok_push ok_put ok_drop simp: same_event_def)

section \<open>Leases\<close>

text \<open>The event \<open>sq\<close>, as long as it is stored and pending, is leased until \<open>t\<close>.\<close>

definition held :: "u64 \<Rightarrow> instant \<Rightarrow> outbox_cache \<Rightarrow> bool" where
  "held sq t c \<longleftrightarrow>
     outbox_ok c \<and> sq \<le> oc_seq c
     \<and> (\<forall>e. t_get (oc_outbox c) sq = Some e \<longrightarrow> ob_delivery e = DPending \<longrightarrow> ob_leased_until e = Some t)"

lemma held_ok: "held sq t c \<Longrightarrow> outbox_ok c"
  by (simp add: held_def)

lemma held_push:
  assumes "held sq t c" "oc_seq c < - 1" "push_event now subject et payload d c = (q, c')"
  shows "held sq t c'"
proof -
  have h: "outbox_ok c" "sq \<le> oc_seq c" using assms(1) by (simp_all add: held_def)
  obtain e where p: "q = oc_seq c + 1" "oc_seq c' = q" "outbox_ok c'" "oc_outbox c' = oc_outbox c @ [(q, e)]"
    using push_appends [OF h(1) assms(2,3)] by blast
  have lt: "sq < q" using h(2) next_seq [OF assms(2)] p(1) by simp
  then have "t_get (oc_outbox c') sq = t_get (oc_outbox c) sq"
    using p(4) by (simp add: t_get_def map_add_def split: option.split)
  with assms(1) p lt show ?thesis by (simp add: held_def)
qed

lemma held_put:
  assumes "held sq t c" "t_get (oc_outbox c) k = Some e" "ob_sequence e' = ob_sequence e" "k \<noteq> sq"
  shows "held sq t (c \<lparr> oc_outbox := bt_put k e' (oc_outbox c) \<rparr>)"
  using assms ok_put [OF _ assms(2,3)] by (simp add: held_def)

lemma held_drop: "held sq t c \<Longrightarrow> held sq t (c \<lparr> oc_outbox := drop n (oc_outbox c) \<rparr>)"
  unfolding held_def
  by (metis (no_types, lifting) get_ok in_set_dropD ok_drop outbox_cache.ext_inject outbox_cache.surjective
      outbox_cache.update_convs(1))

interpretation lease_law: outbox_law "held sq t" "\<lambda>now. now < t" "\<lambda>k. k \<noteq> sq" "\<lambda>_. True" "\<lambda>_. True"
  for sq t
proof (unfold_locales, goal_cases)
  case (3 c now k e u)
  then have "k \<noteq> sq" by (auto simp: held_def leased_def)
  with 3 show ?case by (intro held_put) simp_all
qed (auto intro: held_ok held_push held_put held_drop simp: same_event_def)

lemma held_not_claimed:
  assumes "held sq t (os_disk s)" "claim_events E limit secs s = (Some evs, s')" "oe_now E < t"
  shows "sq \<notin> ob_sequence ` set evs"
proof
  have ok: "outbox_ok (os_disk s)" using assms(1) by (simp add: held_def)
  assume "sq \<in> ob_sequence ` set evs"
  then obtain e0 where "t_get (oc_outbox (os_disk s)) sq = Some e0" "ob_delivery e0 = DPending"
    "\<not> leased (oe_now E) e0"
    using claim_eventsE [OF assms(2) ok] by blast
  with assms(1,3) show False by (auto simp: held_def leased_def)
qed

lemma claim_holds:
  assumes "outbox_ok (os_disk s)" "claim_events E limit secs s = (Some evs, s')" "e \<in> set evs"
  shows "held (ob_sequence e) (oe_now E + dur (lease_secs secs)) (os_disk s')"
proof -
  let ?u = "oe_now E + dur (lease_secs secs)"
  have ok: "outbox_ok (os_disk s')"
    using seq_law.claim_keeps [OF assms(1), of E limit secs] assms(2) by simp
  obtain e0 where e0: "e = e0 \<lparr> ob_leased_until := Some ?u \<rparr>"
    "t_get (oc_outbox (os_disk s')) (ob_sequence e) = Some e"
    using claim_eventsE [OF assms(2,1)] assms(3) by blast
  then have "ob_sequence e \<le> oc_seq (os_disk s')"
    using outbox_okD(2) [OF ok] get_ok [OF ok] by blast
  with ok e0 show ?thesis by (auto simp: held_def)
qed

section \<open>Reading by cursor\<close>

lemma after_iff: "(a :: u64) < - 1 \<Longrightarrow> a + 1 \<le> k \<longleftrightarrow> a < k"
  by unat_arith

lemma filter_after:
  assumes "bt_ok (xs @ ys)" "xs \<noteq> []" "fst (last xs) < (- 1 :: u64)"
  shows "filter (\<lambda>(k, _). fst (last xs) + 1 \<le> k) (xs @ ys) = ys"
  using filter_above [OF assms(1,2)] by (simp add: after_iff [OF assms(3)])

text \<open>The event after a page is the first of the next, also when events were appended in between.\<close>

lemma pages_join:
  assumes "outbox_ok c'" "oc_outbox c' = oc_outbox c @ later" "oc_seq c < - 1" "outbox_ok c"
    and "page_after a n c = page" "page \<noteq> []"
  shows "page_after a (length page + m) c' = page @ page_after (ob_sequence (last page)) m c'"
proof -
  let ?P = "\<lambda>(k :: u64, _ :: outbox_event). a + 1 \<le> k"
  let ?xs = "take n (filter ?P (oc_outbox c))"
  have page: "page = map snd ?xs" using assms(5) by (simp add: page_after_def take_map)
  then have ne: "?xs \<noteq> []" using assms(6) by auto
  define rest where "rest = drop n (filter ?P (oc_outbox c)) @ filter ?P later"
  have f: "filter ?P (oc_outbox c') = ?xs @ rest" by (simp add: assms(2) rest_def)
  have "last ?xs \<in> set ?xs" using ne by (rule last_in_set)
  then have "last ?xs \<in> set (oc_outbox c)" by (meson filter_is_subset in_set_takeD subsetD)
  then have l: "ob_sequence (snd (last ?xs)) = fst (last ?xs)" "fst (last ?xs) \<le> oc_seq c"
    using outbox_okD(2) [OF assms(4), of "fst (last ?xs)" "snd (last ?xs)"] by simp_all
  have lt: "fst (last ?xs) < - 1" using l(2) assms(3) by (rule order_le_less_trans)
  have ok: "bt_ok (?xs @ rest)" using bt_ok_filter [OF outbox_okD(1) [OF assms(1)], of ?P] f by simp
  have le: "a + 1 \<le> fst (last ?xs)" using \<open>last ?xs \<in> set ?xs\<close> by (auto dest!: in_set_takeD)
  have "filter (\<lambda>(k, _). fst (last ?xs) + 1 \<le> k) (oc_outbox c')
      = filter (\<lambda>(k, _). fst (last ?xs) + 1 \<le> k) (filter ?P (oc_outbox c'))"
    unfolding filter_filter
    by (rule filter_cong) (use le in \<open>auto simp: after_iff [OF lt]\<close>)
  also have "\<dots> = rest" unfolding f by (rule filter_after [OF ok ne lt])
  finally have r: "filter (\<lambda>(k, _). fst (last ?xs) + 1 \<le> k) (oc_outbox c') = rest" .
  have "ob_sequence (last page) = fst (last ?xs)" using page ne l by (simp add: last_map)
  then show ?thesis by (simp add: page_after_def r f page)
qed

end
