(* ===== verification/Vault_Outbox.thy ===== *)
theory Vault_Outbox
  imports Outbox_Delivery
begin

text \<open>
  The vault and the outbox together: the drain of staged events and the collection of
  \<open>src/src/storage/file.rs\<close>, the operations that end with a drain, and one pass of the delivery loop of
  \<open>src/src/server/mod.rs\<close>.  The network, the message authentication code and the outcomes of file
  accesses are parameters.
\<close>

section \<open>Draining staged events\<close>

text \<open>The accesses to the outbox file are numbered.\<close>

fun drain_events ::
  "(nat \<Rightarrow> outbox_env) \<Rightarrow> nat \<Rightarrow> staged_event list \<Rightarrow> outbox_store \<Rightarrow> bool \<times> outbox_store" where
  "drain_events ens n [] out = (True, out)"
| "drain_events ens n (e # es) out =
     (case append_deduped (ens n) (sv_dedup_id e) (sv_subject e) (sv_event_type e) (sv_payload e) out of
        (None, out') \<Rightarrow> (False, out')
      | (Some _, out') \<Rightarrow> drain_events ens (n + 1) es out')"

definition clear_drained :: "vault_env \<Rightarrow> string list \<Rightarrow> unit operation" where
  "clear_drained V drained = locked_mutate V (\<lambda>c.
     Inr ((), c \<lparr> sc_pending_events := filter (\<lambda>e. sv_dedup_id e \<notin> set drained) (sc_pending_events c) \<rparr>))"

text \<open>\<open>reached\<close> tells whether the commit that clears the drained events reached the vault's log.\<close>

definition drain_pending_events ::
  "vault_env \<Rightarrow> (nat \<Rightarrow> outbox_env) \<Rightarrow> bool \<Rightarrow> storage_cache \<times> outbox_store
     \<Rightarrow> bool \<times> storage_cache \<times> outbox_store" where
  "drain_pending_events V ens reached s =
     (case s of (c, out) \<Rightarrow>
        if sc_pending_events c = [] then (True, c, out)
        else (case drain_events ens 0 (sc_pending_events c) out of
                (False, out') \<Rightarrow> (False, c, out')
              | (True, out') \<Rightarrow>
                  if \<not> reached then (False, c, out')
                  else (case clear_drained V (map sv_dedup_id (sc_pending_events c)) c of
                          (Inl _, c') \<Rightarrow> (False, c', out')
                        | (Inr _, c') \<Rightarrow> (True, c', out'))))"

definition drain_after ::
  "vault_env \<Rightarrow> (nat \<Rightarrow> outbox_env) \<Rightarrow> bool \<Rightarrow> outbox_store \<Rightarrow> (storage_error + 'a) \<times> storage_cache
     \<Rightarrow> (storage_error + 'a) \<times> storage_cache \<times> outbox_store" where
  "drain_after V ens reached out r =
     (case r of
        (Inl e, c) \<Rightarrow> (Inl e, c, out)
      | (Inr x, c) \<Rightarrow>
          (case drain_pending_events V ens reached (c, out) of (_, c', out') \<Rightarrow> (Inr x, c', out')))"

definition decide_and_drain ::
  "vault_env \<Rightarrow> (nat \<Rightarrow> outbox_env) \<Rightarrow> bool \<Rightarrow> (nat \<Rightarrow> string) \<Rightarrow> string \<Rightarrow> decide_call
     \<Rightarrow> storage_cache \<times> outbox_store \<Rightarrow> (storage_error + approval_request) \<times> storage_cache \<times> outbox_store" where
  "decide_and_drain V ens reached fresh i d s =
     (case s of (c, out) \<Rightarrow> drain_after V ens reached out (decide_approval_atomic V fresh i d c))"

text \<open>A poll or a sweep that finds nothing due ends before the drain.\<close>

definition poll_and_drain ::
  "vault_env \<Rightarrow> (nat \<Rightarrow> outbox_env) \<Rightarrow> bool \<Rightarrow> (nat \<Rightarrow> string) \<Rightarrow> string
     \<Rightarrow> storage_cache \<times> outbox_store \<Rightarrow> (storage_error + approval_request) \<times> storage_cache \<times> outbox_store" where
  "poll_and_drain V ens reached fresh i s =
     (case s of (c, out) \<Rightarrow>
        (case poll_refresh_approval V fresh i c of
           (r, c') \<Rightarrow>
             (case t_get (sc_approvals c) i of
                Some a \<Rightarrow>
                  if approval_is_due (ve_now V) a then drain_after V ens reached out (r, c') else (r, c', out)
              | None \<Rightarrow> (r, c', out))))"

definition sweep_and_drain ::
  "vault_env \<Rightarrow> (nat \<Rightarrow> outbox_env) \<Rightarrow> bool \<Rightarrow> (nat \<Rightarrow> string)
     \<Rightarrow> storage_cache \<times> outbox_store \<Rightarrow> (storage_error + approval_sweep) \<times> storage_cache \<times> outbox_store" where
  "sweep_and_drain V ens reached fresh s =
     (case s of (c, out) \<Rightarrow>
        (case sweep_approval_lifecycle V fresh c of
           (r, c') \<Rightarrow>
             if list_ex (\<lambda>(i, a). approval_is_due (ve_now V) a) (sc_approvals c)
             then drain_after V ens reached out (r, c') else (r, c', out)))"

definition gc_outbox ::
  "outbox_env \<Rightarrow> u64 \<Rightarrow> nat \<Rightarrow> storage_cache \<times> outbox_store \<Rightarrow> nat option \<times> outbox_store" where
  "gc_outbox E retention_secs max_retained s =
     (case s of (c, out) \<Rightarrow>
        (case gc_capped E retention_secs max_retained (map sv_dedup_id (sc_pending_events c)) out of
           (r, out') \<Rightarrow> (map_option gc_total r, out')))"

section \<open>Pushing events\<close>

record outbox_metrics =
  om_delivered :: u64
  om_failed :: u64
  om_dead_lettered :: u64
  om_last_delivered_sequence :: u64

record outbox_config =
  og_enabled :: bool
  og_url :: "string option"
  og_hmac_secret :: "string option"
  og_max_attempts :: u32
  og_retention_secs :: u64
  og_max_retained_events :: nat

definition record_delivered :: "u64 \<Rightarrow> outbox_metrics \<Rightarrow> outbox_metrics" where
  "record_delivered seq m =
     m \<lparr> om_delivered := om_delivered m + 1, om_last_delivered_sequence := seq \<rparr>"

definition record_failed :: "outbox_metrics \<Rightarrow> outbox_metrics" where
  "record_failed m = m \<lparr> om_failed := om_failed m + 1 \<rparr>"

definition record_dead_lettered :: "outbox_metrics \<Rightarrow> outbox_metrics" where
  "record_dead_lettered m = m \<lparr> om_dead_lettered := om_dead_lettered m + 1 \<rparr>"

definition delivery_body :: "(instant \<Rightarrow> json) \<Rightarrow> outbox_event \<Rightarrow> json" where
  "delivery_body show_time e =
     JObj [(''sequence'', JPos (ob_sequence e)), (''subject'', JStr (ob_subject e)),
           (''event'', JStr (ob_event_type e)), (''payload'', ob_payload e),
           (''created_at'', show_time (ob_created_at e))]"

text \<open>\<open>mac\<close> is the code of a body under a secret, in hexadecimal.\<close>

definition sign_body :: "(string \<Rightarrow> string \<Rightarrow> string) \<Rightarrow> string \<Rightarrow> string \<Rightarrow> string" where
  "sign_body mac secret body = ''sha256='' @ mac secret body"

definition outbox_batch :: nat where
  "outbox_batch = 64"

definition outbox_lease_secs :: u64 where
  "outbox_lease_secs = 30"

text \<open>One access claims an event and another records what became of it.  \<open>post\<close> sends a signed body.\<close>

record delivery_env =
  de_claim :: "nat \<Rightarrow> outbox_env"
  de_record :: "nat \<Rightarrow> outbox_env"
  de_codec :: codec
  de_mac :: "string \<Rightarrow> string \<Rightarrow> string"
  de_post :: "nat \<Rightarrow> string \<Rightarrow> string \<Rightarrow> string \<Rightarrow> bool \<times> string option"

definition deliver_one ::
  "delivery_env \<Rightarrow> nat \<Rightarrow> string \<Rightarrow> string \<Rightarrow> u32 \<Rightarrow> outbox_event \<Rightarrow> outbox_store \<times> outbox_metrics
     \<Rightarrow> outbox_store \<times> outbox_metrics" where
  "deliver_one D n url secret max_attempts e s =
     (case s of (out, m) \<Rightarrow>
        let body = (case co_to_vec (de_codec D) (delivery_body (oe_show_time (de_claim D n)) e) of
                      Some b \<Rightarrow> b | None \<Rightarrow> []);
            (success, err) = de_post D n url (sign_body (de_mac D) secret body) body;
            m = (if success then record_delivered (ob_sequence e) m else record_failed m)
        in (case record_delivery (de_record D n) (ob_sequence e) success err max_attempts out of
              (Some True, out') \<Rightarrow> (out', record_dead_lettered m)
            | (_, out') \<Rightarrow> (out', m)))"

fun deliver_loop ::
  "delivery_env \<Rightarrow> string \<Rightarrow> string \<Rightarrow> u32 \<Rightarrow> nat \<Rightarrow> outbox_store \<times> outbox_metrics
     \<Rightarrow> unit option \<times> outbox_store \<times> outbox_metrics" where
  "deliver_loop D url secret max_attempts 0 s = (Some (), s)"
| "deliver_loop D url secret max_attempts (Suc n) (out, m) =
     (case claim_events (de_claim D n) 1 outbox_lease_secs out of
        (None, out') \<Rightarrow> (None, out', m)
      | (Some evs, out') \<Rightarrow>
          if evs = [] then (Some (), out', m)
          else deliver_loop D url secret max_attempts n
                 (deliver_one D n url secret max_attempts (last evs) (out', m)))"

definition deliver_outbox_once ::
  "delivery_env \<Rightarrow> outbox_config \<Rightarrow> outbox_store \<times> outbox_metrics
     \<Rightarrow> unit option \<times> outbox_store \<times> outbox_metrics" where
  "deliver_outbox_once D cfg s =
     (if \<not> og_enabled cfg then (Some (), s)
      else (case (og_url cfg, og_hmac_secret cfg) of
              (Some url, Some secret) \<Rightarrow>
                deliver_loop D url secret (og_max_attempts cfg) outbox_batch s
            | _ \<Rightarrow> (Some (), s)))"

end
