(* ===== verification/Event_Delivery.thy ===== *)
theory Event_Delivery
  imports Vault_Outbox
begin

text \<open>
  Staged events reach the outbox exactly once, and pending events are delivered when the accesses to
  the file and the receiver succeed.
\<close>

section \<open>Each staged event has one place in the outbox\<close>

text \<open>Identifiers are unique and among \<open>U\<close>.\<close>

definition unique_ids :: "string set \<Rightarrow> outbox_cache \<Rightarrow> bool" where
  "unique_ids U c \<longleftrightarrow>
     outbox_ok c
     \<and> (\<forall>k e d. (k, e) \<in> set (oc_outbox c) \<longrightarrow> ob_dedup_id e = Some d \<longrightarrow> d \<in> U)
     \<and> (\<forall>k e k' e' d. (k, e) \<in> set (oc_outbox c) \<longrightarrow> ob_dedup_id e = Some d \<longrightarrow>
          (k', e') \<in> set (oc_outbox c) \<longrightarrow> ob_dedup_id e' = Some d \<longrightarrow> k' = k)"

lemma unique_ok: "unique_ids U c \<Longrightarrow> outbox_ok c"
  by (simp add: unique_ids_def)

lemma put_mem:
  assumes "outbox_ok c" "t_get (oc_outbox c) k = Some e" "same_event e e'"
    and "(k', x) \<in> set (bt_put k e' (oc_outbox c))"
  shows "\<exists>x0. (k', x0) \<in> set (oc_outbox c) \<and> same_event x0 x"
  using assms
  by (cases "k' = k") (auto simp: bt_put_mem [OF outbox_okD(1)] get_ok same_event_def)

lemma ok_put_same:
  "outbox_ok c \<Longrightarrow> t_get (oc_outbox c) k = Some e \<Longrightarrow> same_event e e' \<Longrightarrow>
     outbox_ok (c \<lparr> oc_outbox := bt_put k e' (oc_outbox c) \<rparr>)"
  by (rule ok_put) (auto simp: same_event_def)

lemma unique_put:
  assumes "unique_ids U c" "t_get (oc_outbox c) k = Some e" "same_event e e'"
  shows "unique_ids U (c \<lparr> oc_outbox := bt_put k e' (oc_outbox c) \<rparr>)"
proof -
  have ok: "outbox_ok c" using assms(1) by (rule unique_ok)
  have m: "\<exists>x0. (k1, x0) \<in> set (oc_outbox c) \<and> ob_dedup_id x0 = ob_dedup_id x"
    if "(k1, x) \<in> set (bt_put k e' (oc_outbox c))" for k1 x
    using put_mem [OF ok assms(2,3) that] by (auto simp: same_event_def)
  show ?thesis
    unfolding unique_ids_def using ok_put_same [OF ok assms(2,3)] m assms(1)
    by simp (metis (no_types, lifting) unique_ids_def)
qed

lemma unique_push:
  assumes "unique_ids U c" "oc_seq c < - 1" "push_event now subject et payload d c = (q, c')"
    and "\<And>d'. d = Some d' \<Longrightarrow> d' \<in> U \<and> \<not> dedup_in d' c"
  shows "unique_ids U c'"
proof -
  have ok: "outbox_ok c" using assms(1) by (simp add: unique_ids_def)
  obtain e where "outbox_ok c'" "oc_outbox c' = oc_outbox c @ [(q, e)]" "ob_dedup_id e = d"
    using push_appends [OF ok assms(2,3)] by blast
  then show ?thesis
    using assms(1,4) unfolding unique_ids_def dedup_in_def by simp blast
qed

lemma unique_drop: "unique_ids U c \<Longrightarrow> unique_ids U (c \<lparr> oc_outbox := drop n (oc_outbox c) \<rparr>)"
  using ok_drop [of c n] unfolding unique_ids_def by simp (meson in_set_dropD)

interpretation unique_law: outbox_law "unique_ids U" "\<lambda>_. True" "\<lambda>_. True" "\<lambda>d. d \<in> U" "\<lambda>_. True" for U
  by unfold_locales
    (auto intro: unique_put unique_push unique_drop unique_ok simp: same_event_def)

text \<open>The identifier \<open>d\<close> stays with the event \<open>e0\<close> at \<open>q\<close>, which is stored while \<open>d\<close> is pending.\<close>

definition fixed_at :: "string \<Rightarrow> u64 \<Rightarrow> outbox_event \<Rightarrow> string set \<Rightarrow> outbox_cache \<Rightarrow> bool" where
  "fixed_at d q e0 P c \<longleftrightarrow>
     outbox_ok c
     \<and> (\<forall>k e. (k, e) \<in> set (oc_outbox c) \<longrightarrow> ob_dedup_id e = Some d \<longrightarrow> k = q \<and> same_event e0 e)
     \<and> (d \<in> P \<longrightarrow> dedup_in d c)"

lemma fixed_ok: "fixed_at d q e0 P c \<Longrightarrow> outbox_ok c"
  by (simp add: fixed_at_def)

lemma same_event_trans: "same_event a b \<Longrightarrow> same_event b c \<Longrightarrow> same_event a c"
  by (simp add: same_event_def)

lemma dedup_in_put:
  assumes "outbox_ok c" "t_get (oc_outbox c) k = Some e" "same_event e e'" "dedup_in d c"
  shows "dedup_in d (c \<lparr> oc_outbox := bt_put k e' (oc_outbox c) \<rparr>)"
proof -
  obtain k1 e1 where m: "(k1, e1) \<in> set (oc_outbox c)" "ob_dedup_id e1 = Some d"
    using assms(4) by (auto simp: dedup_in_def)
  show ?thesis
  proof (cases "k1 = k")
    case True
    then have "t_get (oc_outbox c) k = Some e1" using m(1) get_ok [OF assms(1)] by simp
    then have "e1 = e" using assms(2) by simp
    then show ?thesis using m(2) assms(3) outbox_okD(1) [OF assms(1)]
      by (auto simp: dedup_in_def bt_put_mem same_event_def)
  next
    case False
    then show ?thesis using m outbox_okD(1) [OF assms(1)]
      by (force simp: dedup_in_def bt_put_mem)
  qed
qed

lemma fixed_put:
  assumes "fixed_at d q e0 P c" "t_get (oc_outbox c) k = Some e" "same_event e e'"
  shows "fixed_at d q e0 P (c \<lparr> oc_outbox := bt_put k e' (oc_outbox c) \<rparr>)"
proof -
  have ok: "outbox_ok c" using assms(1) by (rule fixed_ok)
  have "k1 = q \<and> same_event e0 x"
    if x: "(k1, x) \<in> set (bt_put k e' (oc_outbox c))" "ob_dedup_id x = Some d" for k1 x
  proof -
    obtain x0 where x0: "(k1, x0) \<in> set (oc_outbox c)" "same_event x0 x"
      using put_mem [OF ok assms(2,3) x(1)] by blast
    then have "ob_dedup_id x0 = Some d" using x(2) by (simp add: same_event_def)
    with x0 assms(1) show ?thesis unfolding fixed_at_def by (meson same_event_trans)
  qed
  then show ?thesis
    using ok_put_same [OF ok assms(2,3)] dedup_in_put [OF ok assms(2,3)] assms(1) by (auto simp: fixed_at_def)
qed

lemma fixed_push:
  assumes "fixed_at d q e0 P c" "oc_seq c < - 1" "push_event now subject et payload dd c = (r, c')"
    and "\<And>d'. dd = Some d' \<Longrightarrow> d' \<in> P \<and> \<not> dedup_in d' c"
  shows "fixed_at d q e0 P c'"
proof -
  obtain e where p: "outbox_ok c'" "oc_outbox c' = oc_outbox c @ [(r, e)]" "ob_dedup_id e = dd"
    using push_appends [OF fixed_ok [OF assms(1)] assms(2,3)] by blast
  have "dd \<noteq> Some d" using assms(1,4) by (auto simp: fixed_at_def)
  with p assms(1) show ?thesis by (auto simp: fixed_at_def dedup_in_def)
qed

lemma fixed_drop:
  assumes "fixed_at d q e0 P c" "P \<subseteq> set p"
    and "\<And>x. x \<in> set (take n (oc_outbox c)) \<Longrightarrow> \<not> is_protected p (snd x)"
  shows "fixed_at d q e0 P (c \<lparr> oc_outbox := drop n (oc_outbox c) \<rparr>)"
proof -
  have "dedup_in d (c \<lparr> oc_outbox := drop n (oc_outbox c) \<rparr>)" if "d \<in> P"
  proof -
    have "dedup_in d c" using assms(1) that by (simp add: fixed_at_def)
    then obtain k e where m: "(k, e) \<in> set (oc_outbox c)" "ob_dedup_id e = Some d"
      by (auto simp: dedup_in_def)
    then have "is_protected p e" using assms(2) that by (auto simp: is_protected_def)
    then have "(k, e) \<notin> set (take n (oc_outbox c))" using assms(3) by force
    with m(1) have "(k, e) \<in> set (drop n (oc_outbox c))" by (metis Un_iff append_take_drop_id set_append)
    with m(2) show ?thesis by (auto simp: dedup_in_def)
  qed
  with assms(1) ok_drop [OF fixed_ok [OF assms(1)], of n] show ?thesis
    unfolding fixed_at_def by simp (meson in_set_dropD)
qed

interpretation fixed_law:
  outbox_law "fixed_at d q e0 P" "\<lambda>_. True" "\<lambda>_. True" "\<lambda>d'. d' \<in> P" "\<lambda>p. P \<subseteq> set p" for d q e0 P
  by unfold_locales
    (auto intro: fixed_put fixed_push fixed_drop fixed_ok simp: same_event_def)

lemma fixed_mono: "fixed_at d q e0 P c \<Longrightarrow> (d \<in> P' \<Longrightarrow> d \<in> P) \<Longrightarrow> fixed_at d q e0 P' c"
  by (auto simp: fixed_at_def)

section \<open>Draining\<close>

abbreviation pending_ids :: "storage_cache \<Rightarrow> string list" where
  "pending_ids c \<equiv> map sv_dedup_id (sc_pending_events c)"

definition room :: "nat \<Rightarrow> outbox_store \<Rightarrow> bool" where
  "room n out \<longleftrightarrow> unat (oc_seq (os_disk out)) + n < 2 ^ 64 - 1"

lemma room_lt: "room (Suc n) out \<Longrightarrow> oc_seq (os_disk out) < - 1"
proof -
  have "unat (- 1 :: u64) = 2 ^ 64 - 1" using unat_u_max [where 'a = 64] by (simp add: u_max_def)
  then show "room (Suc n) out \<Longrightarrow> oc_seq (os_disk out) < - 1" by (simp add: room_def word_less_nat_alt)
qed

lemma dedup_seq:
  assumes "append_deduped E d subject et payload out = (r, out')"
  shows "oc_seq (os_disk out') = oc_seq (os_disk out) \<or> oc_seq (os_disk out') = oc_seq (os_disk out) + 1"
  using assms
  by (auto simp: append_deduped_def outbox_mutate_def push_event_def Let_def
      split: if_splits option.splits write_outcome.splits)

lemma dedup_room:
  assumes "append_deduped E d subject et payload out = (r, out')" "room (Suc n) out"
  shows "room n out'"
proof -
  have "unat (oc_seq (os_disk out) + 1) = unat (oc_seq (os_disk out)) + 1"
    using assms(2) by (intro unat_add_lem [THEN iffD1, THEN trans]) (simp_all add: room_def)
  with dedup_seq [OF assms(1)] assms(2) show ?thesis by (auto simp: room_def)
qed

lemma drain_steps:
  assumes "drain_events ens n es out = (b, out')" "room (length es) out" "\<And>e. e \<in> set es \<Longrightarrow> adm (sv_dedup_id e)"
  shows "(outbox_step clock touch adm prot)\<^sup>*\<^sup>* out out'"
  using assms
proof (induction es arbitrary: n out)
  case (Cons e es)
  let ?a = "append_deduped (ens n) (sv_dedup_id e) (sv_subject e) (sv_event_type e) (sv_payload e) out"
  obtain r out1 where a: "?a = (r, out1)" by fastforce
  have "outbox_step clock touch adm prot out out1"
    using ob_append_deduped [OF room_lt, of "length es" out adm "sv_dedup_id e" clock touch prot "ens n"
        "sv_subject e" "sv_event_type e" "sv_payload e"] Cons.prems(2,3) a by simp
  moreover have "(outbox_step clock touch adm prot)\<^sup>*\<^sup>* out1 out'"
  proof (cases r)
    case (Some q)
    have "room (length es) out1" using dedup_room [OF a] Cons.prems(2) by simp
    with Cons.IH [of "n + 1" out1] Cons.prems a Some show ?thesis by simp
  qed (use Cons.prems(1) a in simp)
  ultimately show ?case by (rule converse_rtranclp_into_rtranclp)
qed simp

lemma clear_pending:
  "clear_drained V ids c = (r, c') \<Longrightarrow> x \<in> set (sc_pending_events c') \<Longrightarrow> x \<in> set (sc_pending_events c)"
  by (auto simp: clear_drained_def locked_mutate_def rebuild_indexes_def split: sum.splits)

lemma drainE:
  assumes "drain_pending_events V ens reached (c, out) = (b, c', out')" "room (length (sc_pending_events c)) out"
  shows "(outbox_step clock touch (\<lambda>d. d \<in> set (pending_ids c)) prot)\<^sup>*\<^sup>* out out'
    \<and> set (pending_ids c') \<subseteq> set (pending_ids c)"
proof -
  obtain r out1 where d: "drain_events ens 0 (sc_pending_events c) out = (r, out1)" by fastforce
  have "(outbox_step clock touch (\<lambda>d. d \<in> set (pending_ids c)) prot)\<^sup>*\<^sup>* out out1"
    by (rule drain_steps [OF d assms(2)]) simp
  with assms(1) d show ?thesis
    by (auto simp: drain_pending_events_def dest: clear_pending
        split: if_splits bool.splits prod.splits sum.splits)
qed

section \<open>The vault and the outbox\<close>

text \<open>
  The state is the vault, the outbox and the identifiers that were ever staged.  Operations of the vault
  append staged events under new identifiers; a drain may fail at any access; any operation of the
  outbox may come between, and a collection protects the pending identifiers.
\<close>

inductive system_step ::
  "storage_cache \<times> outbox_store \<times> string set \<Rightarrow> storage_cache \<times> outbox_store \<times> string set \<Rightarrow> bool" where
  sy_stage: "sc_pending_events c' = sc_pending_events c @ staged \<Longrightarrow>
     set (map sv_dedup_id staged) \<inter> used = {} \<Longrightarrow>
     system_step (c, out, used) (c', out, used \<union> set (map sv_dedup_id staged))"
| sy_drain: "drain_pending_events V ens reached (c, out) = (b, c', out') \<Longrightarrow>
     room (length (sc_pending_events c)) out \<Longrightarrow> system_step (c, out, used) (c', out', used)"
| sy_outbox: "outbox_step (\<lambda>_. True) (\<lambda>_. True) (\<lambda>_. False) (\<lambda>p. set (pending_ids c) \<subseteq> set p) out out' \<Longrightarrow>
     system_step (c, out, used) (c, out', used)"

definition system_ok :: "storage_cache \<times> outbox_store \<times> string set \<Rightarrow> bool" where
  "system_ok s \<longleftrightarrow>
     (case s of (c, out, used) \<Rightarrow> unique_ids used (os_disk out) \<and> set (pending_ids c) \<subseteq> used)"

definition fixed_system ::
  "string \<Rightarrow> u64 \<Rightarrow> outbox_event \<Rightarrow> storage_cache \<times> outbox_store \<times> string set \<Rightarrow> bool" where
  "fixed_system d q e0 s \<longleftrightarrow>
     (case s of (c, out, used) \<Rightarrow> d \<in> used \<and> fixed_at d q e0 (set (pending_ids c)) (os_disk out))"

lemma step_weaken:
  assumes "outbox_step clock touch adm prot s s'" "\<And>d. adm d \<Longrightarrow> adm' d" "\<And>p. prot p \<Longrightarrow> prot' p"
  shows "outbox_step clock touch adm' prot' s s'"
  using assms by (induction rule: outbox_step.induct) (auto intro: outbox_step.intros)

lemma steps_weaken:
  assumes "(outbox_step clock touch adm prot)\<^sup>*\<^sup>* s s'" "\<And>d. adm d \<Longrightarrow> adm' d" "\<And>p. prot p \<Longrightarrow> prot' p"
  shows "(outbox_step clock touch adm' prot')\<^sup>*\<^sup>* s s'"
  using assms(1) by (rule rtranclp_mono [THEN predicate2D, rotated]) (use assms(2,3) in \<open>auto intro: step_weaken\<close>)

lemma unique_mono: "unique_ids U c \<Longrightarrow> U \<subseteq> U' \<Longrightarrow> unique_ids U' c"
  unfolding unique_ids_def by blast

lemma system_step_ok: "system_step s s' \<Longrightarrow> system_ok s \<Longrightarrow> system_ok s'"
proof (induction rule: system_step.induct)
  case (sy_stage c' c staged used out)
  then show ?case by (auto simp: system_ok_def intro: unique_mono)
next
  case (sy_drain V ens reached c out b c' out' used)
  then have "(outbox_step (\<lambda>_. True) (\<lambda>_. True) (\<lambda>d. d \<in> used) (\<lambda>_. True))\<^sup>*\<^sup>* out out'"
    by (intro steps_weaken [OF drainE [THEN conjunct1]]) (auto simp: system_ok_def)
  with sy_drain drainE [OF sy_drain(1,2)] show ?case
    using unique_law.steps_keep by (fastforce simp: system_ok_def)
next
  case (sy_outbox c out out' used)
  from step_weaken [OF sy_outbox(1), of "\<lambda>d. d \<in> used" "\<lambda>_. True"] unique_law.step_keeps sy_outbox(2)
  show ?case by (auto simp: system_ok_def)
qed

lemma system_step_fixed: "system_step s s' \<Longrightarrow> fixed_system d q e0 s \<Longrightarrow> fixed_system d q e0 s'"
proof (induction rule: system_step.induct)
  case (sy_stage c' c staged used out)
  then show ?case by (auto simp: fixed_system_def elim!: fixed_mono)
next
  case (sy_drain V ens reached c out b c' out' used)
  let ?P = "set (pending_ids c)"
  have "(outbox_step (\<lambda>_. True) (\<lambda>_. True) (\<lambda>d. d \<in> ?P) (\<lambda>p. ?P \<subseteq> set p))\<^sup>*\<^sup>* out out'"
    "set (pending_ids c') \<subseteq> ?P"
    using drainE [OF sy_drain(1,2)] by blast+
  with sy_drain(3) fixed_law.steps_keep show ?case
    by (fastforce simp: fixed_system_def intro: fixed_mono)
next
  case (sy_outbox c out out' used)
  from step_weaken [OF sy_outbox(1), of "\<lambda>d. d \<in> set (pending_ids c)" "\<lambda>p. set (pending_ids c) \<subseteq> set p"]
    fixed_law.step_keeps sy_outbox(2)
  show ?case by (auto simp: fixed_system_def)
qed

lemma system_ok_run: "system_step\<^sup>*\<^sup>* s s' \<Longrightarrow> system_ok s \<Longrightarrow> system_ok s'"
  by (induction rule: rtranclp_induct) (auto intro: system_step_ok)

lemma fixed_run: "system_step\<^sup>*\<^sup>* s s' \<Longrightarrow> fixed_system d q e0 s \<Longrightarrow> fixed_system d q e0 s'"
  by (induction rule: rtranclp_induct) (auto intro: system_step_fixed)

lemma fixed_start:
  assumes "system_ok (c, out, used)" "(q, e0) \<in> set (oc_outbox (os_disk out))" "ob_dedup_id e0 = Some d"
  shows "fixed_system d q e0 (c, out, used)"
proof -
  have u: "unique_ids used (os_disk out)" using assms(1) by (simp add: system_ok_def)
  have ok: "outbox_ok (os_disk out)" using u by (rule unique_ok)
  have "e = e0" if "(q, e) \<in> set (oc_outbox (os_disk out))" for e
    using that assms(2) get_ok [OF ok] by (metis option.inject)
  then have "k = q \<and> same_event e0 e"
    if "(k, e) \<in> set (oc_outbox (os_disk out))" "ob_dedup_id e = Some d" for k e
    using u that assms(2,3) unfolding unique_ids_def same_event_def by metis
  moreover have "d \<in> used" using u assms(2,3) unfolding unique_ids_def by blast
  moreover have "dedup_in d (os_disk out)" using assms(2,3) by (auto simp: dedup_in_def)
  ultimately show ?thesis using ok by (simp add: fixed_system_def fixed_at_def)
qed

section \<open>A drain that succeeds\<close>

text \<open>The outbox keeps the events it holds, and holds the event \<open>v\<close>.\<close>

definition stored :: "staged_event \<Rightarrow> outbox_cache \<Rightarrow> bool" where
  "stored v c \<longleftrightarrow>
     (\<exists>(k, e) \<in> set (oc_outbox c). ob_dedup_id e = Some (sv_dedup_id v) \<and> ob_subject e = sv_subject v
        \<and> ob_event_type e = sv_event_type v \<and> ob_payload e = sv_payload v)"

definition accessible :: "outbox_env \<Rightarrow> bool" where
  "accessible E \<longleftrightarrow> oe_readable E \<and> oe_write E = Written"

lemma dedup_in_find:
  "dedup_in d c \<longleftrightarrow> find (\<lambda>e. ob_dedup_id e = Some d) (map snd (oc_outbox c)) \<noteq> None"
  unfolding find_None_iff dedup_in_def by force

lemma stored_mono: "set (oc_outbox c) \<subseteq> set (oc_outbox c') \<Longrightarrow> stored v c \<Longrightarrow> stored v c'"
  by (auto simp: stored_def)

lemma dedup_in_mono: "set (oc_outbox c) \<subseteq> set (oc_outbox c') \<Longrightarrow> dedup_in d c \<Longrightarrow> dedup_in d c'"
  by (auto simp: dedup_in_def)

lemma stored_dedup: "stored v c \<Longrightarrow> dedup_in (sv_dedup_id v) c"
  by (auto simp: stored_def dedup_in_def)

lemma dedup_stores:
  assumes "outbox_ok (os_disk out)" "oc_seq (os_disk out) < - 1" "accessible E"
  obtains q out' where
    "append_deduped E (sv_dedup_id v) (sv_subject v) (sv_event_type v) (sv_payload v) out = (Some q, out')"
    "outbox_ok (os_disk out')" "set (oc_outbox (os_disk out)) \<subseteq> set (oc_outbox (os_disk out'))"
    "dedup_in (sv_dedup_id v) (os_disk out) \<or> stored v (os_disk out')"
    "\<And>d. dedup_in d (os_disk out') \<Longrightarrow> dedup_in d (os_disk out) \<or> d = sv_dedup_id v"
proof (cases "dedup_in (sv_dedup_id v) (os_disk out)")
  case False
  obtain q c' where p: "push_event (oe_now E) (sv_subject v) (sv_event_type v) (sv_payload v)
      (Some (sv_dedup_id v)) (os_disk out) = (q, c')" by fastforce
  from push_appends [OF assms(1,2) p] obtain e where e: "outbox_ok c'"
    "oc_outbox c' = oc_outbox (os_disk out) @ [(q, e)]" "ob_subject e = sv_subject v"
    "ob_event_type e = sv_event_type v" "ob_payload e = sv_payload v" "ob_dedup_id e = Some (sv_dedup_id v)"
    by blast
  have "append_deduped E (sv_dedup_id v) (sv_subject v) (sv_event_type v) (sv_payload v) out
      = (Some q, out \<lparr> os_disk := c' \<rparr>)"
    using False p assms(3) by (simp add: append_deduped_def outbox_mutate_def accessible_def dedup_in_find)
  then show thesis by (rule that) (use e in \<open>auto simp: dedup_in_def stored_def\<close>)
next
  case True
  then obtain e where "find (\<lambda>e. ob_dedup_id e = Some (sv_dedup_id v)) (map snd (oc_outbox (os_disk out))) = Some e"
    by (auto simp: dedup_in_find)
  then have "append_deduped E (sv_dedup_id v) (sv_subject v) (sv_event_type v) (sv_payload v) out
      = (Some (ob_sequence e), out)"
    using assms(3) by (simp add: append_deduped_def outbox_mutate_def accessible_def)
  then show thesis using assms(1) True by (intro that) auto
qed

lemma drain_stores:
  assumes "outbox_ok (os_disk out)" "room (length es) out" "\<And>i. accessible (ens i)" "distinct (map sv_dedup_id es)"
  obtains out' where "drain_events ens n es out = (True, out')"
    "set (oc_outbox (os_disk out)) \<subseteq> set (oc_outbox (os_disk out'))"
    "\<And>v. v \<in> set es \<Longrightarrow> dedup_in (sv_dedup_id v) (os_disk out) \<or> stored v (os_disk out')"
  using assms
proof (induction es arbitrary: n out thesis)
  case (Cons v es)
  have lt: "oc_seq (os_disk out) < - 1" using Cons.prems(3) by (intro room_lt [of "length es"]) simp
  obtain q out1 where a: "append_deduped (ens n) (sv_dedup_id v) (sv_subject v) (sv_event_type v) (sv_payload v) out
      = (Some q, out1)" "outbox_ok (os_disk out1)"
    "set (oc_outbox (os_disk out)) \<subseteq> set (oc_outbox (os_disk out1))"
    "dedup_in (sv_dedup_id v) (os_disk out) \<or> stored v (os_disk out1)"
    "\<And>d. dedup_in d (os_disk out1) \<Longrightarrow> dedup_in d (os_disk out) \<or> d = sv_dedup_id v"
    by (rule dedup_stores [OF Cons.prems(2) lt Cons.prems(4)]) (rule that)
  have r: "room (length es) out1" using dedup_room [OF a(1)] Cons.prems(3) by simp
  have d: "distinct (map sv_dedup_id es)" using Cons.prems(5) by simp
  obtain out2 where o: "drain_events ens (n + 1) es out1 = (True, out2)"
    "set (oc_outbox (os_disk out1)) \<subseteq> set (oc_outbox (os_disk out2))"
    "\<And>w. w \<in> set es \<Longrightarrow> dedup_in (sv_dedup_id w) (os_disk out1) \<or> stored w (os_disk out2)"
    by (rule Cons.IH [OF _ a(2) r Cons.prems(4) d]) (rule that)
  show ?case
  proof (rule Cons.prems(1))
    show "drain_events ens n (v # es) out = (True, out2)" using a(1) o(1) by simp
    show "set (oc_outbox (os_disk out)) \<subseteq> set (oc_outbox (os_disk out2))" using a(3) o(2) by simp
    fix w assume "w \<in> set (v # es)"
    then consider "w = v" | "w \<in> set es" "sv_dedup_id w \<noteq> sv_dedup_id v"
      using Cons.prems(5) by (cases "w = v") (auto simp: image_iff)
    then show "dedup_in (sv_dedup_id w) (os_disk out) \<or> stored w (os_disk out2)"
      using a(4,5) o(3) stored_mono [OF o(2)] by cases blast+
  qed
qed simp

lemma drain_completes:
  assumes "outbox_ok (os_disk out)" "room (length (sc_pending_events c)) out" "\<And>i. accessible (ens i)"
    and "validate_primary_shapes V c = Inr ()" "distinct (pending_ids c)"
  shows "\<exists>c' out'. drain_pending_events V ens True (c, out) = (True, c', out') \<and> sc_pending_events c' = []
    \<and> set (oc_outbox (os_disk out)) \<subseteq> set (oc_outbox (os_disk out'))
    \<and> (\<forall>v \<in> set (sc_pending_events c). dedup_in (sv_dedup_id v) (os_disk out) \<or> stored v (os_disk out'))"
proof (cases "sc_pending_events c = []")
  case True
  then show ?thesis by (simp add: drain_pending_events_def)
next
  case False
  obtain out' where o: "drain_events ens 0 (sc_pending_events c) out = (True, out')"
    "set (oc_outbox (os_disk out)) \<subseteq> set (oc_outbox (os_disk out'))"
    "\<And>v. v \<in> set (sc_pending_events c) \<Longrightarrow> dedup_in (sv_dedup_id v) (os_disk out) \<or> stored v (os_disk out')"
    by (rule drain_stores [OF assms(1,2,3,5)]) (rule that)
  let ?c = "c \<lparr> sc_pending_events := filter (\<lambda>e. sv_dedup_id e \<notin> set (pending_ids c)) (sc_pending_events c) \<rparr>"
  have "validate_primary_shapes V ?c = Inr ()"
    using assms(4) by (simp add: validate_primary_shapes_def cong: sum.case_cong)
  then have "clear_drained V (pending_ids c) c = (Inr (), ?c)" by (simp add: clear_drained_def locked_mutate_def)
  then have "drain_pending_events V ens True (c, out) = (True, ?c, out')"
    using o(1) False by (simp add: drain_pending_events_def)
  moreover have "sc_pending_events ?c = []" by (auto simp: filter_empty_conv)
  ultimately show ?thesis using o(2,3) by blast
qed

section \<open>A pass that delivers\<close>

definition is_pending :: "outbox_cache \<Rightarrow> u64 \<Rightarrow> bool" where
  "is_pending c k \<longleftrightarrow> (\<exists>e. t_get (oc_outbox c) k = Some e \<and> ob_delivery e = DPending)"

text \<open>No pending event is leased beyond \<open>t\<close>.\<close>

definition unleased :: "instant \<Rightarrow> outbox_cache \<Rightarrow> bool" where
  "unleased t c \<longleftrightarrow>
     outbox_ok c
     \<and> (\<forall>k e. t_get (oc_outbox c) k = Some e \<longrightarrow> ob_delivery e = DPending \<longrightarrow> \<not> leased t e)"

lemma leased_later: "\<not> leased t e \<Longrightarrow> t \<le> now \<Longrightarrow> \<not> leased now e"
  by (auto simp: leased_def split: option.splits)

lemma pick_some:
  assumes "e \<in> set es" "ob_delivery e = DPending" "ob_subject e \<notin> set seen"
    and "\<forall>e \<in> set es. ob_delivery e = DPending \<longrightarrow> \<not> leased now e"
  shows "pick_pending limit True now seen n es \<noteq> []"
  using assms by (induction limit True now seen n es rule: pick_pending.induct) auto

lemma pick_one: "pick_pending 1 rl now seen 0 es = [] \<or> (\<exists>e. pick_pending 1 rl now seen 0 es = [e])"
proof -
  have "length (pick_pending 1 rl now seen n es) \<le> 1" for n
    by (induction "1::nat" rl now seen n es rule: pick_pending.induct) auto
  from this [of 0] show ?thesis by (cases "pick_pending 1 rl now seen 0 es") auto
qed

lemma claim_one:
  assumes "unleased t (os_disk out)" "t \<le> oe_now E" "accessible E"
  shows "(\<nexists>k. is_pending (os_disk out) k) \<and> claim_events E 1 secs out = (Some [], out)
    \<or> (\<exists>e u. t_get (oc_outbox (os_disk out)) (ob_sequence e) = Some e \<and> ob_delivery e = DPending
         \<and> claim_events E 1 secs out = (Some [e \<lparr> ob_leased_until := Some u \<rparr>],
             out \<lparr> os_disk := os_disk out \<lparr> oc_outbox :=
               bt_put (ob_sequence e) (e \<lparr> ob_leased_until := Some u \<rparr>) (oc_outbox (os_disk out)) \<rparr> \<rparr>))"
proof -
  let ?c = "os_disk out" and ?u = "oe_now E + dur (lease_secs secs)"
  have ok: "outbox_ok ?c" using assms(1) by (simp add: unleased_def)
  let ?es = "earliest_pending_per_subject (oc_outbox ?c) 1 True (oe_now E)"
  consider "?es = []" | e where "?es = [e]"
    using pick_one [of True "oe_now E" "[]" "map snd (oc_outbox ?c)"]
    unfolding earliest_pending_per_subject_def by blast
  then show ?thesis
  proof cases
    case 1
    have nl: "\<forall>e \<in> set (map snd (oc_outbox ?c)). ob_delivery e = DPending \<longrightarrow> \<not> leased (oe_now E) e"
      using assms(1) leased_later [OF _ assms(2)] get_ok [OF ok] by (fastforce simp: unleased_def)
    have "\<not> is_pending ?c k" for k
    proof
      assume "is_pending ?c k"
      then obtain e where "(k, e) \<in> set (oc_outbox ?c)" "ob_delivery e = DPending"
        by (auto simp: is_pending_def get_ok [OF ok])
      with pick_some [OF _ _ _ nl, of e "[]" 1 0] 1 show False
        by (force simp: earliest_pending_per_subject_def)
    qed
    moreover have "claim_events E 1 secs out = (Some [], out)"
      using 1 assms(3) by (simp add: claim_events_def outbox_mutate_def claim_in_def accessible_def)
    ultimately show ?thesis by blast
  next
    case (2 e)
    note h = picked_head [OF ok, of e 1 "oe_now E"]
    then have g: "t_get (oc_outbox ?c) (ob_sequence e) = Some e" "ob_delivery e = DPending" using 2 by simp_all
    then have "claim_events E 1 secs out = (Some [e \<lparr> ob_leased_until := Some ?u \<rparr>],
             out \<lparr> os_disk := ?c \<lparr> oc_outbox :=
               bt_put (ob_sequence e) (e \<lparr> ob_leased_until := Some ?u \<rparr>) (oc_outbox ?c) \<rparr> \<rparr>)"
      using 2 assms(3)
      by (simp add: claim_events_def outbox_mutate_def claim_in_def accessible_def stamp_lease_def Let_def)
    with g show ?thesis by blast
  qed
qed

lemma delivered_one:
  assumes "accessible (de_record D n)" "\<And>n u s b. fst (de_post D n u s b)"
    and "t_get (oc_outbox (os_disk out)) (ob_sequence e) = Some e" "ob_delivery e = DPending"
  shows "\<exists>e' m'. deliver_one D n url secret ma e (out, m) = (out \<lparr> os_disk := os_disk out \<lparr> oc_outbox :=
       bt_put (ob_sequence e) e' (oc_outbox (os_disk out)) \<rparr> \<rparr>, m') \<and> ob_delivery e' = Delivered \<and> same_event e e'"
proof -
  let ?b = "case co_to_vec (de_codec D) (delivery_body (oe_show_time (de_claim D n)) e) of Some b \<Rightarrow> b | None \<Rightarrow> []"
  obtain err where p: "de_post D n url (sign_body (de_mac D) secret ?b) ?b = (True, err)"
    using assms(2) [of n url "sign_body (de_mac D) secret ?b" ?b]
    by (cases "de_post D n url (sign_body (de_mac D) secret ?b) ?b") auto
  have "deliver_one D n url secret ma e (out, m) =
      (case record_delivery (de_record D n) (ob_sequence e) True err ma out of
         (Some True, out') \<Rightarrow> (out', record_dead_lettered (record_delivered (ob_sequence e) m))
       | (_, out') \<Rightarrow> (out', record_delivered (ob_sequence e) m))"
    unfolding deliver_one_def Let_def by (simp add: p)
  with assms(1,3,4) show ?thesis
    by (auto simp: record_delivery_def record_delivery_transition_def outbox_mutate_def accessible_def
        same_event_def Let_def)
qed

lemma deliver_step:
  assumes "unleased t (os_disk out)" "t \<le> oe_now (de_claim D n)" "accessible (de_claim D n)"
    and "accessible (de_record D n)" "\<And>n u s b. fst (de_post D n u s b)" "is_pending (os_disk out) k0"
  obtains e out1 out2 m' where "claim_events (de_claim D n) 1 secs out = (Some [e], out1)"
    "deliver_one D n url secret ma e (out1, m) = (out2, m')" "unleased t (os_disk out2)"
    "{k. is_pending (os_disk out2) k} = {k. is_pending (os_disk out) k} - {ob_sequence e}"
    "is_pending (os_disk out) (ob_sequence e)"
proof -
  let ?c = "os_disk out"
  have ok: "outbox_ok ?c" using assms(1) by (simp add: unleased_def)
  obtain e u where e: "t_get (oc_outbox ?c) (ob_sequence e) = Some e" "ob_delivery e = DPending"
    and c: "claim_events (de_claim D n) 1 secs out = (Some [e \<lparr> ob_leased_until := Some u \<rparr>],
             out \<lparr> os_disk := ?c \<lparr> oc_outbox :=
               bt_put (ob_sequence e) (e \<lparr> ob_leased_until := Some u \<rparr>) (oc_outbox ?c) \<rparr> \<rparr>)"
    using claim_one [OF assms(1-3)] assms(6) by blast
  let ?e1 = "e \<lparr> ob_leased_until := Some u \<rparr>"
  let ?c1 = "?c \<lparr> oc_outbox := bt_put (ob_sequence e) ?e1 (oc_outbox ?c) \<rparr>"
  let ?out1 = "out \<lparr> os_disk := ?c1 \<rparr>"
  have "\<exists>e2 m'. deliver_one D n url secret ma ?e1 (?out1, m) = (?out1 \<lparr> os_disk := os_disk ?out1 \<lparr> oc_outbox :=
       bt_put (ob_sequence ?e1) e2 (oc_outbox (os_disk ?out1)) \<rparr> \<rparr>, m') \<and> ob_delivery e2 = Delivered \<and> same_event ?e1 e2"
    by (rule delivered_one [OF assms(4,5)]) (use e in simp_all)
  then obtain e2 m' where d: "deliver_one D n url secret ma ?e1 (?out1, m)
      = (out \<lparr> os_disk := ?c1 \<lparr> oc_outbox := bt_put (ob_sequence e) e2 (oc_outbox ?c1) \<rparr> \<rparr>, m')"
    "ob_delivery e2 = Delivered" "same_event ?e1 e2" by auto
  let ?c2 = "?c1 \<lparr> oc_outbox := bt_put (ob_sequence e) e2 (oc_outbox ?c1) \<rparr>"
  have ok1: "outbox_ok ?c1" by (rule ok_put [OF ok e(1)]) simp
  have "t_get (oc_outbox ?c1) (ob_sequence e) = Some ?e1" by simp
  then have ok2: "outbox_ok ?c2" by (rule ok_put_same [OF ok1 _ d(3)])
  have g: "t_get (oc_outbox ?c2) k = (if k = ob_sequence e then Some e2 else t_get (oc_outbox ?c) k)" for k by simp
  show thesis
  proof (rule that [OF c d(1)])
    show "unleased t (os_disk (out \<lparr> os_disk := ?c2 \<rparr>))"
      using ok2 d(2) assms(1) by (auto simp: unleased_def split: if_splits)
    show "{k. is_pending (os_disk (out \<lparr> os_disk := ?c2 \<rparr>)) k}
        = {k. is_pending ?c k} - {ob_sequence ?e1}"
      using d(2) by (auto simp: is_pending_def)
    show "is_pending ?c (ob_sequence ?e1)" using e by (simp add: is_pending_def)
  qed
qed

lemma finite_pending: "finite {k. is_pending c k}"
proof (rule finite_subset)
  show "{k. is_pending c k} \<subseteq> fst ` set (oc_outbox c)"
    by (force simp: is_pending_def dest: t_get_mem)
qed simp

lemma deliver_drains:
  assumes "unleased t (os_disk out)" "card {k. is_pending (os_disk out) k} \<le> n"
    and "\<And>i. t \<le> oe_now (de_claim D i)" "\<And>i. accessible (de_claim D i)" "\<And>i. accessible (de_record D i)"
    and "\<And>n u s b. fst (de_post D n u s b)"
  shows "\<exists>out' m'. deliver_loop D url secret ma n (out, m) = (Some (), out', m') \<and> (\<nexists>k. is_pending (os_disk out') k)"
  using assms(1,2)
proof (induction n arbitrary: out m)
  case 0
  then show ?case using finite_pending [of "os_disk out"] by auto
next
  case (Suc n)
  show ?case
  proof (cases "\<exists>k. is_pending (os_disk out) k")
    case False
    then show ?thesis
      using claim_one [OF Suc.prems(1) assms(3) [of n] assms(4) [of n], of outbox_lease_secs]
      by (auto simp: is_pending_def)
  next
    case True
    then obtain k0 where "is_pending (os_disk out) k0" ..
    then obtain e out1 out2 m' where s: "claim_events (de_claim D n) 1 outbox_lease_secs out = (Some [e], out1)"
      "deliver_one D n url secret ma e (out1, m) = (out2, m')" "unleased t (os_disk out2)"
      "{k. is_pending (os_disk out2) k} = {k. is_pending (os_disk out) k} - {ob_sequence e}"
      "is_pending (os_disk out) (ob_sequence e)"
      by (rule deliver_step [OF Suc.prems(1) assms(3-6)]) (rule that)
    have "card {k. is_pending (os_disk out2) k} \<le> n"
      using Suc.prems(2) s(5) finite_pending [of "os_disk out"] unfolding s(4) by (simp add: card_Diff_singleton)
    from Suc.IH [OF s(3) this, of m'] s(1,2) show ?thesis by simp
  qed
qed

end
