(* ===== verification/Refusals.thy ===== *)
theory Refusals
  imports Refusal_Classes Complex_Main
begin

text \<open>
  The recorder of refusals, \<open>src/src/refusal.rs\<close>, and the drain that hands its records to the sealing
  service, \<open>drain_refusals_counted\<close> and \<open>flush_refusals_on_shutdown\<close> of \<open>src/src/averin/mod.rs\<close>.

  Refusals are coalesced in windows and, when the budget is used up, merged in a summary, so that
  their number is bounded while their counts stay exact.  Counts are \<open>u64\<close> and wrap as in a release
  build.  The budget is kept in floating point in the code and in rational numbers here.  Identifiers
  of new records come from \<open>fresh\<close>; a call reads a monotonic and a wall clock.
\<close>

section \<open>Data\<close>

record refusal_settings =
  fs_enabled :: bool
  fs_window :: int
  fs_burst :: u32
  fs_per_hour :: u32

definition default_refusal_settings :: refusal_settings where
  "default_refusal_settings =
     \<lparr> fs_enabled = True, fs_window = dur 10, fs_burst = 60, fs_per_hour = 20 \<rparr>"

definition max_open_windows :: nat where
  "max_open_windows = 1024"

definition max_ready :: nat where
  "max_ready = 512"

record refusal_key =
  rk_agent :: string
  rk_action :: string
  rk_class :: refusal_class
  rk_entry :: refusal_entry

record refusal_window =
  rw_started :: instant
  rw_credential :: "string option"
  rw_credential_mixed :: bool
  rw_tail_attempts :: u64
  rw_tail_first_at :: "instant option"
  rw_tail_last_at :: "instant option"

record outgoing =
  og_idem :: string
  og_agent :: string
  og_action :: string
  og_entry :: "refusal_entry option"
  og_class :: "refusal_class option"
  og_credential :: "string option"
  og_attempts :: u64
  og_first_at :: instant
  og_last_at :: instant
  og_by_class :: "(string \<times> u64) list option"
  og_tries :: u32

record refusal_summary =
  sm_by_class :: "(string \<times> u64) list"
  sm_attempts :: u64
  sm_agents :: "string list"
  sm_first_at :: "instant option"
  sm_last_at :: "instant option"

record bucket =
  bk_tokens :: rat
  bk_burst :: rat
  bk_per_sec :: rat
  bk_last :: instant

record refusal_counters =
  fc_noted :: u64
  fc_sealed :: u64
  fc_coalesced :: u64
  fc_summarized :: u64
  fc_unsealed :: u64

record recorder =
  rf_settings :: refusal_settings
  rf_open :: "(refusal_key \<times> refusal_window) list"
  rf_ready :: "outgoing list"
  rf_summary :: refusal_summary
  rf_bucket :: bucket
  rf_overflow :: "(refusal_class \<times> u64 \<times> string) list"
  rf_counters :: refusal_counters
  rf_in_flight :: "outgoing table"

record refusal_env =
  fe_now :: instant
  fe_wall :: instant
  fe_fresh :: "nat \<Rightarrow> string"

section \<open>The budget\<close>

definition bucket_new :: "u32 \<Rightarrow> u32 \<Rightarrow> instant \<Rightarrow> bucket" where
  "bucket_new burst per_hour now =
     \<lparr> bk_tokens = of_nat (unat burst), bk_burst = of_nat (unat burst),
       bk_per_sec = of_nat (unat per_hour) / 3600, bk_last = now \<rparr>"

definition bucket_refill :: "instant \<Rightarrow> bucket \<Rightarrow> bucket" where
  "bucket_refill now b =
     (let dt = of_int (max 0 (now - bk_last b)) / of_int nanos
      in b \<lparr> bk_last := max now (bk_last b),
             bk_tokens := min (bk_tokens b + dt * bk_per_sec b) (bk_burst b) \<rparr>)"

definition try_take :: "instant \<Rightarrow> bucket \<Rightarrow> bool \<times> bucket" where
  "try_take now b =
     (let b' = bucket_refill now b
      in if 1 \<le> bk_tokens b' then (True, b' \<lparr> bk_tokens := bk_tokens b' - 1 \<rparr>) else (False, b'))"

section \<open>The summary\<close>

definition empty_summary :: refusal_summary where
  "empty_summary =
     \<lparr> sm_by_class = [], sm_attempts = 0, sm_agents = [], sm_first_at = None, sm_last_at = None \<rparr>"

definition summary_is_empty :: "refusal_summary \<Rightarrow> bool" where
  "summary_is_empty s \<longleftrightarrow> sm_attempts s = 0"

definition class_count :: "refusal_class \<Rightarrow> (string \<times> u64) list \<Rightarrow> u64" where
  "class_count c m = (case t_get m (class_name c) of Some n \<Rightarrow> n | None \<Rightarrow> 0)"

definition summary_merge ::
  "refusal_class \<Rightarrow> u64 \<Rightarrow> string \<Rightarrow> instant \<Rightarrow> instant \<Rightarrow> refusal_summary \<Rightarrow> refusal_summary" where
  "summary_merge c attempts agent first lst s =
     s \<lparr> sm_by_class := bt_put (class_name c) (class_count c (sm_by_class s) + attempts) (sm_by_class s),
         sm_attempts := sm_attempts s + attempts,
         sm_agents := (if length (sm_agents s) < 2 \<and> agent \<notin> set (sm_agents s)
                       then sm_agents s @ [agent] else sm_agents s),
         sm_first_at := Some (case sm_first_at s of None \<Rightarrow> first | Some f \<Rightarrow> min f first),
         sm_last_at := Some (case sm_last_at s of None \<Rightarrow> lst | Some l \<Rightarrow> max l lst) \<rparr>"

definition to_summary ::
  "refusal_class \<Rightarrow> u64 \<Rightarrow> string \<Rightarrow> instant \<Rightarrow> instant \<Rightarrow> recorder \<Rightarrow> recorder" where
  "to_summary c attempts agent first lst r =
     r \<lparr> rf_summary := summary_merge c attempts agent first lst (rf_summary r),
         rf_counters := (rf_counters r) \<lparr> fc_summarized := fc_summarized (rf_counters r) + attempts \<rparr> \<rparr>"

text \<open>A summary as a record.\<close>

definition summary_record :: "string \<Rightarrow> instant \<Rightarrow> refusal_summary \<Rightarrow> outgoing" where
  "summary_record idem wall s =
     \<lparr> og_idem = idem,
       og_agent = (if 1 < length (sm_agents s) then ''vultrino:multiple''
                   else (case sm_agents s of a # _ \<Rightarrow> a | [] \<Rightarrow> ''vultrino:multiple'')),
       og_action = ''*'', og_entry = None, og_class = None, og_credential = None,
       og_attempts = sm_attempts s,
       og_first_at = (case sm_first_at s of Some t \<Rightarrow> t | None \<Rightarrow> wall),
       og_last_at = (case sm_last_at s of Some t \<Rightarrow> t | None \<Rightarrow> wall),
       og_by_class = Some (sm_by_class s), og_tries = 0 \<rparr>"

section \<open>Records that wait\<close>

definition overflow_of :: "outgoing \<Rightarrow> (refusal_class \<times> u64 \<times> string) list" where
  "overflow_of rec =
     (case og_class rec of
        Some c \<Rightarrow> [(c, og_attempts rec, og_agent rec)]
      | None \<Rightarrow>
          (case og_by_class rec of
             None \<Rightarrow> []
           | Some m \<Rightarrow>
               concat (map (\<lambda>c. case t_get m (class_name c) of
                                  Some n \<Rightarrow> [(c, n, og_agent rec)] | None \<Rightarrow> []) all_refusal_classes)))"

definition push_ready :: "outgoing \<Rightarrow> recorder \<Rightarrow> recorder" where
  "push_ready rec r =
     (if max_ready \<le> length (rf_ready r)
      then r \<lparr> rf_overflow := rf_overflow r @ overflow_of rec \<rparr>
      else r \<lparr> rf_ready := rf_ready r @ [rec] \<rparr>)"

text \<open>An individual record, which has a class at both calls, takes a token or joins the summary.\<close>

definition admit_record :: "instant \<Rightarrow> refusal_class \<Rightarrow> outgoing \<Rightarrow> recorder \<Rightarrow> recorder" where
  "admit_record now c rec r =
     (if summary_is_empty (rf_summary r) then
        (case try_take now (rf_bucket r) of
           (True, b) \<Rightarrow> push_ready rec (r \<lparr> rf_bucket := b \<rparr>)
         | (False, b) \<Rightarrow>
             to_summary c (og_attempts rec) (og_agent rec) (og_first_at rec) (og_last_at rec)
               (r \<lparr> rf_bucket := b \<rparr>))
      else to_summary c (og_attempts rec) (og_agent rec) (og_first_at rec) (og_last_at rec) r)"

definition tail_record :: "string \<Rightarrow> instant \<Rightarrow> refusal_key \<Rightarrow> refusal_window \<Rightarrow> outgoing" where
  "tail_record idem wall k w =
     \<lparr> og_idem = idem, og_agent = rk_agent k, og_action = rk_action k, og_entry = Some (rk_entry k),
       og_class = Some (rk_class k),
       og_credential = (if rw_credential_mixed w then None else rw_credential w),
       og_attempts = rw_tail_attempts w,
       og_first_at = (case rw_tail_first_at w of Some t \<Rightarrow> t | None \<Rightarrow> wall),
       og_last_at = (case rw_tail_last_at w of Some t \<Rightarrow> t | None \<Rightarrow> wall),
       og_by_class = None, og_tries = 0 \<rparr>"

definition close_window :: "refusal_env \<Rightarrow> string \<Rightarrow> refusal_key \<Rightarrow> recorder \<Rightarrow> recorder" where
  "close_window R idem k r =
     (case t_get (rf_open r) k of
        None \<Rightarrow> r
      | Some w \<Rightarrow>
          (let r' = r \<lparr> rf_open := t_del k (rf_open r) \<rparr>
           in if rw_tail_attempts w = 0 then r'
              else admit_record (fe_now R) (rk_class k) (tail_record idem (fe_wall R) k w) r'))"

definition window_over :: "recorder \<Rightarrow> instant \<Rightarrow> refusal_window \<Rightarrow> bool" where
  "window_over r now w \<longleftrightarrow> fs_window (rf_settings r) \<le> max 0 (now - rw_started w)"

fun close_windows :: "refusal_env \<Rightarrow> nat \<Rightarrow> refusal_key list \<Rightarrow> recorder \<Rightarrow> recorder" where
  "close_windows R n [] r = r"
| "close_windows R n (k # ks) r = close_windows R (Suc n) ks (close_window R (fe_fresh R n) k r)"

section \<open>Noting a refusal\<close>

definition recorder_new :: "refusal_settings \<Rightarrow> instant \<Rightarrow> recorder" where
  "recorder_new s now =
     \<lparr> rf_settings = s, rf_open = [], rf_ready = [], rf_summary = empty_summary,
       rf_bucket = bucket_new (fs_burst s) (fs_per_hour s) now, rf_overflow = [],
       rf_counters = \<lparr> fc_noted = 0, fc_sealed = 0, fc_coalesced = 0, fc_summarized = 0, fc_unsealed = 0 \<rparr>,
       rf_in_flight = [] \<rparr>"

definition fold_in :: "string option \<Rightarrow> instant \<Rightarrow> refusal_window \<Rightarrow> refusal_window" where
  "fold_in cred wall w =
     w \<lparr> rw_credential_mixed := (rw_credential_mixed w \<or> rw_credential w \<noteq> cred),
         rw_tail_attempts := rw_tail_attempts w + 1,
         rw_tail_first_at := (case rw_tail_first_at w of None \<Rightarrow> Some wall | Some t \<Rightarrow> Some t),
         rw_tail_last_at := Some wall \<rparr>"

definition count_noted :: "recorder \<Rightarrow> recorder" where
  "count_noted r = r \<lparr> rf_counters := (rf_counters r) \<lparr> fc_noted := fc_noted (rf_counters r) + 1 \<rparr> \<rparr>"

definition count_coalesced :: "recorder \<Rightarrow> recorder" where
  "count_coalesced r =
     r \<lparr> rf_counters := (rf_counters r) \<lparr> fc_coalesced := fc_coalesced (rf_counters r) + 1 \<rparr> \<rparr>"

definition note_at :: "refusal_env \<Rightarrow> refusal_ctx \<Rightarrow> refusal_class \<Rightarrow> recorder \<Rightarrow> recorder" where
  "note_at R x c r =
     (case ctx_sanitized x of
        None \<Rightarrow> r
      | Some (agent, act, cred) \<Rightarrow>
          if \<not> fs_enabled (rf_settings r) then count_noted r
          else
            (let k = \<lparr> rk_agent = agent, rk_action = act, rk_class = c, rk_entry = rc_entry x \<rparr>;
                 r0 = count_noted r;
                 r1 = (case t_get (rf_open r0) k of
                         Some w \<Rightarrow> if window_over r0 (fe_now R) w then close_window R (fe_fresh R 0) k r0 else r0
                       | None \<Rightarrow> r0)
             in case t_get (rf_open r1) k of
                  Some w \<Rightarrow>
                    count_coalesced (r1 \<lparr> rf_open := t_put k (fold_in cred (fe_wall R) w) (rf_open r1) \<rparr>)
                | None \<Rightarrow>
                    if max_open_windows \<le> length (rf_open r1)
                    then to_summary c 1 agent (fe_wall R) (fe_wall R) r1
                    else
                      admit_record (fe_now R) c
                        \<lparr> og_idem = fe_fresh R 1, og_agent = agent, og_action = act,
                          og_entry = Some (rc_entry x), og_class = Some c, og_credential = cred,
                          og_attempts = 1, og_first_at = fe_wall R, og_last_at = fe_wall R,
                          og_by_class = None, og_tries = 0 \<rparr>
                        (r1 \<lparr> rf_open := t_put k
                              \<lparr> rw_started = fe_now R, rw_credential = cred, rw_credential_mixed = False,
                                rw_tail_attempts = 0, rw_tail_first_at = None, rw_tail_last_at = None \<rparr>
                              (rf_open r1) \<rparr>)))"

section \<open>Handing records over\<close>

definition flush_summary :: "refusal_env \<Rightarrow> string \<Rightarrow> recorder \<Rightarrow> recorder" where
  "flush_summary R idem r =
     (if summary_is_empty (rf_summary r) then r
      else
        (case try_take (fe_now R) (rf_bucket r) of
           (False, b) \<Rightarrow> r \<lparr> rf_bucket := b \<rparr>
         | (True, b) \<Rightarrow>
             push_ready (summary_record idem (fe_wall R) (rf_summary r))
               (r \<lparr> rf_bucket := b, rf_summary := empty_summary \<rparr>)))"

definition expired_keys :: "instant \<Rightarrow> recorder \<Rightarrow> refusal_key list" where
  "expired_keys now r = map fst (filter (\<lambda>(k, w). window_over r now w) (rf_open r))"

definition put_flights :: "outgoing list \<Rightarrow> outgoing table \<Rightarrow> outgoing table" where
  "put_flights recs m = foldl (\<lambda>m rec. t_put (og_idem rec) rec m) m recs"

definition take_due_at ::
  "refusal_env \<Rightarrow> nat \<Rightarrow> recorder \<Rightarrow> (outgoing list \<times> (refusal_class \<times> u64 \<times> string) list) \<times> recorder" where
  "take_due_at R mx r =
     (let keys = expired_keys (fe_now R) r;
          r1 = close_windows R 0 keys r;
          r2 = flush_summary R (fe_fresh R (length keys)) r1;
          batch = take mx (rf_ready r2)
      in ((batch, rf_overflow r2),
          r2 \<lparr> rf_ready := drop mx (rf_ready r2), rf_in_flight := put_flights batch (rf_in_flight r2),
               rf_overflow := [] \<rparr>))"

definition finish_flight :: "string \<Rightarrow> recorder \<Rightarrow> bool \<times> recorder" where
  "finish_flight idem r =
     (t_get (rf_in_flight r) idem \<noteq> None, r \<lparr> rf_in_flight := t_del idem (rf_in_flight r) \<rparr>)"

fun requeue_each :: "outgoing list \<Rightarrow> outgoing list \<times> recorder \<Rightarrow> outgoing list \<times> recorder" where
  "requeue_each [] s = s"
| "requeue_each (rec # recs) (dropped, r) =
     requeue_each recs
       (if t_get (rf_in_flight r) (og_idem rec) = None then (dropped, r)
        else
          (let r' = r \<lparr> rf_in_flight := t_del (og_idem rec) (rf_in_flight r) \<rparr>
           in if max_ready \<le> length (rf_ready r') then (dropped @ [rec], r')
              else (dropped, r' \<lparr> rf_ready := rec # rf_ready r' \<rparr>)))"

definition requeue_in_flight :: "outgoing list \<Rightarrow> recorder \<Rightarrow> outgoing list \<times> recorder" where
  "requeue_in_flight recs r = requeue_each (rev recs) ([], r)"

definition close_all_windows :: "refusal_env \<Rightarrow> recorder \<Rightarrow> recorder" where
  "close_all_windows R r = close_windows R 0 (map fst (rf_open r)) r"

definition take_all_pending :: "refusal_env \<Rightarrow> recorder \<Rightarrow> outgoing list \<times> recorder" where
  "take_all_pending R r =
     (let out = rf_ready r @ map snd (rf_in_flight r);
          r' = r \<lparr> rf_ready := [], rf_in_flight := [] \<rparr>
      in if summary_is_empty (rf_summary r') then (out, r')
         else (out @ [summary_record (fe_fresh R 0) (fe_wall R) (rf_summary r')],
               r' \<lparr> rf_summary := empty_summary \<rparr>))"

definition has_pending :: "recorder \<Rightarrow> bool" where
  "has_pending r \<longleftrightarrow>
     rf_ready r \<noteq> [] \<or> \<not> summary_is_empty (rf_summary r)
     \<or> list_ex (\<lambda>(k, w). rw_tail_attempts w > 0) (rf_open r)"

end
