(* ===== verification/Refusal_Drain.thy ===== *)
theory Refusal_Drain
  imports Refusals
begin

text \<open>
  The drain of the recorded refusals, \<open>src/src/averin/mod.rs\<close>: a record is sealed by the evidence
  service, put back for another attempt, or turned into a gap, a note that a record is missing.
  The network answers through the outcome of each attempt; the attempts of a drain end in any order.
\<close>

section \<open>Gaps\<close>

datatype gap_kind = GapReceipt | GapRefusal

record receipt_gap =
  gp_kind :: gap_kind
  gp_token_id :: string
  gp_project_id :: string
  gp_request_id :: "string option"
  gp_use_sequence_number :: "u32 option"
  gp_reason :: string
  gp_detail :: string
  gp_at :: instant

record gap_log =
  gl_pending :: "receipt_gap list"
  gl_gaps :: u64
  gl_overflowed :: u64

definition max_pending_receipt_gaps :: nat where
  "max_pending_receipt_gaps = 4096"

definition max_gap_detail_chars :: nat where
  "max_gap_detail_chars = 200"

definition enqueue_gap :: "receipt_gap \<Rightarrow> gap_log \<Rightarrow> gap_log" where
  "enqueue_gap g G =
     (let G' = G \<lparr> gl_gaps := gl_gaps G + 1 \<rparr>
      in if max_pending_receipt_gaps \<le> length (gl_pending G')
         then G' \<lparr> gl_overflowed := gl_overflowed G' + 1 \<rparr>
         else G' \<lparr> gl_pending := gl_pending G' @ [g] \<rparr>)"

definition take_receipt_gaps :: "gap_log \<Rightarrow> receipt_gap list \<times> gap_log" where
  "take_receipt_gaps G = (gl_pending G, G \<lparr> gl_pending := [] \<rparr>)"

definition requeue_receipt_gaps :: "receipt_gap list \<Rightarrow> gap_log \<Rightarrow> gap_log" where
  "requeue_receipt_gaps gs G =
     foldl (\<lambda>G g. if max_pending_receipt_gaps \<le> length (gl_pending G)
                  then G \<lparr> gl_overflowed := gl_overflowed G + 1 \<rparr>
                  else G \<lparr> gl_pending := g # gl_pending G \<rparr>) G (rev gs)"

text \<open>The first \<open>n\<close> characters of an encoded text.\<close>

fun take_chars :: "nat \<Rightarrow> string \<Rightarrow> string" where
  "take_chars n [] = []"
| "take_chars n (c # cs) =
     (if cont_byte (byte c) then c # take_chars n cs
      else (case n of 0 \<Rightarrow> [] | Suc m \<Rightarrow> c # take_chars m cs))"

section \<open>Errors of the evidence service\<close>

datatype averin_error =
    MissingBaseUrl
  | MissingResourceId
  | PlainHttp string
  | HttpBuild string
  | RequestFailed string
  | StatusCode string "16 word"
  | ParamsTooLarge nat nat
  | NoGrant string
  | PopFailed string
  | BadResponse string

fun is_unavailable :: "averin_error \<Rightarrow> bool" where
  "is_unavailable (RequestFailed _) = True"
| "is_unavailable (StatusCode _ status) = (500 \<le> status \<or> status = 429)"
| "is_unavailable _ = False"

fun show_averin_error :: "averin_error \<Rightarrow> string" where
  "show_averin_error MissingBaseUrl = ''averin base_url is required when [averin] enabled = true''"
| "show_averin_error MissingResourceId = ''averin resource_id is required when [averin] enabled = true''"
| "show_averin_error (PlainHttp s) = ''averin base_url refused: '' @ s"
| "show_averin_error (HttpBuild s) = ''http client build failed: '' @ s"
| "show_averin_error (RequestFailed s) = ''averin request failed: '' @ s"
| "show_averin_error (StatusCode endpoint status) = ''averin '' @ endpoint @ '' returned '' @ show_word status"
| "show_averin_error (ParamsTooLarge len cap) =
     ''averin seal params '' @ show_nat len @ '' bytes exceed cap '' @ show_nat cap @ '' bytes''"
| "show_averin_error (NoGrant t) =
     ''no grant on record for token '' @ t @ '' (mint seal did not land)''"
| "show_averin_error (PopFailed s) = ''pop preimage error: '' @ s"
| "show_averin_error (BadResponse s) = ''malformed averin response: '' @ s"

section \<open>The drain\<close>

record refusal_sealer =
  fd_recorder :: recorder
  fd_gaps :: gap_log
  fd_project :: string

definition refusal_batch :: nat where
  "refusal_batch = 64"

definition refusal_max_tries :: u32 where
  "refusal_max_tries = 3"

definition refusal_detail :: "outgoing \<Rightarrow> string" where
  "refusal_detail rec =
     ''class='' @ (case og_class rec of Some c \<Rightarrow> class_name c | None \<Rightarrow> ''summary'')
     @ '' entry='' @ (case og_entry rec of Some e \<Rightarrow> entry_name e | None \<Rightarrow> ''-'')
     @ '' attempts='' @ show_word (og_attempts rec)"

definition record_refusal_gap :: "instant \<Rightarrow> string \<Rightarrow> string \<Rightarrow> string \<Rightarrow> refusal_sealer \<Rightarrow> refusal_sealer" where
  "record_refusal_gap wall agent reason detail D =
     D \<lparr> fd_gaps := enqueue_gap
           \<lparr> gp_kind = GapRefusal, gp_token_id = agent, gp_project_id = fd_project D,
             gp_request_id = None, gp_use_sequence_number = None, gp_reason = reason,
             gp_detail = take_chars max_gap_detail_chars detail, gp_at = wall \<rparr> (fd_gaps D) \<rparr>"

definition count_sealed :: "recorder \<Rightarrow> recorder" where
  "count_sealed r = r \<lparr> rf_counters := (rf_counters r) \<lparr> fc_sealed := fc_sealed (rf_counters r) + 1 \<rparr> \<rparr>"

definition count_unsealed :: "recorder \<Rightarrow> recorder" where
  "count_unsealed r = r \<lparr> rf_counters := (rf_counters r) \<lparr> fc_unsealed := fc_unsealed (rf_counters r) + 1 \<rparr> \<rparr>"

definition gap_counted :: "instant \<Rightarrow> string \<Rightarrow> string \<Rightarrow> string \<Rightarrow> refusal_sealer \<Rightarrow> refusal_sealer" where
  "gap_counted wall agent reason detail D =
     record_refusal_gap wall agent reason detail (D \<lparr> fd_recorder := count_unsealed (fd_recorder D) \<rparr>)"

definition refusal_unsealed :: "instant \<Rightarrow> outgoing \<Rightarrow> averin_error \<Rightarrow> refusal_sealer \<Rightarrow> refusal_sealer" where
  "refusal_unsealed wall rec e =
     gap_counted wall (og_agent rec) ''refusal_seal_failed''
       (refusal_detail rec @ '': ''
        @ (case e of RequestFailed _ \<Rightarrow> ''averin unreachable'' | _ \<Rightarrow> show_averin_error e))"

definition refusal_unsealed_overflow :: "instant \<Rightarrow> outgoing \<Rightarrow> refusal_sealer \<Rightarrow> refusal_sealer" where
  "refusal_unsealed_overflow wall rec =
     gap_counted wall (og_agent rec) ''refusal_budget_overflow'' (refusal_detail rec)"

definition drain_begin :: "refusal_env \<Rightarrow> refusal_sealer \<Rightarrow> outgoing list \<times> refusal_sealer" where
  "drain_begin R D =
     (case take_due_at R refusal_batch (fd_recorder D) of
        ((batch, overflow), r) \<Rightarrow>
          (batch,
           foldl (\<lambda>D (c, attempts, agent).
               gap_counted (fe_wall R) agent ''refusal_budget_overflow''
                 (''class='' @ class_name c @ '' attempts='' @ show_word attempts) D)
             (D \<lparr> fd_recorder := r \<rparr>) overflow))"

datatype seal_outcome = SealOk | SealErr averin_error | SealLost

definition claim_flight :: "string \<Rightarrow> refusal_sealer \<Rightarrow> bool \<times> refusal_sealer" where
  "claim_flight idem D =
     (case finish_flight idem (fd_recorder D) of (claimed, r) \<Rightarrow> (claimed, D \<lparr> fd_recorder := r \<rparr>))"

text \<open>What a drain does when one attempt ends: the records to be retried, the number sealed, the state.\<close>

definition drain_join ::
  "instant \<Rightarrow> outgoing \<Rightarrow> seal_outcome \<Rightarrow> outgoing list \<times> nat \<times> refusal_sealer
     \<Rightarrow> outgoing list \<times> nat \<times> refusal_sealer" where
  "drain_join wall rec out s =
     (case s of (retry, sealed, D) \<Rightarrow>
        (case out of
           SealOk \<Rightarrow>
             (case claim_flight (og_idem rec) D of
                (True, D') \<Rightarrow> (retry, sealed + 1, D' \<lparr> fd_recorder := count_sealed (fd_recorder D') \<rparr>)
              | (False, D') \<Rightarrow> (retry, sealed, D'))
         | SealErr e \<Rightarrow>
             if is_unavailable e \<and> og_tries rec + 1 < refusal_max_tries
             then (retry @ [rec \<lparr> og_tries := og_tries rec + 1 \<rparr>], sealed, D)
             else
               (case claim_flight (og_idem rec) D of
                  (True, D') \<Rightarrow> (retry, sealed, refusal_unsealed wall rec e D')
                | (False, D') \<Rightarrow> (retry, sealed, D'))
         | SealLost \<Rightarrow>
             (case claim_flight (og_idem rec) D of
                (True, D') \<Rightarrow>
                  (retry, sealed,
                   gap_counted wall ''vultrino:multiple'' ''refusal_seal_failed''
                     ''the refusal seal task panicked or was cancelled'' D')
              | (False, D') \<Rightarrow> (retry, sealed, D'))))"

definition drain_end :: "instant \<Rightarrow> outgoing list \<Rightarrow> refusal_sealer \<Rightarrow> refusal_sealer" where
  "drain_end wall retry D =
     (if retry = [] then D
      else
        (case requeue_in_flight retry (fd_recorder D) of
           (dropped, r) \<Rightarrow>
             foldl (\<lambda>D rec. refusal_unsealed_overflow wall rec D) (D \<lparr> fd_recorder := r \<rparr>) dropped))"

text \<open>\<open>ends\<close> gives the attempts of the batch in the order in which they end; a drain that is cancelled
  has fewer of them and does not put its retries back.\<close>

definition drain_refusals_counted ::
  "refusal_env \<Rightarrow> (outgoing list \<Rightarrow> (outgoing \<times> seal_outcome) list \<times> bool) \<Rightarrow> refusal_sealer
     \<Rightarrow> nat \<times> refusal_sealer" where
  "drain_refusals_counted R ends D =
     (case drain_begin R D of
        (batch, D1) \<Rightarrow>
          if batch = [] then (0, D1)
          else
            (case ends batch of
               (joined, whole) \<Rightarrow>
                 (case foldl (\<lambda>s (rec, out). drain_join (fe_wall R) rec out s) ([], 0, D1) joined of
                    (retry, sealed, D2) \<Rightarrow>
                      (sealed, if whole then drain_end (fe_wall R) retry D2 else D2))))"

fun shutdown_drains ::
  "nat \<Rightarrow> (nat \<Rightarrow> refusal_env) \<Rightarrow> (nat \<Rightarrow> outgoing list \<Rightarrow> (outgoing \<times> seal_outcome) list \<times> bool)
     \<Rightarrow> nat \<times> refusal_sealer \<Rightarrow> nat \<times> refusal_sealer" where
  "shutdown_drains 0 Rs ends s = s"
| "shutdown_drains (Suc n) Rs ends (sealed, D) =
     (case drain_refusals_counted (Rs n) (ends n) D of
        (k, D') \<Rightarrow>
          if has_pending (fd_recorder D') then shutdown_drains n Rs ends (sealed + k, D')
          else (sealed + k, D'))"

text \<open>\<open>Rs\<close> gives the clocks and identifiers of each call; \<open>drains\<close> is the number of drains that the
  time budget lets begin, at least one and at most the number of tries.\<close>

definition collect_pending :: "refusal_env \<Rightarrow> refusal_sealer \<Rightarrow> refusal_sealer" where
  "collect_pending R D =
     (case take_all_pending R (fd_recorder D) of
        (out, r) \<Rightarrow>
          foldl (\<lambda>D rec.
              gap_counted (fe_wall R) (og_agent rec) ''refusal_seal_failed''
                (refusal_detail rec @ '': the process stopped before the record could be sealed'') D)
            (D \<lparr> fd_recorder := r \<rparr>) out)"

definition flush_refusals_on_shutdown ::
  "(nat \<Rightarrow> refusal_env) \<Rightarrow> nat \<Rightarrow> (nat \<Rightarrow> outgoing list \<Rightarrow> (outgoing \<times> seal_outcome) list \<times> bool)
     \<Rightarrow> refusal_sealer \<Rightarrow> nat \<times> refusal_sealer" where
  "flush_refusals_on_shutdown Rs drains ends D =
     (let D1 = D \<lparr> fd_recorder := close_all_windows (Rs (Suc drains)) (fd_recorder D) \<rparr>
      in case shutdown_drains drains Rs ends (0, D1) of
           (sealed, D2) \<Rightarrow> (sealed, collect_pending (Rs (Suc (Suc drains))) D2))"

end
