(* ===== verification/Refusal_Counts.thy ===== *)
theory Refusal_Counts
  imports Refusal_Drain
begin

text \<open>
  The recorder keeps exact counts: along any run of notes, drains and collections, the refusals of a
  class that were noted are the ones sealed, the ones reported as gaps and the ones still waiting.
  And it is bounded: the records made are at most the burst and what the hourly budget adds.
\<close>

section \<open>Sums over tables\<close>

definition tsum :: "('k \<Rightarrow> 'v \<Rightarrow> 'a::comm_monoid_add) \<Rightarrow> ('k \<times> 'v) list \<Rightarrow> 'a" where
  "tsum g m = sum_list (map (\<lambda>(k, v). g k v) m)"

lemma tsum_Nil [simp]: "tsum g [] = 0"
  by (simp add: tsum_def)

lemma tsum_Cons [simp]: "tsum g ((k, v) # m) = g k v + tsum g m"
  by (simp add: tsum_def)

lemma tsum_del: "t_ok m \<Longrightarrow> t_get m k = Some v \<Longrightarrow> tsum g m = g k v + tsum g (t_del k m)"
proof (induction m)
  case (Cons p m)
  obtain a b where p: "p = (a, b)" by (cases p)
  show ?case
  proof (cases "a = k")
    case True
    with Cons.prems(1) p have "k \<notin> fst ` set m" by (auto simp: t_ok_def)
    then have "t_del k m = m" unfolding t_del_filter by (intro filter_True) force
    with True Cons.prems p show ?thesis by (simp add: t_get_def t_del_filter)
  next
    case False
    with Cons p have "tsum g m = g k v + tsum g (t_del k m)" by (simp add: t_get_def t_ok_def)
    with False p show ?thesis by (simp add: t_del_filter add_ac)
  qed
qed simp

lemma tsum_put_new: "t_get m k = None \<Longrightarrow> tsum g (t_put k v m) = tsum g m + g k v"
  by (induction m) (auto simp: t_get_def t_put_def add_ac split: if_splits)

lemma tsum_put_old:
  "t_get m k = Some w \<Longrightarrow> tsum g (t_put k v m) + g k w = tsum g m + g k v"
  by (induction m) (auto simp: t_get_def t_put_def add_ac split: if_splits)

section \<open>Refusals that wait\<close>

definition rec_count :: "refusal_class \<Rightarrow> outgoing \<Rightarrow> u64" where
  "rec_count c rec =
     (case og_class rec of
        Some d \<Rightarrow> if d = c then og_attempts rec else 0
      | None \<Rightarrow> (case og_by_class rec of Some m \<Rightarrow> class_count c m | None \<Rightarrow> 0))"

definition recs_count :: "refusal_class \<Rightarrow> outgoing list \<Rightarrow> u64" where
  "recs_count c recs = sum_list (map (rec_count c) recs)"

definition over_count :: "refusal_class \<Rightarrow> (refusal_class \<times> u64 \<times> string) list \<Rightarrow> u64" where
  "over_count c xs = sum_list (map (\<lambda>(d, n, _). if d = c then n else 0) xs)"

definition tail_count :: "refusal_class \<Rightarrow> (refusal_key \<times> refusal_window) list \<Rightarrow> u64" where
  "tail_count c m = tsum (\<lambda>k w. if rk_class k = c then rw_tail_attempts w else 0) m"

definition flight_count :: "refusal_class \<Rightarrow> outgoing table \<Rightarrow> u64" where
  "flight_count c m = tsum (\<lambda>_ rec. rec_count c rec) m"

definition waiting :: "refusal_class \<Rightarrow> recorder \<Rightarrow> u64" where
  "waiting c r =
     tail_count c (rf_open r) + recs_count c (rf_ready r) + class_count c (sm_by_class (rf_summary r))
     + over_count c (rf_overflow r) + flight_count c (rf_in_flight r)"

lemma recs_count_simps [simp]:
  "recs_count c [] = 0" "recs_count c (rec # recs) = rec_count c rec + recs_count c recs"
  "recs_count c (xs @ ys) = recs_count c xs + recs_count c ys"
  by (simp_all add: recs_count_def)

lemma over_count_simps [simp]:
  "over_count c [] = 0" "over_count c (xs @ ys) = over_count c xs + over_count c ys"
  by (simp_all add: over_count_def)

lemma class_count_Nil [simp]: "class_count c [] = 0"
  by (simp add: class_count_def)

lemma class_count_put [simp]:
  "class_count c (bt_put (class_name d) n m) = (if d = c then n else class_count c m)"
  by (simp add: class_count_def)

lemma over_of_classes:
  "distinct cs \<Longrightarrow> over_count c (concat (map (\<lambda>c. case t_get m (class_name c) of
       Some n \<Rightarrow> [(c, n, a)] | None \<Rightarrow> []) cs)) = (if c \<in> set cs then class_count c m else 0)"
  by (induction cs) (auto simp: over_count_def class_count_def split: option.splits)

lemma over_of [simp]: "over_count c (overflow_of rec) = rec_count c rec"
  using over_of_classes [OF all_refusal_classes_distinct]
  by (simp add: overflow_of_def rec_count_def split: option.split) (simp add: over_count_def)

lemma waiting_push [simp]: "waiting c (push_ready rec r) = waiting c r + rec_count c rec"
  by (simp add: push_ready_def waiting_def add_ac)

lemma waiting_summary [simp]:
  "waiting c (to_summary d n a f l r) = waiting c r + (if d = c then n else 0)"
  by (simp add: to_summary_def summary_merge_def waiting_def add_ac)

lemma waiting_bucket [simp]: "waiting c (r \<lparr> rf_bucket := b \<rparr>) = waiting c r"
  by (simp add: waiting_def)

lemma waiting_counters [simp]: "waiting c (r \<lparr> rf_counters := x \<rparr>) = waiting c r"
  by (simp add: waiting_def)

lemma waiting_admit:
  "og_class rec = Some d \<Longrightarrow> waiting c (admit_record now d rec r) = waiting c r + rec_count c rec"
  by (auto simp: admit_record_def rec_count_def split: prod.split bool.split)

lemma waiting_close:
  "t_ok (rf_open r) \<Longrightarrow> waiting c (close_window R idem k r) = waiting c r"
proof (cases "t_get (rf_open r) k")
  case (Some w)
  assume ok: "t_ok (rf_open r)"
  have "tail_count c (rf_open r) = (if rk_class k = c then rw_tail_attempts w else 0)
      + tail_count c (t_del k (rf_open r))"
    unfolding tail_count_def by (rule tsum_del [OF ok Some])
  then have "waiting c r = waiting c (r \<lparr> rf_open := t_del k (rf_open r) \<rparr>)
      + (if rk_class k = c then rw_tail_attempts w else 0)"
    by (simp add: waiting_def add_ac)
  with Some show ?thesis
    by (simp add: close_window_def Let_def waiting_admit tail_record_def rec_count_def)
qed (simp add: close_window_def)

lemma open_admit [simp]: "rf_open (admit_record now d rec r) = rf_open r"
  by (auto simp: admit_record_def push_ready_def to_summary_def split: prod.split bool.split)

lemma open_close: "rf_open (close_window R idem k r) = t_del k (rf_open r)"
proof (cases "t_get (rf_open r) k")
  case None
  then have "t_del k (rf_open r) = rf_open r"
    unfolding t_del_filter t_get_def map_of_eq_None_iff by (intro filter_True) force
  with None show ?thesis by (simp add: close_window_def)
qed (simp add: close_window_def Let_def)

lemma waiting_close_all:
  "t_ok (rf_open r) \<Longrightarrow> waiting c (close_windows R n ks r) = waiting c r \<and> t_ok (rf_open (close_windows R n ks r))"
  by (induction ks arbitrary: n r) (simp_all add: waiting_close open_close)

definition counted :: "refusal_ctx \<Rightarrow> recorder \<Rightarrow> bool" where
  "counted x r \<longleftrightarrow> rc_agent x \<noteq> None \<and> fs_enabled (rf_settings r)"

lemma waiting_put_new:
  "t_get (rf_open r) k = None \<Longrightarrow> rw_tail_attempts w = 0 \<Longrightarrow>
     waiting c (r \<lparr> rf_open := t_put k w (rf_open r) \<rparr>) = waiting c r"
  by (simp add: waiting_def tail_count_def tsum_put_new)

lemma waiting_put_old:
  assumes "t_get (rf_open r) k = Some w" "rw_tail_attempts w' = rw_tail_attempts w + 1"
  shows "waiting c (r \<lparr> rf_open := t_put k w' (rf_open r) \<rparr>) = waiting c r + (if rk_class k = c then 1 else 0)"
proof -
  have "tail_count c (t_put k w' (rf_open r)) + (if rk_class k = c then rw_tail_attempts w else 0)
      = tail_count c (rf_open r) + (if rk_class k = c then rw_tail_attempts w' else 0)"
    unfolding tail_count_def by (rule tsum_put_old [OF assms(1)])
  then have "tail_count c (t_put k w' (rf_open r)) = tail_count c (rf_open r) + (if rk_class k = c then 1 else 0)"
    using assms(2) by (auto split: if_splits)
  then show ?thesis by (simp add: waiting_def add_ac)
qed

text \<open>What closing the expired window of a key leaves.\<close>

definition note_closed :: "refusal_env \<Rightarrow> refusal_key \<Rightarrow> recorder \<Rightarrow> recorder" where
  "note_closed R k r =
     (case t_get (rf_open r) k of
        Some w \<Rightarrow> if window_over r (fe_now R) w then close_window R (fe_fresh R 0) k r else r
      | None \<Rightarrow> r)"

lemma note_closed_facts:
  assumes "t_ok (rf_open r)"
  shows "waiting c (note_closed R k r) = waiting c r" "t_ok (rf_open (note_closed R k r))"
  using assms by (auto simp: note_closed_def waiting_close open_close split: option.split)

lemma note_cases:
  assumes "counted x r"
  obtains (Fold) k r1 w cred where "rk_class k = c" "r1 = note_closed R k (count_noted r)"
    "t_get (rf_open r1) k = Some w" "note_at R x c r =
        count_coalesced (r1 \<lparr> rf_open := t_put k (fold_in cred (fe_wall R) w) (rf_open r1) \<rparr>)"
  | (Full) k r1 where "rk_class k = c" "r1 = note_closed R k (count_noted r)"
    "note_at R x c r = to_summary c 1 (rk_agent k) (fe_wall R) (fe_wall R) r1"
  | (New) k r1 w rec where "rk_class k = c" "r1 = note_closed R k (count_noted r)"
    "t_get (rf_open r1) k = None" "rw_tail_attempts w = 0" "og_class rec = Some c" "og_attempts rec = 1"
    "og_idem rec = fe_fresh R 1"
    "note_at R x c r = admit_record (fe_now R) c rec (r1 \<lparr> rf_open := t_put k w (rf_open r1) \<rparr>)"
proof -
  obtain agent act cred where s: "ctx_sanitized x = Some (agent, act, cred)"
    using assms by (auto simp: counted_def ctx_sanitized_def)
  define k where "k = \<lparr> rk_agent = agent, rk_action = act, rk_class = c, rk_entry = rc_entry x \<rparr>"
  define r1 where "r1 = note_closed R k (count_noted r)"
  define rec where "rec = \<lparr> og_idem = fe_fresh R 1, og_agent = agent, og_action = act, og_entry = Some (rc_entry x),
               og_class = Some c, og_credential = cred, og_attempts = 1, og_first_at = fe_wall R,
               og_last_at = fe_wall R, og_by_class = None, og_tries = 0 \<rparr>"
  define w0 where "w0 = \<lparr> rw_started = fe_now R, rw_credential = cred, rw_credential_mixed = False,
                  rw_tail_attempts = 0, rw_tail_first_at = None, rw_tail_last_at = None \<rparr>"
  have n: "note_at R x c r =
      (case t_get (rf_open r1) k of
         Some w \<Rightarrow> count_coalesced (r1 \<lparr> rf_open := t_put k (fold_in cred (fe_wall R) w) (rf_open r1) \<rparr>)
       | None \<Rightarrow>
           if max_open_windows \<le> length (rf_open r1) then to_summary c 1 agent (fe_wall R) (fe_wall R) r1
           else admit_record (fe_now R) c rec (r1 \<lparr> rf_open := t_put k w0 (rf_open r1) \<rparr>))"
    using s assms unfolding note_at_def r1_def note_closed_def k_def rec_def w0_def counted_def Let_def by simp
  have k: "rk_class k = c" "rk_agent k = agent" by (simp_all add: k_def)
  show ?thesis
  proof (cases "t_get (rf_open r1) k")
    case (Some w)
    with n show ?thesis by (intro Fold [OF k(1) r1_def Some]) simp
  next
    case None
    show ?thesis
    proof (cases "max_open_windows \<le> length (rf_open r1)")
      case True
      with None n show ?thesis by (intro Full [OF k(1) r1_def]) (simp add: k)
    next
      case False
      with None n show ?thesis
        by (intro New [OF k(1) r1_def None, of w0 rec]) (simp_all add: w0_def rec_def)
    qed
  qed
qed

lemma note_uncounted: "\<not> counted x r \<Longrightarrow> note_at R x c r = r \<or> note_at R x c r = count_noted r"
  by (auto simp: counted_def note_at_def ctx_sanitized_def split: option.split)

lemma waiting_noted [simp]: "waiting d (count_noted r) = waiting d r"
  by (simp add: count_noted_def)

lemma waiting_note:
  assumes "t_ok (rf_open r)"
  shows "waiting d (note_at R x c r) = waiting d r + (if d = c \<and> counted x r then 1 else 0)"
proof (cases "counted x r")
  case False
  with note_uncounted [OF this, of R c] show ?thesis by auto
next
  case True
  have ok: "t_ok (rf_open (count_noted r))" using assms by (simp add: count_noted_def)
  from True show ?thesis
  proof (cases rule: note_cases [of x r c R])
    case (Fold k r1 w cred)
    with True show ?thesis
      by (simp add: count_coalesced_def waiting_put_old fold_in_def note_closed_facts [OF ok])
  next
    case (Full k r1)
    with True show ?thesis by (simp add: note_closed_facts [OF ok])
  next
    case (New k r1 w rec)
    with True show ?thesis
      by (simp add: waiting_admit waiting_put_new rec_count_def note_closed_facts [OF ok])
  qed
qed

lemma open_note: "t_ok (rf_open r) \<Longrightarrow> t_ok (rf_open (note_at R x c r))"
proof (cases "counted x r")
  case False
  assume "t_ok (rf_open r)"
  with note_uncounted [OF False, of R c] show ?thesis by (auto simp: count_noted_def)
next
  case True
  assume "t_ok (rf_open r)"
  then have ok: "t_ok (rf_open (count_noted r))" by (simp add: count_noted_def)
  from True show ?thesis
    by (cases rule: note_cases [of x r c R])
      (simp_all add: note_closed_facts [OF ok] count_coalesced_def to_summary_def)
qed

section \<open>Taking, finishing and putting back\<close>

lemma rec_count_summary [simp]:
  "rec_count c (summary_record idem wall s) = class_count c (sm_by_class s)"
  by (simp add: rec_count_def summary_record_def)

lemma waiting_clear:
  "waiting c (r \<lparr> rf_summary := empty_summary \<rparr>) + class_count c (sm_by_class (rf_summary r)) = waiting c r"
  by (simp add: waiting_def empty_summary_def add_ac)

lemma waiting_flush [simp]: "waiting c (flush_summary R idem r) = waiting c r"
  using waiting_clear [of c "r \<lparr> rf_bucket := b \<rparr>" for b]
  by (simp add: flush_summary_def split: prod.split bool.split)

lemma waiting_close_windows:
  "t_ok (rf_open r) \<Longrightarrow> waiting c (close_windows R n ks r) = waiting c r \<and> t_ok (rf_open (close_windows R n ks r))"
  by (induction ks arbitrary: n r) (simp_all add: waiting_close open_close)

text \<open>The identifiers of the records in hand.\<close>

definition own_ids :: "recorder \<Rightarrow> string list" where
  "own_ids r = map og_idem (rf_ready r) @ map fst (rf_in_flight r)"

definition flights_ok :: "outgoing table \<Rightarrow> bool" where
  "flights_ok m \<longleftrightarrow> list_all (\<lambda>(k, rec). og_idem rec = k) m"

definition own_records :: "recorder \<Rightarrow> outgoing list" where
  "own_records r = rf_ready r @ map snd (rf_in_flight r)"

lemma flights_put:
  "distinct (map og_idem recs @ map fst m) \<Longrightarrow>
     put_flights recs m = m @ map (\<lambda>rec. (og_idem rec, rec)) recs"
proof (induction recs arbitrary: m)
  case (Cons rec recs)
  have put: "t_put (og_idem rec) rec m = m @ [(og_idem rec, rec)]"
    using Cons.prems by (induction m) (auto simp: t_put_def)
  have "put_flights (rec # recs) m = put_flights recs (m @ [(og_idem rec, rec)])"
    by (simp add: put_flights_def put)
  also have "\<dots> = (m @ [(og_idem rec, rec)]) @ map (\<lambda>rec. (og_idem rec, rec)) recs"
    using Cons.prems by (intro Cons.IH) auto
  finally show ?case by simp
qed (simp add: put_flights_def)

lemma flight_count_append [simp]:
  "flight_count c (m @ map (\<lambda>rec. (og_idem rec, rec)) recs) = flight_count c m + recs_count c recs"
  by (simp add: flight_count_def tsum_def recs_count_def comp_def)

text \<open>The new records of a call carry new identifiers, each used once.\<close>

definition grows :: "refusal_env \<Rightarrow> nat \<Rightarrow> nat \<Rightarrow> recorder \<Rightarrow> recorder \<Rightarrow> bool" where
  "grows R lo hi r r' \<longleftrightarrow>
     rf_in_flight r' = rf_in_flight r \<and>
     (\<exists>xs ns. rf_ready r' = rf_ready r @ xs \<and> map og_idem xs = map (fe_fresh R) ns
        \<and> sorted_wrt (<) ns \<and> set ns \<subseteq> {lo..<hi})"

lemma grows_same: "rf_in_flight r' = rf_in_flight r \<Longrightarrow> rf_ready r' = rf_ready r \<Longrightarrow> grows R lo hi r r'"
  unfolding grows_def by (intro conjI exI [of _ "[]"]) simp_all

lemma grows_trans:
  assumes "grows R lo mid r r1" "grows R mid hi r1 r2" "lo \<le> mid" "mid \<le> hi"
  shows "grows R lo hi r r2"
proof -
  obtain xs ns where a: "rf_ready r1 = rf_ready r @ xs" "map og_idem xs = map (fe_fresh R) ns"
    "sorted_wrt (<) ns" "set ns \<subseteq> {lo..<mid}" using assms(1) unfolding grows_def by blast
  obtain ys ms where b: "rf_ready r2 = rf_ready r1 @ ys" "map og_idem ys = map (fe_fresh R) ms"
    "sorted_wrt (<) ms" "set ms \<subseteq> {mid..<hi}" using assms(2) unfolding grows_def by blast
  have "sorted_wrt (<) (ns @ ms)" using a(3,4) b(3,4) unfolding sorted_wrt_append by fastforce
  moreover have "set (ns @ ms) \<subseteq> {lo..<hi}" using a(4) b(4) assms(3,4) by fastforce
  ultimately show ?thesis using assms a b unfolding grows_def
    by (intro conjI exI [of _ "xs @ ys"] exI [of _ "ns @ ms"]) simp_all
qed

lemma grows_push: "og_idem rec = fe_fresh R n \<Longrightarrow> grows R n (Suc n) r (push_ready rec r)"
  unfolding grows_def push_ready_def
  by (cases "max_ready \<le> length (rf_ready r)") (auto intro: exI [of _ "[]"] exI [of _ "[n]"])

lemma grows_left:
  "grows R lo hi r1 r' \<Longrightarrow> rf_in_flight r1 = rf_in_flight r \<Longrightarrow> rf_ready r1 = rf_ready r \<Longrightarrow> grows R lo hi r r'"
  by (simp add: grows_def)

lemmas grows_push_from = grows_left [OF grows_push]

lemma grows_admit: "og_idem rec = fe_fresh R n \<Longrightarrow> grows R n (Suc n) r (admit_record now c rec r)"
  by (simp add: admit_record_def to_summary_def grows_same grows_push_from split: prod.split bool.split)

lemmas grows_admit_from = grows_left [OF grows_admit]

lemma grows_close: "grows R n (Suc n) r (close_window R (fe_fresh R n) k r)"
  by (simp add: close_window_def Let_def tail_record_def grows_same grows_admit_from split: option.split)

lemma grows_close_windows: "grows R n (n + length ks) r (close_windows R n ks r)"
proof (induction ks arbitrary: n r)
  case (Cons k ks)
  show ?case using grows_trans [OF grows_close Cons.IH] by simp
qed (simp add: grows_same)

lemma grows_flush: "grows R n (Suc n) r (flush_summary R (fe_fresh R n) r)"
  by (simp add: flush_summary_def summary_record_def grows_same grows_push_from split: prod.split bool.split)

lemma grows_note: "grows R 0 2 r (note_at R x c r)"
proof (cases "counted x r")
  case False
  from note_uncounted [OF this, of R c] show ?thesis by (auto simp: count_noted_def intro: grows_same)
next
  case True
  have n: "grows R 0 1 r (note_closed R k (count_noted r))" for k
    using grows_close [of R 0 "count_noted r" k]
    by (auto simp: note_closed_def count_noted_def grows_def split: option.split)
  from True show ?thesis
  proof (cases rule: note_cases [of x r c R])
    case (Fold k r1 w cred)
    have "grows R 1 2 r1 (note_at R x c r)" unfolding Fold(4) by (simp add: grows_same count_coalesced_def)
    with n [of k] Fold(2) show ?thesis by (auto intro: grows_trans)
  next
    case (Full k r1)
    have "grows R 1 2 r1 (note_at R x c r)" unfolding Full(3) by (simp add: grows_same to_summary_def)
    with n [of k] Full(2) show ?thesis by (auto intro: grows_trans)
  next
    case (New k r1 w rec)
    have "grows R 1 2 r1 (note_at R x c r)"
      unfolding New(8) using grows_left [OF grows_admit [OF New(7)]] by (simp add: numeral_2_eq_2)
    with n [of k] New(2) show ?thesis by (auto intro: grows_trans)
  qed
qed

section \<open>Identities of records\<close>

definition untried :: "outgoing \<Rightarrow> outgoing" where
  "untried rec = rec \<lparr> og_tries := 0 \<rparr>"

lemma untried_simps [simp]:
  "rec_count c (untried a) = rec_count c a" "og_idem (untried a) = og_idem a"
  "untried (a \<lparr> og_tries := n \<rparr>) = untried a"
  by (simp_all add: untried_def rec_count_def split: option.split)

lemma untried_count: "untried a = untried b \<Longrightarrow> rec_count c a = rec_count c b"
  by (metis untried_simps(1))

definition coherent :: "outgoing list \<Rightarrow> bool" where
  "coherent recs \<longleftrightarrow>
     (\<forall>a \<in> set recs. \<forall>b \<in> set recs. og_idem a = og_idem b \<longrightarrow> untried a = untried b)"

definition rec_ok :: "outgoing list \<Rightarrow> recorder \<Rightarrow> bool" where
  "rec_ok held r \<longleftrightarrow>
     t_ok (rf_open r) \<and> distinct (own_ids r) \<and> flights_ok (rf_in_flight r)
     \<and> coherent (held @ own_records r)"

definition fresh_ids :: "refusal_env \<Rightarrow> outgoing list \<Rightarrow> recorder \<Rightarrow> bool" where
  "fresh_ids R held r \<longleftrightarrow>
     inj (fe_fresh R) \<and> range (fe_fresh R) \<inter> og_idem ` set (held @ own_records r) = {}"

lemma flight_ids: "flights_ok m \<Longrightarrow> map og_idem (map snd m) = map fst m"
  by (induction m) (auto simp: flights_ok_def)

lemma own_ids_records: "flights_ok (rf_in_flight r) \<Longrightarrow> own_ids r = map og_idem (own_records r)"
  unfolding own_ids_def own_records_def by (simp only: map_append flight_ids)

lemma coherent_extend:
  assumes "coherent recs" "distinct (map og_idem xs)" "og_idem ` set xs \<inter> og_idem ` set recs = {}"
  shows "coherent (recs @ xs)"
proof -
  have "a = b" if "a \<in> set xs" "b \<in> set xs" "og_idem a = og_idem b" for a b
    using assms(2) that by (auto simp: distinct_map inj_on_def)
  moreover have "og_idem a \<noteq> og_idem b" if "a \<in> set xs" "b \<in> set recs" for a b
    using assms(3) that by blast
  ultimately show ?thesis using assms(1) unfolding coherent_def set_append by (metis Un_iff)
qed

lemma coherentD:
  "coherent recs \<Longrightarrow> a \<in> set recs \<Longrightarrow> b \<in> set recs \<Longrightarrow> og_idem a = og_idem b \<Longrightarrow> untried a = untried b"
  unfolding coherent_def by blast

lemma coherent_set: "coherent xs \<Longrightarrow> set ys \<subseteq> set xs \<Longrightarrow> coherent ys"
  unfolding coherent_def by blast

lemma distinct_between:
  "distinct (xs @ zs) \<Longrightarrow> distinct ys \<Longrightarrow> set ys \<inter> set (xs @ zs) = {} \<Longrightarrow> distinct ((xs @ ys) @ zs)"
  by auto

lemma grows_rec_ok:
  assumes g: "grows R lo hi r r'" and ok: "rec_ok held r" and fr: "fresh_ids R held r" and t: "t_ok (rf_open r')"
  shows "rec_ok held r'"
proof -
  obtain xs ns where a: "rf_in_flight r' = rf_in_flight r" "rf_ready r' = rf_ready r @ xs"
    "map og_idem xs = map (fe_fresh R) ns" "sorted_wrt (<) ns" using g unfolding grows_def by blast
  have "distinct ns" using a(4) by (simp add: strict_sorted_iff)
  then have d: "distinct (map og_idem xs)"
    using fr a(3) by (simp add: fresh_ids_def distinct_map inj_on_def)
  have "og_idem ` set xs = fe_fresh R ` set ns" using a(3) by (metis set_map)
  then have n: "og_idem ` set xs \<inter> og_idem ` set (held @ own_records r) = {}"
    using fr unfolding fresh_ids_def by blast
  have f: "flights_ok (rf_in_flight r')" using ok a(1) by (simp add: rec_ok_def)
  have "coherent ((held @ own_records r) @ xs)"
    by (rule coherent_extend [OF _ d n]) (use ok in \<open>simp add: rec_ok_def\<close>)
  then have "coherent (held @ own_records r')" by (rule coherent_set) (auto simp: own_records_def a)
  moreover have "set (map og_idem xs) \<inter> set (own_ids r) = {}"
    using n ok own_ids_records [of r] by (auto simp: rec_ok_def)
  then have "distinct ((map og_idem (rf_ready r) @ map og_idem xs) @ map fst (rf_in_flight r))"
    by (intro distinct_between d) (use ok in \<open>simp_all only: rec_ok_def own_ids_def\<close>)
  then have "distinct (own_ids r')" by (simp only: own_ids_def a map_append)
  ultimately show ?thesis using f t by (simp add: rec_ok_def)
qed

lemma note_rec_ok:
  "rec_ok held r \<Longrightarrow> fresh_ids R held r \<Longrightarrow> rec_ok held (note_at R x c r)"
  by (rule grows_rec_ok [OF grows_note]) (simp_all add: open_note rec_ok_def)

lemma close_all_rec_ok:
  "rec_ok held r \<Longrightarrow> fresh_ids R held r \<Longrightarrow> rec_ok held (close_all_windows R r)"
  unfolding close_all_windows_def
  by (rule grows_rec_ok [OF grows_close_windows]) (simp_all add: waiting_close_windows rec_ok_def)

lemma open_flush [simp]: "rf_open (flush_summary R idem r) = rf_open r"
  by (auto simp: flush_summary_def push_ready_def split: prod.split bool.split)

text \<open>A drain takes records over: the counts pass to the batch and to the reported overflow.\<close>

definition due :: "refusal_env \<Rightarrow> recorder \<Rightarrow> recorder" where
  "due R r =
     (let keys = expired_keys (fe_now R) r
      in flush_summary R (fe_fresh R (length keys)) (close_windows R 0 keys r))"

lemma take_due_alt:
  "take_due_at R mx r =
     ((take mx (rf_ready (due R r)), rf_overflow (due R r)),
      (due R r) \<lparr> rf_ready := drop mx (rf_ready (due R r)),
        rf_in_flight := put_flights (take mx (rf_ready (due R r))) (rf_in_flight (due R r)),
        rf_overflow := [] \<rparr>)"
  by (simp add: take_due_at_def due_def Let_def)

lemma due_facts:
  assumes "rec_ok held r" "fresh_ids R held r"
  shows "waiting c (due R r) = waiting c r" "rec_ok held (due R r)"
proof -
  have t: "t_ok (rf_open r)" using assms(1) by (simp add: rec_ok_def)
  then show "waiting c (due R r) = waiting c r" by (simp add: due_def Let_def waiting_close_windows)
  have "grows R 0 (Suc (length (expired_keys (fe_now R) r))) r (due R r)"
    unfolding due_def Let_def
    using grows_trans [OF grows_close_windows [where n = 0] grows_flush] by simp
  then show "rec_ok held (due R r)"
    by (rule grows_rec_ok) (use assms t in \<open>simp_all add: due_def Let_def waiting_close_windows\<close>)
qed

lemma take_due_facts:
  assumes ok: "rec_ok held r" and fr: "fresh_ids R held r"
    and take: "take_due_at R mx r = ((batch, overflow), r')"
  shows "waiting c r = waiting c r' + over_count c overflow" "rec_ok (batch @ held) r'"
    "length (own_records r') = length (own_records (due R r))"
proof -
  define d where "d = due R r"
  note df = due_facts [OF ok fr, folded d_def]
  have b: "batch = take mx (rf_ready d)" "overflow = rf_overflow d"
    and r': "r' = d \<lparr> rf_ready := drop mx (rf_ready d),
        rf_in_flight := put_flights batch (rf_in_flight d), rf_overflow := [] \<rparr>"
    using take unfolding take_due_alt d_def by auto
  have rd: "rf_ready d = batch @ drop mx (rf_ready d)" by (simp add: b)
  have f: "flights_ok (rf_in_flight d)" using df(2) by (simp add: rec_ok_def)
  have dd: "distinct (map og_idem batch @ map og_idem (drop mx (rf_ready d)) @ map fst (rf_in_flight d))"
    using df(2) rd unfolding rec_ok_def own_ids_def by (metis append.assoc map_append)
  have p: "put_flights batch (rf_in_flight d)
      = rf_in_flight d @ map (\<lambda>rec. (og_idem rec, rec)) batch"
    by (rule flights_put) (use dd in auto)
  have "recs_count c (rf_ready d) = recs_count c batch + recs_count c (drop mx (rf_ready d))"
    by (metis rd recs_count_simps(3))
  then show "waiting c r = waiting c r' + over_count c overflow"
    unfolding df(1) [symmetric] by (simp add: waiting_def r' p b(2) add_ac)
  have own: "own_records r' = drop mx (rf_ready d) @ map snd (rf_in_flight d) @ batch"
    by (simp add: own_records_def r' p comp_def)
  then show "length (own_records r') = length (own_records (due R r))"
    unfolding d_def [symmetric] by (subst (2) own_records_def, subst rd) simp
  have f': "flights_ok (rf_in_flight r')" using f by (auto simp: r' p flights_ok_def list_all_iff)
  have "distinct (own_ids r')"
    using dd unfolding own_ids_records [OF f'] own by (auto simp: flight_ids [OF f, symmetric])
  moreover have "coherent ((batch @ held) @ own_records r')"
  proof (rule coherent_set)
    show "coherent (held @ own_records d)" using df(2) by (simp add: rec_ok_def)
    show "set ((batch @ held) @ own_records r') \<subseteq> set (held @ own_records d)"
      unfolding own unfolding own_records_def using arg_cong [OF rd, of set] by auto
  qed
  ultimately show "rec_ok (batch @ held) r'" using df(2) f' by (simp add: rec_ok_def r')
qed

lemma flight_rec:
  assumes "rec_ok held r" "rec \<in> set held" "t_get (rf_in_flight r) (og_idem rec) = Some rec'"
  shows "rec_count c rec' = rec_count c rec"
proof -
  have m: "(og_idem rec, rec') \<in> set (rf_in_flight r)" by (rule t_get_mem [OF assms(3)])
  then have "og_idem rec' = og_idem rec" using assms(1) by (auto simp: rec_ok_def flights_ok_def list_all_iff)
  moreover have "rec' \<in> set (held @ own_records r)" using m by (force simp: own_records_def)
  moreover have "rec \<in> set (held @ own_records r)" using assms(2) by simp
  moreover have "coherent (held @ own_records r)" using assms(1) by (simp add: rec_ok_def)
  ultimately have "untried rec' = untried rec" by (intro coherentD)
  then show ?thesis by (rule untried_count)
qed

lemma flights_del_count:
  assumes ok: "rec_ok held r" and h: "rec \<in> set held" and g: "t_get (rf_in_flight r) (og_idem rec) \<noteq> None"
  shows "flight_count c (rf_in_flight r) = rec_count c rec + flight_count c (t_del (og_idem rec) (rf_in_flight r))"
proof -
  obtain rec' where g': "t_get (rf_in_flight r) (og_idem rec) = Some rec'" using g by auto
  have "t_ok (rf_in_flight r)" using ok by (simp add: rec_ok_def own_ids_def t_ok_def)
  from tsum_del [OF this g', of "\<lambda>_. rec_count c"] flight_rec [OF ok h g'] show ?thesis
    by (simp add: flight_count_def)
qed

lemma del_rec_ok:
  assumes "rec_ok held r"
  shows "rec_ok held (r \<lparr> rf_in_flight := t_del k (rf_in_flight r) \<rparr>)"
proof -
  have s: "set (t_del k (rf_in_flight r)) \<subseteq> set (rf_in_flight r)" by (auto simp: t_del_filter)
  have "distinct (map fst (t_del k (rf_in_flight r)))"
    using assms by (simp add: rec_ok_def own_ids_def t_del_filter distinct_map_filter)
  moreover have "fst ` set (t_del k (rf_in_flight r)) \<subseteq> fst ` set (rf_in_flight r)" using s by blast
  moreover have "flights_ok (t_del k (rf_in_flight r))"
    using assms s by (auto simp: rec_ok_def flights_ok_def list_all_iff)
  moreover have "coherent (held @ own_records (r \<lparr> rf_in_flight := t_del k (rf_in_flight r) \<rparr>))"
    by (rule coherent_set [of "held @ own_records r"]) (use assms s in \<open>auto simp: rec_ok_def own_records_def\<close>)
  ultimately show ?thesis using assms unfolding rec_ok_def own_ids_def by auto
qed

text \<open>A record leaves the flights at most once, with its counts.\<close>

lemma finish_facts:
  assumes "rec_ok held r" "rec \<in> set held" "finish_flight (og_idem rec) r = (claimed, r')"
  shows "waiting c r = waiting c r' + (if claimed then rec_count c rec else 0)" "rec_ok held r'"
    "length (own_records r') + (if claimed then 1 else 0) \<le> length (own_records r)"
proof -
  have r': "r' = r \<lparr> rf_in_flight := t_del (og_idem rec) (rf_in_flight r) \<rparr>"
    and cl: "claimed \<longleftrightarrow> t_get (rf_in_flight r) (og_idem rec) \<noteq> None"
    using assms(3) by (auto simp: finish_flight_def)
  have none: "t_del k m = m" if "t_get m k = None" for k and m :: "outgoing table"
    using that by (induction m) (auto simp: t_get_def t_del_filter split: if_splits)
  have less: "length (t_del k m) < length m" if "t_get m k \<noteq> None" for k and m :: "outgoing table"
    using that by (induction m) (auto simp: t_get_def t_del_filter less_Suc_eq_le split: if_splits)
  show "waiting c r = waiting c r' + (if claimed then rec_count c rec else 0)"
    using flights_del_count [OF assms(1,2)] cl none by (cases claimed) (auto simp: waiting_def r' add_ac)
  show "rec_ok held r'" unfolding r' by (rule del_rec_ok [OF assms(1)])
  show "length (own_records r') + (if claimed then 1 else 0) \<le> length (own_records r)"
    using less [of "rf_in_flight r" "og_idem rec"] cl none [of "rf_in_flight r" "og_idem rec"]
    by (cases claimed) (auto simp: own_records_def r')
qed

lemma requeue_facts:
  assumes "rec_ok held r" "set recs \<subseteq> set held" "requeue_each recs (dropped, r) = (dropped', r')"
  shows "waiting c r + recs_count c dropped = waiting c r' + recs_count c dropped' \<and> rec_ok held r'
    \<and> length (own_records r') \<le> length (own_records r)"
  using assms
proof (induction recs arbitrary: dropped r)
  case (Cons rec recs)
  obtain claimed r1 where fin: "finish_flight (og_idem rec) r = (claimed, r1)" by fastforce
  have h: "rec \<in> set held" using Cons.prems(2) by simp
  note ff = finish_facts [OF Cons.prems(1) h fin]
  have r1: "r1 = r \<lparr> rf_in_flight := t_del (og_idem rec) (rf_in_flight r) \<rparr>"
    and cl: "claimed \<longleftrightarrow> t_get (rf_in_flight r) (og_idem rec) \<noteq> None"
    using fin by (auto simp: finish_flight_def)
  have rest: "set recs \<subseteq> set held" using Cons.prems(2) by simp
  consider (Gone) "\<not> claimed" | (Drop) "claimed" "max_ready \<le> length (rf_ready r1)"
    | (Back) "claimed" "\<not> max_ready \<le> length (rf_ready r1)" by blast
  then show ?case
  proof cases
    case Gone
    with Cons.prems(3) cl have "requeue_each recs (dropped, r) = (dropped', r')" by simp
    from Cons.IH [OF Cons.prems(1) rest this] show ?thesis .
  next
    case Drop
    with Cons.prems(3) cl r1 have "requeue_each recs (dropped @ [rec], r1) = (dropped', r')"
      by (auto simp: Let_def)
    from Cons.IH [OF ff(2) rest this] ff(1) ff(3) Drop show ?thesis by (simp add: add_ac)
  next
    case Back
    define r2 where "r2 = r1 \<lparr> rf_ready := rec # rf_ready r1 \<rparr>"
    have req: "requeue_each recs (dropped, r2) = (dropped', r')"
      using Back Cons.prems(3) cl r1 by (auto simp: Let_def r2_def)
    have "og_idem rec \<in> fst ` set (rf_in_flight r)"
      using cl Back(1) by (force dest: t_get_mem)
    moreover have "distinct (map og_idem (rf_ready r) @ map fst (rf_in_flight r))"
      using Cons.prems(1) by (simp only: rec_ok_def own_ids_def)
    ultimately have "og_idem rec \<notin> og_idem ` set (rf_ready r)" by auto
    then have new: "og_idem rec \<notin> set (own_ids r1)" by (auto simp: own_ids_def r1 t_del_filter)
    have "coherent (held @ own_records r2)"
      by (rule coherent_set [of "held @ own_records r1"])
        (use ff(2) h in \<open>auto simp: rec_ok_def own_records_def r2_def\<close>)
    with new ff(2) have "rec_ok held r2"
      unfolding rec_ok_def by (simp add: own_ids_def r2_def)
    from Cons.IH [OF this rest req] ff(1) ff(3) Back(1)
    show ?thesis by (simp add: r2_def waiting_def own_records_def add_ac)
  qed
qed simp

section \<open>Runs\<close>

text \<open>
  A run of the recorder: \<open>ru_held\<close> are the records that drains have taken, \<open>ru_noted\<close>, \<open>ru_sealed\<close>
  and \<open>ru_gapped\<close> count the refusals of each class that were noted, sealed and reported as gaps.
  The steps are the pieces of the calls between which others may run: a note, the beginning of a
  drain, the end of one attempt, the end of a drain, and the two ends of a shutdown.
\<close>

record refusal_run =
  ru_sealer :: refusal_sealer
  ru_held :: "outgoing list"
  ru_noted :: "refusal_class \<Rightarrow> u64"
  ru_sealed :: "refusal_class \<Rightarrow> u64"
  ru_gapped :: "refusal_class \<Rightarrow> u64"

definition run_recorder :: "refusal_run \<Rightarrow> recorder" where
  "run_recorder S = fd_recorder (ru_sealer S)"

definition fresh_run :: "refusal_env \<Rightarrow> refusal_run \<Rightarrow> bool" where
  "fresh_run R S \<longleftrightarrow> fresh_ids R (ru_held S) (run_recorder S)"

definition run_new :: "refusal_sealer \<Rightarrow> refusal_run" where
  "run_new D = \<lparr> ru_sealer = D, ru_held = [], ru_noted = (\<lambda>_. 0), ru_sealed = (\<lambda>_. 0), ru_gapped = (\<lambda>_. 0) \<rparr>"

definition run_note :: "refusal_env \<Rightarrow> refusal_ctx \<Rightarrow> refusal_class \<Rightarrow> refusal_run \<Rightarrow> refusal_run" where
  "run_note R x c S =
     S \<lparr> ru_sealer := (ru_sealer S) \<lparr> fd_recorder := note_at R x c (run_recorder S) \<rparr>,
         ru_noted := (\<lambda>d. ru_noted S d + (if d = c \<and> counted x (run_recorder S) then 1 else 0)) \<rparr>"

definition run_begin :: "refusal_env \<Rightarrow> refusal_run \<Rightarrow> refusal_run" where
  "run_begin R S =
     (case drain_begin R (ru_sealer S) of
        (batch, D) \<Rightarrow>
          S \<lparr> ru_sealer := D, ru_held := batch @ ru_held S,
              ru_gapped := (\<lambda>c. ru_gapped S c + over_count c
                 (snd (fst (take_due_at R refusal_batch (run_recorder S))))) \<rparr>)"

definition run_join :: "instant \<Rightarrow> outgoing \<Rightarrow> seal_outcome \<Rightarrow> refusal_run \<Rightarrow> refusal_run" where
  "run_join wall rec out S =
     (case drain_join wall rec out ([], 0, ru_sealer S) of
        (retry, sealed, D) \<Rightarrow>
          (let left = (if fst (claim_flight (og_idem rec) (ru_sealer S)) \<and> retry = [] then 1 else 0)
           in S \<lparr> ru_sealer := D, ru_held := retry @ ru_held S,
                  ru_sealed := (\<lambda>c. ru_sealed S c + of_nat sealed * rec_count c rec),
                  ru_gapped := (\<lambda>c. ru_gapped S c + (left - of_nat sealed) * rec_count c rec) \<rparr>))"

definition run_end :: "instant \<Rightarrow> outgoing list \<Rightarrow> refusal_run \<Rightarrow> refusal_run" where
  "run_end wall retry S =
     S \<lparr> ru_sealer := drain_end wall retry (ru_sealer S),
         ru_gapped := (\<lambda>c. ru_gapped S c + recs_count c (fst (requeue_in_flight retry (run_recorder S)))) \<rparr>"

definition run_close :: "refusal_env \<Rightarrow> refusal_run \<Rightarrow> refusal_run" where
  "run_close R S =
     S \<lparr> ru_sealer := (ru_sealer S) \<lparr> fd_recorder := close_all_windows R (run_recorder S) \<rparr> \<rparr>"

definition run_collect :: "refusal_env \<Rightarrow> refusal_run \<Rightarrow> refusal_run" where
  "run_collect R S =
     S \<lparr> ru_sealer := collect_pending R (ru_sealer S),
         ru_gapped := (\<lambda>c. ru_gapped S c + recs_count c (fst (take_all_pending R (run_recorder S)))) \<rparr>"

inductive refusal_step :: "refusal_run \<Rightarrow> refusal_run \<Rightarrow> bool" where
  Note: "fresh_run R S \<Longrightarrow> refusal_step S (run_note R x c S)"
| Begin: "fresh_run R S \<Longrightarrow> refusal_step S (run_begin R S)"
| Join: "rec \<in> set (ru_held S) \<Longrightarrow> refusal_step S (run_join wall rec out S)"
| End: "set retry \<subseteq> set (ru_held S) \<Longrightarrow> refusal_step S (run_end wall retry S)"
| Close: "fresh_run R S \<Longrightarrow> refusal_step S (run_close R S)"
| Collect: "refusal_step S (run_collect R S)"

definition run_ok :: "refusal_run \<Rightarrow> bool" where
  "run_ok S \<longleftrightarrow>
     rec_ok (ru_held S) (run_recorder S)
     \<and> (\<forall>c. ru_noted S c = waiting c (run_recorder S) + ru_sealed S c + ru_gapped S c)"

lemma recorder_gap [simp]:
  "fd_recorder (gap_counted w a s d D) = count_unsealed (fd_recorder D)"
  by (simp add: gap_counted_def record_refusal_gap_def)

lemma rec_ok_counters [simp]: "rec_ok held (r \<lparr> rf_counters := x \<rparr>) = rec_ok held r"
  by (simp add: rec_ok_def own_ids_def own_records_def)

lemma unsealed_same [simp]:
  "waiting c (count_unsealed r) = waiting c r" "rec_ok held (count_unsealed r) = rec_ok held r"
  by (simp_all add: count_unsealed_def)

lemma gaps_same:
  "waiting c (fd_recorder (foldl (\<lambda>D x. gap_counted w (f x) (g x) (h x) D) D xs)) = waiting c (fd_recorder D)"
  "rec_ok held (fd_recorder (foldl (\<lambda>D x. gap_counted w (f x) (g x) (h x) D) D xs)) = rec_ok held (fd_recorder D)"
  by (induction xs arbitrary: D) simp_all

lemma over_gaps_same:
  "waiting c (fd_recorder (foldl (\<lambda>D (x, y, z). gap_counted w (f x y z) (g x y z) (h x y z) D) D xs))
     = waiting c (fd_recorder D)"
  "rec_ok held (fd_recorder (foldl (\<lambda>D (x, y, z). gap_counted w (f x y z) (g x y z) (h x y z) D) D xs))
     = rec_ok held (fd_recorder D)"
  by (induction xs arbitrary: D) auto

lemma rec_ok_open: "rec_ok held r \<Longrightarrow> t_ok (rf_open r)"
  by (simp add: rec_ok_def)

lemma coherent_retry:
  assumes "coherent recs" "rec \<in> set recs"
  shows "coherent (rec \<lparr> og_tries := n \<rparr> # recs)"
proof -
  have u: "untried (rec \<lparr> og_tries := n \<rparr>) = untried rec" by simp
  have i: "og_idem (rec \<lparr> og_tries := n \<rparr>) = og_idem rec" by simp
  show ?thesis using assms u i coherentD [OF assms(1)] unfolding coherent_def set_simps
    by (metis insert_iff)
qed

lemma rec_ok_retry: "rec_ok held r \<Longrightarrow> rec \<in> set held \<Longrightarrow> rec_ok (rec \<lparr> og_tries := n \<rparr> # held) r"
  using coherent_retry [of "held @ own_records r" rec n] by (simp add: rec_ok_def)

lemma note_step:
  assumes "run_ok S" "fresh_run R S"
  shows "run_ok (run_note R x c S)"
proof -
  have "t_ok (rf_open (fd_recorder (ru_sealer S)))"
    by (rule rec_ok_open [of "ru_held S"]) (use assms(1) in \<open>simp add: run_ok_def run_recorder_def\<close>)
  with assms show ?thesis
    by (simp add: run_ok_def run_note_def run_recorder_def fresh_run_def note_rec_ok waiting_note)
qed

lemma begin_step:
  assumes "run_ok S" "fresh_run R S"
  shows "run_ok (run_begin R S)"
proof -
  obtain batch overflow r' where take: "take_due_at R refusal_batch (run_recorder S) = ((batch, overflow), r')"
    by (metis prod.collapse)
  have ok: "rec_ok (ru_held S) (run_recorder S)" and fr: "fresh_ids R (ru_held S) (run_recorder S)"
    using assms by (simp_all add: run_ok_def fresh_run_def)
  note tf = take_due_facts [OF ok fr take]
  show ?thesis using assms(1) tf(1,2)
    by (simp add: run_ok_def run_begin_def drain_begin_def take [unfolded run_recorder_def] run_recorder_def
        over_gaps_same add_ac)
qed

lemma join_step:
  assumes "run_ok S" "rec \<in> set (ru_held S)"
  shows "run_ok (run_join wall rec out S)"
proof -
  obtain claimed r' where fin: "finish_flight (og_idem rec) (fd_recorder (ru_sealer S)) = (claimed, r')" by fastforce
  have ok: "rec_ok (ru_held S) (fd_recorder (ru_sealer S))"
    using assms(1) by (simp add: run_ok_def run_recorder_def)
  note ff = finish_facts [OF ok assms(2) fin]
  have cl: "claim_flight (og_idem rec) (ru_sealer S) = (claimed, (ru_sealer S) \<lparr> fd_recorder := r' \<rparr>)"
    by (simp add: claim_flight_def fin)
  show ?thesis
    using assms(1) ff(1,2) rec_ok_retry [OF ok assms(2)]
    by (cases out; cases claimed)
      (simp_all add: run_ok_def run_join_def drain_join_def cl run_recorder_def count_sealed_def refusal_unsealed_def
        add_ac Let_def)
qed

lemma end_step:
  assumes "run_ok S" "set retry \<subseteq> set (ru_held S)"
  shows "run_ok (run_end wall retry S)"
proof -
  obtain dropped r' where req: "requeue_each (rev retry) ([], fd_recorder (ru_sealer S)) = (dropped, r')"
    by fastforce
  have ok: "rec_ok (ru_held S) (fd_recorder (ru_sealer S))"
    using assms(1) by (simp add: run_ok_def run_recorder_def)
  from requeue_facts [OF ok _ req] assms(2)
  have rf: "waiting c (fd_recorder (ru_sealer S)) = waiting c r' + recs_count c dropped"
    "rec_ok (ru_held S) r'" for c by simp_all
  show ?thesis
  proof (cases "retry = []")
    case True
    with assms(1) show ?thesis by (simp add: run_ok_def run_end_def drain_end_def run_recorder_def requeue_in_flight_def)
  next
    case False
    with assms(1) rf show ?thesis
      by (simp add: run_ok_def run_end_def drain_end_def run_recorder_def requeue_in_flight_def req
          refusal_unsealed_overflow_def gaps_same add_ac)
  qed
qed

lemma close_step:
  assumes "run_ok S" "fresh_run R S"
  shows "run_ok (run_close R S)"
proof -
  have "t_ok (rf_open (fd_recorder (ru_sealer S)))"
    by (rule rec_ok_open [of "ru_held S"]) (use assms(1) in \<open>simp add: run_ok_def run_recorder_def\<close>)
  then have "waiting c (close_all_windows R (fd_recorder (ru_sealer S))) = waiting c (fd_recorder (ru_sealer S))" for c
    by (simp add: close_all_windows_def waiting_close_windows)
  with assms show ?thesis
    by (simp add: run_ok_def run_close_def run_recorder_def fresh_run_def close_all_rec_ok)
qed

lemma flight_records: "flight_count c m = recs_count c (map snd m)"
  by (induction m) (auto simp: flight_count_def)

lemma collect_step:
  assumes "run_ok S"
  shows "run_ok (run_collect R S)"
proof -
  obtain out r' where take: "take_all_pending R (fd_recorder (ru_sealer S)) = (out, r')" by fastforce
  have "waiting c (fd_recorder (ru_sealer S)) = waiting c r' + recs_count c out" for c
    using take by (auto simp: take_all_pending_def waiting_def flight_records Let_def empty_summary_def add_ac
        split: if_splits)
  moreover have "rec_ok (ru_held S) r'"
    using take assms coherent_set [of "ru_held S @ own_records (run_recorder S)" "ru_held S"]
    by (auto simp: take_all_pending_def rec_ok_def Let_def own_ids_def own_records_def flights_ok_def
        run_ok_def run_recorder_def split: if_splits)
  ultimately show ?thesis using assms
    by (simp add: run_ok_def run_collect_def collect_pending_def run_recorder_def take gaps_same add_ac)
qed

lemma refusal_step_ok: "refusal_step S S' \<Longrightarrow> run_ok S \<Longrightarrow> run_ok S'"
  by (cases rule: refusal_step.cases)
    (auto intro: note_step begin_step join_step end_step close_step collect_step)

lemma run_new_ok:
  "run_ok (run_new \<lparr> fd_recorder = recorder_new fs now, fd_gaps = G, fd_project = p \<rparr>)"
  by (simp add: run_ok_def run_new_def run_recorder_def recorder_new_def rec_ok_def own_ids_def own_records_def
      flights_ok_def coherent_def waiting_def tail_count_def flight_count_def empty_summary_def)

lemma refusal_runs_ok: "refusal_step\<^sup>*\<^sup>* S S' \<Longrightarrow> run_ok S \<Longrightarrow> run_ok S'"
  by (induction rule: rtranclp_induct) (auto intro: refusal_step_ok)

text \<open>A whole drain is a sequence of these steps.\<close>

definition run_joins :: "instant \<Rightarrow> (outgoing \<times> seal_outcome) list \<Rightarrow> refusal_run \<Rightarrow> refusal_run" where
  "run_joins wall joined S = foldl (\<lambda>S (rec, out). run_join wall rec out S) S joined"

lemma join_retries:
  "drain_join wall rec out (retry, n, D) =
     (case drain_join wall rec out ([], 0, D) of (retry', n', D') \<Rightarrow> (retry @ retry', n + n', D'))"
  by (simp add: drain_join_def split: seal_outcome.split prod.split bool.split)

lemma joins_run:
  "fst ` set joined \<subseteq> set (ru_held S) \<Longrightarrow>
   foldl (\<lambda>s (rec, out). drain_join wall rec out s) (retry, n, ru_sealer S) joined = (retry', n', D') \<Longrightarrow>
   set retry \<subseteq> set (ru_held S) \<Longrightarrow>
     refusal_step\<^sup>*\<^sup>* S (run_joins wall joined S) \<and> ru_sealer (run_joins wall joined S) = D'
     \<and> set retry' \<subseteq> set (ru_held (run_joins wall joined S))"
proof (induction joined arbitrary: S retry n)
  case (Cons p joined)
  obtain rec out where p: "p = (rec, out)" by (cases p)
  obtain rt k D where j: "drain_join wall rec out ([], 0, ru_sealer S) = (rt, k, D)" by (cases "drain_join wall rec out ([], 0, ru_sealer S)")
  have S1: "ru_sealer (run_join wall rec out S) = D" "ru_held (run_join wall rec out S) = rt @ ru_held S"
    by (simp_all add: run_join_def j Let_def)
  have step: "refusal_step S (run_join wall rec out S)" using Cons.prems(1) p by (intro refusal_step.Join) simp
  have next1: "foldl (\<lambda>s (rec, out). drain_join wall rec out s)
      (retry @ rt, n + k, ru_sealer (run_join wall rec out S)) joined = (retry', n', D')"
    using Cons.prems(2) by (simp add: p join_retries [of wall rec out retry] j S1)
  have "refusal_step\<^sup>*\<^sup>* (run_join wall rec out S) (run_joins wall joined (run_join wall rec out S))
      \<and> ru_sealer (run_joins wall joined (run_join wall rec out S)) = D'
      \<and> set retry' \<subseteq> set (ru_held (run_joins wall joined (run_join wall rec out S)))"
    by (rule Cons.IH [OF _ next1]) (use Cons.prems(1,3) S1 in auto)
  with step show ?case by (simp add: run_joins_def p converse_rtranclp_into_rtranclp)
qed (simp add: run_joins_def)

lemma drain_run:
  assumes fr: "fresh_run R S" and ends: "\<And>batch. fst ` set (fst (ends batch)) \<subseteq> set batch"
  shows "\<exists>S'. refusal_step\<^sup>*\<^sup>* S S' \<and> ru_sealer S' = snd (drain_refusals_counted R ends (ru_sealer S))"
proof -
  obtain batch D1 where b: "drain_begin R (ru_sealer S) = (batch, D1)" by fastforce
  define S1 where "S1 = run_begin R S"
  have S1: "ru_sealer S1 = D1" "ru_held S1 = batch @ ru_held S"
    by (simp_all add: S1_def run_begin_def b)
  have step: "refusal_step\<^sup>*\<^sup>* S S1" using fr unfolding S1_def by (intro r_into_rtranclp refusal_step.Begin)
  show ?thesis
  proof (cases "batch = []")
    case True
    with step S1 b show ?thesis by (auto simp: drain_refusals_counted_def)
  next
    case False
    obtain joined whole where e: "ends batch = (joined, whole)" by fastforce
    obtain rt n D2 where f: "foldl (\<lambda>s (rec, out). drain_join (fe_wall R) rec out s) ([], 0, ru_sealer S1) joined
        = (rt, n, D2)"
      by (cases "foldl (\<lambda>s (rec, out). drain_join (fe_wall R) rec out s) ([], 0, ru_sealer S1) joined")
    have "fst ` set joined \<subseteq> set (ru_held S1)" using ends [of batch] e S1 by auto
    from joins_run [OF this f] obtain S2 where S2: "refusal_step\<^sup>*\<^sup>* S1 S2" "ru_sealer S2 = D2"
      "set rt \<subseteq> set (ru_held S2)" by auto
    have d: "snd (drain_refusals_counted R ends (ru_sealer S)) = (if whole then drain_end (fe_wall R) rt D2 else D2)"
      using False f by (simp add: drain_refusals_counted_def b e S1)
    have "refusal_step S2 (run_end (fe_wall R) rt S2)" by (rule refusal_step.End [OF S2(3)])
    moreover have "ru_sealer (run_end (fe_wall R) rt S2) = drain_end (fe_wall R) rt D2"
      by (simp add: run_end_def S2)
    moreover have "refusal_step\<^sup>*\<^sup>* S S2" using step S2(1) by (rule rtranclp_trans)
    ultimately show ?thesis using S2(2) d
      by (cases whole) (metis rtranclp.rtrancl_into_rtrancl, metis)
  qed
qed

section \<open>The budget\<close>

definition bucket_ok :: "rat \<Rightarrow> rat \<Rightarrow> bucket \<Rightarrow> bool" where
  "bucket_ok burst rate b \<longleftrightarrow>
     0 \<le> burst \<and> 0 \<le> rate \<and> 0 \<le> bk_tokens b \<and> bk_burst b = burst \<and> bk_per_sec b = rate"

definition bucket_debt :: "instant \<Rightarrow> bucket \<Rightarrow> rat" where
  "bucket_debt t0 b = bk_tokens b - of_int (bk_last b - t0) / of_int nanos * bk_per_sec b"

definition records_made :: "recorder \<Rightarrow> rat" where
  "records_made r = of_nat (unat (fc_sealed (rf_counters r)) + length (own_records r))"

text \<open>What the records made and the tokens left use of what the burst and the time allow.\<close>

definition in_budget :: "rat \<Rightarrow> rat \<Rightarrow> instant \<Rightarrow> recorder \<Rightarrow> bool" where
  "in_budget burst rate t0 r \<longleftrightarrow>
     bucket_ok burst rate (rf_bucket r)
     \<and> records_made r + bucket_debt t0 (rf_bucket r) \<le> burst"

lemma refill_debt: "bucket_debt t0 (bucket_refill now b) \<le> bucket_debt t0 b"
proof -
  define d where "d = max 0 (now - bk_last b)"
  define gain where "gain = of_int d / of_int nanos * bk_per_sec b"
  have l: "bk_last (bucket_refill now b) = bk_last b + d"
    by (simp add: bucket_refill_def Let_def d_def)
  have k: "bk_tokens (bucket_refill now b) \<le> bk_tokens b + gain" "bk_per_sec (bucket_refill now b) = bk_per_sec b"
    by (simp_all add: bucket_refill_def Let_def d_def gain_def)
  have "of_int (bk_last b + d - t0) / of_int nanos * bk_per_sec b
      = of_int (bk_last b - t0) / of_int nanos * bk_per_sec b + gain"
    unfolding gain_def by (simp add: add_divide_distrib diff_divide_distrib distrib_right left_diff_distrib)
  with k show ?thesis by (simp add: bucket_debt_def l)
qed

lemma refill_ok: "bucket_ok burst rate b \<Longrightarrow> bucket_ok burst rate (bucket_refill now b)"
  by (simp add: bucket_ok_def bucket_refill_def Let_def nanos_def del: of_int_max)

lemma take_debt:
  assumes "bucket_ok burst rate b" "try_take now b = (took, b')"
  shows "bucket_ok burst rate b'" "bucket_debt t0 b' + (if took then 1 else 0) \<le> bucket_debt t0 b"
proof -
  have "bucket_debt t0 (b2 \<lparr> bk_tokens := bk_tokens b2 - 1 \<rparr>) = bucket_debt t0 b2 - 1" for b2
    by (simp add: bucket_debt_def)
  with assms refill_debt [of t0 now b] refill_ok [OF assms(1), of now]
  show "bucket_ok burst rate b'" "bucket_debt t0 b' + (if took then 1 else 0) \<le> bucket_debt t0 b"
    by (auto simp: try_take_def Let_def bucket_ok_def split: if_splits)
qed

lemma budget_push:
  assumes "bucket_ok burst rate (rf_bucket r)"
    and "records_made r + 1 + bucket_debt t0 (rf_bucket r) \<le> burst"
  shows "in_budget burst rate t0 (push_ready rec r)"
  using assms by (auto simp: in_budget_def push_ready_def records_made_def own_records_def)

lemma records_made_simps [simp]:
  "records_made (r \<lparr> rf_bucket := b \<rparr>) = records_made r" "records_made (r \<lparr> rf_open := m \<rparr>) = records_made r"
  "records_made (r \<lparr> rf_summary := s \<rparr>) = records_made r" "records_made (r \<lparr> rf_overflow := xs \<rparr>) = records_made r"
  by (simp_all add: records_made_def own_records_def)

lemma budget_summary: "in_budget burst rate t0 r \<Longrightarrow> in_budget burst rate t0 (to_summary c n a f l r)"
  by (simp add: in_budget_def to_summary_def records_made_def own_records_def)

lemma budget_open [simp]: "in_budget burst rate t0 (r \<lparr> rf_open := m \<rparr>) = in_budget burst rate t0 r"
  by (simp add: in_budget_def)

lemma budget_take:
  assumes "in_budget burst rate t0 r" "try_take now (rf_bucket r) = (took, b)"
  shows "bucket_ok burst rate b" "records_made r + (if took then 1 else 0) + bucket_debt t0 b \<le> burst"
    "in_budget burst rate t0 (r \<lparr> rf_bucket := b \<rparr>)"
proof -
  have ok: "bucket_ok burst rate (rf_bucket r)" using assms(1) by (simp add: in_budget_def)
  show "bucket_ok burst rate b" by (rule take_debt [OF ok assms(2)])
  moreover show "records_made r + (if took then 1 else 0) + bucket_debt t0 b \<le> burst"
    using take_debt(2) [OF ok assms(2), of t0] assms(1) by (simp add: in_budget_def split: if_splits)
  ultimately show "in_budget burst rate t0 (r \<lparr> rf_bucket := b \<rparr>)"
    by (simp add: in_budget_def split: if_splits)
qed

lemma budget_admit:
  assumes "in_budget burst rate t0 r"
  shows "in_budget burst rate t0 (admit_record now c rec r)"
proof -
  obtain took b where t: "try_take now (rf_bucket r) = (took, b)" by fastforce
  show ?thesis using assms budget_take [OF assms t]
    by (cases took) (simp_all add: admit_record_def t budget_push budget_summary)
qed

lemma budget_close: "in_budget burst rate t0 r \<Longrightarrow> in_budget burst rate t0 (close_window R idem k r)"
  by (simp add: close_window_def Let_def budget_admit split: option.split)

lemma budget_close_windows: "in_budget burst rate t0 r \<Longrightarrow> in_budget burst rate t0 (close_windows R n ks r)"
  by (induction ks arbitrary: n r) (simp_all add: budget_close)

lemma budget_flush:
  assumes "in_budget burst rate t0 r"
  shows "in_budget burst rate t0 (flush_summary R idem r)"
proof -
  obtain took b where t: "try_take (fe_now R) (rf_bucket r) = (took, b)" by fastforce
  show ?thesis using assms budget_take [OF assms t]
    by (cases took) (simp_all add: flush_summary_def t budget_push)
qed

lemma budget_counters:
  "fc_sealed x = fc_sealed (rf_counters r) \<Longrightarrow>
     in_budget burst rate t0 (r \<lparr> rf_counters := x \<rparr>) = in_budget burst rate t0 r"
  by (simp add: in_budget_def records_made_def own_records_def)

lemma budget_noted: "in_budget burst rate t0 (count_noted r) = in_budget burst rate t0 r"
  unfolding count_noted_def by (rule budget_counters) simp

lemma budget_coalesced: "in_budget burst rate t0 (count_coalesced r) = in_budget burst rate t0 r"
  unfolding count_coalesced_def by (rule budget_counters) simp

lemma budget_note:
  assumes "in_budget burst rate t0 r"
  shows "in_budget burst rate t0 (note_at R x c r)"
proof (cases "counted x r")
  case False
  from note_uncounted [OF this, of R c] assms show ?thesis by (elim disjE) (simp_all only: budget_noted)
next
  case True
  have n: "in_budget burst rate t0 (note_closed R k (count_noted r))" for k
    using assms by (simp add: note_closed_def budget_noted budget_close split: option.split)
  from True show ?thesis
  proof (cases rule: note_cases [of x r c R])
    case (Fold k r1 w cred)
    show ?thesis unfolding Fold(4) using n [of k] Fold(2) by (simp add: budget_coalesced)
  next
    case (Full k r1)
    show ?thesis unfolding Full(3) using n [of k] Full(2) by (simp add: budget_summary)
  next
    case (New k r1 w rec)
    show ?thesis unfolding New(8) using n [of k] New(2) by (simp add: budget_admit)
  qed
qed

lemma budget_due: "in_budget burst rate t0 r \<Longrightarrow> in_budget burst rate t0 (due R r)"
  by (simp add: due_def Let_def budget_flush budget_close_windows)

lemma budget_bound:
  "in_budget burst rate t0 r \<Longrightarrow> records_made r \<le> burst + of_int (bk_last (rf_bucket r) - t0) / of_int nanos * rate"
  by (auto simp: in_budget_def bucket_ok_def bucket_debt_def)

text \<open>Fewer records keep the budget.\<close>

lemma budget_fewer:
  assumes "in_budget burst rate t0 r" "rf_bucket r' = rf_bucket r"
    and "unat (fc_sealed (rf_counters r')) + length (own_records r')
      \<le> unat (fc_sealed (rf_counters r)) + length (own_records r)"
  shows "in_budget burst rate t0 r'"
proof -
  have "records_made r' \<le> records_made r" using assms(3) unfolding records_made_def of_nat_le_iff .
  with assms(1,2) show ?thesis by (simp add: in_budget_def)
qed

lemma budget_unsealed [simp]: "in_budget burst rate t0 (count_unsealed r) = in_budget burst rate t0 r"
  unfolding count_unsealed_def by (rule budget_counters) simp

lemma budget_gaps:
  "in_budget burst rate t0 (fd_recorder (foldl (\<lambda>D x. gap_counted w (f x) (g x) (h x) D) D xs))
     = in_budget burst rate t0 (fd_recorder D)"
  by (induction xs arbitrary: D) simp_all

lemma budget_over_gaps:
  "in_budget burst rate t0 (fd_recorder (foldl (\<lambda>D (x, y, z). gap_counted w (f x y z) (g x y z) (h x y z) D) D xs))
     = in_budget burst rate t0 (fd_recorder D)"
proof (induction xs arbitrary: D)
  case (Cons p xs)
  obtain x y z where p: "p = (x, y, z)" by (cases p)
  show ?case unfolding foldl_Cons Cons.IH by (simp add: p)
qed simp

definition run_in_budget :: "rat \<Rightarrow> rat \<Rightarrow> instant \<Rightarrow> refusal_run \<Rightarrow> bool" where
  "run_in_budget burst rate t0 S \<longleftrightarrow> in_budget burst rate t0 (run_recorder S)"

lemma budget_note_step:
  "run_in_budget burst rate t0 S \<Longrightarrow> run_in_budget burst rate t0 (run_note R x c S)"
  by (simp add: run_in_budget_def run_note_def run_recorder_def budget_note)

lemma budget_close_step:
  "run_in_budget burst rate t0 S \<Longrightarrow> run_in_budget burst rate t0 (run_close R S)"
  by (simp add: run_in_budget_def run_close_def run_recorder_def close_all_windows_def budget_close_windows)

lemma budget_begin_step:
  assumes "run_in_budget burst rate t0 S" "run_ok S" "fresh_run R S"
  shows "run_in_budget burst rate t0 (run_begin R S)"
proof -
  obtain batch overflow r' where take: "take_due_at R refusal_batch (run_recorder S) = ((batch, overflow), r')"
    by (metis prod.collapse)
  have ok: "rec_ok (ru_held S) (run_recorder S)" and fr: "fresh_ids R (ru_held S) (run_recorder S)"
    using assms by (simp_all add: run_ok_def fresh_run_def)
  have "in_budget burst rate t0 (due R (run_recorder S))"
    using assms(1) by (simp add: run_in_budget_def budget_due)
  then have "in_budget burst rate t0 r'"
    by (rule budget_fewer)
      (use take take_due_facts(3) [OF ok fr take] in \<open>auto simp: take_due_alt\<close>)
  then show ?thesis
    by (simp add: run_in_budget_def run_begin_def drain_begin_def take [unfolded run_recorder_def]
        run_recorder_def budget_over_gaps)
qed

lemma budget_join_step:
  assumes "run_in_budget burst rate t0 S" "run_ok S" "rec \<in> set (ru_held S)"
  shows "run_in_budget burst rate t0 (run_join wall rec out S)"
proof -
  obtain claimed r' where fin: "finish_flight (og_idem rec) (fd_recorder (ru_sealer S)) = (claimed, r')" by fastforce
  have ok: "rec_ok (ru_held S) (fd_recorder (ru_sealer S))"
    using assms(2) by (simp add: run_ok_def run_recorder_def)
  have le: "length (own_records r') + (if claimed then 1 else 0) \<le> length (own_records (fd_recorder (ru_sealer S)))"
    by (rule finish_facts(3) [OF ok assms(3) fin])
  have same: "rf_bucket r' = rf_bucket (fd_recorder (ru_sealer S))"
    "rf_counters r' = rf_counters (fd_recorder (ru_sealer S))"
    using fin by (auto simp: finish_flight_def)
  have cl: "claim_flight (og_idem rec) (ru_sealer S) = (claimed, (ru_sealer S) \<lparr> fd_recorder := r' \<rparr>)"
    by (simp add: claim_flight_def fin)
  have b: "in_budget burst rate t0 (fd_recorder (ru_sealer S))"
    using assms(1) by (simp add: run_in_budget_def run_recorder_def)
  have b': "in_budget burst rate t0 r'"
    by (rule budget_fewer [OF b]) (use le same in \<open>simp_all split: if_splits\<close>)
  have b'': "in_budget burst rate t0 (count_sealed r')" if claimed
  proof (rule budget_fewer [OF b])
    have "unat (fc_sealed (rf_counters r') + 1) \<le> unat (fc_sealed (rf_counters r')) + 1"
      by (metis unat_plus_simple le_add1 unat_1 add_0 nle_le unat_word_ariths(1) mod_less_eq_dividend)
    then show "unat (fc_sealed (rf_counters (count_sealed r'))) + length (own_records (count_sealed r'))
        \<le> unat (fc_sealed (rf_counters (fd_recorder (ru_sealer S))))
          + length (own_records (fd_recorder (ru_sealer S)))"
      using that le same by (simp add: count_sealed_def own_records_def)
  qed (simp add: count_sealed_def same)
  show ?thesis
    using b b' b''
    by (cases out; cases claimed)
      (simp_all add: run_in_budget_def run_join_def drain_join_def cl run_recorder_def refusal_unsealed_def Let_def)
qed

lemma budget_end_step:
  assumes "run_in_budget burst rate t0 S" "run_ok S" "set retry \<subseteq> set (ru_held S)"
  shows "run_in_budget burst rate t0 (run_end wall retry S)"
proof -
  obtain dropped r' where req: "requeue_each (rev retry) ([], fd_recorder (ru_sealer S)) = (dropped, r')"
    by fastforce
  have ok: "rec_ok (ru_held S) (fd_recorder (ru_sealer S))"
    using assms(2) by (simp add: run_ok_def run_recorder_def)
  have b: "in_budget burst rate t0 (fd_recorder (ru_sealer S))"
    using assms(1) by (simp add: run_in_budget_def run_recorder_def)
  have same: "rf_bucket r' = rf_bucket r \<and> rf_counters r' = rf_counters r"
    if "requeue_each recs (dr, r) = (dr', r')" for recs dr r dr' r'
    using that by (induction recs arbitrary: dr r) (auto simp: Let_def split: if_splits)
  have "in_budget burst rate t0 r'"
    by (rule budget_fewer [OF b])
      (use requeue_facts [OF ok _ req] assms(3) same [OF req] in simp_all)
  then show ?thesis using b
    by (simp add: run_in_budget_def run_end_def drain_end_def run_recorder_def requeue_in_flight_def req
        refusal_unsealed_overflow_def budget_gaps)
qed

lemma budget_collect_step:
  assumes "run_in_budget burst rate t0 S"
  shows "run_in_budget burst rate t0 (run_collect R S)"
proof -
  obtain xs r' where take: "take_all_pending R (fd_recorder (ru_sealer S)) = (xs, r')" by fastforce
  have b: "in_budget burst rate t0 (fd_recorder (ru_sealer S))"
    using assms by (simp add: run_in_budget_def run_recorder_def)
  have "in_budget burst rate t0 r'"
    by (rule budget_fewer [OF b])
      (use take in \<open>auto simp: take_all_pending_def Let_def own_records_def split: if_splits\<close>)
  then show ?thesis
    by (simp add: run_in_budget_def run_collect_def collect_pending_def run_recorder_def take budget_gaps)
qed

lemma budget_step:
  "refusal_step S S' \<Longrightarrow> run_ok S \<Longrightarrow> run_in_budget burst rate t0 S \<Longrightarrow> run_in_budget burst rate t0 S'"
  by (cases rule: refusal_step.cases)
    (auto intro: budget_note_step budget_begin_step budget_join_step budget_end_step budget_close_step
      budget_collect_step)

lemma budget_runs:
  assumes "refusal_step\<^sup>*\<^sup>* S S'" "run_ok S" "run_in_budget burst rate t0 S"
  shows "run_in_budget burst rate t0 S'"
  using assms(1)
proof induction
  case (step S1 S2)
  show ?case by (rule budget_step [OF step.hyps(2) refusal_runs_ok [OF step.hyps(1) assms(2)] step.IH])
qed (rule assms(3))

lemma run_new_budget:
  "run_in_budget (of_nat (unat (fs_burst fs))) (of_nat (unat (fs_per_hour fs)) / 3600) now
     (run_new \<lparr> fd_recorder = recorder_new fs now, fd_gaps = G, fd_project = p \<rparr>)"
  by (simp add: run_in_budget_def run_new_def run_recorder_def recorder_new_def in_budget_def bucket_ok_def
      bucket_new_def records_made_def own_records_def bucket_debt_def del: of_nat_unat)

end
