(* ===== verification/Refusal_Properties.thy ===== *)
theory Refusal_Properties
  imports Refusal_Counts
begin

text \<open>
  What the record of refusals promises: nothing noted is lost or counted twice, and a flood of
  refusals cannot make more records than the burst and the hourly budget allow.
\<close>

definition sample_refusal_env :: refusal_env where
  "sample_refusal_env = \<lparr> fe_now = 5, fe_wall = 7, fe_fresh = (\<lambda>n. replicate n CHR ''a'') \<rparr>"

definition sample_refusal :: refusal_ctx where
  "sample_refusal = \<lparr> rc_entry = EntryMcp, rc_agent = Some ''a1'', rc_credential = None, rc_action = ''http.request'' \<rparr>"

definition sample_run :: refusal_run where
  "sample_run =
     run_new \<lparr> fd_recorder = recorder_new default_refusal_settings 0,
               fd_gaps = \<lparr> gl_pending = [], gl_gaps = 0, gl_overflowed = 0 \<rparr>, fd_project = ''p'' \<rparr>"

lemma sample_fresh: "fresh_run sample_refusal_env sample_run"
  by (simp add: fresh_run_def fresh_ids_def sample_refusal_env_def sample_run_def run_new_def run_recorder_def
      recorder_new_def own_records_def inj_def)

lemma sample_steps:
  "refusal_step\<^sup>*\<^sup>* sample_run (run_note sample_refusal_env sample_refusal RefPolicyDeny sample_run)"
  by (rule r_into_rtranclp, rule refusal_step.Note, rule sample_fresh)



text \<open>C32: The records sealed, waiting and in flight are never more than the burst and what the hourly
  budget adds in the time that has passed, however many refusals there are.\<close>

theorem refusal_records_bounded:
  assumes "refusal_step\<^sup>*\<^sup>* (run_new \<lparr> fd_recorder = recorder_new fs now, fd_gaps = G, fd_project = p \<rparr>) S"
  shows "of_nat (unat (fc_sealed (rf_counters (run_recorder S))) + length (own_records (run_recorder S)))
    \<le> (of_nat (unat (fs_burst fs)) :: rat)
      + of_int (bk_last (rf_bucket (run_recorder S)) - now) / of_int nanos * (of_nat (unat (fs_per_hour fs)) / 3600)"
  using budget_bound [OF budget_runs [OF assms run_new_ok run_new_budget, unfolded run_in_budget_def]]
  unfolding records_made_def .

theorem refusal_records_bounded_witness:
  "of_nat (unat (fc_sealed (rf_counters (run_recorder
       (run_note sample_refusal_env sample_refusal RefPolicyDeny sample_run))))
     + length (own_records (run_recorder (run_note sample_refusal_env sample_refusal RefPolicyDeny sample_run))))
   \<le> (61 :: rat)"
proof -
  have "bk_last (rf_bucket (run_recorder (run_note sample_refusal_env sample_refusal RefPolicyDeny sample_run))) = 5"
    by code_simp
  with refusal_records_bounded [OF sample_steps [unfolded sample_run_def], folded sample_run_def]
  show ?thesis by (simp add: default_refusal_settings_def nanos_def)
qed

end
