(* ===== verification/Capability_Properties.thy ===== *)
theory Capability_Properties
  imports Capability
begin

text \<open>
  What an operator pins in a capability is what runs, whatever arguments a model sends, and an
  address that names a private one through another spelling is refused.
\<close>

section \<open>Overlays\<close>

lemma overlay_simps [simp]: "overlay [] m = m" "overlay ((k, v) # ps) m = overlay ps (bt_put k v m)"
  by (simp_all add: overlay_def)

lemma overlay_ok: "bt_ok m \<Longrightarrow> bt_ok (overlay ps m)"
  by (induction ps arbitrary: m) (auto simp: bt_ok_put)

lemma map_of_overlay:
  "distinct (map fst ps) \<Longrightarrow> map_of (overlay ps m) = map_of m ++ map_of ps"
proof (induction ps arbitrary: m)
  case (Cons p ps)
  obtain k v where p: "p = (k, v)" by (cases p)
  have n: "map_of ps k = None" using Cons.prems p by (simp add: map_of_eq_None_iff)
  have "map_of (overlay (p # ps) m) = (map_of m)(k \<mapsto> v) ++ map_of ps"
    using Cons by (simp add: p map_of_bt_put)
  also have "\<dots> = map_of m ++ map_of (p # ps)"
    using n by (auto simp: fun_eq_iff p map_add_def split: option.split)
  finally show ?case .
qed simp

lemma overlay_wins: "distinct (map fst ps) \<Longrightarrow> map_of ps k = Some v \<Longrightarrow> map_of (overlay ps m) k = Some v"
  by (simp add: map_of_overlay)

lemma pinned_verb: "resolve_pinned_http_method c = Inr m \<Longrightarrow> m \<in> set internal_http_verbs"
  by (auto simp: resolve_pinned_http_method_def Let_def split: option.splits if_splits list.splits)

section \<open>Headers\<close>

lemma eq_case_trans:
  "eq_ignore_ascii_case a b \<Longrightarrow> eq_ignore_ascii_case c b \<Longrightarrow> eq_ignore_ascii_case a c"
  by (simp add: eq_ignore_ascii_case_def)

definition pinned_headers :: "capability \<Rightarrow> (string \<times> json) list" where
  "pinned_headers c = (case Option.bind (map_of (ct_plugin_params (cp_target c)) ''headers'') j_obj of
                         Some h \<Rightarrow> h | None \<Rightarrow> [])"

definition names_pinned :: "capability \<Rightarrow> string \<Rightarrow> bool" where
  "names_pinned c k \<longleftrightarrow> list_ex (\<lambda>(p, w). eq_ignore_ascii_case k p) (pinned_headers c)"

lemma http_headers_ok: "bt_ok (http_headers c args)"
  unfolding http_headers_def Let_def
  by (cases "Option.bind (map_of (ct_plugin_params (cp_target c)) ''headers'') j_obj";
      cases "Option.bind (map_of args ''headers'') j_obj") (simp_all add: overlay_ok bt_ok_filter)

lemma http_headers_pinned:
  assumes "bt_ok (pinned_headers c)" "map_of (http_headers c args) k = Some v" "names_pinned c k"
  shows "map_of (pinned_headers c) k = Some v"
proof (cases "Option.bind (map_of (ct_plugin_params (cp_target c)) ''headers'') j_obj")
  case None
  with assms(3) show ?thesis by (simp add: names_pinned_def pinned_headers_def)
next
  case (Some h)
  then have h: "pinned_headers c = h" by (simp add: pinned_headers_def)
  define agent where "agent = (case Option.bind (map_of args ''headers'') j_obj of Some h \<Rightarrow> overlay h [] | None \<Rightarrow> [])"
  define kept where "kept = filter (\<lambda>(k, v). \<not> list_ex (\<lambda>(p, w). eq_ignore_ascii_case k p) h) agent"
  have "http_headers c args = overlay h kept"
    using Some by (simp add: http_headers_def Let_def agent_def kept_def)
  then have "(map_of kept ++ map_of h) k = Some v"
    using assms(1,2) h bt_ok_distinct [of h] by (simp add: map_of_overlay)
  moreover have "map_of kept k = None"
    using assms(3) by (auto simp: kept_def names_pinned_def h map_of_eq_None_iff)
  ultimately show ?thesis by (auto simp: h map_add_def split: option.splits)
qed

lemma pinned_present:
  assumes "bt_ok (pinned_headers c)" "map_of (pinned_headers c) p = Some w"
  shows "map_of (http_headers c args) p = Some w"
proof -
  obtain h where h: "Option.bind (map_of (ct_plugin_params (cp_target c)) ''headers'') j_obj = Some h" "pinned_headers c = h"
    using assms(2) by (cases "Option.bind (map_of (ct_plugin_params (cp_target c)) ''headers'') j_obj")
      (auto simp: pinned_headers_def)
  show ?thesis using assms overlay_wins [OF bt_ok_distinct [of h]] h(2)
    by (simp add: http_headers_def h Let_def)
qed

definition with_notion :: "bool \<Rightarrow> (string \<times> json) list \<Rightarrow> (string \<times> json) list" where
  "with_notion notion headers =
     (if notion \<and> \<not> list_ex (\<lambda>(k, v). eq_ignore_ascii_case k ''Notion-Version'') headers
      then bt_put ''Notion-Version'' (JStr ''2022-06-28'') headers else headers)"

lemma notion_pinned:
  assumes ok: "bt_ok (pinned_headers c)"
    and k: "map_of (with_notion notion (http_headers c args)) k = Some v" "names_pinned c k"
  shows "map_of (pinned_headers c) k = Some v"
proof (cases "k = ''Notion-Version'' \<and> notion
      \<and> \<not> list_ex (\<lambda>(k, v). eq_ignore_ascii_case k ''Notion-Version'') (http_headers c args)")
  case True
  obtain p w where p: "(p, w) \<in> set (pinned_headers c)" "eq_ignore_ascii_case k p"
    using k(2) by (auto simp: names_pinned_def list_ex_iff)
  then have "map_of (pinned_headers c) p = Some w" using bt_ok_distinct [OF ok] by simp
  then have "(p, w) \<in> set (http_headers c args)" using pinned_present [OF ok] map_of_SomeD by fast
  with True p(2) show ?thesis by (auto simp: list_ex_iff eq_ignore_ascii_case_def)
next
  case False
  then have "map_of (http_headers c args) k = Some v"
    using k(1) by (auto simp: with_notion_def map_of_bt_put split: if_splits)
  then show ?thesis by (rule http_headers_pinned [OF ok _ k(2)])
qed

lemma http_params_headers:
  assumes "build_http_params upper c args = JObj ps" "map_of ps ''headers'' = Some (JObj hs)"
  obtains notion where "hs = with_notion notion (http_headers c args)"
  using assms unfolding build_http_params_def Let_def with_notion_def [symmetric]
  by (auto simp: map_of_bt_put split: if_splits option.splits)

section \<open>Properties\<close>

definition sample_capability :: capability where
  "sample_capability =
     \<lparr> cp_id = ''c1'', cp_tool_name = ''run'', cp_description = [], cp_action = ''ssh.exec'', cp_plugin = None,
       cp_target = \<lparr> ct_url_glob = None, ct_methods = [''get''],
                     ct_plugin_params = [(''headers'', JObj [(''X-Team'', JStr ''ops'')]), (''host'', JStr ''h1'')] \<rparr>,
       cp_credential_ref = ''k'', cp_input_schema = JObj [(''additionalProperties'', JBool True)], cp_reversibility = ''reversible'',
       cp_llm = None, cp_approval_preview = None \<rparr>"

definition sample_arguments :: json where
  "sample_arguments = JObj [(''command'', JStr ''ls''), (''host'', JStr ''h2'')]"

lemma built_params:
  assumes "build_action_params upper c plugin args = Inr params"
  obtains obj where "j_obj args = Some obj" "validate_input c args = Inr ()"
    "plugin = ''http'' \<Longrightarrow> params = build_http_params upper c obj"
    "plugin = internal_http_plugin \<Longrightarrow> build_internal_http_params c obj = Inr params"
    "plugin \<noteq> ''http'' \<Longrightarrow> plugin \<noteq> internal_http_plugin \<Longrightarrow>
       params = JObj (overlay (ct_plugin_params (cp_target c)) obj)"
proof -
  obtain obj where o: "j_obj args = Some obj" using assms by (cases "j_obj args") (simp_all add: build_action_params_def)
  moreover have v: "validate_input c args = Inr ()"
    using assms o by (cases "validate_input c args") (simp_all add: build_action_params_def)
  moreover have "(if plugin = ''http'' then Inr (build_http_params upper c obj)
      else if plugin = internal_http_plugin then build_internal_http_params c obj
      else Inr (JObj (overlay (ct_plugin_params (cp_target c)) obj))) = Inr params"
    using assms by (simp add: build_action_params_def o v)
  moreover have "''http'' \<noteq> internal_http_plugin" by (simp add: internal_http_plugin_def)
  ultimately show ?thesis by (intro that [of obj]) (simp_all split: if_splits)
qed

text \<open>C33: The parameters of a capability call carry what the operator pinned: over the internal
  transport the verb is the pinned one and the caller named none, every other pinned parameter keeps
  its value, and over HTTP no header that names a pinned one in any case differs from it.\<close>

theorem operator_pins_win:
  assumes built: "build_action_params upper c plugin args = Inr (JObj ps)"
    and ok: "bt_ok (ct_plugin_params (cp_target c))" "bt_ok (pinned_headers c)"
  shows "(plugin \<noteq> ''http'' \<and> map_of (ct_plugin_params (cp_target c)) k = Some v
      \<and> \<not> (plugin = internal_http_plugin \<and> k = ''method'') \<longrightarrow> map_of ps k = Some v)
    \<and> (plugin = internal_http_plugin \<longrightarrow>
      (\<exists>m. resolve_pinned_http_method c = Inr m \<and> m \<in> set internal_http_verbs \<and> map_of ps ''method'' = Some (JStr m)))
    \<and> (plugin = ''http'' \<and> map_of ps ''headers'' = Some (JObj hs) \<and> map_of hs k = Some v \<and> names_pinned c k
      \<longrightarrow> map_of (pinned_headers c) k = Some v)"
proof (intro conjI impI)
  obtain obj where obj: "plugin = ''http'' \<Longrightarrow> JObj ps = build_http_params upper c obj"
    "plugin = internal_http_plugin \<Longrightarrow> build_internal_http_params c obj = Inr (JObj ps)"
    "plugin \<noteq> ''http'' \<Longrightarrow> plugin \<noteq> internal_http_plugin \<Longrightarrow>
       JObj ps = JObj (overlay (ct_plugin_params (cp_target c)) obj)"
    by (rule built_params [OF built]) blast
  note wins = overlay_wins [OF bt_ok_distinct [OF ok(1)]]
  show "map_of ps k = Some v" if "plugin \<noteq> ''http'' \<and> map_of (ct_plugin_params (cp_target c)) k = Some v
      \<and> \<not> (plugin = internal_http_plugin \<and> k = ''method'')"
    using that obj wins [of k v]
    by (cases "plugin = internal_http_plugin")
      (auto simp: build_internal_http_params_def map_of_bt_put split: if_splits sum.splits)
  show "\<exists>m. resolve_pinned_http_method c = Inr m \<and> m \<in> set internal_http_verbs \<and> map_of ps ''method'' = Some (JStr m)"
    if "plugin = internal_http_plugin"
    using obj(2) [OF that] pinned_verb
    by (auto simp: build_internal_http_params_def map_of_bt_put split: if_splits sum.splits)
  show "map_of (pinned_headers c) k = Some v"
    if h: "plugin = ''http'' \<and> map_of ps ''headers'' = Some (JObj hs) \<and> map_of hs k = Some v \<and> names_pinned c k"
  proof -
    from h obj(1) have "build_http_params upper c obj = JObj ps" "map_of ps ''headers'' = Some (JObj hs)" by simp_all
    then obtain notion where "hs = with_notion notion (http_headers c obj)" by (rule http_params_headers)
    with h show ?thesis by (auto intro: notion_pinned [OF ok(2)])
  qed
qed

theorem operator_pins_win_witness:
  "(\<exists>ps. build_action_params id sample_capability ''ssh'' sample_arguments = Inr (JObj ps)
     \<and> map_of ps ''host'' = Some (JStr ''h1''))"
proof -
  obtain ps where ps: "build_action_params id sample_capability ''ssh'' sample_arguments = Inr (JObj ps)"
  proof
    show "build_action_params id sample_capability ''ssh'' sample_arguments =
        Inr (JObj [(''command'', JStr ''ls''), (''headers'', JObj [(''X-Team'', JStr ''ops'')]), (''host'', JStr ''h1'')])"
      by code_simp
  qed
  have "bt_ok (ct_plugin_params (cp_target sample_capability)) \<and> bt_ok (pinned_headers sample_capability)"
    by (simp add: sample_capability_def pinned_headers_def bt_ok_def)
  then show ?thesis
    using ps operator_pins_win [OF ps, of "''host''" "JStr ''h1''"]
    by (auto simp: sample_capability_def internal_http_plugin_def)
qed

text \<open>C34: An address that a blocked address of version 4 hides in, as a mapped address, behind the
  NAT64 prefix or as 6to4, counts as private, and the resolver passes on no private address.\<close>

theorem hidden_private_addresses:
  assumes "ipv4_is_special_purpose a"
  shows "is_private_ip (V4 a) \<and> is_private_ip (V6 (mapped_v6 a)) \<and> is_private_ip (V6 (nat64_v6 a))
    \<and> is_private_ip (V6 (sixtofour_v6 a rest))
    \<and> (filter_public_addrs addrs = Inr public \<longrightarrow> set public \<inter> {V4 a, V6 (mapped_v6 a), V6 (nat64_v6 a), V6 (sixtofour_v6 a rest)} = {})"
proof -
  have p: "is_private_ip (V4 a)" "is_private_ip (V6 (mapped_v6 a))" "is_private_ip (V6 (nat64_v6 a))"
    "is_private_ip (V6 (sixtofour_v6 a rest))"
    by (simp only: is_private_ip.simps(1) assms, rule mapped_private [OF assms], rule nat64_private [OF assms],
        rule sixtofour_private [OF assms])
  moreover have "\<not> is_private_ip x" if "filter_public_addrs addrs = Inr public" "x \<in> set public" for x
    using that by (auto simp: filter_public_addrs_def Let_def simp del: is_private_ip.simps split: if_splits)
  ultimately show ?thesis by (auto simp del: is_private_ip.simps)
qed

theorem hidden_private_addresses_witness:
  "is_private_ip (V6 (nat64_v6 0x7f000001)) \<and> filter_public_addrs [V4 0x7f000001] \<noteq> Inr [V4 0x7f000001]"
proof -
  have "ipv4_is_special_purpose 0x7f000001" by code_simp
  from hidden_private_addresses [OF this, of 0 "[V4 0x7f000001]" "[V4 0x7f000001]"]
  show ?thesis by (auto simp del: is_private_ip.simps)
qed

end
