(* ===== verification/Egress.thy ===== *)
theory Egress
  imports Capability "HOL-Library.Sublist"
begin

text \<open>
  The egress controls of \<open>src/src/egress.rs\<close>: the spellings of a credential's secrets, their removal
  from buffered responses, the operator's rules, the final check, and the scrubber of streamed bodies.

  The encoders of the packages (base64, hexadecimal, URL encoding, JSON strings) are arguments.  A
  compiled pattern of a rule is the function that replaces its matches, a compiled glob the set of
  the texts it matches.  The URL encoder yields ASCII text, the only input of \<open>percent_hex_lower\<close>.
  Wiping memory has no effect here.
\<close>

section \<open>Spellings of a secret\<close>

record egress_lib =
  el_base64 :: "bool \<Rightarrow> bool \<Rightarrow> string \<Rightarrow> string"
  el_hex :: "bool \<Rightarrow> string \<Rightarrow> string"
  el_urlencode :: "string \<Rightarrow> string"
  el_json_string :: "string \<Rightarrow> string option"

definition min_redact_len :: nat where
  "min_redact_len = 5"

definition base64_core_min_len :: nat where
  "base64_core_min_len = 16"

definition has_unredactable_secret :: "string list \<Rightarrow> bool" where
  "has_unredactable_secret secrets \<longleftrightarrow> list_ex (\<lambda>s. length s < min_redact_len) secrets"

definition hex_digit :: "bool \<Rightarrow> nat \<Rightarrow> char" where
  "hex_digit upper n = (if upper then hex_upper n else lower_char (hex_upper n))"

definition percent_encode_safe :: "string \<Rightarrow> bool \<Rightarrow> string \<Rightarrow> string" where
  "percent_encode_safe extra_safe upper s =
     concat (map (\<lambda>c.
       if byte c < 128 \<and> (is_alnum c \<or> c \<in> set ''-_.~'' \<or> c \<in> set extra_safe) then [c]
       else [CHR ''%'', hex_digit upper (byte c div 16), hex_digit upper (byte c mod 16)]) s)"

fun percent_hex_lower :: "string \<Rightarrow> string" where
  "percent_hex_lower (c # a # b # s) =
     (if c = CHR ''%'' then c # lower_char a # lower_char b # percent_hex_lower s
      else c # percent_hex_lower (a # b # s))"
| "percent_hex_lower s = s"

text \<open>The characters of a text and their code points.\<close>

fun text_chars :: "string \<Rightarrow> string list" where
  "text_chars [] = []"
| "text_chars (c # s) =
     (let n = snd (utf8_step (c # s)) in take n (c # s) # text_chars (drop (n - 1) s))"

definition code_point :: "string \<Rightarrow> nat" where
  "code_point cs =
     (let b = (\<lambda>i. byte (cs ! i)) in
      if length cs = 2 then (b 0 - 0xC0) * 64 + (b 1 - 0x80)
      else if length cs = 3 then (b 0 - 0xE0) * 4096 + (b 1 - 0x80) * 64 + (b 2 - 0x80)
      else if length cs = 4 then (b 0 - 0xF0) * 262144 + (b 1 - 0x80) * 4096 + (b 2 - 0x80) * 64 + (b 3 - 0x80)
      else b 0)"

definition unicode_escape :: "bool \<Rightarrow> nat \<Rightarrow> string" where
  "unicode_escape upper n =
     [CHR 0x5C, CHR ''u'', hex_digit upper (n div 4096 mod 16), hex_digit upper (n div 256 mod 16),
      hex_digit upper (n div 16 mod 16), hex_digit upper (n mod 16)]"

definition json_char_escaped :: "bool \<Rightarrow> bool \<Rightarrow> string \<Rightarrow> string" where
  "json_char_escaped upper html_safe cs =
     (let n = code_point cs in
      if n = 0x22 then [CHR 0x5C, CHR 0x22]
      else if n = 0x5C then [CHR 0x5C, CHR 0x5C]
      else if n = 0x0A then [CHR 0x5C, CHR ''n'']
      else if n = 0x0D then [CHR 0x5C, CHR ''r'']
      else if n = 0x09 then [CHR 0x5C, CHR ''t'']
      else if html_safe \<and> (n = 0x3C \<or> n = 0x3E \<or> n = 0x26) then unicode_escape upper n
      else if 0x20 \<le> n \<and> n \<le> 0x7E then cs
      else if n \<le> 0xFFFF then unicode_escape upper n
      else (let m = n - 0x10000
            in unicode_escape upper (0xD800 + m div 1024) @ unicode_escape upper (0xDC00 + m mod 1024)))"

definition json_unicode_escaped :: "bool \<Rightarrow> bool \<Rightarrow> string \<Rightarrow> string" where
  "json_unicode_escaped upper html_safe s = concat (map (json_char_escaped upper html_safe) (text_chars s))"

definition json_escaped_inner :: "egress_lib \<Rightarrow> string \<Rightarrow> string option" where
  "json_escaped_inner L s =
     (case el_json_string L s of
        None \<Rightarrow> None
      | Some j \<Rightarrow> if length j < 2 then None else Some (butlast (tl j)))"

definition slash_escaped :: "string \<Rightarrow> string" where
  "slash_escaped s = replace_str ''/'' [CHR 0x5C, CHR ''/''] s"

text \<open>The spellings of one secret, in the order in which they are collected.\<close>

definition percent_forms :: "egress_lib \<Rightarrow> string \<Rightarrow> string list" where
  "percent_forms L raw =
     (let pct = el_urlencode L raw; low = percent_hex_lower pct
      in (if contains_str ''%20'' pct
          then [replace_str ''%20'' ''+'' pct, replace_str ''%20'' ''+'' low] else [])
         @ (if low \<noteq> pct then [low] else []) @ [pct]
         @ concat (map (\<lambda>safe. [percent_encode_safe safe True raw, percent_encode_safe safe False raw])
             [''!~*'' @ [CHR 0x27] @ ''()'', ''/'', ''$&+=:@'', ''!$&'' @ [CHR 0x27] @ ''()*+,;=:@'']))"

definition base64_core :: "egress_lib \<Rightarrow> string \<Rightarrow> nat \<Rightarrow> string list" where
  "base64_core L raw shift =
     (if length raw \<le> shift then []
      else (let rest = drop shift raw; core = take (length rest div 3 * 3) rest
            in if length core div 3 * 4 < base64_core_min_len then []
               else [el_base64 L False False core, el_base64 L True False core]))"

definition binary_forms :: "egress_lib \<Rightarrow> string \<Rightarrow> string list" where
  "binary_forms L raw =
     [el_base64 L False True raw, el_base64 L False False raw, el_base64 L True True raw,
      el_base64 L True False raw, el_hex L False raw, el_hex L True raw]
     @ base64_core L raw 0 @ base64_core L raw 1 @ base64_core L raw 2"

definition nested_forms :: "egress_lib \<Rightarrow> string \<Rightarrow> string list" where
  "nested_forms L base =
     (case json_escaped_inner L base of
        None \<Rightarrow> []
      | Some a \<Rightarrow> a # (case json_escaped_inner L a of None \<Rightarrow> [] | Some b \<Rightarrow> [b]))"

definition json_forms :: "egress_lib \<Rightarrow> string \<Rightarrow> string list" where
  "json_forms L raw =
     (case json_escaped_inner L raw of
        None \<Rightarrow> []
      | Some e \<Rightarrow>
          nested_forms L e @ nested_forms L (slash_escaped e)
          @ (if CHR ''/'' \<in> set e then [slash_escaped e] else []) @ [e])
     @ (if CHR ''/'' \<in> set raw then [slash_escaped raw] else [])"

definition unicode_forms :: "string \<Rightarrow> string list" where
  "unicode_forms raw =
     (if list_ex (\<lambda>c. 128 \<le> byte c \<or> c \<in> set ''<>&'') raw
      then concat (map (\<lambda>(upper, html_safe).
             let e = json_unicode_escaped upper html_safe raw
             in (if CHR ''/'' \<in> set e then [slash_escaped e] else []) @ [e])
             [(False, False), (False, True), (True, False), (True, True)])
      else [])"

definition forms_of :: "egress_lib \<Rightarrow> string \<Rightarrow> string list" where
  "forms_of L raw =
     (if length raw < min_redact_len then []
      else raw # filter (\<lambda>f. f \<noteq> raw \<and> min_redact_len \<le> length f)
             (percent_forms L raw @ binary_forms L raw @ json_forms L raw @ unicode_forms raw))"

definition derive_secret_forms :: "egress_lib \<Rightarrow> string list \<Rightarrow> string list" where
  "derive_secret_forms L secrets =
     sort_key (\<lambda>f. - int (length f)) (remdups_adj (sort (concat (map (forms_of L) secrets))))"

section \<open>Buffered responses\<close>

record execute_response =
  xr_status :: "16 word"
  xr_headers :: "string table"
  xr_body :: string
  xr_updated_credential :: "credential_data option"

record egress_rule =
  er_credential :: "string \<Rightarrow> bool"
  er_action :: "string \<Rightarrow> bool"
  er_block :: bool
  er_redact :: "(string \<Rightarrow> string) list"

definition redacted_marker :: string where
  "redacted_marker = ''[REDACTED]''"

fun replace_from :: "string \<Rightarrow> string \<Rightarrow> string \<Rightarrow> string \<times> bool" where
  "replace_from needle repl [] = ([], False)"
| "replace_from needle repl (c # s) =
     (if starts_with (c # s) needle
      then (case replace_from needle repl (drop (length needle - 1) s) of (out, _) \<Rightarrow> (repl @ out, True))
      else (case replace_from needle repl s of (out, hit) \<Rightarrow> (c # out, hit)))"

definition replace_bytes :: "string \<Rightarrow> string \<Rightarrow> string \<Rightarrow> string \<times> bool" where
  "replace_bytes haystack needle repl =
     (if needle = [] \<or> length haystack < length needle then (haystack, False)
      else replace_from needle repl haystack)"

definition find_bytes :: "string \<Rightarrow> string \<Rightarrow> bool" where
  "find_bytes haystack needle \<longleftrightarrow> needle \<noteq> [] \<and> contains_str needle haystack"

definition scrub_value :: "string list \<Rightarrow> string \<Rightarrow> string \<Rightarrow> string" where
  "scrub_value forms marker v =
     foldl (\<lambda>v f. if contains_str f v then replace_str f marker v else v) v forms"

definition scrub_header_values :: "string list \<Rightarrow> string \<Rightarrow> string table \<Rightarrow> string table \<times> bool" where
  "scrub_header_values forms marker hs =
     (map (\<lambda>(k, v). (k, scrub_value forms marker v)) hs,
      list_ex (\<lambda>(k, v). list_ex (\<lambda>f. contains_str f v) forms) hs)"

definition redact_body :: "string list \<Rightarrow> string \<Rightarrow> string \<times> bool" where
  "redact_body forms body =
     foldl (\<lambda>(b, m) f. case replace_bytes b f redacted_marker of (b', hit) \<Rightarrow> if hit then (b', True) else (b, m))
       (body, False) forms"

definition redact_secret_material ::
  "egress_lib \<Rightarrow> string list \<Rightarrow> execute_response \<Rightarrow> execute_response \<times> bool" where
  "redact_secret_material L secrets r =
     (let forms = derive_secret_forms L secrets in
      case redact_body forms (xr_body r) of (body, hit) \<Rightarrow>
        (case scrub_header_values forms redacted_marker (xr_headers r) of
           (hs, m) \<Rightarrow> (r \<lparr> xr_body := body, xr_headers := hs \<rparr>, hit \<or> m)))"

definition is_compression :: "string \<Rightarrow> bool" where
  "is_compression v =
     list_ex (\<lambda>t. t \<noteq> [] \<and> \<not> eq_ignore_ascii_case t ''identity'' \<and> \<not> eq_ignore_ascii_case t ''chunked'')
       (map trim (split_on (CHR '','') v))"

definition headers_indicate_compression :: "string table \<Rightarrow> bool" where
  "headers_indicate_compression hs =
     list_ex (\<lambda>(k, v). (eq_ignore_ascii_case k ''content-encoding'' \<or> eq_ignore_ascii_case k ''transfer-encoding'')
                       \<and> is_compression v) hs"

definition text_plain :: "string table" where
  "text_plain = [(''Content-Type'', ''text/plain'')]"

definition block_if_compressed :: "execute_response \<Rightarrow> execute_response \<times> bool" where
  "block_if_compressed r =
     (if headers_indicate_compression (xr_headers r)
      then (r \<lparr> xr_body := ''[vultrino: response withheld - a compressed body could not be scrubbed for secrets]'',
                xr_headers := text_plain \<rparr>, True)
      else (r, False))"

definition strip_content_framing_headers :: "execute_response \<Rightarrow> execute_response" where
  "strip_content_framing_headers r =
     r \<lparr> xr_headers := filter (\<lambda>(k, v). \<not> eq_ignore_ascii_case k ''content-length''
                                     \<and> \<not> eq_ignore_ascii_case k ''transfer-encoding'') (xr_headers r) \<rparr>"

fun valid_utf8 :: "string \<Rightarrow> bool" where
  "valid_utf8 [] = True"
| "valid_utf8 (c # s) = (case utf8_step (c # s) of (ok, n) \<Rightarrow> ok \<and> valid_utf8 (drop (n - 1) s))"

definition egress_rule_matches :: "string \<Rightarrow> string \<Rightarrow> egress_rule \<Rightarrow> bool" where
  "egress_rule_matches alias act r \<longleftrightarrow> er_credential r alias \<and> er_action r act"

definition apply_redactions :: "(string \<Rightarrow> string) list \<Rightarrow> string \<Rightarrow> string" where
  "apply_redactions ps s = foldl (\<lambda>s p. p s) s ps"

text \<open>A header counts as changed when one of the patterns changes what the earlier ones left.\<close>

definition changes :: "(string \<Rightarrow> string) list \<Rightarrow> string \<Rightarrow> bool" where
  "changes ps s \<longleftrightarrow> snd (foldl (\<lambda>(s, m) p. (p s, m \<or> p s \<noteq> s)) (s, False) ps)"

definition apply_egress ::
  "egress_rule list \<Rightarrow> string \<Rightarrow> string \<Rightarrow> execute_response \<Rightarrow> execute_response \<times> bool" where
  "apply_egress rules alias act r =
     (case find (egress_rule_matches alias act) rules of
        None \<Rightarrow> (r, False)
      | Some rule \<Rightarrow>
          if er_block rule then
            (r \<lparr> xr_body := ''[vultrino: response body withheld by egress policy (secret-bearing endpoint)]'',
                 xr_headers := text_plain \<rparr>, True)
          else if er_redact rule = [] then (r, False)
          else
            (let body = (if valid_utf8 (xr_body r) then apply_redactions (er_redact rule) (xr_body r) else xr_body r)
             in (r \<lparr> xr_body := body,
                     xr_headers := map (\<lambda>(k, v). (k, apply_redactions (er_redact rule) v)) (xr_headers r) \<rparr>,
                 body \<noteq> xr_body r \<or> list_ex (\<lambda>(k, v). changes (er_redact rule) v) (xr_headers r))))"

definition scrub_response ::
  "egress_lib \<Rightarrow> string list \<Rightarrow> string \<Rightarrow> egress_rule list \<Rightarrow> string \<Rightarrow> execute_response \<Rightarrow> execute_response" where
  "scrub_response L secrets alias rules act r =
     (case block_if_compressed r of
        (r', True) \<Rightarrow> r'
      | (r', False) \<Rightarrow>
          (case redact_secret_material L secrets r' of (r1, redacted) \<Rightarrow>
             (case apply_egress rules alias act r1 of (r2, classified) \<Rightarrow>
                if redacted \<or> classified then strip_content_framing_headers r2 else r2)))"

definition withhold_unredactable :: "execute_response \<Rightarrow> execute_response" where
  "withhold_unredactable r = r \<lparr> xr_body := [], xr_headers := [] \<rparr>"

definition response_contains_form :: "execute_response \<Rightarrow> string \<Rightarrow> bool" where
  "response_contains_form r form \<longleftrightarrow>
     form \<noteq> [] \<and> (find_bytes (xr_body r) form \<or> list_ex (\<lambda>(k, v). contains_str form v) (xr_headers r))"

definition checked_forms :: "egress_lib \<Rightarrow> string list \<Rightarrow> string list" where
  "checked_forms L secrets = remdups_adj (sort (derive_secret_forms L secrets @ secrets))"

definition diagnostic_may_contain_secret :: "egress_lib \<Rightarrow> string \<Rightarrow> string list \<Rightarrow> bool" where
  "diagnostic_may_contain_secret L diagnostic secrets \<longleftrightarrow>
     has_unredactable_secret secrets \<or> list_ex (find_bytes diagnostic) (checked_forms L secrets)"

definition scrub_set_with_minted :: "egress_lib \<Rightarrow> string list \<Rightarrow> credential_data option \<Rightarrow> string list" where
  "scrub_set_with_minted L secrets minted =
     secrets @ (case minted of Some d \<Rightarrow> secret_material (el_base64 L False True) d | None \<Rightarrow> [])"

definition confine_response ::
  "egress_lib \<Rightarrow> string list \<Rightarrow> string \<Rightarrow> egress_rule list \<Rightarrow> string \<Rightarrow> execute_response \<Rightarrow> execute_response" where
  "confine_response L secrets alias rules act r =
     (if has_unredactable_secret secrets then withhold_unredactable r
      else
        (let r' = scrub_response L secrets alias rules act r
         in if list_ex (response_contains_form r') (checked_forms L secrets) then withhold_unredactable r' else r'))"

definition confine_stream_headers :: "string list \<Rightarrow> string table \<Rightarrow> string table \<times> bool" where
  "confine_stream_headers forms hs =
     (case scrub_header_values forms redacted_marker hs of
        (hs', m) \<Rightarrow>
          if list_ex (\<lambda>f. f \<noteq> [] \<and> list_ex (\<lambda>(k, v). find_bytes v f) hs') forms then ([], True) else (hs', m))"

definition stream_is_egress_safe :: "egress_rule list \<Rightarrow> string \<Rightarrow> string \<Rightarrow> bool" where
  "stream_is_egress_safe rules alias act \<longleftrightarrow>
     \<not> list_ex (\<lambda>r. egress_rule_matches alias act r \<and> (er_block r \<or> er_redact r \<noteq> [])) rules"

section \<open>Streamed bodies\<close>

datatype scrub_error = BufferOverflow | UnsafeOutput

record stream_scrubber =
  ss_forms :: "string list"
  ss_carry :: string
  ss_keep :: nat
  ss_released_tail :: string
  ss_max_buffer :: nat
  ss_failed :: bool

definition scrubber_new :: "egress_lib \<Rightarrow> string list \<Rightarrow> nat \<Rightarrow> stream_scrubber" where
  "scrubber_new L secrets max_buffer =
     (let forms = derive_secret_forms L secrets
      in \<lparr> ss_forms = forms, ss_carry = [], ss_keep = Max (insert 0 (length ` set forms)) - 1,
           ss_released_tail = [], ss_max_buffer = max_buffer, ss_failed = False \<rparr>)"

text \<open>The scan emits and consumes; \<open>n\<close> is the number of bytes before the end of the safe part.  The
  result is the output and what is retained.\<close>

fun scrub_prefix :: "string list \<Rightarrow> nat \<Rightarrow> string \<Rightarrow> string \<times> string" where
  "scrub_prefix forms n [] = ([], [])"
| "scrub_prefix forms n (c # s) =
     (case find (\<lambda>f. starts_with (c # s) f) forms of
        Some f \<Rightarrow>
          (case scrub_prefix forms (n - length f) (drop (length f - 1) s) of
             (out, rest) \<Rightarrow> (redacted_marker @ out, rest))
      | None \<Rightarrow>
          if n = 0 then ([], c # s)
          else (case scrub_prefix forms (n - 1) s of (out, rest) \<Rightarrow> (c # out, rest)))"

definition admit_output ::
  "string \<Rightarrow> stream_scrubber \<Rightarrow> (scrub_error + string) \<times> stream_scrubber" where
  "admit_output candidate s =
     (let boundary = ss_released_tail s @ candidate
      in if list_ex (find_bytes boundary) (ss_forms s)
         then (Inl UnsafeOutput, s \<lparr> ss_carry := [], ss_failed := True \<rparr>)
         else (Inr candidate, s \<lparr> ss_released_tail := drop (length boundary - ss_keep s) boundary \<rparr>))"

definition scrubber_push ::
  "string \<Rightarrow> stream_scrubber \<Rightarrow> (scrub_error + string) \<times> stream_scrubber" where
  "scrubber_push chunk s =
     (if ss_failed s then (Inl UnsafeOutput, s)
      else if ss_forms s = [] then (Inr chunk, s)
      else
        (let working = ss_carry s @ chunk
         in if ss_max_buffer s < length working
            then (Inl BufferOverflow, s \<lparr> ss_carry := [], ss_failed := True \<rparr>)
            else (case scrub_prefix (ss_forms s) (length working - ss_keep s) working of
                    (out, rest) \<Rightarrow> admit_output out (s \<lparr> ss_carry := rest \<rparr>))))"

definition scrubber_finish :: "stream_scrubber \<Rightarrow> (scrub_error + string) \<times> stream_scrubber" where
  "scrubber_finish s =
     (if ss_failed s then (Inl UnsafeOutput, s)
      else if ss_forms s = [] \<or> ss_carry s = [] then (Inr [], s)
      else (case scrub_prefix (ss_forms s) (length (ss_carry s)) (ss_carry s) of
              (out, _) \<Rightarrow> admit_output out (s \<lparr> ss_carry := [] \<rparr>)))"

definition terminate_with :: "string \<Rightarrow> stream_scrubber \<Rightarrow> string \<times> stream_scrubber" where
  "terminate_with frame s =
     (let s' = s \<lparr> ss_carry := [], ss_failed := True \<rparr>
      in (if ss_forms s = [] \<or> \<not> list_ex (find_bytes (ss_released_tail s @ frame)) (ss_forms s)
          then frame else [], s'))"

end
