(* ===== verification/Gateway.thy ===== *)
theory Gateway
  imports Permit Policy_Store Resume Vault_Admin Refusal_Drain Egress
begin

text \<open>
  The gateway of \<open>src/src/server/mod.rs\<close>, on its buffered path: the gates a request passes before it
  is run or put before people, the run itself, the resume of an approved request, the kill switch and
  the reload of policies.

  The state is the vault as it is on disk, this process's copy of it, the policy engine, the recorder
  of refusals and the plugin calls made.  At every await other tasks and processes run: the environment
  says what they make of the state, which clock reading the next step has and whether its access to the
  vault fails.  A locked operation works on the vault and refreshes the copy; a plain read uses the copy,
  which may be older.  Plugins, the recipe service and the evidence service answer through the
  environment.  Errors are constructors where the code has texts; log lines, usage metering and the
  counters and queue of the evidence client are left out.
\<close>

section \<open>Configuration and environment\<close>

datatype averin_mode = AverinObserve | AverinRequireEvidence

record averin_config =
  vc_enabled :: bool
  vc_d8_complete_evidence :: bool
  vc_floor_money_only :: bool
  vc_max_seal_params_bytes :: nat
  vc_durable :: bool
  vc_mode :: averin_mode

record gateway_config =
  gc_action_labels :: "string table"
  gc_observed_tenants :: "string list"
  gc_require_declared_capabilities :: bool
  gc_spend_extractors :: "spend_extractor list"
  gc_approval :: approval_config
  gc_egress :: "egress_rule list"
  gc_averin :: averin_config
  gc_policies :: "policy list"

datatype plugin_error =
    PluginMissing string
  | UnsupportedAction string
  | UnsupportedCredentialType string
  | InvalidParams string
  | CredentialConfig string
  | ExecutionFailed string
  | HttpFailed string
  | ValidationFailed string
  | WasmFailed string
  | ManifestFailed string
  | InstallationFailed string
  | IoFailed string

record fetched_rule =
  fg_rule :: approval_rule
  fg_risk_tier :: string
  fg_irreversible :: bool

datatype gate_rule_answer = RuleAnswer fetched_rule | NoRuleAnswer | InconclusiveAnswer string

datatype denial =
    MissingExecute
  | CredentialRefused string
  | TokenCredentialScope string
  | TokenActionScope string
  | ForeignTenant string string
  | DeniedByPolicy string
  | StrictUndeclared
  | ApprovalsOff
  | TokenCannotReserve storage_error
  | PermitRefused permit_error
  | PayloadMismatch permit_error
  | KillRefused string
  | TokenCannotBeUsed storage_error
  | ParamsUnbound
  | EvidenceOversize nat
  | NoSealClient
  | NoEvidenceSubject
  | NoGrantBinding
  | SealFailed
  | CredentialAuthorityChanged
  | CatalogAuthorityChanged
  | RecipeAuthorityChanged

datatype unavailability =
    CatalogUnavailable
  | RecipeServiceFailed
  | CanonicalNeedsLabel
  | RecipeUnconfirmed string
  | FenceUnreadable storage_error
  | GrantUnreadable storage_error
  | GrantNotSealedYet
  | OutcomeEvidenceFailed averin_error

datatype gateway_error =
    DeniedError denial
  | UnavailableError unavailability
  | LlmChannelOnly string
  | UnknownCredential string
  | PluginFailed plugin_error
  | StorageRefused storage_error
  | InvalidLabel label_problem
  | UnloadablePolicies "load_refusal list"

record gateway_failure =
  gf_retryable :: bool
  gf_committed :: bool
  gf_class :: "refusal_class option"
  gf_error :: gateway_error

definition retryable_failure :: "gateway_error \<Rightarrow> gateway_failure" where
  "retryable_failure e = \<lparr> gf_retryable = True, gf_committed = False, gf_class = None, gf_error = e \<rparr>"

definition refused_failure :: "refusal_class \<Rightarrow> gateway_error \<Rightarrow> gateway_failure" where
  "refused_failure c e = \<lparr> gf_retryable = False, gf_committed = False, gf_class = Some c, gf_error = e \<rparr>"

definition refused_retryable_failure :: "refusal_class \<Rightarrow> gateway_error \<Rightarrow> gateway_failure" where
  "refused_retryable_failure c e = \<lparr> gf_retryable = True, gf_committed = False, gf_class = Some c, gf_error = e \<rparr>"

definition terminal_failure :: "gateway_error \<Rightarrow> gateway_failure" where
  "terminal_failure e = \<lparr> gf_retryable = False, gf_committed = False, gf_class = None, gf_error = e \<rparr>"

definition committed_failure :: "gateway_error \<Rightarrow> gateway_failure" where
  "committed_failure e = \<lparr> gf_retryable = False, gf_committed = True, gf_class = None, gf_error = e \<rparr>"

record plugin_request =
  pq_credential :: credential
  pq_action :: string
  pq_params :: json
  pq_context :: request_context

record plugin =
  pg_validate_params :: "string \<Rightarrow> json \<Rightarrow> plugin_error option"
  pg_execute :: "plugin_request \<Rightarrow> plugin_error + execute_response"
  pg_show_error :: "plugin_error \<Rightarrow> string"

text \<open>A plugin call with the vault as the kill fence read it and the subject it was read for.\<close>

record dispatch =
  ds_plugin :: string
  ds_request :: plugin_request
  ds_fence :: kill_fence_subject
  ds_vault :: storage_cache

record emitted =
  em_subject :: string
  em_type :: string
  em_credential :: string
  em_action :: string
  em_kind :: string

record gateway =
  gw_vault :: storage_cache
  gw_cached :: storage_cache
  gw_engine :: engine
  gw_recorder :: "recorder option"
  gw_unauthorized :: u64
  gw_detect_gate :: "instant table"
  gw_events :: "emitted list"
  gw_dispatched :: "dispatch list"

text \<open>The awaits at which other work may come between.\<close>

datatype await =
    AtResolve | AtTenantEvent | AtLlmReload | AtLlmCatalog | AtLlmResolve nat | AtEpoch | AtDenyEvent
  | AtIrreversibilityReload | AtIrreversibilityCatalog | AtPreview | AtRecipe nat | AtOpen | AtOpenFence | AtOpenEvent
  | AtReserve | AtStoreApproval | AtRequested | AtPopKey | AtConsume | AtSeal | AtFence | AtFenceEvent
  | AtExecute | AtPermit | AtStoreCredential | AtRotated
  | AtListTokens | AtRevoke nat | AtStorePolicy | AtAck | AtListPolicies | AtDeletePolicy | AtHaltEvent

record gateway_env =
  ge_config :: gateway_config
  ge_tasks :: "await \<Rightarrow> gateway \<Rightarrow> gateway"
  ge_fails :: "await \<Rightarrow> storage_error option"
  ge_vault :: "await \<Rightarrow> vault_env"
  ge_eval :: eval_env
  ge_monotonic :: "await \<Rightarrow> instant"
  ge_refusals :: refusal_env
  ge_egress :: egress_lib
  ge_pointer :: "json \<Rightarrow> string \<Rightarrow> json option"
  ge_request_id :: string
  ge_fresh :: fresh_request
  ge_plugins :: "string \<Rightarrow> plugin option"
  ge_averin_present :: bool
  ge_gate_rule :: "(string \<Rightarrow> string \<Rightarrow> string \<Rightarrow> gate_rule_answer option) option"
  ge_popkey :: "string \<Rightarrow> (storage_error + (bool option)) option"
  ge_memory_grant :: "string \<Rightarrow> bool"
  ge_begin_exact :: "averin_error option"
  ge_complete_exact :: "averin_error option"
  ge_seal_required :: "averin_error option"
  ge_seal_execute :: "averin_error option"

definition gw_codec :: "gateway_env \<Rightarrow> codec" where
  "gw_codec G = ve_codec (ge_vault G AtResolve)"

definition gw_lib :: "gateway_env \<Rightarrow> url_lib" where
  "gw_lib G = ve_lib (ge_vault G AtResolve)"

section \<open>Steps\<close>

type_synonym 'a step = "gateway \<Rightarrow> (gateway_failure + 'a) \<times> gateway"

definition done_with :: "'a \<Rightarrow> 'a step" where
  "done_with x S = (Inr x, S)"

definition fail_with :: "gateway_failure \<Rightarrow> 'a step" where
  "fail_with e S = (Inl e, S)"

definition and_then :: "'a step \<Rightarrow> ('a \<Rightarrow> 'b step) \<Rightarrow> 'b step" where
  "and_then m f S = (case m S of (Inl e, S') \<Rightarrow> (Inl e, S') | (Inr x, S') \<Rightarrow> f x S')"

definition await_at :: "gateway_env \<Rightarrow> await \<Rightarrow> gateway \<Rightarrow> gateway" where
  "await_at G w S = (ge_tasks G w S) \<lparr> gw_dispatched := gw_dispatched S \<rparr>"

text \<open>An operation under the file lock; the copy is what it leaves.\<close>

definition vault_op :: "gateway_env \<Rightarrow> await \<Rightarrow> (vault_env \<Rightarrow> 'a operation) \<Rightarrow> gateway
    \<Rightarrow> (storage_error + 'a) \<times> gateway" where
  "vault_op G w f S =
     (let S1 = await_at G w S
      in case ge_fails G w of
           Some e \<Rightarrow> (Inl e, S1)
         | None \<Rightarrow> (case f (ge_vault G w) (gw_vault S1) of
                     (r, c) \<Rightarrow> (r, S1 \<lparr> gw_vault := c, gw_cached := c \<rparr>)))"

definition vault_read :: "gateway_env \<Rightarrow> await \<Rightarrow> (vault_env \<Rightarrow> storage_cache \<Rightarrow> 'a) \<Rightarrow> gateway
    \<Rightarrow> (storage_error + 'a) \<times> gateway" where
  "vault_read G w f = vault_op G w (\<lambda>V c. (Inr (f V c), c))"

definition reload_vault :: "gateway_env \<Rightarrow> await \<Rightarrow> gateway \<Rightarrow> (storage_error + unit) \<times> gateway" where
  "reload_vault G w = vault_read G w (\<lambda>V c. ())"

definition note_gateway_refusal :: "gateway_env \<Rightarrow> refusal_ctx \<Rightarrow> refusal_class \<Rightarrow> gateway \<Rightarrow> gateway" where
  "note_gateway_refusal G x c S =
     S \<lparr> gw_recorder := map_option (note_at (ge_refusals G) x c) (gw_recorder S) \<rparr>"

definition refuse :: "gateway_env \<Rightarrow> refusal_ctx \<Rightarrow> refusal_class \<Rightarrow> gateway_error \<Rightarrow> 'a step" where
  "refuse G x c e S = fail_with (terminal_failure e) (note_gateway_refusal G x c S)"

definition note_run_refusal :: "gateway_env \<Rightarrow> refusal_ctx \<Rightarrow> 'a step \<Rightarrow> 'a step" where
  "note_run_refusal G x m S =
     (case m S of
        (Inl e, S') \<Rightarrow>
          (case gf_class e of
             Some c \<Rightarrow> (Inl (e \<lparr> gf_class := None \<rparr>), note_gateway_refusal G x c S')
           | None \<Rightarrow> (Inl e, S'))
      | (Inr y, S') \<Rightarrow> (Inr y, S'))"

definition record_unauthorized_attempt :: "gateway \<Rightarrow> gateway" where
  "record_unauthorized_attempt S = S \<lparr> gw_unauthorized := gw_unauthorized S + 1 \<rparr>"

definition emit_event :: "gateway_env \<Rightarrow> await \<Rightarrow> emitted \<Rightarrow> gateway \<Rightarrow> gateway" where
  "emit_event G w e S =
     (let S1 = await_at G w S
      in case ge_fails G w of Some _ \<Rightarrow> S1 | None \<Rightarrow> S1 \<lparr> gw_events := gw_events S1 @ [e] \<rparr>)"

definition detect_emit_window :: int where
  "detect_emit_window = 10 * nanos"

definition emit_policy_denied ::
  "gateway_env \<Rightarrow> await \<Rightarrow> string option \<Rightarrow> string option \<Rightarrow> string \<Rightarrow> string \<Rightarrow> string \<Rightarrow> gateway \<Rightarrow> gateway" where
  "emit_policy_denied G w agent_label principal_id alias act kind S =
     (let subject = (case agent_label of Some l \<Rightarrow> l | None \<Rightarrow> (case principal_id of Some i \<Rightarrow> i | None \<Rightarrow> alias));
          now = ge_monotonic G w;
          gate = filter (\<lambda>(k, t). now - t < detect_emit_window) (gw_detect_gate S)
      in if t_get gate subject \<noteq> None then S \<lparr> gw_detect_gate := gate \<rparr>
         else emit_event G w
                \<lparr> em_subject = subject, em_type = ''policy.denied'', em_credential = alias, em_action = act,
                  em_kind = kind \<rparr>
                (S \<lparr> gw_detect_gate := t_put subject now gate \<rparr>))"

end
