(* ===== verification/Gateway_Gates.thy ===== *)
theory Gateway_Gates
  imports Gateway
begin

text \<open>
  The gates of \<open>prepare_execution\<close> in \<open>src/src/server/mod.rs\<close>, in the order of the code: permission and
  reference, use token, tenant, channel of model credentials, policy, catalogue of capabilities, and
  then either the opening of an approval or the direct permit.
\<close>

section \<open>Who asks for what\<close>

record execute_request =
  xq_credential :: string
  xq_action :: string
  xq_params :: json

record exec_auth =
  xa_auth :: "auth_result option"
  xa_use_token :: "use_token option"
  xa_force_approval :: bool
  xa_requester :: requester_info

definition from_api_key :: "auth_result \<Rightarrow> exec_auth" where
  "from_api_key x =
     \<lparr> xa_auth = Some x, xa_use_token = None, xa_force_approval = False,
       xa_requester = \<lparr> ri_principal_kind = ''api_key'', ri_principal_id = Some (ak_id (ax_api_key x)),
         ri_principal_name = Some (ak_name (ax_api_key x)), ri_role = Some (rl_name (ax_role x)),
         ri_owner = ak_owner_identity (ax_api_key x) \<rparr> \<rparr>"

definition from_use_token :: "use_token \<Rightarrow> exec_auth" where
  "from_use_token t =
     \<lparr> xa_auth = Some (for_use_token t), xa_use_token = Some t, xa_force_approval = ut_require_approval t,
       xa_requester = \<lparr> ri_principal_kind = ''use_token'', ri_principal_id = Some (ut_id t),
         ri_principal_name = Some (ut_name t), ri_role = None, ri_owner = ut_owner_identity t \<rparr> \<rparr>"

definition with_auth :: "auth_result \<Rightarrow> request_context \<Rightarrow> request_context" where
  "with_auth x c =
     c \<lparr> rx_api_key_id := Some (ak_id (ax_api_key x)), rx_api_key_name := Some (ak_name (ax_api_key x)),
         rx_role_name := Some (rl_name (ax_role x)), rx_agent_label := ak_agent_label (ax_api_key x),
         rx_tenant := ak_tenant (ax_api_key x) \<rparr>"

definition auth_principal :: "exec_auth \<Rightarrow> principal option" where
  "auth_principal A =
     map_option (\<lambda>x. \<lparr> pl_id = ak_id (ax_api_key x), pl_agent_label = ak_agent_label (ax_api_key x),
       pl_owner = ak_owner_identity (ax_api_key x), pl_workload_id = ak_workload_id (ax_api_key x) \<rparr>) (xa_auth A)"

definition principal_tenant :: "exec_auth \<Rightarrow> string option" where
  "principal_tenant A = Option.bind (xa_auth A) (\<lambda>x. ak_tenant (ax_api_key x))"

definition resolve_action :: "gateway_config \<Rightarrow> string \<Rightarrow> string \<times> string option" where
  "resolve_action g presented =
     (case t_get (gc_action_labels g) presented of
        Some canonical \<Rightarrow> (canonical, Some presented)
      | None \<Rightarrow> (presented, None))"

definition canonical_action_has_labels :: "gateway_config \<Rightarrow> string \<Rightarrow> bool" where
  "canonical_action_has_labels g canonical \<longleftrightarrow> list_ex (\<lambda>(k, v). v = canonical) (gc_action_labels g)"

definition tenant_observes :: "gateway_config \<Rightarrow> string option \<Rightarrow> bool" where
  "tenant_observes g tenant = (case tenant of Some t \<Rightarrow> t \<in> set (gc_observed_tenants g) | None \<Rightarrow> False)"

definition parse_action :: "string \<Rightarrow> string \<times> string" where
  "parse_action act = (case split_once (CHR ''.'') act of Some (p, a) \<Rightarrow> (p, a) | None \<Rightarrow> (''http'', act))"

definition resolve_credential :: "gateway_env \<Rightarrow> await \<Rightarrow> string \<Rightarrow> credential step" where
  "resolve_credential G w alias_or_id S =
     (let S1 = await_at G w S; c = gw_cached S1
      in case get_by_alias alias_or_id c of
           Some cred \<Rightarrow> (Inr cred, S1)
         | None \<Rightarrow> (case t_get (sc_credentials c) alias_or_id of
                      Some cred \<Rightarrow> (Inr cred, S1)
                    | None \<Rightarrow> fail_with (terminal_failure (UnknownCredential alias_or_id)) S1))"

section \<open>Scope headers of the operator\<close>

definition gateway_owned_scopes :: "(string \<times> string \<times> (string \<Rightarrow> bool)) list" where
  "gateway_owned_scopes =
     [(''anthropic-workspace-id'', ''anthropic_workspace_id'', is_valid_anthropic_workspace_id),
      (''openai-organization'', ''openai_organization_id'', is_valid_openai_organization_id),
      (''openai-project'', ''openai_project_id'', is_valid_openai_project_id)]"

definition is_gateway_owned_header :: "string \<Rightarrow> bool" where
  "is_gateway_owned_header name \<longleftrightarrow> list_ex (\<lambda>(h, m, v). eq_ignore_ascii_case name h) gateway_owned_scopes"

fun workspace_scope ::
  "(string \<times> string \<times> (string \<Rightarrow> bool)) list \<Rightarrow> string table \<Rightarrow> plugin_error + (string \<times> json) list" where
  "workspace_scope [] md = Inr []"
| "workspace_scope ((h, m, valid) # ss) md =
     (case t_get md m of
        None \<Rightarrow> workspace_scope ss md
      | Some v \<Rightarrow>
          if \<not> valid v
          then Inl (CredentialConfig (''credential metadata '' @ m @ '' is not a valid value''))
          else map_sum id (\<lambda>hs. (h, JStr v) # hs) (workspace_scope ss md))"

definition apply_workspace_scope_to_params :: "json \<Rightarrow> string table \<Rightarrow> plugin_error + json" where
  "apply_workspace_scope_to_params params md =
     (case params of
        JObj obj \<Rightarrow>
          (let obj' = (case map_of obj ''headers'' of
                         Some (JObj h) \<Rightarrow>
                           bt_put ''headers'' (JObj (filter (\<lambda>(k, v). \<not> is_gateway_owned_header k) h)) obj
                       | _ \<Rightarrow> obj)
           in case workspace_scope gateway_owned_scopes md of
                Inl e \<Rightarrow> Inl e
              | Inr ours \<Rightarrow>
                  if ours = [] then Inr (JObj obj')
                  else (let put_all = foldl (\<lambda>h (k, v). bt_put k v h)
                        in Inr (case map_of obj' ''headers'' of
                                  None \<Rightarrow> JObj (bt_put ''headers'' (JObj (put_all [] ours)) obj')
                                | Some (JObj h) \<Rightarrow> JObj (bt_put ''headers'' (JObj (put_all h ours)) obj')
                                | Some _ \<Rightarrow> JObj obj')))
      | _ \<Rightarrow> Inr params)"

section \<open>The catalogue\<close>

datatype irreversibility_resolution =
    IrReversible | IrHumanFloor | IrPartiallyReversible | IrUndeclared | IrAmbiguousCanonical | IrUnavailable

datatype evidence_floor = FloorMoneyAndIrreversible | FloorHumanFloor

definition floor_from_config :: "averin_config \<Rightarrow> bool \<Rightarrow> evidence_floor" where
  "floor_from_config v client_present =
     (if client_present \<and> vc_enabled v \<and> vc_d8_complete_evidence v \<and> vc_floor_money_only v
      then FloorMoneyAndIrreversible else FloorHumanFloor)"

definition is_money_action :: "string option list \<Rightarrow> bool" where
  "is_money_action names \<longleftrightarrow>
     list_ex (\<lambda>n. case n of Some s \<Rightarrow> starts_with (ascii_lower (trim s)) ''money.'' | None \<Rightarrow> False) names"

definition automatically_requires_approval :: "irreversibility_resolution \<Rightarrow> bool" where
  "automatically_requires_approval r \<longleftrightarrow> r \<in> {IrHumanFloor, IrPartiallyReversible, IrAmbiguousCanonical}"

definition trusted_human_floor :: "irreversibility_resolution \<Rightarrow> bool" where
  "trusted_human_floor r \<longleftrightarrow> r \<noteq> IrReversible"

definition requires_committed_evidence :: "evidence_floor \<Rightarrow> bool \<Rightarrow> irreversibility_resolution \<Rightarrow> bool" where
  "requires_committed_evidence fl money r =
     (case r of
        IrHumanFloor \<Rightarrow> True
      | IrAmbiguousCanonical \<Rightarrow> True
      | IrPartiallyReversible \<Rightarrow> money \<or> fl = FloorHumanFloor
      | _ \<Rightarrow> False)"

definition d8_fallback_ok :: "bool \<Rightarrow> irreversibility_resolution \<Rightarrow> bool" where
  "d8_fallback_ok money r \<longleftrightarrow> r \<in> {IrReversible, IrPartiallyReversible} \<and> \<not> money"

fun authority_class :: "irreversibility_resolution \<Rightarrow> capability_authority_class option" where
  "authority_class IrReversible = Some CapReversible"
| "authority_class IrHumanFloor = Some CapHumanFloor"
| "authority_class IrPartiallyReversible = Some CapPartiallyReversible"
| "authority_class IrUndeclared = Some CapUndeclared"
| "authority_class IrAmbiguousCanonical = Some CapAmbiguousCanonical"
| "authority_class IrUnavailable = None"

definition classify_declared :: "gateway_config \<Rightarrow> string \<Rightarrow> capability list \<Rightarrow> irreversibility_resolution" where
  "classify_declared g alias caps =
     (let matching = filter (\<lambda>c. \<not> gc_require_declared_capabilities g \<or> trim (cp_credential_ref c) = trim alias) caps
      in if matching = [] then IrUndeclared
         else if list_ex (\<lambda>c. trim (cp_reversibility c) \<notin> {''reversible'', ''partially-reversible''}
                  \<or> trim (cp_reversibility c) = ''partially-reversible'' \<and> is_money_action [Some (cp_action c)]) matching
         then IrHumanFloor
         else if list_ex (\<lambda>c. reversibility_requires_human_floor (cp_reversibility c)) matching
         then IrPartiallyReversible
         else IrReversible)"

definition has_label :: "gateway_config \<Rightarrow> string \<Rightarrow> capability \<Rightarrow> bool" where
  "has_label g label c \<longleftrightarrow> trim (cp_action c) = label \<or> snd (resolve_action g (cp_action c)) = Some label"

definition classify_action ::
  "gateway_config \<Rightarrow> capability list \<Rightarrow> string \<Rightarrow> string \<Rightarrow> string option \<Rightarrow> irreversibility_resolution" where
  "classify_action g caps alias canonical label =
     (case non_blank label of
        Some l \<Rightarrow>
          (let exact = filter (has_label g l) caps
           in if exact \<noteq> [] then classify_declared g alias exact else IrUndeclared)
      | None \<Rightarrow>
          if canonical_action_has_labels g canonical then IrAmbiguousCanonical
          else (let cs = filter (\<lambda>c. fst (resolve_action g (cp_action c)) = canonical) caps
                in if cs = [] then IrUndeclared else classify_declared g alias cs))"

definition resolve_irreversibility_for_action ::
  "gateway_env \<Rightarrow> string \<Rightarrow> string \<Rightarrow> string option \<Rightarrow> gateway \<Rightarrow> irreversibility_resolution \<times> gateway" where
  "resolve_irreversibility_for_action G alias canonical label S =
     (case reload_vault G AtIrreversibilityReload S of
        (Inl _, S1) \<Rightarrow> (IrUnavailable, S1)
      | (Inr _, S1) \<Rightarrow>
          (let S2 = await_at G AtIrreversibilityCatalog S1
           in if ge_fails G AtIrreversibilityCatalog \<noteq> None then (IrUnavailable, S2)
              else (classify_action (ge_config G) (map snd (sc_capabilities (gw_cached S2))) alias canonical label, S2)))"

section \<open>Model credentials stay on their channel\<close>

text \<open>Whether one of the capabilities that proxy a model uses the credential.  A lookup in the copy of the
  vault fails only when there is no such credential, and such a reference is skipped.\<close>

fun backs_llm :: "gateway_env \<Rightarrow> nat \<Rightarrow> credential \<Rightarrow> string \<Rightarrow> capability list \<Rightarrow> bool step" where
  "backs_llm G n cred presented [] = done_with False"
| "backs_llm G n cred presented (c # cs) =
     (if \<not> is_llm_proxy c then backs_llm G n cred presented cs
      else (let r = trim (cp_credential_ref c)
            in if r = trim (cr_alias cred) \<or> r = trim presented then done_with True
               else (\<lambda>S. case resolve_credential G (AtLlmResolve n) r S of
                       (Inr referenced, S1) \<Rightarrow>
                         if cr_id referenced = cr_id cred then (Inr True, S1)
                         else backs_llm G (Suc n) cred presented cs S1
                     | (Inl _, S1) \<Rightarrow> backs_llm G (Suc n) cred presented cs S1)))"

definition refuse_llm_credential_off_channel ::
  "gateway_env \<Rightarrow> credential \<Rightarrow> string \<Rightarrow> refusal_ctx \<Rightarrow> unit step" where
  "refuse_llm_credential_off_channel G cred presented x S =
     (let unavailable = refuse G x RefDecisionUnavailable (UnavailableError CatalogUnavailable)
      in case reload_vault G AtLlmReload S of
           (Inl _, S1) \<Rightarrow> unavailable S1
         | (Inr _, S1) \<Rightarrow>
             (let S2 = await_at G AtLlmCatalog S1
              in if ge_fails G AtLlmCatalog \<noteq> None then unavailable S2
                 else and_then (backs_llm G 0 cred presented (map snd (sc_capabilities (gw_cached S2))))
                   (\<lambda>is_llm. if is_llm then refuse G x RefLlmChannelOnly (LlmChannelOnly (cr_alias cred))
                             else done_with ()) S2))"

section \<open>The recipe that governs an action\<close>

fun ask_classes ::
  "gateway_env \<Rightarrow> (string \<Rightarrow> gate_rule_answer option) \<Rightarrow> nat \<Rightarrow> string option \<Rightarrow> string list
     \<Rightarrow> (string option + gate_rule_answer) step" where
  "ask_classes G ask n inconclusive [] = done_with (Inl inconclusive)"
| "ask_classes G ask n inconclusive (c # cs) =
     (\<lambda>S. let S1 = await_at G (AtRecipe n) S
          in case ask c of
               None \<Rightarrow> fail_with (terminal_failure (UnavailableError RecipeServiceFailed)) S1
             | Some (RuleAnswer r) \<Rightarrow> (Inr (Inr (RuleAnswer r)), S1)
             | Some NoRuleAnswer \<Rightarrow> ask_classes G ask (Suc n) inconclusive cs S1
             | Some (InconclusiveAnswer m) \<Rightarrow>
                 ask_classes G ask (Suc n) (case inconclusive of None \<Rightarrow> Some m | Some m' \<Rightarrow> Some m') cs S1)"

definition unwired_reason :: string where
  "unwired_reason =
     ''this vultrino has no policy engine wired (GOVDER_BASE_URL/GOVDER_TENANT_ASSERTION_SECRET are unset), ''
     @ ''so no approval recipe could be confirmed for this action '' @ [CHR 0xE2, CHR 0x80, CHR 0x94]
     @ '' an unset address is not a statement that no recipe exists''"

definition fetch_gate_rule_for_action ::
  "gateway_env \<Rightarrow> string option \<Rightarrow> string option \<Rightarrow> string \<Rightarrow> string option \<Rightarrow> gate_rule_answer step" where
  "fetch_gate_rule_for_action G tenant agent act label =
     (let ambiguous = (label = None \<and> canonical_action_has_labels (ge_config G) act);
          needs_label = fail_with (terminal_failure (UnavailableError CanonicalNeedsLabel));
          trimmed = (\<lambda>s. case s of Some t \<Rightarrow> trim t | None \<Rightarrow> [])
      in case ge_gate_rule G of
           None \<Rightarrow>
             if ambiguous then needs_label
             else done_with (InconclusiveAnswer unwired_reason)
         | Some ask \<Rightarrow>
             (let named = (case non_blank label of Some l \<Rightarrow> if l \<noteq> act then [l] else [] | None \<Rightarrow> [])
              in and_then (ask_classes G (ask (trimmed tenant) (trimmed agent)) 0 None (named @ [act]))
                   (\<lambda>r. case r of
                      Inr a \<Rightarrow> done_with a
                    | Inl inconclusive \<Rightarrow>
                        if ambiguous then needs_label
                        else done_with (case inconclusive of Some m \<Rightarrow> InconclusiveAnswer m | None \<Rightarrow> NoRuleAnswer))))"

end
