(* ===== verification/Gateway_Prepare.thy ===== *)
theory Gateway_Prepare
  imports Gateway_Gates
begin

text \<open>
  \<open>prepare_execution\<close> of \<open>src/src/server/mod.rs\<close> put together: what is resolved, the gates one after the
  other, the approval that is opened when people must decide, and the permit of a direct run.
\<close>

section \<open>Gates\<close>

record resolved_action =
  rs_credential :: credential
  rs_label :: "string option"
  rs_plugin :: string
  rs_name :: string

definition rs_full :: "resolved_action \<Rightarrow> string" where
  "rs_full R = rs_plugin R @ ''.'' @ rs_name R"

definition rs_alias :: "resolved_action \<Rightarrow> string" where
  "rs_alias R = cr_alias (rs_credential R)"

definition caller_gate :: "gateway_env \<Rightarrow> refusal_ctx \<Rightarrow> exec_auth \<Rightarrow> execute_request \<Rightarrow> unit step" where
  "caller_gate G x A q =
     (case xa_auth A of
        None \<Rightarrow> done_with ()
      | Some a \<Rightarrow>
          if \<not> has_permission (ax_role a) Execute then refuse G x RefNotGranted (DeniedError MissingExecute)
          else if \<not> can_access_credential (gw_lib G) (ax_role a) (xq_credential q)
          then refuse G x RefNotGranted (DeniedError (CredentialRefused (xq_credential q)))
          else done_with ())"

definition resolve_request :: "gateway_env \<Rightarrow> execute_request \<Rightarrow> resolved_action step" where
  "resolve_request G q =
     and_then (resolve_credential G AtResolve (xq_credential q))
       (\<lambda>cred. case resolve_action (ge_config G) (xq_action q) of
          (canonical, label) \<Rightarrow>
            (case parse_action canonical of
               (p, a) \<Rightarrow> done_with \<lparr> rs_credential = cred, rs_label = label, rs_plugin = p, rs_name = a \<rparr>))"

definition token_gate ::
  "gateway_env \<Rightarrow> refusal_ctx \<Rightarrow> exec_auth \<Rightarrow> execute_request \<Rightarrow> resolved_action \<Rightarrow> unit step" where
  "token_gate G x A q R =
     (case xa_use_token A of
        None \<Rightarrow> done_with ()
      | Some t \<Rightarrow>
          if \<not> allows_credential (gw_lib G) t (rs_alias R)
          then refuse G x RefNotGranted (DeniedError (TokenCredentialScope (rs_alias R)))
          else if \<not> allows_action (gw_lib G) t (xq_action q) \<and> \<not> allows_action (gw_lib G) t (rs_full R)
          then refuse G x RefNotGranted (DeniedError (TokenActionScope (rs_full R)))
          else done_with ())"

definition tenant_gate :: "gateway_env \<Rightarrow> refusal_ctx \<Rightarrow> exec_auth \<Rightarrow> resolved_action \<Rightarrow> unit step" where
  "tenant_gate G x A R =
     (case credential_tenant (rs_credential R) of
        None \<Rightarrow> done_with ()
      | Some t \<Rightarrow>
          if principal_tenant A = Some t then done_with ()
          else (let k = map_option ax_api_key (xa_auth A)
                in (\<lambda>S. refuse G x RefCrossTenant (DeniedError (ForeignTenant (rs_alias R) t))
                     (emit_policy_denied G AtTenantEvent (Option.bind k ak_agent_label) (map_option ak_id k)
                        (rs_alias R) (rs_full R) ''cross_tenant_isolation'' (record_unauthorized_attempt S)))))"

definition is_read_verb :: "json \<Rightarrow> bool" where
  "is_read_verb params =
     (case Option.bind (j_get params ''method'') j_str of
        Some m \<Rightarrow> eq_ignore_ascii_case m ''GET'' \<or> eq_ignore_ascii_case m ''HEAD''
      | None \<Rightarrow> False)"

definition token_dual_control :: "exec_auth \<Rightarrow> bool" where
  "token_dual_control A = (case xa_use_token A of Some t \<Rightarrow> ut_dual_control t | None \<Rightarrow> False)"

definition request_spend :: "gateway_env \<Rightarrow> execute_request \<Rightarrow> resolved_action \<Rightarrow> spend_attempt option" where
  "request_spend G q R =
     extract_spend (gw_lib G) (ge_pointer G) (gc_spend_extractors (ge_config G)) (rs_full R) (rs_alias R) (xq_params q)"

definition request_query :: "gateway_env \<Rightarrow> exec_auth \<Rightarrow> execute_request \<Rightarrow> resolved_action \<Rightarrow> admission_query" where
  "request_query G A q R =
     \<lparr> aq_credential_alias = rs_alias R, aq_action = xq_action q, aq_params = xq_params q,
       aq_principal = auth_principal A, aq_spend = request_spend G q R \<rparr>"

text \<open>The kill epoch the request is admitted under, the evaluation, and whether people must decide.\<close>

definition policy_gate ::
  "gateway_env \<Rightarrow> refusal_ctx \<Rightarrow> exec_auth \<Rightarrow> execute_request \<Rightarrow> resolved_action
     \<Rightarrow> (u64 \<times> evaluation \<times> bool) step" where
  "policy_gate G x A q R S =
     (let S1 = await_at G AtEpoch S;
          epoch = kill_fence_epoch (gw_cached S1);
          observe = tenant_observes (ge_config G) (principal_tenant A);
          label = Option.bind (auth_principal A) pl_agent_label;
          needs = (xa_force_approval A \<and> \<not> is_read_verb (xq_params q) \<or> token_dual_control A)
      in case evaluate_for_admission (gw_codec G) (ge_eval G) (request_query G A q R) observe (gw_engine S1) of
           (ev, en) \<Rightarrow>
             (let S2 = S1 \<lparr> gw_engine := en \<rparr>
              in case ev_decision ev of
                   DAllow \<Rightarrow> (Inr (epoch, ev, needs), S2)
                 | DPrompt \<Rightarrow> (Inr (epoch, ev, True), S2)
                 | DDeny reason \<Rightarrow>
                     (let S3 = record_unauthorized_attempt S2
                      in if ev_observe_downgrade ev
                         then (Inr (epoch, ev, needs),
                               emit_event G AtDenyEvent
                                 \<lparr> em_subject = (case principal_tenant A of Some t \<Rightarrow> t | None \<Rightarrow> ''-''),
                                   em_type = ''policy.observed_denial'', em_credential = rs_alias R,
                                   em_action = rs_full R, em_kind = ''allowed_observe_mode'' \<rparr> S3)
                         else refuse G x
                                (case ev_deny_cause ev of Some c \<Rightarrow> cause_refusal_class c | None \<Rightarrow> RefPolicyDeny)
                                (DeniedError (DeniedByPolicy reason))
                                (emit_policy_denied G AtDenyEvent label (map_option pl_id (auth_principal A))
                                   (rs_alias R) (rs_full R) ''policy'' S3))))"

definition credential_requires_approval :: "credential \<Rightarrow> bool" where
  "credential_requires_approval c \<longleftrightarrow> t_get (cr_metadata c) ''require_approval'' = Some ''true''"

definition catalogue_gate ::
  "gateway_env \<Rightarrow> refusal_ctx \<Rightarrow> resolved_action \<Rightarrow> bool \<Rightarrow> (irreversibility_resolution \<times> bool) step" where
  "catalogue_gate G x R needs S =
     (case resolve_irreversibility_for_action G (rs_alias R) (rs_full R) (rs_label R) S of
        (irr, S1) \<Rightarrow>
          if irr = IrUnavailable
          then refuse G x RefDecisionUnavailable (UnavailableError CatalogUnavailable) S1
          else if gc_require_declared_capabilities (ge_config G) \<and> irr = IrUndeclared
          then refuse G x RefCapabilityUndeclared (DeniedError StrictUndeclared) S1
          else (Inr (irr, needs \<or> credential_requires_approval (rs_credential R)
                          \<or> automatically_requires_approval irr), S1))"

section \<open>Opening an approval\<close>

definition approval_preview_for_action ::
  "gateway_env \<Rightarrow> string \<Rightarrow> string option \<Rightarrow> json \<Rightarrow> gateway \<Rightarrow> approval_preview option \<times> gateway" where
  "approval_preview_for_action G canonical label params S =
     (let S1 = snd (reload_vault G AtPreview S);
          g = ge_config G;
          caps = map snd (sc_capabilities (gw_cached S1));
          only = (\<lambda>cs. case cs of
                    [c] \<Rightarrow> map_option (\<lambda>spec. extract_preview (co_show (gw_codec G)) spec params) (cp_approval_preview c)
                  | _ \<Rightarrow> None)
      in (case non_blank label of
            Some l \<Rightarrow> only (filter (has_label g l) caps)
          | None \<Rightarrow>
              if canonical_action_has_labels g canonical then None
              else only (filter (\<lambda>c. fst (resolve_action g (cp_action c)) = canonical) caps), S1))"

definition kill_fence_refuses_open ::
  "gateway_env \<Rightarrow> refusal_ctx \<Rightarrow> exec_auth \<Rightarrow> resolved_action \<Rightarrow> u64 \<Rightarrow> unit step" where
  "kill_fence_refuses_open G x A R epoch S =
     (case vault_read G AtOpenFence (\<lambda>V. kill_fence_check V
             \<lparr> kq_credential_alias = rs_alias R, kq_principal = auth_principal A, kq_admitted_epoch = epoch \<rparr>) S of
        (Inl e, S1) \<Rightarrow> refuse G x RefDecisionUnavailable (UnavailableError (FenceUnreadable e)) S1
      | (Inr v, S1) \<Rightarrow>
          (case refusal_reason v of
             None \<Rightarrow> (Inr (), S1)
           | Some reason \<Rightarrow>
               refuse G x RefKillFence (DeniedError (KillRefused reason))
                 (emit_policy_denied G AtOpenEvent (Option.bind (auth_principal A) pl_agent_label)
                    (map_option pl_id (auth_principal A)) (rs_alias R) (rs_full R) ''kill_fence''
                    (record_unauthorized_attempt S1))))"

text \<open>What the recipe service answered, as it is stamped on the approval.\<close>

definition recipe_stamp ::
  "gateway_env \<Rightarrow> refusal_ctx \<Rightarrow> bool \<Rightarrow> gate_rule_answer
     \<Rightarrow> (approval_rule option \<times> string \<times> bool \<times> gate_rule_authority_class) step" where
  "recipe_stamp G x human_floor answer =
     (case answer of
        RuleAnswer f \<Rightarrow> done_with (Some (fg_rule f), fg_risk_tier f, fg_irreversible f, GateRule)
      | NoRuleAnswer \<Rightarrow> done_with (None, [], False, GateNoRule)
      | InconclusiveAnswer reason \<Rightarrow>
          if gc_require_declared_capabilities (ge_config G) \<or> human_floor
          then refuse G x RefDecisionUnavailable (UnavailableError (RecipeUnconfirmed reason))
          else done_with (None, [], False, GateInconclusive))"

definition authority_of :: "credential \<Rightarrow> credential_authority" where
  "authority_of c =
     \<lparr> ca_id = cr_id c, ca_credential_type = cr_credential_type c, ca_created_at = cr_created_at c,
       ca_updated_at = cr_updated_at c, ca_tenant = credential_tenant c \<rparr>"

definition spend_minor :: "spend_attempt \<Rightarrow> i64" where
  "spend_minor s = min (uint (sa_amount s)) (2 ^ 63 - 1)"

definition new_request ::
  "gateway_env \<Rightarrow> exec_auth \<Rightarrow> execute_request \<Rightarrow> resolved_action \<Rightarrow> irreversibility_resolution
     \<Rightarrow> approval_preview option \<Rightarrow> approval_rule option \<Rightarrow> new_approval" where
  "new_request G A q R irr preview rule =
     (let p = auth_principal A; cfg = gc_approval (ge_config G);
          cls = criticality_for cfg (rs_alias R) (rs_full R); sla = sla_for cfg cls;
          requester = xa_requester A
      in \<lparr> na_credential = rs_alias R, na_action = rs_full R, na_params = xq_params q,
           na_requester = requester \<lparr> ri_owner := (case ri_owner requester of
               Some w \<Rightarrow> Some w | None \<Rightarrow> Option.bind p pl_owner) \<rparr>,
           na_use_token_id = map_option ut_id (xa_use_token A), na_principal_id = map_option pl_id p,
           na_agent_label = Option.bind p pl_agent_label, na_action_label = rs_label R,
           na_dual_control = token_dual_control A, na_criticality = cls,
           na_trusted_irreversible = Some (trusted_human_floor irr),
           na_escalate_after = sla_escalate_after sla, na_escalate_window = sla_escalate_window sla,
           na_oob_identity = ac_oob_approver_identity cfg, na_reauth_interval_secs = ac_reauth_interval_secs cfg,
           na_required_approvals = (if token_dual_control A then max (ac_dual_control_approvers cfg) 2 else 1),
           na_tenant = principal_tenant A, na_workload_id = Option.bind p pl_workload_id,
           na_preview = preview, na_approval_rule = rule \<rparr>)"

definition stamp_request ::
  "gateway_env \<Rightarrow> execute_request \<Rightarrow> resolved_action \<Rightarrow> irreversibility_resolution
     \<Rightarrow> string \<times> bool \<times> gate_rule_authority_class \<Rightarrow> u64 \<Rightarrow> approval_request \<Rightarrow> approval_request" where
  "stamp_request G q R irr stamp epoch a =
     (case stamp of (tier, risky, authority) \<Rightarrow>
        a \<lparr> a_capability_authority := authority_class irr, a_gate_rule_authority := Some authority,
            a_credential_authority := Some (authority_of (rs_credential R)),
            a_trusted_spend_amount_minor := map_option spend_minor (request_spend G q R),
            a_trusted_spend_asset := map_option sa_asset (request_spend G q R),
            a_authoritative_risk_tier := tier, a_authoritative_irreversible := risky,
            a_kill_epoch_at_open := Some epoch \<rparr>)"

definition plugin_checked :: "gateway_env \<Rightarrow> resolved_action \<Rightarrow> json \<Rightarrow> unit step" where
  "plugin_checked G R params =
     (case Option.bind (ge_plugins G (rs_plugin R)) (\<lambda>p. pg_validate_params p (rs_name R) params) of
        Some e \<Rightarrow> fail_with (terminal_failure (PluginFailed e))
      | None \<Rightarrow>
          (case apply_workspace_scope_to_params params (cr_metadata (rs_credential R)) of
             Inl e \<Rightarrow> fail_with (terminal_failure (PluginFailed e))
           | Inr _ \<Rightarrow> done_with ()))"

definition reserve_token :: "gateway_env \<Rightarrow> refusal_ctx \<Rightarrow> exec_auth \<Rightarrow> unit step" where
  "reserve_token G x A =
     (case xa_use_token A of
        None \<Rightarrow> done_with ()
      | Some t \<Rightarrow> (\<lambda>S. case vault_op G AtReserve (\<lambda>V. consume_use_token V (ut_id t)) S of
          (Inl e, S1) \<Rightarrow> refuse G x RefTokenUnusable (DeniedError (TokenCannotReserve e)) S1
        | (Inr _, S1) \<Rightarrow> (Inr (), S1)))"

definition publish_approval :: "gateway_env \<Rightarrow> approval_request \<Rightarrow> approval_request step" where
  "publish_approval G a S =
     (case vault_op G AtStoreApproval (\<lambda>V. store_approval V a) S of
        (Inl e, S1) \<Rightarrow> fail_with (terminal_failure (StorageRefused e)) S1
      | (Inr _, S1) \<Rightarrow>
          (Inr a, emit_event G AtRequested
             \<lparr> em_subject = a_id a, em_type = ''approval.requested'', em_credential = a_credential a,
               em_action = a_action a, em_kind = [] \<rparr> S1))"

text \<open>A failure of the recipe service is noted where it is met.\<close>

definition fetched_or_refused ::
  "gateway_env \<Rightarrow> refusal_ctx \<Rightarrow> exec_auth \<Rightarrow> resolved_action \<Rightarrow> gate_rule_answer step" where
  "fetched_or_refused G x A R S =
     (case fetch_gate_rule_for_action G (principal_tenant A) (Option.bind (auth_principal A) pl_agent_label)
             (rs_full R) (rs_label R) S of
        (Inl e, S1) \<Rightarrow> refuse G x RefDecisionUnavailable (gf_error e) S1
      | (Inr a, S1) \<Rightarrow> (Inr a, S1))"

definition open_approval ::
  "gateway_env \<Rightarrow> refusal_ctx \<Rightarrow> exec_auth \<Rightarrow> execute_request \<Rightarrow> resolved_action \<Rightarrow> u64
     \<Rightarrow> irreversibility_resolution \<Rightarrow> approval_request step" where
  "open_approval G x A q R epoch irr =
     (if \<not> ac_enabled (gc_approval (ge_config G))
      then refuse G x RefApprovalUnavailable (DeniedError ApprovalsOff)
      else
        and_then (plugin_checked G R (xq_params q)) (\<lambda>_ S.
          case approval_preview_for_action G (rs_full R) (rs_label R) (xq_params q) S of
            (preview, S1) \<Rightarrow>
              and_then (fetched_or_refused G x A R) (\<lambda>answer.
              and_then (recipe_stamp G x (trusted_human_floor irr) answer) (\<lambda>(rule, stamp).
                (let a = stamp_request G q R irr stamp epoch
                       (open_request (ge_fresh G) (ve_now (ge_vault G AtOpen))
                         (new_request G A q R irr preview rule))
                 in and_then (kill_fence_refuses_open G x A R epoch) (\<lambda>_.
                    and_then (reserve_token G x A) (\<lambda>_. publish_approval G a))))) S1))"

section \<open>The direct permit\<close>

definition direct_payload ::
  "gateway_env \<Rightarrow> refusal_ctx \<Rightarrow> exec_auth \<Rightarrow> execute_request \<Rightarrow> resolved_action \<Rightarrow> u64
     \<Rightarrow> irreversibility_resolution \<Rightarrow> request_context \<Rightarrow> action_payload" where
  "direct_payload G x A q R epoch irr ctx =
     (let money = is_money_action [Some (xq_action q), Some (rs_full R), rs_label R];
          token = map_option ut_id (xa_use_token A)
      in \<lparr> py_credential = rs_credential R, py_plugin_name = rs_plugin R, py_action_name = rs_name R,
           py_params = xq_params q, py_context = ctx, py_use_token_id = token, py_evidence_subject_id = token,
           py_approved_execution = False, py_evidence_action = xq_action q,
           py_evidence_required = requires_committed_evidence
             (floor_from_config (gc_averin (ge_config G)) (ge_averin_present G)) money irr,
           py_d8_fallback_ok = d8_fallback_ok money irr,
           py_kill_fence = \<lparr> ks_principal = auth_principal A, ks_admitted_epoch = epoch,
                             ks_tenant = principal_tenant A \<rparr>,
           py_refusal = x \<rparr>)"

definition authorize_direct ::
  "gateway_env \<Rightarrow> refusal_ctx \<Rightarrow> exec_auth \<Rightarrow> resolved_action \<Rightarrow> request_context
     \<Rightarrow> permit_error + admission_witness \<Rightarrow> action_payload \<Rightarrow> action_payload authorized step" where
  "authorize_direct G x A R ctx admission payload =
     (case admission of
        Inl e \<Rightarrow> refuse G x RefDecisionUnavailable (DeniedError (PermitRefused e))
      | Inr w \<Rightarrow>
          (case authorize (payload_binding (gw_codec G))
                  (direct w (rx_request_id ctx) (or_empty (principal_tenant A)) (rs_full R)) payload of
             Inl e \<Rightarrow> refuse G x RefDecisionUnavailable (DeniedError (PayloadMismatch e))
           | Inr z \<Rightarrow> done_with z))"

datatype prepared_action = Pending approval_request | Ready "action_payload authorized"

definition request_context_of :: "gateway_env \<Rightarrow> exec_auth \<Rightarrow> request_context" where
  "request_context_of G A =
     (let c = context_new (ge_request_id G) (ve_now (ge_vault G AtResolve))
      in case xa_auth A of Some a \<Rightarrow> with_auth a c | None \<Rightarrow> c)"

definition refusal_ctx_of :: "refusal_entry \<Rightarrow> exec_auth \<Rightarrow> execute_request \<Rightarrow> refusal_ctx" where
  "refusal_ctx_of entry A q =
     ctx_new entry (map_option (\<lambda>a. (ak_id (ax_api_key a), ak_agent_label (ax_api_key a))) (xa_auth A)) (xq_action q)"

definition prepare_execution ::
  "gateway_env \<Rightarrow> execute_request \<Rightarrow> exec_auth \<Rightarrow> bool \<Rightarrow> refusal_entry \<Rightarrow> prepared_action step" where
  "prepare_execution G q A via_llm entry =
     (let x0 = refusal_ctx_of entry A q; ctx = request_context_of G A in
      and_then (caller_gate G x0 A q) (\<lambda>_.
      and_then (resolve_request G q) (\<lambda>R.
        (let x = ctx_resolved (rs_alias R) (rs_full R) x0 in
         and_then (token_gate G x A q R) (\<lambda>_.
         and_then (tenant_gate G x A R) (\<lambda>_.
         and_then (if via_llm then done_with ()
                   else refuse_llm_credential_off_channel G (rs_credential R) (xq_credential q) x) (\<lambda>_.
         and_then (policy_gate G x A q R) (\<lambda>(epoch, ev, needs).
         and_then (catalogue_gate G x R needs) (\<lambda>(irr, needs').
           (let admission = admit ev needs' in
            if admission = Inl ApprovalRequired
            then and_then (open_approval G x A q R epoch irr) (\<lambda>a. done_with (Pending a))
            else and_then (authorize_direct G x A R ctx admission (direct_payload G x A q R epoch irr ctx))
                   (\<lambda>z. done_with (Ready z))))))))))))"

end
