(* ===== verification/Gateway_Run.thy ===== *)
theory Gateway_Run
  imports Gateway_Prepare
begin

text \<open>
  The run of an authorised payload on the buffered path of \<open>src/src/server/mod.rs\<close>: the checks before a
  use is spent, the evidence, the kill fence as the last access before the plugin call, and the
  confinement of what comes back; then the two callers, direct execution and the resume of an approval.
\<close>

section \<open>Evidence\<close>

definition evidence_preflight ::
  "gateway_env \<Rightarrow> bool \<Rightarrow> string option \<Rightarrow> bool \<Rightarrow> nat \<Rightarrow> unit step" where
  "evidence_preflight G required subject approved_execution params_len =
     (let v = gc_averin (ge_config G);
          deny = (\<lambda>d. fail_with (refused_failure RefDecisionUnavailable (DeniedError d)));
          bound = vc_max_seal_params_bytes v
      in if \<not> required then
           (if ge_averin_present G \<and> vc_d8_complete_evidence v \<and> subject \<noteq> None \<and> bound < params_len
            then deny (EvidenceOversize bound) else done_with ())
         else if \<not> ge_averin_present G then deny NoSealClient
         else (case subject of
                 None \<Rightarrow> deny NoEvidenceSubject
               | Some token_id \<Rightarrow>
                   if bound < params_len then deny (EvidenceOversize bound)
                   else if approved_execution \<or> vc_d8_complete_evidence v then done_with ()
                   else (case (if vc_durable v then ge_popkey G token_id else None) of
                           Some answer \<Rightarrow>
                             (\<lambda>S. (case answer of
                                     Inl e \<Rightarrow> fail_with (refused_retryable_failure RefDecisionUnavailable
                                                (UnavailableError (GrantUnreadable e)))
                                   | Inr (Some True) \<Rightarrow> done_with ()
                                   | Inr (Some False) \<Rightarrow> fail_with (refused_retryable_failure RefDecisionUnavailable
                                                (UnavailableError GrantNotSealedYet))
                                   | Inr None \<Rightarrow> deny NoGrantBinding) (await_at G AtPopKey S))
                         | None \<Rightarrow> if ge_memory_grant G token_id then done_with () else deny NoGrantBinding)))"

text \<open>\<open>ge_seal_required\<close> is the outcome of the committed seal, made directly or through the durable queue;
  in the observing mode a seal never stops the action.\<close>

definition seal_after_consume :: "gateway_env \<Rightarrow> bool \<Rightarrow> unit step" where
  "seal_after_consume G required =
     (let deny = fail_with (refused_failure RefDecisionUnavailable (DeniedError SealFailed))
      in if required then (case ge_seal_required G of None \<Rightarrow> done_with () | Some _ \<Rightarrow> deny)
         else (case vc_mode (gc_averin (ge_config G)) of
                 AverinObserve \<Rightarrow> done_with ()
               | AverinRequireEvidence \<Rightarrow> (case ge_seal_execute G of None \<Rightarrow> done_with () | Some _ \<Rightarrow> deny)))"

text \<open>Whether two-phase evidence was begun.\<close>

definition begin_exact_or_degrade :: "gateway_env \<Rightarrow> bool \<Rightarrow> bool \<Rightarrow> bool step" where
  "begin_exact_or_degrade G required fallback_ok =
     (case ge_begin_exact G of
        None \<Rightarrow> done_with True
      | Some e \<Rightarrow>
          if fallback_ok \<and> \<not> required \<and> is_unavailable e
          then and_then (seal_after_consume G required) (\<lambda>_. done_with False)
          else fail_with (refused_failure RefDecisionUnavailable (DeniedError SealFailed)))"

definition seal_use :: "gateway_env \<Rightarrow> action_payload \<Rightarrow> string option \<Rightarrow> bool step" where
  "seal_use G p evidence_params S =
     (if ge_averin_present G \<and> py_evidence_subject_id p \<noteq> None \<and> evidence_params \<noteq> None
      then (let S1 = await_at G AtSeal S
            in if vc_d8_complete_evidence (gc_averin (ge_config G))
                  \<or> py_approved_execution p \<and> py_evidence_required p
               then begin_exact_or_degrade G (py_evidence_required p) (py_d8_fallback_ok p) S1
               else and_then (seal_after_consume G (py_evidence_required p)) (\<lambda>_. done_with False) S1)
      else (Inr False, S))"

section \<open>The kill fence and the call\<close>

definition kill_fence_before_dispatch ::
  "gateway_env \<Rightarrow> string \<Rightarrow> string \<Rightarrow> kill_fence_subject \<Rightarrow> unit step" where
  "kill_fence_before_dispatch G alias act k S =
     (case vault_read G AtFence (\<lambda>V. kill_fence_check V
             \<lparr> kq_credential_alias = alias, kq_principal = ks_principal k,
               kq_admitted_epoch = ks_admitted_epoch k \<rparr>) S of
        (Inl e, S1) \<Rightarrow>
          fail_with (refused_retryable_failure RefDecisionUnavailable (UnavailableError (FenceUnreadable e))) S1
      | (Inr v, S1) \<Rightarrow>
          (case refusal_reason v of
             None \<Rightarrow> (Inr (), S1)
           | Some reason \<Rightarrow>
               fail_with (refused_failure RefKillFence (DeniedError (KillRefused reason)))
                 (emit_policy_denied G AtFenceEvent (Option.bind (ks_principal k) pl_agent_label)
                    (map_option pl_id (ks_principal k)) alias act ''kill_fence''
                    (record_unauthorized_attempt S1))))"

definition confine_plugin_execution_error ::
  "egress_lib \<Rightarrow> (plugin_error \<Rightarrow> string) \<Rightarrow> plugin_error \<Rightarrow> string list \<Rightarrow> plugin_error" where
  "confine_plugin_execution_error L show_error e secrets =
     (if diagnostic_may_contain_secret L (show_error e) secrets
      then ExecutionFailed ''trusted connector execution failed; details withheld'' else e)"

definition run_secrets :: "gateway_env \<Rightarrow> credential \<Rightarrow> string list" where
  "run_secrets G cred = secret_material (el_base64 (ge_egress G) False True) (cr_data cred)"

definition call_plugin ::
  "gateway_env \<Rightarrow> plugin \<Rightarrow> action_payload \<Rightarrow> json \<Rightarrow> bool \<Rightarrow> execute_response step" where
  "call_plugin G pl p params begun S =
     (let req = \<lparr> pq_credential = py_credential p, pq_action = py_action_name p, pq_params = params,
                  pq_context = py_context p \<rparr>;
          S1 = S \<lparr> gw_dispatched := gw_dispatched S @
                 [\<lparr> ds_plugin = py_plugin_name p, ds_request = req, ds_fence = py_kill_fence p,
                    ds_vault = gw_vault S \<rparr>] \<rparr>;
          S2 = await_at G AtExecute S1
      in case pg_execute pl req of
           Inr r \<Rightarrow>
             (case (if begun then ge_complete_exact G else None) of
                Some e \<Rightarrow> fail_with (committed_failure (UnavailableError (OutcomeEvidenceFailed e))) S2
              | None \<Rightarrow> (Inr r, S2))
         | Inl e \<Rightarrow>
             fail_with (committed_failure (PluginFailed (confine_plugin_execution_error (ge_egress G)
               (pg_show_error pl) e (run_secrets G (py_credential p))))) S2)"

section \<open>What comes back\<close>

definition confine_run :: "gateway_env \<Rightarrow> action_payload \<Rightarrow> execute_response \<Rightarrow> execute_response" where
  "confine_run G p r =
     confine_response (ge_egress G)
       (scrub_set_with_minted (ge_egress G) (run_secrets G (py_credential p)) (xr_updated_credential r))
       (cr_alias (py_credential p)) (gc_egress (ge_config G)) (py_plugin_name p @ ''.'' @ py_action_name p) r"

text \<open>A rotated credential is stored and announced; that it could not be stored is only logged.\<close>

definition persist_rotation ::
  "gateway_env \<Rightarrow> credential \<Rightarrow> execute_response \<Rightarrow> gateway \<Rightarrow> gateway" where
  "persist_rotation G cred r S =
     (case xr_updated_credential r of
        None \<Rightarrow> S
      | Some d \<Rightarrow>
          emit_event G AtRotated
            \<lparr> em_subject = cr_alias cred, em_type = ''credential.rotated'', em_credential = cr_alias cred,
              em_action = [], em_kind = [] \<rparr>
            (snd (vault_op G AtStoreCredential (\<lambda>V. store_credential V
               (cred \<lparr> cr_credential_type := data_type d, cr_data := d, cr_updated_at := ve_now V \<rparr>)) S)))"

definition consume_for_run :: "gateway_env \<Rightarrow> string option \<Rightarrow> unit step" where
  "consume_for_run G token =
     (case token of
        None \<Rightarrow> done_with ()
      | Some i \<Rightarrow> (\<lambda>S. case vault_op G AtConsume (\<lambda>V. consume_use_token V i) S of
          (Inl e, S1) \<Rightarrow> fail_with (refused_failure RefTokenUnusable (DeniedError (TokenCannotBeUsed e))) S1
        | (Inr _, S1) \<Rightarrow> (Inr (), S1)))"

definition evidence_bytes :: "gateway_env \<Rightarrow> action_payload \<Rightarrow> json \<Rightarrow> string option step" where
  "evidence_bytes G p params =
     (if py_evidence_required p \<or> ge_averin_present G \<and> py_evidence_subject_id p \<noteq> None
      then (case co_to_vec (gw_codec G) params of
              None \<Rightarrow> fail_with (refused_failure RefDecisionUnavailable (DeniedError ParamsUnbound))
            | Some b \<Rightarrow> done_with (Some b))
      else done_with None)"

definition run_preflight :: "gateway_env \<Rightarrow> action_payload \<Rightarrow> (plugin \<times> json) step" where
  "run_preflight G p =
     (case ge_plugins G (py_plugin_name p) of
        None \<Rightarrow> fail_with (retryable_failure (PluginFailed (PluginMissing (py_plugin_name p))))
      | Some pl \<Rightarrow>
          (case pg_validate_params pl (py_action_name p) (py_params p) of
             Some e \<Rightarrow> fail_with (terminal_failure (PluginFailed e))
           | None \<Rightarrow>
               (case apply_workspace_scope_to_params (py_params p) (cr_metadata (py_credential p)) of
                  Inl e \<Rightarrow> fail_with (terminal_failure (PluginFailed e))
                | Inr params \<Rightarrow> done_with (pl, params))))"

definition run_action ::
  "gateway_env \<Rightarrow> action_payload authorized \<Rightarrow> execute_response step" where
  "run_action G z =
     (let p = au_payload z in
      and_then (run_preflight G p) (\<lambda>(pl, params).
      and_then (evidence_bytes G p params) (\<lambda>bytes.
      and_then (evidence_preflight G (py_evidence_required p) (py_evidence_subject_id p) (py_approved_execution p)
                  (case bytes of Some b \<Rightarrow> length b | None \<Rightarrow> 0)) (\<lambda>_.
      and_then (consume_for_run G (py_use_token_id p)) (\<lambda>_.
      and_then (seal_use G p bytes) (\<lambda>begun.
      and_then (kill_fence_before_dispatch G (cr_alias (py_credential p))
                  (py_plugin_name p @ ''.'' @ py_action_name p) (py_kill_fence p)) (\<lambda>_.
      and_then (call_plugin G pl p params begun) (\<lambda>r.
        (let r' = confine_run G p r
         in (\<lambda>S. (Inr r', persist_rotation G (py_credential p) r' S)))))))))))"

section \<open>Direct execution\<close>

datatype execution_outcome = Completed execute_response | PendingApproval approval_request

definition execute_gated_inner ::
  "gateway_env \<Rightarrow> execute_request \<Rightarrow> exec_auth \<Rightarrow> bool \<Rightarrow> refusal_entry
     \<Rightarrow> execution_outcome step" where
  "execute_gated_inner G q A via_llm entry =
     and_then (prepare_execution G q A via_llm entry) (\<lambda>prepared.
       case prepared of
         Pending a \<Rightarrow> done_with (PendingApproval a)
       | Ready z \<Rightarrow>
           and_then (note_run_refusal G (py_refusal (au_payload z)) (run_action G z))
             (\<lambda>r. done_with (Completed r)))"

section \<open>Resuming an approval\<close>

definition resume_refusal_ctx :: "approval_request \<Rightarrow> refusal_ctx" where
  "resume_refusal_ctx a =
     ctx_resolved (a_credential a) (a_action a)
       (ctx_new EntryApprovalResume
          (case (case a_principal_id a of Some i \<Rightarrow> Some i | None \<Rightarrow> ri_principal_id (a_requester a)) of
             Some i \<Rightarrow> Some (i, a_agent_label a)
           | None \<Rightarrow> map_option (\<lambda>l. (''unknown'', Some l)) (a_agent_label a)) (a_action a))"

definition credential_authority_gate :: "approval_request \<Rightarrow> credential \<Rightarrow> unit step" where
  "credential_authority_gate a cred =
     (let current = authority_of cred; may_act = tenant_may_act (a_tenant a) (ca_tenant current)
      in if a_credential_authority a \<noteq> Some current \<or> \<not> may_act
         then fail_with (refused_failure (if may_act then RefDecisionUnavailable else RefCrossTenant)
                (DeniedError CredentialAuthorityChanged))
         else done_with ())"

definition catalogue_authority_gate :: "gateway_env \<Rightarrow> approval_request \<Rightarrow> unit step" where
  "catalogue_authority_gate G a S =
     (case resolve_irreversibility_for_action G (a_credential a) (a_action a) (a_action_label a) S of
        (irr, S1) \<Rightarrow>
          if authority_class irr = None
             \<or> (case a_capability_authority a of
                  Some opened \<Rightarrow> authority_class irr \<noteq> Some opened
                | None \<Rightarrow> gc_require_declared_capabilities (ge_config G))
          then fail_with (refused_failure RefDecisionUnavailable (DeniedError CatalogAuthorityChanged)) S1
          else (Inr (), S1))"

definition recipe_still_current :: "gateway_env \<Rightarrow> approval_request \<Rightarrow> gate_rule_answer \<Rightarrow> bool" where
  "recipe_still_current G a answer =
     (case answer of
        RuleAnswer f \<Rightarrow>
          a_gate_rule_authority a = Some GateRule \<and> a_approval_rule a = Some (fg_rule f)
          \<and> a_authoritative_risk_tier a = fg_risk_tier f \<and> a_authoritative_irreversible a = fg_irreversible f
      | NoRuleAnswer \<Rightarrow>
          a_gate_rule_authority a = Some GateNoRule \<and> a_approval_rule a = None
          \<and> a_authoritative_risk_tier a = [] \<and> \<not> a_authoritative_irreversible a
      | InconclusiveAnswer _ \<Rightarrow>
          \<not> gc_require_declared_capabilities (ge_config G)
          \<and> a_gate_rule_authority a = Some GateInconclusive \<and> a_approval_rule a = None)"

definition recipe_authority_gate :: "gateway_env \<Rightarrow> approval_request \<Rightarrow> unit step" where
  "recipe_authority_gate G a S =
     (case fetch_gate_rule_for_action G (a_tenant a) (a_agent_label a) (a_action a) (a_action_label a) S of
        (Inl e, S1) \<Rightarrow> fail_with (refused_failure RefDecisionUnavailable (UnavailableError RecipeServiceFailed)) S1
      | (Inr answer, S1) \<Rightarrow>
          if \<not> (a_gate_rule_authority a = None \<and> \<not> gc_require_declared_capabilities (ge_config G))
             \<and> \<not> recipe_still_current G a answer
          then fail_with (refused_failure RefDecisionUnavailable (DeniedError RecipeAuthorityChanged)) S1
          else (Inr (), S1))"

definition resume_query :: "approval_request \<Rightarrow> credential \<Rightarrow> admission_query" where
  "resume_query a cred =
     \<lparr> aq_credential_alias = cr_alias cred,
       aq_action = (case a_action_label a of Some l \<Rightarrow> l | None \<Rightarrow> a_action a),
       aq_params = a_params a, aq_principal = policy_principal a, aq_spend = None \<rparr>"

definition resume_policy_gate :: "gateway_env \<Rightarrow> approval_request \<Rightarrow> credential \<Rightarrow> evaluation step" where
  "resume_policy_gate G a cred S =
     (let ev = evaluate_readonly_for_admission (gw_codec G) (ge_eval G) (resume_query a cred) (gw_engine S);
          p = policy_principal a
      in case ev_decision ev of
           DDeny reason \<Rightarrow>
             fail_with (refused_failure
                 (case ev_deny_cause ev of Some c \<Rightarrow> cause_refusal_class c | None \<Rightarrow> RefPolicyDeny)
                 (DeniedError (DeniedByPolicy reason)))
               (emit_policy_denied G AtDenyEvent (Option.bind p pl_agent_label) (map_option pl_id p)
                  (cr_alias cred) (a_action a) ''policy_resume'' (record_unauthorized_attempt S))
         | _ \<Rightarrow> (Inr ev, S))"

definition resume_evidence_required :: "gateway_env \<Rightarrow> approval_request \<Rightarrow> bool" where
  "resume_evidence_required G a =
     (case a_capability_authority a of
        Some CapHumanFloor \<Rightarrow> True
      | Some CapAmbiguousCanonical \<Rightarrow> True
      | Some CapPartiallyReversible \<Rightarrow>
          is_money_action [Some (a_action a), a_action_label a]
          \<or> floor_from_config (gc_averin (ge_config G)) (ge_averin_present G) = FloorHumanFloor
      | Some _ \<Rightarrow> False
      | None \<Rightarrow> a_trusted_irreversible a)"

definition resume_payload ::
  "gateway_env \<Rightarrow> approval_request \<Rightarrow> credential \<Rightarrow> u64 \<Rightarrow> action_payload" where
  "resume_payload G a cred epoch =
     (case parse_action (a_action a) of
        (plug, name) \<Rightarrow>
          \<lparr> py_credential = cred, py_plugin_name = plug, py_action_name = name, py_params = a_params a,
            py_context = bind_approved_execution (a_id a) epoch (a_tenant a)
              ((context_new (ge_request_id G) (ve_now (ge_vault G AtResolve)))
                 \<lparr> rx_agent_label := a_agent_label a,
                   rx_api_key_id := (case a_principal_id a of
                      Some i \<Rightarrow> Some i | None \<Rightarrow> ri_principal_id (a_requester a)) \<rparr>),
            py_use_token_id = None,
            py_evidence_subject_id = Some (''approval:'' @ a_id a @ '':'' @ show_word epoch),
            py_approved_execution = True,
            py_evidence_action = (case a_action_label a of Some l \<Rightarrow> l | None \<Rightarrow> a_action a),
            py_evidence_required = resume_evidence_required G a,
            py_d8_fallback_ok = (\<not> is_money_action [Some (a_action a), a_action_label a]
              \<and> a_capability_authority a \<in> {Some CapReversible, Some CapPartiallyReversible}),
            py_kill_fence = \<lparr> ks_principal = policy_principal a,
              ks_admitted_epoch = (case a_kill_epoch_at_open a of Some e \<Rightarrow> e | None \<Rightarrow> 0),
              ks_tenant = a_tenant a \<rparr>,
            py_refusal = resume_refusal_ctx a \<rparr>)"

definition authorize_resume ::
  "gateway_env \<Rightarrow> approval_request \<Rightarrow> granted \<Rightarrow> credential \<Rightarrow> evaluation \<Rightarrow> action_payload authorized step" where
  "authorize_resume G a grant cred ev =
     (case approved grant ev (timestamp (ve_now (ge_vault G AtPermit))) of
        Inl e \<Rightarrow> fail_with (refused_failure RefDecisionUnavailable (DeniedError (PermitRefused e)))
      | Inr permit \<Rightarrow>
          (case authorize (payload_binding (gw_codec G)) permit
                  (resume_payload G a cred (eb_epoch (gr_binding grant))) of
             Inl e \<Rightarrow> fail_with (refused_failure RefDecisionUnavailable (DeniedError (PayloadMismatch e)))
           | Inr z \<Rightarrow> done_with z))"

definition resume_approved ::
  "gateway_env \<Rightarrow> approval_request \<Rightarrow> granted \<Rightarrow> execute_response step" where
  "resume_approved G a grant =
     and_then (resolve_credential G AtResolve (a_credential a)) (\<lambda>cred.
     and_then (refuse_llm_credential_off_channel G cred (a_credential a) (resume_refusal_ctx a)) (\<lambda>_.
     and_then (credential_authority_gate a cred) (\<lambda>_.
     and_then (catalogue_authority_gate G a) (\<lambda>_.
     and_then (recipe_authority_gate G a) (\<lambda>_.
     and_then (resume_policy_gate G a cred) (\<lambda>ev.
     and_then (authorize_resume G a grant cred ev) (\<lambda>z. run_action G z)))))))"

end
