(* ===== verification/Gateway_Halt.thy ===== *)
theory Gateway_Halt
  imports Gateway_Run
begin

text \<open>
  The kill switch of \<open>src/src/server/mod.rs\<close>: halting an agent, lifting the halt, and the reload of the
  policy engine from the configured and the stored policies; and which capabilities a principal is shown.
  The sessions in flight and the callbacks a halt fires are left out: they end work that has begun, while
  the vault operations here are what stops the next call.
\<close>

section \<open>Reloading policies\<close>

definition merge_policies :: "policy list \<Rightarrow> policy list \<Rightarrow> policy list" where
  "merge_policies config_policies stored = config_policies @ stored"

definition reload_policies :: "gateway_env \<Rightarrow> unit step" where
  "reload_policies G S =
     (case begin_load (gw_engine S) of
        (ticket, en) \<Rightarrow>
          (let S1 = await_at G AtListPolicies (S \<lparr> gw_engine := en \<rparr>);
               stored = map snd (sc_policies (gw_cached S1))
           in case refuse_unloadable_stored_policies (gw_lib G) stored of
                Inl refusals \<Rightarrow> fail_with (terminal_failure (UnloadablePolicies refusals)) S1
              | Inr _ \<Rightarrow>
                  (Inr (), S1 \<lparr> gw_engine := snd (load_policies_if_newer ticket
                     (merge_policies (gc_policies (ge_config G)) stored) (gw_engine S1)) \<rparr>)))"

section \<open>Halting\<close>

record kill_fence_acknowledgement =
  ka_live :: bool
  ka_epoch :: u64

definition read_ack :: "gateway_env \<Rightarrow> string \<Rightarrow> gateway \<Rightarrow> kill_fence_acknowledgement \<times> gateway" where
  "read_ack G policy_id S =
     (case vault_read G AtAck (\<lambda>V. kill_fence_ack policy_id) S of
        (Inr (Some epoch), S1) \<Rightarrow> (\<lparr> ka_live = True, ka_epoch = epoch \<rparr>, S1)
      | (_, S1) \<Rightarrow> (\<lparr> ka_live = False, ka_epoch = 0 \<rparr>, S1))"

record halt_outcome =
  ho_agent_label :: string
  ho_revoked_tokens :: "string list"
  ho_deny_policy_id :: string
  ho_policy_active :: bool
  ho_kill_fence :: kill_fence_acknowledgement

definition halt_target :: "string \<Rightarrow> use_token \<Rightarrow> bool" where
  "halt_target label t \<longleftrightarrow> \<not> ut_revoked t \<and> (ut_agent_label t = Some label \<or> ut_id t = label)"

fun revoke_tokens :: "gateway_env \<Rightarrow> nat \<Rightarrow> string list \<Rightarrow> unit step" where
  "revoke_tokens G n [] = done_with ()"
| "revoke_tokens G n (i # is) =
     (\<lambda>S. case vault_op G (AtRevoke n) (\<lambda>V. set_use_token_revoked V i) S of
            (Inl e, S1) \<Rightarrow> fail_with (terminal_failure (StorageRefused e)) S1
          | (Inr _, S1) \<Rightarrow> revoke_tokens G (Suc n) is S1)"

definition halt_policy_id :: "string \<Rightarrow> string" where
  "halt_policy_id label = ''halt:'' @ label"

definition store_kill :: "gateway_env \<Rightarrow> string \<Rightarrow> unit step" where
  "store_kill G label S =
     (case vault_op G AtStorePolicy (\<lambda>V. store_policy V (kill_switch (halt_policy_id label) label)) S of
        (Inl e, S1) \<Rightarrow> fail_with (terminal_failure (StorageRefused e)) S1
      | (Inr _, S1) \<Rightarrow> (Inr (), S1))"

definition halt_agent :: "gateway_env \<Rightarrow> string \<Rightarrow> halt_outcome step" where
  "halt_agent G raw S =
     (let label = trim raw
      in case validate_agent_label label of
           Inl e \<Rightarrow> fail_with (terminal_failure (InvalidLabel e)) S
         | Inr _ \<Rightarrow>
             (let S0 = await_at G AtListTokens S;
                  ids = map ut_id (filter (halt_target label) (map snd (sc_use_tokens (gw_cached S0))))
              in and_then (revoke_tokens G 0 ids) (\<lambda>_.
                 and_then (store_kill G label) (\<lambda>_ S2.
                   case read_ack G (halt_policy_id label) S2 of
                     (ack, S3) \<Rightarrow>
                       (case reload_policies G S3 of
                          (active, S4) \<Rightarrow>
                            (Inr \<lparr> ho_agent_label = label, ho_revoked_tokens = ids,
                                   ho_deny_policy_id = halt_policy_id label,
                                   ho_policy_active = (active = Inr ()), ho_kill_fence = ack \<rparr>,
                             emit_event G AtHaltEvent
                               \<lparr> em_subject = label, em_type = ''agent.halted'', em_credential = [],
                                 em_action = [], em_kind = halt_policy_id label \<rparr> S4)))) S0))"

definition unhalt_agent :: "gateway_env \<Rightarrow> string \<Rightarrow> bool step" where
  "unhalt_agent G raw S =
     (let label = trim raw
      in case validate_agent_label label of
           Inl e \<Rightarrow> fail_with (terminal_failure (InvalidLabel e)) S
         | Inr _ \<Rightarrow>
             (case vault_op G AtDeletePolicy (\<lambda>V. delete_policy V (halt_policy_id label)) S of
                (Inr _, S1) \<Rightarrow> and_then (reload_policies G) (\<lambda>_. done_with True) S1
              | (Inl (PolicyNotFound _), S1) \<Rightarrow> and_then (reload_policies G) (\<lambda>_. done_with False) S1
              | (Inl e, S1) \<Rightarrow> fail_with (terminal_failure (StorageRefused e)) S1))"

section \<open>Which capabilities are listed\<close>

definition capability_allowed_for :: "gateway_env \<Rightarrow> auth_result option \<Rightarrow> capability \<Rightarrow> gateway \<Rightarrow> bool \<times> gateway" where
  "capability_allowed_for G auth c S =
     (case resolve_credential G AtResolve (cp_credential_ref c) S of
        (Inl _, S1) \<Rightarrow> (False, S1)
      | (Inr cred, S1) \<Rightarrow>
          (let A = \<lparr> xa_auth = auth, xa_use_token = None, xa_force_approval = False,
                     xa_requester = \<lparr> ri_principal_kind = [], ri_principal_id = None, ri_principal_name = None,
                                      ri_role = None, ri_owner = None \<rparr> \<rparr>
           in (case auth of
                 None \<Rightarrow> True
               | Some a \<Rightarrow>
                   has_permission (ax_role a) Execute \<and> can_access_credential (gw_lib G) (ax_role a) (cr_alias cred)
                   \<and> (credential_tenant cred = None \<or> credential_tenant cred = ak_tenant (ax_api_key a)))
              \<and> \<not> is_deny (evaluate_readonly_full (ge_eval G)
                    \<lparr> ei_credential_alias = cr_alias cred, ei_url = ct_url_glob (cp_target c),
                      ei_method = effective_http_method c, ei_action = Some (cp_action c),
                      ei_principal = auth_principal A, ei_spend = None \<rparr> (gw_engine S1)), S1))"

end
