(* ===== verification/Egress_Properties.thy ===== *)
theory Egress_Properties
  imports Egress
begin

text \<open>
  What the egress controls promise: no spelling of a credential's secrets is in what is released,
  buffered or streamed, and a stream without such a spelling passes unchanged.
\<close>

section \<open>Occurrences\<close>

lemma starts_with_prefix: "starts_with s p \<longleftrightarrow> prefix p s"
  unfolding starts_with_def by (metis append_eq_conv_conj prefix_def take_is_prefix)

lemma find_str_sublist: "find_str p s = None \<longleftrightarrow> \<not> sublist p s"
  by (induction s) (auto simp: starts_with_prefix sublist_Cons_right)

lemma contains_sublist: "contains_str p s \<longleftrightarrow> sublist p s"
  by (simp add: contains_str_def find_str_sublist)

lemma find_bytes_sublist: "find_bytes s p \<longleftrightarrow> p \<noteq> [] \<and> sublist p s"
  by (simp add: find_bytes_def contains_sublist)

definition free_of :: "string list \<Rightarrow> string \<Rightarrow> bool" where
  "free_of forms s \<longleftrightarrow> \<not> list_ex (find_bytes s) forms"

lemma free_of_iff: "free_of forms s \<longleftrightarrow> (\<forall>f\<in>set forms. f \<noteq> [] \<longrightarrow> \<not> sublist f s)"
  by (auto simp: free_of_def list_ex_iff find_bytes_sublist)

lemma free_of_sublist:
  assumes "free_of forms s" "sublist t s"
  shows "free_of forms t"
  using assms unfolding free_of_iff by (meson sublist_order.order_trans)

lemma free_of_nil [simp]: "free_of forms []"
  by (auto simp: free_of_iff)

text \<open>An occurrence that is new in a longer text lies in the last bytes of the old one and the rest.\<close>

lemma free_of_append:
  assumes old: "free_of forms r" and short: "\<forall>f\<in>set forms. length f \<le> Suc k"
    and seam: "free_of forms (drop (length r - k) r @ c)"
  shows "free_of forms (r @ c)"
  unfolding free_of_iff
proof (intro ballI impI notI)
  fix f assume f: "f \<in> set forms" "f \<noteq> []" and "sublist f (r @ c)"
  then consider "sublist f r" | "sublist f c"
    | f1 f2 where "f = f1 @ f2" "suffix f1 r" "prefix f2 c"
    unfolding sublist_append by blast
  then show False
  proof cases
    case 1
    then show ?thesis using old f by (auto simp: free_of_iff)
  next
    case 2
    then show ?thesis using seam f by (auto simp: free_of_iff sublist_append)
  next
    case 3
    show ?thesis
    proof (cases "f2 = []")
      case True
      then show ?thesis using 3 old f by (auto simp: free_of_iff)
    next
      case False
      then have "length f1 \<le> k" using 3 f short by (cases f2) auto
      then have "suffix f1 (drop (length r - k) r)"
        using 3(2) by (auto simp: suffix_def)
      then have "sublist f (drop (length r - k) r @ c)"
        using 3 unfolding sublist_append by blast
      then show ?thesis using seam f by (auto simp: free_of_iff)
    qed
  qed
qed

section \<open>Buffered responses\<close>

lemma set_derive [simp]: "set (derive_secret_forms L secrets) = (\<Union>s\<in>set secrets. set (forms_of L s))"
  by (simp add: derive_secret_forms_def)

lemma set_checked [simp]: "set (checked_forms L secrets) = set (derive_secret_forms L secrets) \<union> set secrets"
  by (simp add: checked_forms_def)

lemma withheld_contains_nothing [simp]: "\<not> response_contains_form (withhold_unredactable r) f"
  by (simp add: response_contains_form_def withhold_unredactable_def find_bytes_sublist)

lemma confine_contains_nothing:
  assumes "f \<in> set secrets \<or> f \<in> set (derive_secret_forms L secrets)"
  shows "\<not> response_contains_form (confine_response L secrets alias rules act r) f"
  using assms by (auto simp: confine_response_def Let_def list_ex_iff)


section \<open>Streamed bodies\<close>

datatype stream_op = Chunk string | Flush

fun stream_step :: "stream_op \<Rightarrow> stream_scrubber \<Rightarrow> string \<times> stream_scrubber" where
  "stream_step (Chunk c) s = (case scrubber_push c s of (Inr out, s') \<Rightarrow> (out, s') | (Inl _, s') \<Rightarrow> ([], s'))"
| "stream_step Flush s = (case scrubber_finish s of (Inr out, s') \<Rightarrow> (out, s') | (Inl _, s') \<Rightarrow> ([], s'))"

fun stream_run :: "stream_op list \<Rightarrow> stream_scrubber \<Rightarrow> string \<times> stream_scrubber" where
  "stream_run [] s = ([], s)"
| "stream_run (p # ps) s =
     (case stream_step p s of (out, s') \<Rightarrow> case stream_run ps s' of (outs, s'') \<Rightarrow> (out @ outs, s''))"

definition released :: "stream_op list \<Rightarrow> string \<Rightarrow> stream_scrubber \<Rightarrow> string" where
  "released ops frame s = (case stream_run ops s of (out, s') \<Rightarrow> out @ fst (terminate_with frame s'))"

definition stream_ok :: "string \<Rightarrow> stream_scrubber \<Rightarrow> bool" where
  "stream_ok r s \<longleftrightarrow>
     (\<forall>f\<in>set (ss_forms s). length f \<le> Suc (ss_keep s))
     \<and> (ss_forms s \<noteq> [] \<longrightarrow>
          free_of (ss_forms s) r \<and> ss_released_tail s = drop (length r - ss_keep s) r)"

lemma tail_of_tail: "drop (length (drop (length r - k) r @ c) - k) (drop (length r - k) r @ c)
    = drop (length (r @ c) - k) (r @ c)"
  by (cases "length r \<le> k") (auto simp: Nat.diff_diff_right add.commute)

lemma admit_ok:
  assumes ok: "stream_ok r s" "ss_forms s \<noteq> []" and adm: "admit_output c s = (res, s')"
  shows "stream_ok (r @ (case res of Inr out \<Rightarrow> out | Inl _ \<Rightarrow> [])) s' \<and> ss_forms s' = ss_forms s"
proof -
  let ?k = "ss_keep s" and ?F = "ss_forms s"
  let ?b = "drop (length r - ?k) r @ c"
  have short: "\<forall>f\<in>set ?F. length f \<le> Suc ?k" and old: "free_of ?F r"
    and tail: "ss_released_tail s = drop (length r - ?k) r"
    using ok by (auto simp: stream_ok_def)
  show ?thesis
  proof (cases "free_of ?F ?b")
    case True
    then have "res = Inr c" "s' = s \<lparr> ss_released_tail := drop (length ?b - ?k) ?b \<rparr>"
      using adm tail by (simp_all add: admit_output_def Let_def free_of_def)
    then show ?thesis
      using free_of_append [OF old short True] short tail_of_tail [of r ?k c]
      by (simp add: stream_ok_def)
  next
    case False
    then have "res = Inl UnsafeOutput" "s' = s \<lparr> ss_carry := [], ss_failed := True \<rparr>"
      using adm tail by (simp_all add: admit_output_def Let_def free_of_def)
    then show ?thesis using ok by (auto simp: stream_ok_def)
  qed
qed

lemma stream_ok_carry [simp]: "stream_ok r (s \<lparr> ss_carry := x \<rparr>) = stream_ok r s"
  by (simp add: stream_ok_def)

lemma stream_ok_failed [simp]: "stream_ok r (s \<lparr> ss_carry := x, ss_failed := b \<rparr>) = stream_ok r s"
  by (simp add: stream_ok_def)

lemma stream_ok_noop: "stream_ok r s \<Longrightarrow> ss_forms s = [] \<Longrightarrow> stream_ok r' s"
  by (simp add: stream_ok_def)

lemma admitted_ok:
  assumes "stream_ok r s" "admit_output c (s \<lparr> ss_carry := x \<rparr>) = (res, s')" "ss_forms s \<noteq> []"
  shows "stream_ok (r @ (case res of Inr out \<Rightarrow> out | Inl _ \<Rightarrow> [])) s' \<and> ss_forms s' = ss_forms s"
  using admit_ok [of r "s \<lparr> ss_carry := x \<rparr>" c res s'] assms by simp

lemma step_of_result:
  assumes "case t of (res, s') \<Rightarrow>
      stream_ok (r @ (case res of Inr out \<Rightarrow> out | Inl _ \<Rightarrow> [])) s' \<and> ss_forms s' = F"
    and "p = (case t of (Inr out, s') \<Rightarrow> (out, s') | (Inl _, s') \<Rightarrow> ([], s'))"
  shows "stream_ok (r @ fst p) (snd p) \<and> ss_forms (snd p) = F"
  using assms by (cases t; cases "fst t") auto

lemma push_ok:
  assumes "stream_ok r s"
  shows "case scrubber_push c s of (res, s') \<Rightarrow>
      stream_ok (r @ (case res of Inr out \<Rightarrow> out | Inl _ \<Rightarrow> [])) s' \<and> ss_forms s' = ss_forms s"
  using assms stream_ok_noop [OF assms]
  by (simp add: scrubber_push_def Let_def admitted_ok [OF assms] split: prod.split)

lemma finish_ok:
  assumes "stream_ok r s"
  shows "case scrubber_finish s of (res, s') \<Rightarrow>
      stream_ok (r @ (case res of Inr out \<Rightarrow> out | Inl _ \<Rightarrow> [])) s' \<and> ss_forms s' = ss_forms s"
  using assms by (simp add: scrubber_finish_def admitted_ok [OF assms] split: prod.split)

lemma step_ok:
  assumes "stream_ok r s"
  shows "stream_ok (r @ fst (stream_step p s)) (snd (stream_step p s)) \<and> ss_forms (snd (stream_step p s)) = ss_forms s"
  by (cases p) (simp_all only: stream_step.simps step_of_result [OF push_ok [OF assms] refl]
      step_of_result [OF finish_ok [OF assms] refl])

lemma run_ok_stream:
  "stream_ok r s \<Longrightarrow>
   stream_ok (r @ fst (stream_run ps s)) (snd (stream_run ps s)) \<and> ss_forms (snd (stream_run ps s)) = ss_forms s"
proof (induction ps arbitrary: r s)
  case (Cons p ps)
  show ?case
    using step_ok [OF Cons.prems, of p] Cons.IH [of "r @ fst (stream_step p s)" "snd (stream_step p s)"]
    by (auto split: prod.splits)
qed simp

lemma max_length:
  assumes "finite F" "f \<in> F"
  shows "length f \<le> Suc (Max (insert 0 (length ` F)) - 1)"
proof -
  have "length f \<le> Max (insert 0 (length ` F))" using assms by (intro Max_ge) auto
  then show ?thesis by linarith
qed

lemma new_ok: "stream_ok [] (scrubber_new L secrets m)"
  using max_length [OF finite_set, of _ "derive_secret_forms L secrets"]
  by (auto simp: stream_ok_def scrubber_new_def Let_def simp del: set_derive One_nat_def)

lemma terminate_ok:
  assumes "stream_ok r s" "ss_forms s \<noteq> []"
  shows "free_of (ss_forms s) (r @ fst (terminate_with frame s))"
  using assms free_of_append [of "ss_forms s" r "ss_keep s" frame]
  by (simp add: stream_ok_def terminate_with_def Let_def free_of_def)

text \<open>C11: whatever the upstream sends, however it is cut into chunks, wherever the stream fails and
  whatever frame ends it, all the bytes released for a stream together contain no secret of the
  credential that is long enough to redact and no derived spelling.\<close>

theorem stream_confined:
  assumes "f \<in> set (derive_secret_forms L secrets)"
  shows "\<not> find_bytes (released ops frame (scrubber_new L secrets m)) f"
proof -
  let ?s = "scrubber_new L secrets m"
  have forms: "ss_forms ?s = derive_secret_forms L secrets"
    by (simp add: scrubber_new_def Let_def)
  obtain out s' where run: "stream_run ops ?s = (out, s')" by fastforce
  have ok: "stream_ok out s'" "ss_forms s' = ss_forms ?s"
    using run_ok_stream [OF new_ok [of L secrets m], of ops] run by auto
  have "ss_forms s' \<noteq> []" using ok forms assms by (auto simp del: set_derive)
  from terminate_ok [OF ok(1) this, of frame] show ?thesis
    using assms ok(2) forms run by (simp add: released_def free_of_def list_ex_iff del: set_derive)
qed

section \<open>Transparency\<close>

lemma forms_long: "f \<in> set (derive_secret_forms L secrets) \<Longrightarrow> f \<noteq> []"
  by (auto simp: forms_of_def min_redact_len_def split: if_splits)

lemma scrub_free:
  assumes "\<forall>f\<in>set forms. f \<noteq> []" "free_of forms s"
  shows "scrub_prefix forms n s = (take n s, drop n s)"
  using assms
proof (induction s arbitrary: n)
  case (Cons c s)
  have "find (\<lambda>f. starts_with (c # s) f) forms = None"
    using Cons.prems prefix_imp_sublist
    by (auto simp: find_None_iff starts_with_prefix free_of_iff)
  moreover have "free_of forms s"
    using Cons.prems(2) by (rule free_of_sublist) (simp add: sublist_Cons_right)
  ultimately show ?case
    using Cons.IH Cons.prems by (cases n) simp_all
qed simp

definition passing :: "string \<Rightarrow> stream_scrubber \<Rightarrow> bool" where
  "passing r s \<longleftrightarrow>
     \<not> ss_failed s \<and> (\<forall>f\<in>set (ss_forms s). f \<noteq> [])
     \<and> (if ss_forms s = [] then ss_carry s = []
        else length (ss_carry s) \<le> ss_keep s \<and> ss_released_tail s = drop (length r - ss_keep s) r)"

lemma admit_passing:
  assumes "ss_released_tail s = drop (length r - ss_keep s) r" "free_of (ss_forms s) (r @ out)"
  shows "admit_output out s
     = (Inr out, s \<lparr> ss_released_tail := drop (length (r @ out) - ss_keep s) (r @ out) \<rparr>)"
proof -
  have "sublist (ss_released_tail s @ out) (r @ out)"
    unfolding assms(1) by (metis append.assoc append_take_drop_id sublist_appendI append_Nil2)
  then have "free_of (ss_forms s) (ss_released_tail s @ out)"
    using assms(2) free_of_sublist by blast
  then show ?thesis
    using assms(1) tail_of_tail [of r "ss_keep s" out] by (simp add: admit_output_def Let_def free_of_def)
qed

lemma push_passing:
  assumes "passing r s" "free_of (ss_forms s) (r @ ss_carry s @ c)" "ss_keep s + length c \<le> ss_max_buffer s"
  obtains out s' where "scrubber_push c s = (Inr out, s')" "passing (r @ out) s'"
    "out @ ss_carry s' = ss_carry s @ c" "ss_forms s' = ss_forms s" "ss_keep s' = ss_keep s"
    "ss_max_buffer s' = ss_max_buffer s"
proof (cases "ss_forms s = []")
  case True
  then show ?thesis using assms that [of c s] by (simp add: scrubber_push_def passing_def)
next
  case False
  let ?w = "ss_carry s @ c"
  let ?n = "length ?w - ss_keep s"
  let ?s = "s \<lparr> ss_carry := drop ?n ?w \<rparr>"
  have free: "free_of (ss_forms s) ?w" "free_of (ss_forms s) (r @ take ?n ?w)"
    by (rule free_of_sublist [OF assms(2)], simp add: sublist_append,
        rule free_of_sublist [OF assms(2)],
        metis append.assoc append_take_drop_id prefixI prefix_imp_sublist)
  have "scrubber_push c s = admit_output (take ?n ?w) ?s"
    using assms False scrub_free [OF _ free(1), of ?n] by (simp add: scrubber_push_def passing_def Let_def)
  also have "\<dots> = (Inr (take ?n ?w), ?s \<lparr> ss_released_tail :=
      drop (length (r @ take ?n ?w) - ss_keep s) (r @ take ?n ?w) \<rparr>)"
    using admit_passing [of ?s r "take ?n ?w"] assms(1) False free(2) by (simp add: passing_def)
  finally show ?thesis
    by (rule that) (use assms False in \<open>auto simp: passing_def simp del: take_append drop_append\<close>)
qed

lemma finish_passing:
  assumes "passing r s" "free_of (ss_forms s) (r @ ss_carry s)"
  shows "\<exists>s'. scrubber_finish s = (Inr (ss_carry s), s')"
proof (cases "ss_forms s = [] \<or> ss_carry s = []")
  case True
  then show ?thesis using assms by (auto simp: scrubber_finish_def passing_def)
next
  case False
  have "free_of (ss_forms s) (ss_carry s)"
    by (rule free_of_sublist [OF assms(2)]) (simp add: sublist_append)
  then show ?thesis
    using False assms scrub_free [of "ss_forms s" "ss_carry s" "length (ss_carry s)"]
      admit_passing [of "s \<lparr> ss_carry := [] \<rparr>" r "ss_carry s"]
    by (simp add: scrubber_finish_def passing_def)
qed

lemma run_passing:
  assumes "passing r s" "free_of (ss_forms s) (r @ ss_carry s @ concat cs)"
    "list_all (\<lambda>c. ss_keep s + length c \<le> ss_max_buffer s) cs"
  shows "fst (stream_run (map Chunk cs @ [Flush]) s) = ss_carry s @ concat cs"
  using assms
proof (induction cs arbitrary: r s)
  case Nil
  then show ?case using finish_passing [of r s] by auto
next
  case (Cons c cs)
  have "free_of (ss_forms s) (r @ ss_carry s @ c)"
    by (rule free_of_sublist [OF Cons.prems(2)]) (metis append.assoc concat.simps(2) prefixI prefix_imp_sublist)
  then obtain out s' where p: "scrubber_push c s = (Inr out, s')" "passing (r @ out) s'"
    "out @ ss_carry s' = ss_carry s @ c" "ss_forms s' = ss_forms s" "ss_keep s' = ss_keep s"
    "ss_max_buffer s' = ss_max_buffer s"
    using push_passing [OF Cons.prems(1), of c] Cons.prems(3) by auto
  have "(r @ out) @ ss_carry s' @ concat cs = r @ ss_carry s @ concat (c # cs)"
    using p(3) by (metis append.assoc concat.simps(2))
  then have "free_of (ss_forms s') ((r @ out) @ ss_carry s' @ concat cs)"
    using Cons.prems(2) p(4) by (simp only:)
  then have "fst (stream_run (map Chunk cs @ [Flush]) s') = ss_carry s' @ concat cs"
    by (rule Cons.IH [OF p(2)]) (use Cons.prems(3) p in simp)
  moreover have "out @ ss_carry s' @ concat cs = ss_carry s @ c @ concat cs"
    using p(3) by (metis append.assoc)
  moreover have "fst (stream_run (map Chunk (c # cs) @ [Flush]) s)
      = out @ fst (stream_run (map Chunk cs @ [Flush]) s')"
    using p(1) by (simp split: prod.split)
  ultimately show ?case by (simp only: concat.simps)
qed

text \<open>A stream whose body contains no spelling of a secret is released byte for byte, however it
  is cut into chunks that fit the buffer beside the bytes held back.\<close>

theorem stream_transparent:
  assumes "\<not> list_ex (find_bytes (concat chunks)) (derive_secret_forms L secrets)"
    and "list_all (\<lambda>c. ss_keep (scrubber_new L secrets m) + length c \<le> m) chunks"
  shows "fst (stream_run (map Chunk chunks @ [Flush]) (scrubber_new L secrets m)) = concat chunks"
proof -
  let ?s = "scrubber_new L secrets m"
  have new: "ss_forms ?s = derive_secret_forms L secrets" "ss_carry ?s = []" "ss_max_buffer ?s = m"
    "passing [] ?s"
    using forms_long by (auto simp: scrubber_new_def passing_def Let_def simp del: set_derive)
  show ?thesis
    using run_passing [OF new(4), of chunks] assms new by (simp add: free_of_def)
qed

section \<open>Witnesses\<close>

text \<open>A package that encodes nothing and a secret split over two chunks.\<close>

definition plain_egress :: egress_lib where
  "plain_egress =
     \<lparr> el_base64 = (\<lambda>u p s. s), el_hex = (\<lambda>u s. s), el_urlencode = (\<lambda>s. s), el_json_string = (\<lambda>s. None) \<rparr>"


theorem stream_confined_witness:
  "\<not> find_bytes (released [Chunk ''say hun'', Chunk ''ter2'', Flush] ''bye''
       (scrubber_new plain_egress [''hunter2''] 64)) ''hunter2''"
  by (rule stream_confined) (simp add: forms_of_def min_redact_len_def)

theorem stream_transparent_witness:
  "fst (stream_run (map Chunk [''say hun'', ''ters''] @ [Flush]) (scrubber_new plain_egress [''hunter2''] 64))
   = concat [''say hun'', ''ters'']"
  by (rule stream_transparent) code_simp+

end
