(* ===== verification/Gateway_Properties.thy ===== *)
theory Gateway_Properties
  imports Gateway_Halt Egress_Properties Samples
begin

text \<open>
  What the gateway promises of the plugin calls it makes, whatever other tasks and processes do at the
  awaits and whichever accesses fail.
\<close>

section \<open>Steps that call no plugin\<close>

definition quiet :: "'a step \<Rightarrow> bool" where
  "quiet m \<longleftrightarrow> (\<forall>S. gw_dispatched (snd (m S)) = gw_dispatched S)"

lemma quietD: "quiet m \<Longrightarrow> m S = (r, S') \<Longrightarrow> gw_dispatched S' = gw_dispatched S"
  by (metis quiet_def snd_conv)

lemma await_dispatched [simp]: "gw_dispatched (await_at G w S) = gw_dispatched S"
  by (simp add: await_at_def)

lemma vault_op_dispatched [simp]: "gw_dispatched (snd (vault_op G w f S)) = gw_dispatched S"
  by (simp add: vault_op_def Let_def split: option.split prod.split)

lemma vault_read_dispatched [simp]: "gw_dispatched (snd (vault_read G w f S)) = gw_dispatched S"
  by (simp add: vault_read_def)

lemma reload_dispatched [simp]: "gw_dispatched (snd (reload_vault G w S)) = gw_dispatched S"
  by (simp add: reload_vault_def)

lemma noted_dispatched [simp]: "gw_dispatched (note_gateway_refusal G x c S) = gw_dispatched S"
  by (simp add: note_gateway_refusal_def)

lemma counted_dispatched [simp]: "gw_dispatched (record_unauthorized_attempt S) = gw_dispatched S"
  by (simp add: record_unauthorized_attempt_def)

lemma emit_dispatched [simp]: "gw_dispatched (emit_event G w e S) = gw_dispatched S"
  by (simp add: emit_event_def Let_def split: option.split)

lemma denied_dispatched [simp]: "gw_dispatched (emit_policy_denied G w l i a act k S) = gw_dispatched S"
  by (simp add: emit_policy_denied_def Let_def)

lemma quiet_done [simp, intro]: "quiet (done_with x)"
  by (simp add: quiet_def done_with_def)

lemma quiet_fail [simp, intro]: "quiet (fail_with e)"
  by (simp add: quiet_def fail_with_def)

lemma refuse_dispatched [simp]: "gw_dispatched (snd (refuse G x c e S)) = gw_dispatched S"
  by (simp add: refuse_def fail_with_def)

lemma quiet_refuse [simp, intro]: "quiet (refuse G x c e)"
  by (simp add: quiet_def)

lemma refuse_Inl [simp]: "refuse G x c e S \<noteq> (Inr y, S')"
  by (simp add: refuse_def fail_with_def)

lemma fail_Inl [simp]: "fail_with e S \<noteq> (Inr y, S')"
  by (simp add: fail_with_def)

lemma fail_dispatched [simp]: "gw_dispatched (snd (fail_with e S)) = gw_dispatched S"
  by (simp add: fail_with_def)

lemma done_Inr [simp]: "done_with x S = (Inr y, S') \<longleftrightarrow> y = x \<and> S' = S"
  by (auto simp: done_with_def)

lemma and_then_cases:
  assumes "and_then m f S = (r, S')"
  obtains e where "m S = (Inl e, S')" "r = Inl e"
    | x S1 where "m S = (Inr x, S1)" "f x S1 = (r, S')"
  using assms by (auto simp: and_then_def split: prod.splits sum.splits)

lemma and_then_Inr: "and_then m f S = (Inr y, S') \<longleftrightarrow> (\<exists>x S1. m S = (Inr x, S1) \<and> f x S1 = (Inr y, S'))"
  by (auto simp: and_then_def split: prod.splits sum.splits)

lemma quiet_and_then [intro]:
  assumes "quiet m" "\<And>x. quiet (f x)"
  shows "quiet (and_then m f)"
  using assms by (auto simp: quiet_def and_then_def split: prod.split sum.split) (metis snd_conv)+

lemma snd_dispatched: "p = (r, S') \<Longrightarrow> gw_dispatched (snd p) = gw_dispatched S \<Longrightarrow> gw_dispatched S' = gw_dispatched S"
  by simp

section \<open>Every gate is quiet\<close>

lemma resolve_quiet [simp]: "quiet (resolve_credential G w i)"
  by (simp add: quiet_def resolve_credential_def Let_def split: option.split)

lemma backs_quiet [simp]: "quiet (backs_llm G n cred i cs)"
proof (induction cs arbitrary: n)
  case (Cons c cs)
  then show ?case
    using resolve_quiet [of G "AtLlmResolve n" "trim (cp_credential_ref c)"]
    by (auto simp: quiet_def Let_def done_with_def split: prod.split sum.split) (metis snd_conv)+
qed simp

lemma irreversibility_dispatched [simp]:
  "gw_dispatched (snd (resolve_irreversibility_for_action G a c l S)) = gw_dispatched S"
  using reload_dispatched [of G AtIrreversibilityReload S]
  by (auto simp: resolve_irreversibility_for_action_def Let_def split: prod.split sum.split simp del: reload_dispatched)

lemma llm_quiet [simp]: "quiet (refuse_llm_credential_off_channel G cred i x)"
proof -
  have "quiet (and_then (backs_llm G 0 cred i cs) (\<lambda>b. if b then refuse G x c e else done_with ()))" for cs c e
    by (intro quiet_and_then) auto
  then show ?thesis
    using reload_dispatched [of G AtLlmReload]
    by (auto simp: quiet_def refuse_llm_credential_off_channel_def Let_def
        split: prod.split sum.split simp del: reload_dispatched)
      (metis snd_conv)+
qed

lemma ask_quiet [simp]: "quiet (ask_classes G ask n i cs)"
  by (induction cs arbitrary: n i) (auto simp: quiet_def Let_def done_with_def split: option.split gate_rule_answer.split)

lemma fetch_quiet [simp]: "quiet (fetch_gate_rule_for_action G t a act l)"
  unfolding fetch_gate_rule_for_action_def Let_def
  by (cases "ge_gate_rule G") (auto simp del: ask_classes.simps intro!: quiet_and_then split: sum.split)

lemma caller_quiet [simp]: "quiet (caller_gate G x A q)"
  by (simp add: caller_gate_def split: option.split)

lemma request_quiet [simp]: "quiet (resolve_request G q)"
  by (auto simp: resolve_request_def intro!: quiet_and_then split: prod.split)

lemma token_quiet [simp]: "quiet (token_gate G x A q R)"
  by (simp add: token_gate_def split: option.split)

lemma tenant_quiet [simp]: "quiet (tenant_gate G x A R)"
  by (simp add: tenant_gate_def quiet_def done_with_def Let_def split: option.split)

lemma policy_quiet [simp]: "quiet (policy_gate G x A q R)"
  by (simp add: quiet_def policy_gate_def Let_def split: prod.split policy_decision.split)

lemma catalogue_quiet [simp]: "quiet (catalogue_gate G x R n)"
  unfolding quiet_def catalogue_gate_def
  by (auto split: prod.split dest!: snd_dispatched [OF _ irreversibility_dispatched])

lemma open_fence_quiet [simp]: "quiet (kill_fence_refuses_open G x A R e)"
  unfolding quiet_def kill_fence_refuses_open_def
  by (auto split: prod.split sum.split option.split dest!: snd_dispatched [OF _ vault_read_dispatched])

lemma reserve_quiet [simp]: "quiet (reserve_token G x A)"
  by (auto simp: quiet_def reserve_token_def done_with_def split: prod.split sum.split option.split
      dest!: snd_dispatched [OF _ vault_op_dispatched])

lemma publish_quiet [simp]: "quiet (publish_approval G a)"
  by (auto simp: quiet_def publish_approval_def split: prod.split sum.split
      dest!: snd_dispatched [OF _ vault_op_dispatched])

lemma plugin_checked_quiet [simp]: "quiet (plugin_checked G R p)"
  by (simp add: plugin_checked_def split: option.split sum.split)

lemma fetched_quiet [simp]: "quiet (fetched_or_refused G x A R)"
  using fetch_quiet unfolding quiet_def fetched_or_refused_def
  by (auto split: prod.split sum.split) (metis snd_conv)+

lemma stamp_quiet [simp]: "quiet (recipe_stamp G x h a)"
  by (simp add: recipe_stamp_def split: gate_rule_answer.split)

lemma preview_dispatched [simp]: "gw_dispatched (snd (approval_preview_for_action G c l p S)) = gw_dispatched S"
  by (simp add: approval_preview_for_action_def Let_def)

lemma quiet_preview:
  assumes "\<And>p. quiet (f p)"
  shows "quiet (\<lambda>S. case approval_preview_for_action G c l j S of (p, S1) \<Rightarrow> f p S1)"
  using assms by (auto simp: quiet_def split: prod.split dest!: snd_dispatched [OF _ preview_dispatched])

lemma open_quiet [simp]: "quiet (open_approval G x A q R e i)"
  unfolding open_approval_def
  by (auto intro!: quiet_and_then quiet_preview simp: Let_def split: prod.split)

lemma authorize_quiet [simp]: "quiet (authorize_direct G x A R c a p)"
  by (simp add: authorize_direct_def split: sum.split)

lemma prepare_quiet [simp]: "quiet (prepare_execution G q A v en)"
  unfolding prepare_execution_def Let_def
  by (auto intro!: quiet_and_then split: prod.split)

section \<open>The run\<close>

lemma preflight_quiet [simp]: "quiet (run_preflight G p)"
  by (simp add: run_preflight_def split: option.split sum.split)

lemma bytes_quiet [simp]: "quiet (evidence_bytes G p j)"
  by (simp add: evidence_bytes_def split: option.split)

lemma quiet_await: "quiet m \<Longrightarrow> quiet (\<lambda>S. m (await_at G w S))"
  by (simp add: quiet_def)

lemma evidence_quiet [simp]: "quiet (evidence_preflight G r s a n)"
  unfolding evidence_preflight_def Let_def
  by (auto intro!: quiet_await split: option.split sum.split bool.split)

lemma seal_after_quiet [simp]: "quiet (seal_after_consume G r)"
  by (simp add: seal_after_consume_def Let_def split: option.split averin_mode.split)

lemma begin_quiet [simp]: "quiet (begin_exact_or_degrade G r f)"
  by (auto simp: begin_exact_or_degrade_def split: option.split intro!: quiet_and_then)

lemma seal_quiet [simp]: "quiet (seal_use G p b)"
proof -
  have "quiet (and_then (seal_after_consume G r) (\<lambda>_. done_with False))" for r
    by (auto intro!: quiet_and_then)
  then show ?thesis
    using begin_quiet [of G] by (auto simp: quiet_def seal_use_def Let_def)
qed

lemma consume_quiet [simp]: "quiet (consume_for_run G t)"
  by (auto simp: quiet_def consume_for_run_def done_with_def split: prod.split sum.split option.split
      dest!: snd_dispatched [OF _ vault_op_dispatched])

lemma fence_quiet [simp]: "quiet (kill_fence_before_dispatch G a act k)"
  unfolding quiet_def kill_fence_before_dispatch_def
  by (auto split: prod.split sum.split option.split dest!: snd_dispatched [OF _ vault_read_dispatched])

lemma persist_dispatched [simp]: "gw_dispatched (persist_rotation G c r S) = gw_dispatched S"
  by (simp add: persist_rotation_def split: option.split)

definition fence_query :: "string \<Rightarrow> kill_fence_subject \<Rightarrow> kill_fence_query" where
  "fence_query alias k =
     \<lparr> kq_credential_alias = alias, kq_principal = ks_principal k, kq_admitted_epoch = ks_admitted_epoch k \<rparr>"

lemma refusal_reason_None: "refusal_reason v = None \<longleftrightarrow> v = Clear"
  by (cases v) auto

lemma fence_passed:
  assumes "kill_fence_before_dispatch G alias act k S = (Inr u, S')"
  shows "kill_fence_check (ge_vault G AtFence) (fence_query alias k) (gw_vault S') = Clear"
  using assms
  by (auto simp: kill_fence_before_dispatch_def vault_read_def vault_op_def Let_def fence_query_def
      refusal_reason_None split: option.splits)

text \<open>The call a payload leads to.\<close>

definition dispatch_of :: "gateway_env \<Rightarrow> action_payload \<Rightarrow> dispatch \<Rightarrow> bool" where
  "dispatch_of G p d \<longleftrightarrow>
     ds_plugin d = py_plugin_name p \<and> pq_credential (ds_request d) = py_credential p
     \<and> pq_action (ds_request d) = py_action_name p \<and> pq_context (ds_request d) = py_context p
     \<and> apply_workspace_scope_to_params (py_params p) (cr_metadata (py_credential p)) = Inr (pq_params (ds_request d))
     \<and> ds_fence d = py_kill_fence p
     \<and> kill_fence_check (ge_vault G AtFence) (fence_query (cr_alias (py_credential p)) (py_kill_fence p)) (ds_vault d)
         = Clear"

lemma call_dispatches:
  "\<exists>d. gw_dispatched (snd (call_plugin G pl p j b S)) = gw_dispatched S @ [d]
     \<and> ds_plugin d = py_plugin_name p \<and> pq_credential (ds_request d) = py_credential p
     \<and> pq_action (ds_request d) = py_action_name p \<and> pq_context (ds_request d) = py_context p
     \<and> pq_params (ds_request d) = j \<and> ds_fence d = py_kill_fence p \<and> ds_vault d = gw_vault S"
  by (simp add: call_plugin_def Let_def split: sum.split option.split)

lemma preflight_params:
  "run_preflight G p S = (Inr (pl, j), S') \<Longrightarrow>
     S' = S \<and> apply_workspace_scope_to_params (py_params p) (cr_metadata (py_credential p)) = Inr j"
  by (auto simp: run_preflight_def split: option.splits sum.splits)

lemma call_and_release:
  assumes "and_then (call_plugin G pl p j b) (\<lambda>r S. (Inr (f r), persist_rotation G c (f r) S)) S = (r, S')"
  shows "gw_dispatched S' = gw_dispatched (snd (call_plugin G pl p j b S))"
  using assms by (auto elim!: and_then_cases)

lemma and_then_new:
  assumes "and_then m f S = (r, S')" "quiet m" "gw_dispatched S' \<noteq> D" "gw_dispatched S = D"
  shows "\<exists>x S1. m S = (Inr x, S1) \<and> gw_dispatched S1 = D \<and> f x S1 = (r, S')"
  using assms(1)
proof (cases rule: and_then_cases)
  case (1 e)
  then show ?thesis using quietD [OF assms(2), of S] assms(3,4) by auto
next
  case (2 x S1)
  then show ?thesis using quietD [OF assms(2), of S] assms(4) by auto
qed

lemma call_released:
  assumes "and_then (call_plugin G pl p j b) (\<lambda>r S. (Inr (f r), persist_rotation G c (f r) S)) S = (r, S')"
    and "apply_workspace_scope_to_params (py_params p) (cr_metadata (py_credential p)) = Inr j"
    and "kill_fence_before_dispatch G (cr_alias (py_credential p)) act (py_kill_fence p) S0 = (Inr u, S)"
  shows "\<exists>d. gw_dispatched S' = gw_dispatched S @ [d] \<and> dispatch_of G p d"
  using call_dispatches [of G pl p j b S] call_and_release [OF assms(1)] fence_passed [OF assms(3)] assms(2)
  by (auto simp: dispatch_of_def)

lemma run_dispatches:
  assumes run: "run_action G z S = (r, S')" and new: "gw_dispatched S' \<noteq> gw_dispatched S"
  shows "\<exists>d. gw_dispatched S' = gw_dispatched S @ [d] \<and> dispatch_of G (au_payload z) d"
proof -
  let ?p = "au_payload z"
  let ?call = "\<lambda>pl j begun. and_then (call_plugin G pl ?p j begun) (\<lambda>r S.
        (Inr (confine_run G ?p r), persist_rotation G (py_credential ?p) (confine_run G ?p r) S))"
  let ?fence = "kill_fence_before_dispatch G (cr_alias (py_credential ?p))
        (py_plugin_name ?p @ ''.'' @ py_action_name ?p) (py_kill_fence ?p)"
  let ?seal = "\<lambda>pl j bytes. and_then (seal_use G ?p bytes) (\<lambda>begun. and_then ?fence (\<lambda>_. ?call pl j begun))"
  let ?spend = "\<lambda>pl j bytes. and_then (consume_for_run G (py_use_token_id ?p)) (\<lambda>_. ?seal pl j bytes)"
  let ?check = "\<lambda>pl j bytes. and_then (evidence_preflight G (py_evidence_required ?p) (py_evidence_subject_id ?p)
        (py_approved_execution ?p) (case bytes of Some b \<Rightarrow> length b | None \<Rightarrow> 0)) (\<lambda>_. ?spend pl j bytes)"
  have "run_action G z = and_then (run_preflight G ?p) (\<lambda>(pl, j). and_then (evidence_bytes G ?p j) (?check pl j))"
    by (simp only: run_action_def Let_def)
  with run have "and_then (run_preflight G ?p) (\<lambda>(pl, j). and_then (evidence_bytes G ?p j) (?check pl j)) S = (r, S')"
    by (simp only:)
  from and_then_new [OF this preflight_quiet new refl] obtain pl j S1 where
    1: "run_preflight G ?p S = (Inr (pl, j), S1)" "gw_dispatched S1 = gw_dispatched S"
    "and_then (evidence_bytes G ?p j) (?check pl j) S1 = (r, S')" by (metis (no_types, lifting) case_prod_conv surj_pair)
  from and_then_new [OF 1(3) bytes_quiet new 1(2)] obtain bytes S2 where
    2: "gw_dispatched S2 = gw_dispatched S" "?check pl j bytes S2 = (r, S')" by blast
  from and_then_new [OF 2(2) evidence_quiet new 2(1)] obtain S3 where
    3: "gw_dispatched S3 = gw_dispatched S" "?spend pl j bytes S3 = (r, S')" by blast
  from and_then_new [OF 3(2) consume_quiet new 3(1)] obtain S4 where
    4: "gw_dispatched S4 = gw_dispatched S" "?seal pl j bytes S4 = (r, S')" by blast
  from and_then_new [OF 4(2) seal_quiet new 4(1)] obtain begun S5 where
    5: "gw_dispatched S5 = gw_dispatched S" "and_then ?fence (\<lambda>_. ?call pl j begun) S5 = (r, S')" by blast
  from and_then_new [OF 5(2) fence_quiet new 5(1)] obtain u S6 where
    6: "?fence S5 = (Inr u, S6)" "gw_dispatched S6 = gw_dispatched S" "?call pl j begun S6 = (r, S')" by blast
  show ?thesis
    using call_released [OF 6(3) conjunct2 [OF preflight_params [OF 1(1)]] 6(1)] 6(2) by simp
qed

section \<open>What a prepared action has passed\<close>

lemma caller_passed:
  assumes "caller_gate G x A q S = (Inr u, S')" "xa_auth A = Some a"
  shows "has_permission (ax_role a) Execute \<and> can_access_credential (gw_lib G) (ax_role a) (xq_credential q)"
  using assms by (auto simp: caller_gate_def split: if_splits)

lemma token_passed:
  assumes "token_gate G x A q R S = (Inr u, S')" "xa_use_token A = Some t"
  shows "allows_credential (gw_lib G) t (rs_alias R)
    \<and> (allows_action (gw_lib G) t (xq_action q) \<or> allows_action (gw_lib G) t (rs_full R))"
  using assms by (auto simp: token_gate_def split: if_splits)

lemma tenant_passed:
  assumes "tenant_gate G x A R S = (Inr u, S')"
  shows "credential_tenant (rs_credential R) = None \<or> credential_tenant (rs_credential R) = principal_tenant A"
  using assms by (auto simp: tenant_gate_def Let_def split: option.splits if_splits)

lemma policy_passed:
  assumes "policy_gate G x A q R S = (Inr (epoch, ev, needs), S')"
  shows "\<exists>en en'. evaluate_for_admission (gw_codec G) (ge_eval G) (request_query G A q R)
             (tenant_observes (ge_config G) (principal_tenant A)) en = (ev, en')
    \<and> (token_dual_control A \<or> xa_force_approval A \<and> \<not> is_read_verb (xq_params q) \<longrightarrow> needs)"
  using assms by (auto simp: policy_gate_def Let_def split: prod.splits policy_decision.splits if_splits)

lemma catalogue_passed:
  assumes "catalogue_gate G x R needs S = (Inr (irr, needs'), S')"
  shows "needs' = (needs \<or> credential_requires_approval (rs_credential R) \<or> automatically_requires_approval irr)
    \<and> irr \<noteq> IrUnavailable \<and> (gc_require_declared_capabilities (ge_config G) \<longrightarrow> irr \<noteq> IrUndeclared)"
  using assms by (auto simp: catalogue_gate_def split: prod.splits if_splits)

lemma authorize_passed:
  assumes "authorize_direct G x A R ctx admission p S = (Inr z, S')"
  shows "\<exists>w. admission = Inr w \<and> authorize (payload_binding (gw_codec G))
      (direct w (rx_request_id ctx) (or_empty (principal_tenant A)) (rs_full R)) p = Inr z"
  using assms by (auto simp: authorize_direct_def split: sum.splits)

lemma prepare_ready:
  assumes "prepare_execution G q A v entry S = (Inr (Ready z), S')"
  obtains R x x0 epoch ev needs irr needs' u1 u2 u3 S1 S2 S3 S4 S5 S6 S7 S8 S9 where
    "caller_gate G x0 A q S1 = (Inr u1, S2)"
    "token_gate G x A q R S3 = (Inr u2, S4)"
    "tenant_gate G x A R S4 = (Inr u3, S5)"
    "policy_gate G x A q R S6 = (Inr (epoch, ev, needs), S7)"
    "catalogue_gate G x R needs S7 = (Inr (irr, needs'), S8)"
    "authorize_direct G x A R (request_context_of G A) (admit ev needs')
       (direct_payload G x A q R epoch irr (request_context_of G A)) S8 = (Inr z, S9)"
  using assms unfolding prepare_execution_def Let_def and_then_Inr
  by (auto simp: and_then_Inr split: prod.splits if_splits)

lemma noted_run:
  assumes "note_run_refusal G x m S = (r, S')"
  shows "\<exists>r0 S0. m S = (r0, S0) \<and> gw_dispatched S' = gw_dispatched S0"
  using assms by (auto simp: note_run_refusal_def split: prod.splits sum.splits option.splits)

lemma execute_new:
  assumes ex: "execute_gated_inner G q A v entry S = (r, S')" and new: "gw_dispatched S' \<noteq> gw_dispatched S"
  shows "\<exists>z d S1. prepare_execution G q A v entry S = (Inr (Ready z), S1)
    \<and> gw_dispatched S' = gw_dispatched S @ [d] \<and> dispatch_of G (au_payload z) d"
proof -
  obtain prepared S1 where 1: "prepare_execution G q A v entry S = (Inr prepared, S1)"
    "gw_dispatched S1 = gw_dispatched S"
    and rest: "(case prepared of Pending a \<Rightarrow> done_with (PendingApproval a)
       | Ready z \<Rightarrow> and_then (note_run_refusal G (py_refusal (au_payload z)) (run_action G z))
             (\<lambda>r. done_with (Completed r))) S1 = (r, S')"
    using and_then_new [OF ex [unfolded execute_gated_inner_def] prepare_quiet new refl] by blast
  have "\<exists>z r0 S0. prepared = Ready z \<and> run_action G z S1 = (r0, S0) \<and> gw_dispatched S' = gw_dispatched S0"
  proof (cases prepared)
    case (Pending a)
    then show ?thesis using rest new 1(2) by (simp add: done_with_def)
  next
    case (Ready z)
    then have "and_then (note_run_refusal G (py_refusal (au_payload z)) (run_action G z))
             (\<lambda>r. done_with (Completed r)) S1 = (r, S')" using rest by simp
    then show ?thesis
      by (rule and_then_cases) (use Ready noted_run in \<open>fastforce simp: done_with_def\<close>)+
  qed
  then obtain z r0 S0 where z: "prepared = Ready z" "run_action G z S1 = (r0, S0)" "gw_dispatched S' = gw_dispatched S0"
    by blast
  show ?thesis
    using run_dispatches [OF z(2)] z(1,3) 1 new by auto
qed


section \<open>Resumed approvals\<close>

lemma credential_authority_quiet [simp]: "quiet (credential_authority_gate a c)"
  by (simp add: credential_authority_gate_def Let_def)

lemma catalogue_authority_quiet [simp]: "quiet (catalogue_authority_gate G a)"
  unfolding quiet_def catalogue_authority_gate_def
  by (auto split: prod.split dest!: snd_dispatched [OF _ irreversibility_dispatched])

lemma recipe_authority_quiet [simp]: "quiet (recipe_authority_gate G a)"
  using fetch_quiet unfolding quiet_def recipe_authority_gate_def
  by (auto split: prod.split sum.split) (metis snd_conv)+

lemma resume_policy_quiet [simp]: "quiet (resume_policy_gate G a c)"
  by (simp add: quiet_def resume_policy_gate_def Let_def split: policy_decision.split)

lemma authorize_resume_quiet [simp]: "quiet (authorize_resume G a g c ev)"
  by (simp add: authorize_resume_def split: sum.split)

lemma resume_new:
  assumes res: "resume_approved G a grant S = (r, S')" and new: "gw_dispatched S' \<noteq> gw_dispatched S"
  shows "\<exists>cred ev z d T1 T2 T3 T4 T5 T6 T7 T8 u1 u2.
    credential_authority_gate a cred T1 = (Inr u1, T2) \<and> recipe_authority_gate G a T3 = (Inr u2, T4)
    \<and> resume_policy_gate G a cred T5 = (Inr ev, T6) \<and> authorize_resume G a grant cred ev T7 = (Inr z, T8)
    \<and> gw_dispatched S' = gw_dispatched S @ [d] \<and> dispatch_of G (au_payload z) d"
proof -
  let ?run = "\<lambda>z. run_action G z"
  let ?auth = "\<lambda>cred ev. and_then (authorize_resume G a grant cred ev) ?run"
  let ?pol = "\<lambda>cred. and_then (resume_policy_gate G a cred) (?auth cred)"
  let ?rec = "\<lambda>cred. and_then (recipe_authority_gate G a) (\<lambda>_. ?pol cred)"
  let ?cat = "\<lambda>cred. and_then (catalogue_authority_gate G a) (\<lambda>_. ?rec cred)"
  let ?cra = "\<lambda>cred. and_then (credential_authority_gate a cred) (\<lambda>_. ?cat cred)"
  let ?llm = "\<lambda>cred. and_then (refuse_llm_credential_off_channel G cred (a_credential a) (resume_refusal_ctx a))
      (\<lambda>_. ?cra cred)"
  from and_then_new [OF res [unfolded resume_approved_def] resolve_quiet new refl] obtain cred S1 where
    1: "gw_dispatched S1 = gw_dispatched S" "?llm cred S1 = (r, S')" by blast
  from and_then_new [OF 1(2) llm_quiet new 1(1)] obtain S2 where
    2: "gw_dispatched S2 = gw_dispatched S" "?cra cred S2 = (r, S')" by blast
  from and_then_new [OF 2(2) credential_authority_quiet new 2(1)] obtain u1 S3 where
    3: "credential_authority_gate a cred S2 = (Inr u1, S3)" "gw_dispatched S3 = gw_dispatched S" "?cat cred S3 = (r, S')"
    by blast
  from and_then_new [OF 3(3) catalogue_authority_quiet new 3(2)] obtain S4 where
    4: "gw_dispatched S4 = gw_dispatched S" "?rec cred S4 = (r, S')" by blast
  from and_then_new [OF 4(2) recipe_authority_quiet new 4(1)] obtain u2 S5 where
    5: "recipe_authority_gate G a S4 = (Inr u2, S5)" "gw_dispatched S5 = gw_dispatched S" "?pol cred S5 = (r, S')"
    by blast
  from and_then_new [OF 5(3) resume_policy_quiet new 5(2)] obtain ev S6 where
    6: "resume_policy_gate G a cred S5 = (Inr ev, S6)" "gw_dispatched S6 = gw_dispatched S" "?auth cred ev S6 = (r, S')"
    by blast
  from and_then_new [OF 6(3) authorize_resume_quiet new 6(2)] obtain z S7 where
    7: "authorize_resume G a grant cred ev S6 = (Inr z, S7)" "gw_dispatched S7 = gw_dispatched S"
      "run_action G z S7 = (r, S')" by blast
  show ?thesis using run_dispatches [OF 7(3)] new 3(1) 5(1) 6(1) 7(1,2) by metis
qed


section \<open>What a caller receives\<close>

lemma run_response:
  assumes "run_action G z S = (Inr r, S')"
  shows "\<exists>raw. r = confine_run G (au_payload z) raw"
  using assms unfolding run_action_def Let_def by (auto simp: and_then_Inr split: prod.splits)

text \<open>C3: The response a caller receives for a run, direct or resumed, contains no secret of the
  credential the plugin was called with and no derived spelling of one, in the body or a header value.\<close>

theorem released_response_confined:
  assumes "run_action G z S = (Inr r, S')"
    and "f \<in> set (run_secrets G (py_credential (au_payload z)))
      \<or> f \<in> set (derive_secret_forms (ge_egress G) (run_secrets G (py_credential (au_payload z))))"
  shows "\<not> response_contains_form r f"
proof -
  obtain raw where r: "r = confine_run G (au_payload z) raw" using run_response [OF assms(1)] by blast
  show ?thesis
    unfolding r confine_run_def
    by (rule confine_contains_nothing) (use assms(2) in \<open>auto simp: scrub_set_with_minted_def\<close>)
qed

section \<open>Model credentials\<close>

definition credential_named :: "string \<Rightarrow> storage_cache \<Rightarrow> credential option" where
  "credential_named i c = (case get_by_alias i c of Some cred \<Rightarrow> Some cred | None \<Rightarrow> t_get (sc_credentials c) i)"

definition proxies_llm_for :: "credential \<Rightarrow> string \<Rightarrow> storage_cache \<Rightarrow> capability \<Rightarrow> bool" where
  "proxies_llm_for cred presented c cap \<longleftrightarrow>
     is_llm_proxy cap
     \<and> (trim (cp_credential_ref cap) \<in> {trim (cr_alias cred), trim presented}
        \<or> (\<exists>k. credential_named (trim (cp_credential_ref cap)) c = Some k \<and> cr_id k = cr_id cred))"

lemma await_idle [simp]: "ge_tasks G = (\<lambda>w S. S) \<Longrightarrow> await_at G w S = S"
  by (simp add: await_at_def)

lemma backs_none:
  assumes "ge_tasks G = (\<lambda>w S. S)" "backs_llm G n cred i cs S = (Inr False, S')"
  shows "S' = S \<and> (\<forall>cap\<in>set cs. \<not> proxies_llm_for cred i (gw_cached S) cap)"
  using assms(2)
proof (induction cs arbitrary: n)
  case (Cons c cs)
  then show ?case
    using assms(1)
    by (auto simp: proxies_llm_for_def credential_named_def resolve_credential_def Let_def fail_with_def
        split: if_splits option.splits)
qed simp

lemma reload_idle:
  "ge_tasks G = (\<lambda>w S. S) \<Longrightarrow> reload_vault G w S = (Inr u, S') \<Longrightarrow> S' = S \<lparr> gw_cached := gw_vault S \<rparr>"
  by (auto simp: reload_vault_def vault_read_def vault_op_def Let_def split: option.splits)

lemma llm_passed:
  assumes "ge_tasks G = (\<lambda>w S. S)" "refuse_llm_credential_off_channel G cred i x S = (Inr u, S')"
  shows "\<forall>cap\<in>snd ` set (sc_capabilities (gw_vault S)). \<not> proxies_llm_for cred i (gw_vault S) cap"
proof -
  obtain S1 where 1: "reload_vault G AtLlmReload S = (Inr (), S1)"
    and b: "backs_llm G 0 cred i (map snd (sc_capabilities (gw_cached S1))) S1 = (Inr False, S')"
    using assms by (auto simp: refuse_llm_credential_off_channel_def Let_def and_then_Inr
        split: prod.splits sum.splits if_splits)
  from backs_none [OF assms(1) b] reload_idle [OF assms(1) 1] show ?thesis by simp
qed

lemma gate_idle:
  assumes "ge_tasks G = (\<lambda>w S. S)"
  shows "caller_gate G x A q S = (Inr u, S') \<Longrightarrow> S' = S"
    "resolve_request G q S = (Inr R, S') \<Longrightarrow> S' = S"
    "token_gate G x A q R S = (Inr u, S') \<Longrightarrow> S' = S"
    "tenant_gate G x A R S = (Inr u, S') \<Longrightarrow> S' = S"
  using assms
  by (auto simp: caller_gate_def resolve_request_def resolve_credential_def and_then_Inr token_gate_def
      tenant_gate_def Let_def split: option.splits if_splits prod.splits)

lemma prepare_off_channel:
  assumes "ge_tasks G = (\<lambda>w S. S)" "prepare_execution G q A False entry S = (Inr (Ready z), S')"
  shows "\<forall>cap\<in>snd ` set (sc_capabilities (gw_vault S)).
    \<not> proxies_llm_for (py_credential (au_payload z)) (xq_credential q) (gw_vault S) cap"
proof -
  obtain R x x0 epoch irr ctx adm u1 u2 u3 u4 S1 S2 S3 S4 S5 S6 S7 where
    "caller_gate G x0 A q S = (Inr u1, S1)" "resolve_request G q S1 = (Inr R, S2)"
    "token_gate G x A q R S2 = (Inr u2, S3)" "tenant_gate G x A R S3 = (Inr u3, S4)"
    and llm: "refuse_llm_credential_off_channel G (rs_credential R) (xq_credential q) x S4 = (Inr u4, S5)"
    and au: "authorize_direct G x A R ctx adm (direct_payload G x A q R epoch irr ctx) S6 = (Inr z, S7)"
    using assms(2) unfolding prepare_execution_def Let_def and_then_Inr
    by (auto simp: and_then_Inr split: prod.splits if_splits)
  then have "S4 = S" using gate_idle [OF assms(1)] by metis
  moreover have "py_credential (au_payload z) = rs_credential R"
    using authorize_passed [OF au] by (auto simp: authorize_Inr direct_payload_def Let_def)
  ultimately show ?thesis using llm_passed [OF assms(1) llm] by simp
qed


section \<open>The kill switch\<close>

definition token_revoked :: "string \<Rightarrow> storage_cache \<Rightarrow> bool" where
  "token_revoked i c \<longleftrightarrow> (\<exists>t. t_get (sc_use_tokens c) i = Some t \<and> ut_revoked t)"

lemma revoke_one:
  assumes "ge_tasks G = (\<lambda>w S. S)" "vault_op G w (\<lambda>V. set_use_token_revoked V i) S = (Inr u, S')"
  shows "token_revoked i (gw_vault S') \<and> (token_revoked j (gw_vault S) \<longrightarrow> token_revoked j (gw_vault S'))"
  using assms
  by (auto simp: vault_op_def Let_def set_use_token_revoked_def put_use_token_def token_revoked_def t_get_put
      dest!: locked_mutate_Inr split: option.splits prod.splits)

lemma revoke_all:
  assumes "ge_tasks G = (\<lambda>w S. S)" "revoke_tokens G n is S = (Inr u, S')"
  shows "(\<forall>i\<in>set is. token_revoked i (gw_vault S')) \<and> (token_revoked j (gw_vault S) \<longrightarrow> token_revoked j (gw_vault S'))"
  using assms(2)
proof (induction "is" arbitrary: n S j)
  case (Cons i "is")
  then obtain u1 S1 where 1: "vault_op G (AtRevoke n) (\<lambda>V. set_use_token_revoked V i) S = (Inr u1, S1)"
    "revoke_tokens G (Suc n) is S1 = (Inr u, S')"
    by (auto split: prod.splits sum.splits)
  show ?case
    using Cons.IH [OF 1(2)] revoke_one [OF assms(1) 1(1)] by auto
qed simp

lemma store_kill_done:
  assumes "ge_tasks G = (\<lambda>w S. S)" "store_kill G label S = (Inr u, S')"
  shows "t_get (sc_policies (gw_vault S')) (halt_policy_id label) = Some (kill_switch (halt_policy_id label) label)
    \<and> sc_use_tokens (gw_vault S') = sc_use_tokens (gw_vault S)"
  using assms
  by (auto simp: store_kill_def vault_op_def Let_def store_policy_def t_get_put kill_switch_def
      dest!: locked_mutate_Inr split: option.splits prod.splits sum.splits)

lemma reload_keeps_vault:
  "ge_tasks G = (\<lambda>w S. S) \<Longrightarrow> reload_policies G S = (r, S') \<Longrightarrow> gw_vault S' = gw_vault S"
  by (auto simp: reload_policies_def Let_def fail_with_def split: prod.splits sum.splits)

lemma ack_keeps_vault: "ge_tasks G = (\<lambda>w S. S) \<Longrightarrow> read_ack G i S = (a, S') \<Longrightarrow> gw_vault S' = gw_vault S"
  by (auto simp: read_ack_def vault_read_def vault_op_def Let_def split: option.splits prod.splits sum.splits)

lemma emit_keeps_vault: "ge_tasks G = (\<lambda>w S. S) \<Longrightarrow> gw_vault (emit_event G w e S) = gw_vault S"
  by (simp add: emit_event_def Let_def split: option.split)

lemma halted_not_clear:
  assumes "t_get (sc_policies c) i = Some (kill_switch i label)"
    and "patterns_match (ve_lib V) q ''*'' (Some label)"
  shows "kill_fence_check V q c \<noteq> Clear"
proof -
  let ?k = "kill_switch i label"
  have "?k \<in> set (map snd (sc_policies c))" using t_get_mem [OF assms(1)] by force
  moreover have "p_kill ?k" "patterns_match (ve_lib V) q (p_credential_pattern ?k) (p_principal_pattern ?k)"
    using assms(2) by (simp_all add: kill_switch_def)
  ultimately show ?thesis unfolding kill_fence_check_def verdict_clear_iff by blast
qed


section \<open>Witnesses\<close>

text \<open>A vault with one credential, a plugin that echoes it, and an agent whose role covers names that start
  with \<open>d\<close>.\<close>

definition gateway_credential :: "string \<Rightarrow> string \<Rightarrow> credential" where
  "gateway_credential i alias =
     \<lparr> cr_id = i, cr_alias = alias, cr_credential_type = ApiKey,
       cr_data = ApiKeyData ''hunter2'' ''Authorization'' ''Bearer '', cr_metadata = [], cr_created_at = 0,
       cr_updated_at = 0 \<rparr>"

definition echo_plugin :: plugin where
  "echo_plugin =
     \<lparr> pg_validate_params = (\<lambda>a j. None),
       pg_execute = (\<lambda>q. Inr \<lparr> xr_status = 200, xr_headers = [], xr_body = ''say hunter2'',
                               xr_updated_credential = None \<rparr>),
       pg_show_error = (\<lambda>e. []) \<rparr>"

definition gateway_sample_config :: gateway_config where
  "gateway_sample_config =
     \<lparr> gc_action_labels = [], gc_observed_tenants = [], gc_require_declared_capabilities = False,
       gc_spend_extractors = [],
       gc_approval = \<lparr> ac_enabled = True, ac_ttl_secs = 0, ac_sla_overrides = [], ac_criticality_rules = [],
         ac_oob_approver_identity = None, ac_reauth_interval_secs = None, ac_enforce_separation_of_duty = False,
         ac_sod_explicit = False, ac_dual_control_approvers = 2 \<rparr>,
       gc_egress = [],
       gc_averin = \<lparr> vc_enabled = False, vc_d8_complete_evidence = False, vc_floor_money_only = False,
         vc_max_seal_params_bytes = 0, vc_durable = False, vc_mode = AverinObserve \<rparr>,
       gc_policies = [] \<rparr>"

definition gateway_sample_env :: gateway_env where
  "gateway_sample_env =
     \<lparr> ge_config = gateway_sample_config, ge_tasks = (\<lambda>w S. S), ge_fails = (\<lambda>w. None),
       ge_vault = (\<lambda>w. \<lparr> ve_codec = sample_codec, ve_lib = sample_lib, ve_draft_key = dk_campaign_id,
                         ve_show_time = (\<lambda>t. JNull), ve_now = 3 \<rparr>),
       ge_eval = sample_env 3, ge_monotonic = (\<lambda>w. 3),
       ge_refusals = \<lparr> fe_now = 3, fe_wall = 3, fe_fresh = (\<lambda>n. []) \<rparr>, ge_egress = plain_egress,
       ge_pointer = (\<lambda>j p. None), ge_request_id = ''r1'',
       ge_fresh = \<lparr> fr_id = ''appr_1'', fr_decision_token_hash = ''h'', fr_summary = [] \<rparr>,
       ge_plugins = (\<lambda>n. Some echo_plugin), ge_averin_present = False, ge_gate_rule = None,
       ge_popkey = (\<lambda>i. None), ge_memory_grant = (\<lambda>i. False), ge_begin_exact = None, ge_complete_exact = None,
       ge_seal_required = None, ge_seal_execute = None \<rparr>"

definition gateway_sample :: "credential \<Rightarrow> gateway" where
  "gateway_sample cred =
     (let c = empty_cache \<lparr> sc_credentials := [(cr_id cred, cred)], sc_alias_index := [(cr_alias cred, cr_id cred)] \<rparr>
      in \<lparr> gw_vault = c, gw_cached = c, gw_engine = engine_new \<lparr> en_default_deny := False \<rparr>, gw_recorder = None,
           gw_unauthorized = 0, gw_detect_gate = [], gw_events = [], gw_dispatched = [] \<rparr>)"

definition narrow_auth :: auth_result where
  "narrow_auth =
     \<lparr> ax_api_key =
         \<lparr> ak_id = ''1'', ak_key_prefix = ''vk_1'', ak_key_hash = ''vk_1'', ak_name = ''n'', ak_role_id = ''executor'',
           ak_expires_at = None, ak_created_at = 0, ak_last_used_at = None, ak_agent_label = None,
           ak_owner_identity = None, ak_tenant = None, ak_workload_id = None \<rparr>,
       ax_role = (new_role ''executor'' 0 ''executor'' {Execute}) \<lparr> rl_credential_scopes := [''d*''] \<rparr> \<rparr>"

definition gateway_request :: "string \<Rightarrow> execute_request" where
  "gateway_request i = \<lparr> xq_credential = i, xq_action = ''http.request'', xq_params = JNull \<rparr>"

definition gateway_run :: "string \<Rightarrow> credential \<Rightarrow> (gateway_failure + execution_outcome) \<times> gateway" where
  "gateway_run i cred =
     execute_gated_inner gateway_sample_env (gateway_request i) (from_api_key narrow_auth) False EntryExecute
       (gateway_sample cred)"

lemma gateway_run_dispatches:
  "map (\<lambda>d. cr_alias (pq_credential (ds_request d))) (gw_dispatched (snd (gateway_run ''d1'' (gateway_credential ''d1'' ''prod''))))
     = [''prod'']"
  by code_simp



definition gateway_approval :: approval_request where
  "gateway_approval =
     twice_approved \<lparr> a_credential_authority := Some (authority_of (gateway_credential ''g1'' ''github'')) \<rparr>"

definition gateway_grant :: granted where
  "gateway_grant = the (grant_witness_for_epoch sample_codec 3 1 gateway_approval)"

lemma gateway_grant_holds: "grant_witness_for_epoch sample_codec 3 1 gateway_approval = Some gateway_grant"
  by code_simp

lemma gateway_resume_dispatches:
  "length (gw_dispatched (snd (resume_approved gateway_sample_env gateway_approval gateway_grant
     (gateway_sample (gateway_credential ''g1'' ''github''))))) = 1"
  by code_simp


definition gateway_authorized :: "action_payload authorized" where
  "gateway_authorized =
     \<lparr> au_payload =
         \<lparr> py_credential = gateway_credential ''g1'' ''github'', py_plugin_name = ''http'', py_action_name = ''request'',
           py_params = JNull, py_context = context_new ''r1'' 0, py_use_token_id = None,
           py_evidence_subject_id = None, py_approved_execution = False, py_evidence_action = ''http.request'',
           py_evidence_required = False, py_d8_fallback_ok = False,
           py_kill_fence = \<lparr> ks_principal = None, ks_admitted_epoch = 0, ks_tenant = None \<rparr>,
           py_refusal = ctx_new EntryExecute None ''http.request'' \<rparr>,
       au_permit = \<lparr> ep_binding = gr_binding gateway_grant, ep_basis = ApprovedBasis gateway_grant \<rparr> \<rparr>"

definition redacted_response :: execute_response where
  "redacted_response =
     \<lparr> xr_status = 200, xr_headers = [], xr_body = ''say [REDACTED]'', xr_updated_credential = None \<rparr>"

lemma gateway_run_answers:
  "fst (run_action gateway_sample_env gateway_authorized (gateway_sample (gateway_credential ''g1'' ''github'')))
     = Inr redacted_response"
  by code_simp

theorem released_response_confined_witness: "\<not> response_contains_form redacted_response ''hunter2''"
proof -
  let ?run = "run_action gateway_sample_env gateway_authorized (gateway_sample (gateway_credential ''g1'' ''github''))"
  have run: "?run = (Inr redacted_response, snd ?run)"
    using gateway_run_answers by (metis prod.collapse)
  show ?thesis
    by (rule released_response_confined [OF run], rule disjI1)
      (simp add: run_secrets_def gateway_authorized_def gateway_credential_def)
qed

definition model_capability :: capability where
  "model_capability =
     \<lparr> cp_id = ''m1'', cp_tool_name = ''chat'', cp_description = [], cp_action = ''llm.chat'', cp_plugin = None,
       cp_target = \<lparr> ct_url_glob = None, ct_methods = [], ct_plugin_params = [] \<rparr>,
       cp_credential_ref = ''openai'', cp_input_schema = JNull, cp_reversibility = ''reversible'',
       cp_llm = Some \<lparr> lp_protocol = ''openai-chat'', lp_provider = None, lp_region = None, lp_provider_base = [],
         lp_allowed_models = [], lp_max_output_tokens = None, lp_reasoning_effort = None \<rparr>,
       cp_approval_preview = None \<rparr>"

definition model_gateway :: gateway where
  "model_gateway =
     (let S = gateway_sample (gateway_credential ''d1'' ''prod'')
      in S \<lparr> gw_vault := (gw_vault S) \<lparr> sc_capabilities := [(''m1'', model_capability)] \<rparr> \<rparr>)"

definition model_run :: "(gateway_failure + execution_outcome) \<times> gateway" where
  "model_run =
     execute_gated_inner gateway_sample_env (gateway_request ''d1'') (from_api_key narrow_auth) False EntryExecute
       model_gateway"

lemma model_run_dispatches: "length (gw_dispatched (snd model_run)) = 1"
  by code_simp


definition halted_token :: use_token where
  "halted_token =
     \<lparr> ut_id = ''vut_1'', ut_token_prefix = ''vut_'', ut_token_hash = ''h'', ut_name = ''t'', ut_credential_scope = ''*'',
       ut_action_scope = None, ut_max_uses = None, ut_uses = 0, ut_require_approval = False, ut_expires_at = None,
       ut_created_at = 0, ut_last_used_at = None, ut_revoked = False, ut_agent_label = Some ''bot'',
       ut_dual_control = False, ut_owner_identity = None, ut_tenant = None \<rparr>"

definition halted_gateway :: gateway where
  "halted_gateway =
     (let S = gateway_sample (gateway_credential ''d1'' ''prod'');
          c = (gw_vault S) \<lparr> sc_use_tokens := [(''vut_1'', halted_token)], sc_use_token_hash_index := [(''h'', ''vut_1'')] \<rparr>
      in S \<lparr> gw_vault := c, gw_cached := c \<rparr>)"

definition bot_query :: kill_fence_query where
  "bot_query =
     \<lparr> kq_credential_alias = ''prod'',
       kq_principal = Some \<lparr> pl_id = ''vut_1'', pl_agent_label = Some ''bot'', pl_owner = None, pl_workload_id = None \<rparr>,
       kq_admitted_epoch = 9 \<rparr>"

lemma halt_succeeds: "\<not> isl (fst (halt_agent gateway_sample_env '' bot '' halted_gateway))"
  by code_simp


end
