(* ===== verification/Spec2Isabelle.thy ===== *)
theory Spec2Isabelle
  imports Policy_Properties Approval_Properties Vault_Log Vault_Properties Outbox_Properties
    Refusal_Properties Capability_Properties Gateway_Properties
begin

text \<open>
  Vultrino is a gateway that holds credentials and executes actions with them on behalf of agents.  An
  agent presents an API key or a use token and asks for an action with a credential; the gateway checks
  permission, token scope and tenant, evaluates policy, asks people where an approval is required, seals
  evidence, calls a plugin with the credential and removes the secrets from what comes back.  Operators
  can halt an agent; every process that shares the vault then refuses its work.  This development models
  that path and the stores beneath it, and proves what they promise.  All paths below are under
  \<open>src/src\<close>.

  \<^bold>\<open>Conventions.\<close>  Texts and bodies are lists of bytes.  Instants and durations are integers, in nanoseconds.
  Counters keep their width as machine words.  A hash table is an association list with distinct keys
  whose order stands for the unspecified iteration order; an ordered tree is the same list kept sorted.  A fallible
  operation returns a sum whose left side is the error.  Code of packages (URL parsing, globs, regular
  expressions, JSON text, digests, encodings) and of other services is an argument: the records
  \<open>url_lib\<close>, \<open>codec\<close>, \<open>log_packages\<close>, \<open>egress_lib\<close>, \<open>vault_env\<close>, \<open>outbox_env\<close>, \<open>delivery_env\<close>, \<open>refusal_env\<close> and
  \<open>gateway_env\<close> collect such arguments with the clock.

  \<^bold>\<open>Foundations.\<close>  \<open>Prelude\<close> has words, clocks, tables and the interfaces the components share; \<open>Strings\<close>
  the text operations of the standard library and JSON values.

  \<^bold>\<open>Policy.\<close>  \<open>Policy_Types\<close>, \<open>Precedence\<close>, \<open>Rate_Limit\<close>, \<open>Policy_Engine\<close> and \<open>Policy_Store\<close> model
  \<open>policy/\<close>: validation, tiers and precedence, wide and narrow conditions, rate limits and spend caps,
  loads of stored policies.  \<open>Url_Canon\<close> is the canonical form of URLs and their patterns.  \<open>Kill_Fence\<close> is
  \<open>policy/kill_fence.rs\<close>.  \<open>Policy_Semantics\<close> and \<open>Policy_Decisions\<close> give the order-free meaning of a
  decision, which \<open>Policy_Properties\<close> shows the evaluator computes; there too: what an allowed request cannot
  match, the bound on allowances, and that work admitted before a kill stays refused.

  \<^bold>\<open>Approvals and permits.\<close>  \<open>Recipes\<close>, \<open>Approval\<close> and \<open>Approval_Evidence\<close> model \<open>approval/mod.rs\<close> and the
  recipes: opening, deciding, separation of duty, the grant derived again from stored evidence.  \<open>Kernel\<close> and
  \<open>Permit\<close> model \<open>formal_kernel.rs\<close> and the payload a permit authorises.  \<open>Approval_Properties\<close> shows that a
  dispatch is bound to what was judged or approved and that a grant rests on distinct people.

  \<^bold>\<open>The vault.\<close>  \<open>Vault_Log\<close> models the log of \<open>storage/\<close> and its reader after a crash; \<open>Credentials\<close>,
  \<open>Auth\<close>, \<open>Auth_Manager\<close> and \<open>Drafts\<close> the records; \<open>Vault\<close>, \<open>Vault_Approvals\<close>, \<open>Vault_Admin\<close>,
  \<open>Vault_Execution\<close> and \<open>Vault_Limits\<close> the operations of \<open>storage/file.rs\<close>, each a checked commit under the
  file lock; \<open>Resume\<close> the poll that claims, runs and settles an approval.  \<open>Vault_Properties\<close> has the
  invariants over all interleavings: one run per approval, no commit by a superseded worker, the limit of a
  use token.

  \<^bold>\<open>Events.\<close>  \<open>Outbox\<close>, \<open>Outbox_Delivery\<close>, \<open>Vault_Outbox\<close> and \<open>Event_Delivery\<close> model the outbox of signed
  events, its drains and one pass of delivery; \<open>Outbox_Properties\<close> shows order, exclusion and progress.

  \<^bold>\<open>Refusals.\<close>  \<open>Refusal_Classes\<close>, \<open>Refusals\<close> and \<open>Refusal_Drain\<close> model \<open>refusal.rs\<close> and the sealing in
  \<open>averin/mod.rs\<close>; \<open>Refusal_Counts\<close> has the steps of concurrent work, and \<open>Refusal_Properties\<close> that every
  refusal is counted once and the records stay within the budget.

  \<^bold>\<open>Capabilities and addresses.\<close>  \<open>Capability\<close> models \<open>capability/mod.rs\<close>, \<open>Addresses\<close> the address filter
  of \<open>plugins/http.rs\<close>; \<open>Capability_Properties\<close> shows that pinned values win and that no spelling of a
  private address passes.

  \<^bold>\<open>Egress.\<close>  \<open>Egress\<close> models \<open>egress.rs\<close>: the spellings of a secret, the buffered scrubber with its final
  check, and the scrubber of streams.  \<open>Egress_Properties\<close> shows that neither releases a spelling, for any
  chunking, and that a stream without one passes unchanged.

  \<^bold>\<open>The gateway.\<close>  \<open>Gateway\<close>, \<open>Gateway_Gates\<close>, \<open>Gateway_Prepare\<close>, \<open>Gateway_Run\<close> and \<open>Gateway_Halt\<close> model
  the buffered path of \<open>server/mod.rs\<close> over these components.  At each await the environment changes the
  state as other tasks and processes may, and says whether the access fails; the process's copy of the vault
  may be older than the vault.  \<open>Gateway_Properties\<close> composes the components: what every plugin call has
  passed, direct or resumed, what a caller receives, the channel of model credentials and the halt.  The first two
  hold for any interference at the awaits; the last two are stated for an environment without it.

  \<^bold>\<open>Termination.\<close>  Every function is total.  Loops over a list recurse on it; the scrubbers recurse on the
  bytes left.  The reader of the log, the delivery pass and the drains take their bounds from the code's own
  batch sizes.

  \<^bold>\<open>Defects.\<close>  Five properties describe what the code does where that differs from its intent: a replaced
  kill mark, a veto refused after the request's deadline, a lapsed grant that blocks the sweep, a release that
  drops another's reservation, and role scopes tested on the presented reference.

  \<^bold>\<open>Not modelled.\<close>  The HTTP routes, the console, the MCP transport, the command line and the
  configuration files parse input and call the operations modelled here.  The proxy of model providers, the
  streamed tail of a run, usage metering and the registry of sessions are asynchronous input and output.
  The connectors of \<open>plugins/\<close>, the notifiers and the recipe client speak to other services.  Encryption,
  key derivation, backups and the evidence client's keys and queue rest on cryptography and files.  Log lines,
  metrics and the wiping of memory have no effect on what is proved.
\<close>

end
